(* ===== verification/Prelude.thy ===== *)
theory Prelude
  imports Complex_Main "HOL-Library.Sublist" "HOL-Library.Signed_Division"
begin

text \<open>
  Shared vocabulary of the development: the result type of fallible code, the JavaScript string
  and BigInt operations the packages use, decimal numerals, and the generic lemmas about them.

  A JavaScript string is a HOL \<open>string\<close>; every string the SDK builds or splits is ASCII
  (addresses, denoms, channels, decimal numerals). A thrown exception is the left summand of
  \<open>js_error + 'a\<close>: the exceptions the run-time raises have their own constructor, and
  \<open>Thrown m\<close> is a \<open>throw\<close> of the source with message \<open>m\<close>. \<open>Rejected t\<close> is a promise that code outside the
  repository rejected; \<open>t\<close> is what \<open>JSON.stringify\<close> writes for its reason.
\<close>

section \<open>Results\<close>

datatype js_error = TypeError | RangeError | SyntaxError | Thrown string | Rejected string | OutOfFuel

type_synonym 'a res = "js_error + 'a"

named_theorems result_simps \<open>how the result combinators evaluate\<close>

definition rbind :: "'a res \<Rightarrow> ('a \<Rightarrow> 'b res) \<Rightarrow> 'b res" where
  "rbind r f = (case r of Inl e \<Rightarrow> Inl e | Inr x \<Rightarrow> f x)"

lemma rbind_Inl [simp, result_simps]: "rbind (Inl e) f = Inl e"
  by (simp add: rbind_def)

lemma rbind_Inr [simp, result_simps]: "rbind (Inr x) f = f x"
  by (simp add: rbind_def)

lemma rbind_eq_Inr_iff: "rbind r f = Inr y \<longleftrightarrow> (\<exists>x. r = Inr x \<and> f x = Inr y)"
  by (cases r) auto

lemma rbind_eq_Inl_iff: "rbind r f = Inl e \<longleftrightarrow> r = Inl e \<or> (\<exists>x. r = Inr x \<and> f x = Inl e)"
  by (cases r) auto

lemma rbindE:
  assumes "rbind r f = Inr y"
  obtains x where "r = Inr x" "f x = Inr y"
  using assms by (auto simp: rbind_eq_Inr_iff)

lemma rbind_assoc: "rbind (rbind r f) g = rbind r (\<lambda>x. rbind (f x) g)"
  by (cases r) auto

lemma rbind_cong [fundef_cong]:
  "r = r' \<Longrightarrow> (\<And>x. r' = Inr x \<Longrightarrow> f x = f' x) \<Longrightarrow> rbind r f = rbind r' f'"
  by (cases r') (auto simp: rbind_def)

fun rmap :: "('a \<Rightarrow> 'b res) \<Rightarrow> 'a list \<Rightarrow> 'b list res" where
  "rmap f [] = Inr []"
| "rmap f (x # xs) = rbind (f x) (\<lambda>y. rbind (rmap f xs) (\<lambda>ys. Inr (y # ys)))"

lemma rmap_length: "rmap f xs = Inr ys \<Longrightarrow> length ys = length xs"
  by (induction xs arbitrary: ys) (auto simp: rbind_eq_Inr_iff)

lemma rmap_nth: "rmap f xs = Inr ys \<Longrightarrow> i < length xs \<Longrightarrow> f (xs ! i) = Inr (ys ! i)"
  by (induction xs arbitrary: ys i) (auto simp: rbind_eq_Inr_iff nth_Cons split: nat.splits)

lemma rmap_all2: "rmap f xs = Inr ys \<Longrightarrow> list_all2 (\<lambda>x y. f x = Inr y) xs ys"
  by (induction xs arbitrary: ys) (auto elim!: rbindE)

lemma rmap_all_Inr: "(\<And>x. x \<in> set xs \<Longrightarrow> f x = Inr (g x)) \<Longrightarrow> rmap f xs = Inr (map g xs)"
  by (induction xs) auto

definition is_ok :: "'a res \<Rightarrow> bool" where
  "is_ok r = (case r of Inl _ \<Rightarrow> False | Inr _ \<Rightarrow> True)"

lemma is_ok_simps [simp, result_simps]: "is_ok (Inr x)" "\<not> is_ok (Inl e)"
  by (simp_all add: is_ok_def)

lemma is_ok_iff: "is_ok r \<longleftrightarrow> (\<exists>x. r = Inr x)"
  by (cases r) auto

text \<open>\<open>await\<close> in a function that may never return\<close>

definition abind :: "'a res option \<Rightarrow> ('a \<Rightarrow> 'b res option) \<Rightarrow> 'b res option" where
  "abind m f = (case m of None \<Rightarrow> None | Some (Inl e) \<Rightarrow> Some (Inl e) | Some (Inr x) \<Rightarrow> f x)"

lemma abind_simps [simp, result_simps]: "abind None f = None" "abind (Some (Inl e)) f = Some (Inl e)" "abind (Some (Inr x)) f = f x"
  by (simp_all add: abind_def)

lemma abindE:
  assumes "abind m f = Some (Inr y)"
  obtains x where "m = Some (Inr x)" "f x = Some (Inr y)"
  using assms by (auto simp: abind_def split: option.splits sum.splits)

lemma abind_eq_Some_iff: "abind m f = Some r \<longleftrightarrow> (\<exists>e. m = Some (Inl e) \<and> r = Inl e) \<or> (\<exists>x. m = Some (Inr x) \<and> f x = Some r)"
  by (auto simp: abind_def split: option.splits sum.splits)

fun amap :: "('a \<Rightarrow> 'b res option) \<Rightarrow> 'a list \<Rightarrow> 'b list res option" where
  "amap f [] = Some (Inr [])"
| "amap f (x # xs) = abind (f x) (\<lambda>y. abind (amap f xs) (\<lambda>ys. Some (Inr (y # ys))))"

lemma amap_defined: "(\<And>x. x \<in> set xs \<Longrightarrow> f x \<noteq> None) \<Longrightarrow> amap f xs \<noteq> None"
  by (induction xs) (auto simp: abind_def split: option.splits sum.splits)

lemma amap_agree: "amap f xs = Some r \<Longrightarrow> (\<And>x s. x \<in> set xs \<Longrightarrow> f x = Some s \<Longrightarrow> g x = Some s) \<Longrightarrow> amap g xs = Some r"
  by (induction xs arbitrary: r) (auto simp: abind_eq_Some_iff)

lemma amap_Inr: "(\<And>x. x \<in> set xs \<Longrightarrow> f x = Some (Inr (g x))) \<Longrightarrow> amap f xs = Some (Inr (map g xs))"
  by (induction xs) auto

section \<open>Strings\<close>

text \<open>\<open>s.split(c)\<close> for a one-character separator: never the empty list.\<close>

fun js_split :: "char \<Rightarrow> string \<Rightarrow> string list" where
  "js_split c [] = [[]]"
| "js_split c (x # xs) =
     (if x = c then [] # js_split c xs
      else (case js_split c xs of [] \<Rightarrow> [[x]] | w # ws \<Rightarrow> (x # w) # ws))"

fun js_join :: "char \<Rightarrow> string list \<Rightarrow> string" where
  "js_join c [] = []"
| "js_join c [w] = w"
| "js_join c (w # v # ws) = w @ c # js_join c (v # ws)"

lemma js_split_not_Nil [simp]: "js_split c s \<noteq> []"
  by (induction s) (auto split: list.splits)

lemma js_split_none: "c \<notin> set s \<Longrightarrow> js_split c s = [s]"
  by (induction s) auto

lemma js_split_sep: "c \<notin> set a \<Longrightarrow> js_split c (a @ c # b) = a # js_split c b"
  by (induction a) auto

lemma js_join_split: "js_join c (js_split c s) = s"
proof (induction s)
  case (Cons x xs)
  then show ?case
    by (cases "js_split c xs"; cases "tl (js_split c xs)") (auto split: list.splits)
qed simp

lemma js_split_no_sep: "w \<in> set (js_split c s) \<Longrightarrow> c \<notin> set w"
proof (induction s arbitrary: w)
  case (Cons x xs)
  then show ?case by (cases "js_split c xs") (auto split: if_splits)
qed simp

lemma js_split_join: "ws \<noteq> [] \<Longrightarrow> (\<And>w. w \<in> set ws \<Longrightarrow> c \<notin> set w) \<Longrightarrow> js_split c (js_join c ws) = ws"
  by (induction c ws rule: js_join.induct) (auto simp: js_split_none js_split_sep)

lemma js_split_length: "length (js_split c s) = Suc (count_list s c)"
  by (induction s) (auto split: list.splits)

text \<open>
  \<open>s.slice(i, j)\<close>: a negative index counts from the end, both are clamped to the string, and
  \<open>-0\<close> is \<open>0\<close>, so \<open>s.slice(0, -0)\<close> is empty and \<open>s.slice(-0)\<close> is all of \<open>s\<close>.
\<close>

definition js_index :: "nat \<Rightarrow> int \<Rightarrow> nat" where
  "js_index n i = (if i < 0 then nat (max 0 (int n + i)) else min n (nat i))"

definition js_slice :: "'a list \<Rightarrow> int \<Rightarrow> int \<Rightarrow> 'a list" where
  "js_slice s i j = (let n = length s; a = js_index n i; b = js_index n j in take (b - a) (drop a s))"

definition js_slice_from :: "'a list \<Rightarrow> int \<Rightarrow> 'a list" where
  "js_slice_from s i = drop (js_index (length s) i) s"

definition js_pad_end :: "nat \<Rightarrow> char \<Rightarrow> string \<Rightarrow> string" where
  "js_pad_end n c s = s @ replicate (n - length s) c"

definition js_pad_start :: "nat \<Rightarrow> char \<Rightarrow> string \<Rightarrow> string" where
  "js_pad_start n c s = replicate (n - length s) c @ s"

definition starts_with :: "string \<Rightarrow> string \<Rightarrow> bool" where
  "starts_with p s = prefix p s"

definition str_includes :: "string \<Rightarrow> string \<Rightarrow> bool" where
  "str_includes p s = sublist p s"

definition lower_char :: "char \<Rightarrow> char" where
  "lower_char c = (let n = of_char c :: nat in if 65 \<le> n \<and> n \<le> 90 then char_of (n + 32) else c)"

definition to_lower :: "string \<Rightarrow> string" where
  "to_lower s = map lower_char s"

lemma starts_with_Cons [simp]: "starts_with (a # p) (b # s) \<longleftrightarrow> a = b \<and> starts_with p s"
  by (auto simp: starts_with_def)

lemma starts_with_Nil [simp]: "starts_with [] s" "starts_with (a # p) [] \<longleftrightarrow> False"
  by (auto simp: starts_with_def)

section \<open>Decimal numerals\<close>

definition digit_char :: "nat \<Rightarrow> char" where
  "digit_char d = char_of (48 + d)"

definition is_digit :: "char \<Rightarrow> bool" where
  "is_digit c = (let n = of_char c :: nat in 48 \<le> n \<and> n \<le> 57)"

definition digit_val :: "char \<Rightarrow> nat" where
  "digit_val c = of_char c - 48"

fun nat_str :: "nat \<Rightarrow> string" where
  "nat_str n = (if n < 10 then [digit_char n] else nat_str (n div 10) @ [digit_char (n mod 10)])"

declare nat_str.simps [simp del]

definition int_str :: "int \<Rightarrow> string" where
  "int_str i = (if i < 0 then CHR ''-'' # nat_str (nat (- i)) else nat_str (nat i))"

definition str_nat :: "string \<Rightarrow> nat" where
  "str_nat s = foldl (\<lambda>a c. 10 * a + digit_val c) 0 s"

lemma digit_val_char [simp]: "d < 10 \<Longrightarrow> digit_val (digit_char d) = d"
  by (simp add: digit_val_def digit_char_def of_char_of)

lemma is_digit_char [simp]: "d < 10 \<Longrightarrow> is_digit (digit_char d)"
  by (simp add: is_digit_def digit_char_def of_char_of)

lemma digit_char_val: "is_digit c \<Longrightarrow> digit_char (digit_val c) = c"
  by (auto simp: is_digit_def digit_val_def digit_char_def Let_def)

lemma is_digit_imp_not: "is_digit c \<Longrightarrow> c \<noteq> CHR ''-'' \<and> c \<noteq> CHR ''.'' \<and> c \<noteq> CHR ''+'' \<and> c \<noteq> CHR ''x''"
  by (auto simp: is_digit_def)

lemma digit_char_eq_0: "d < 10 \<Longrightarrow> digit_char d = CHR ''0'' \<longleftrightarrow> d = 0"
proof -
  assume d: "d < 10"
  have "digit_val (CHR ''0'') = 0" by (simp add: digit_val_def)
  moreover have "digit_char 0 = CHR ''0''" by (simp add: digit_char_def char_of_def bit_0)
  ultimately show ?thesis using d by (metis digit_val_char)
qed

lemma digit_val_zero_char [simp]: "digit_val (CHR ''0'') = 0" "is_digit (CHR ''0'')"
  by (simp_all add: digit_val_def is_digit_def)

lemma zeros_digits [simp]: "list_all is_digit (replicate k (CHR ''0''))"
  by (induction k) simp_all

lemma nat_str_not_Nil [simp]: "nat_str n \<noteq> []"
  by (subst nat_str.simps) simp

lemma nat_str_digits: "list_all is_digit (nat_str n)"
proof (induction n rule: nat_str.induct)
  case (1 n)
  then show ?case by (subst nat_str.simps) auto
qed

lemma nat_str_no_dot: "CHR ''.'' \<notin> set (nat_str n)"
  using nat_str_digits [of n] is_digit_imp_not by (auto simp: list_all_iff)

lemma nat_str_no_minus: "CHR ''-'' \<notin> set (nat_str n)"
  using nat_str_digits [of n] is_digit_imp_not by (auto simp: list_all_iff)

lemma nat_str_hd_digit: "is_digit (hd (nat_str n))"
  using nat_str_digits [of n] by (cases "nat_str n") auto

lemma str_nat_snoc [simp]: "str_nat (s @ [c]) = 10 * str_nat s + digit_val c"
  by (simp add: str_nat_def)

lemma str_nat_Nil [simp]: "str_nat [] = 0"
  by (simp add: str_nat_def)

lemma str_nat_append: "str_nat (s @ t) = str_nat s * 10 ^ length t + str_nat t"
proof (induction t rule: rev_induct)
  case (snoc c t)
  have "str_nat (s @ t @ [c]) = 10 * str_nat (s @ t) + digit_val c"
    by (metis append.assoc str_nat_snoc)
  then show ?case using snoc by (simp add: algebra_simps)
qed simp

lemma str_nat_zeros [simp]: "str_nat (replicate k (CHR ''0'')) = 0"
  by (induction k) (simp_all add: str_nat_def)

lemma str_nat_str [simp]: "str_nat (nat_str n) = n"
proof (induction n rule: nat_str.induct)
  case (1 n)
  show ?case
  proof (cases "n < 10")
    case True
    then show ?thesis by (subst nat_str.simps) (simp add: str_nat_def)
  next
    case False
    with 1 show ?thesis by (subst nat_str.simps) simp
  qed
qed

lemma nat_str_inj: "nat_str a = nat_str b \<longleftrightarrow> a = b"
  by (metis str_nat_str)

lemma str_nat_bound: "list_all is_digit s \<Longrightarrow> str_nat s < 10 ^ length s"
proof (induction s rule: rev_induct)
  case (snoc c s)
  then have "str_nat s < 10 ^ length s" "digit_val c < 10"
    by (auto simp: digit_val_def is_digit_def Let_def)
  then show ?case by simp
qed simp

lemma nat_str_length_lower: "0 < n \<Longrightarrow> 10 ^ (length (nat_str n) - 1) \<le> n"
proof (induction n rule: nat_str.induct)
  case (1 n)
  show ?case
  proof (cases "n < 10")
    case True
    with 1 show ?thesis by (subst nat_str.simps) simp
  next
    case False
    with 1 have "10 ^ (length (nat_str (n div 10)) - 1) \<le> n div 10" by simp
    then have "10 * 10 ^ (length (nat_str (n div 10)) - 1) \<le> n" by simp
    moreover have "length (nat_str (n div 10)) > 0" by simp
    then have "length (nat_str (n div 10)) = Suc (length (nat_str (n div 10)) - 1)" by simp
    then have "(10::nat) ^ length (nat_str (n div 10)) = 10 * 10 ^ (length (nat_str (n div 10)) - 1)"
      by (metis power_Suc)
    ultimately show ?thesis using False by (subst nat_str.simps) simp
  qed
qed

lemma nat_str_length_upper: "n < 10 ^ length (nat_str n)"
  using str_nat_bound [OF nat_str_digits, of n] by simp

lemma nat_str_div: "d < length (nat_str n) \<Longrightarrow> nat_str (n div 10 ^ d) = take (length (nat_str n) - d) (nat_str n)"
proof (induction d arbitrary: n)
  case (Suc d)
  have "\<not> n < 10"
  proof
    assume "n < 10"
    then have "length (nat_str n) = 1" by (simp add: nat_str.simps)
    with Suc.prems show False by simp
  qed
  then have n: "nat_str n = nat_str (n div 10) @ [digit_char (n mod 10)]" by (subst nat_str.simps) simp
  have "nat_str (n div 10 div 10 ^ d) = take (length (nat_str (n div 10)) - d) (nat_str (n div 10))"
    using Suc.prems n by (intro Suc.IH) simp
  then show ?case by (simp add: n div_mult2_eq)
qed simp

lemma str_includes_char: "str_includes [c] s \<longleftrightarrow> c \<in> set s"
  by (auto simp: str_includes_def sublist_def in_set_conv_decomp)

text \<open>
  \<open>BigInt(s)\<close> on a string: surrounding white space is ignored, the empty string is \<open>0n\<close>, a
  decimal literal may carry a sign, a hexadecimal, octal or binary one may not, and anything else
  (a decimal point, an exponent) is a \<open>SyntaxError\<close>.
\<close>

definition is_ws :: "char \<Rightarrow> bool" where
  "is_ws c = (let n = of_char c :: nat in n = 32 \<or> 9 \<le> n \<and> n \<le> 13 \<or> n = 160)"

definition js_trim :: "string \<Rightarrow> string" where
  "js_trim s = rev (dropWhile is_ws (rev (dropWhile is_ws s)))"

definition hex_val :: "char \<Rightarrow> nat option" where
  "hex_val c = (let n = of_char c :: nat in
     if 48 \<le> n \<and> n \<le> 57 then Some (n - 48)
     else if 97 \<le> n \<and> n \<le> 102 then Some (n - 87)
     else if 65 \<le> n \<and> n \<le> 70 then Some (n - 55)
     else None)"

fun radix_val :: "nat \<Rightarrow> string \<Rightarrow> nat \<Rightarrow> nat option" where
  "radix_val b [] acc = Some acc"
| "radix_val b (c # cs) acc =
     (case hex_val c of None \<Rightarrow> None
      | Some d \<Rightarrow> if d < b then radix_val b cs (b * acc + d) else None)"

definition radix_literal :: "nat \<Rightarrow> string \<Rightarrow> int res" where
  "radix_literal b s =
     (if s = [] then Inl SyntaxError
      else (case radix_val b s 0 of None \<Rightarrow> Inl SyntaxError | Some n \<Rightarrow> Inr (int n)))"

definition decimal_literal :: "string \<Rightarrow> int res" where
  "decimal_literal s =
     (if s \<noteq> [] \<and> list_all is_digit s then Inr (int (str_nat s)) else Inl SyntaxError)"

definition bigint_of_string :: "string \<Rightarrow> int res" where
  "bigint_of_string s =
     (let t = js_trim s in
      if t = [] then Inr 0
      else if starts_with ''0x'' t \<or> starts_with ''0X'' t then radix_literal 16 (drop 2 t)
      else if starts_with ''0o'' t \<or> starts_with ''0O'' t then radix_literal 8 (drop 2 t)
      else if starts_with ''0b'' t \<or> starts_with ''0B'' t then radix_literal 2 (drop 2 t)
      else if hd t = CHR ''-'' then rbind (decimal_literal (tl t)) (\<lambda>n. Inr (- n))
      else if hd t = CHR ''+'' then decimal_literal (tl t)
      else decimal_literal t)"

lemma is_digit_not_ws: "is_digit c \<Longrightarrow> \<not> is_ws c"
  by (auto simp: is_digit_def is_ws_def Let_def)

lemma dropWhile_id: "(s \<noteq> [] \<Longrightarrow> \<not> P (hd s)) \<Longrightarrow> dropWhile P s = s"
  by (cases s) auto

lemma js_trim_id:
  assumes "s \<noteq> [] \<Longrightarrow> \<not> is_ws (hd s)" "s \<noteq> [] \<Longrightarrow> \<not> is_ws (last s)"
  shows "js_trim s = s"
proof -
  have "dropWhile is_ws s = s" using assms(1) by (rule dropWhile_id)
  moreover have "dropWhile is_ws (rev s) = rev s"
    using assms(2) by (intro dropWhile_id) (simp add: hd_rev)
  ultimately show ?thesis by (simp add: js_trim_def)
qed

lemma bigint_of_digits:
  assumes "s \<noteq> []" "list_all is_digit s"
  shows "bigint_of_string s = Inr (int (str_nat s))"
proof -
  have dig: "\<And>c. c \<in> set s \<Longrightarrow> is_digit c" using assms(2) by (simp add: list_all_iff)
  have trim: "js_trim s = s"
    using assms(1) is_digit_not_ws [OF dig] by (intro js_trim_id) auto
  have hd: "hd s \<noteq> CHR ''-''" "hd s \<noteq> CHR ''+''"
    using assms(1) dig is_digit_imp_not by auto
  have nopre: "\<not> starts_with [CHR ''0'', x] s" if "\<not> is_digit x" for x
    using that dig by (cases s; cases "tl s") (auto simp: starts_with_def)
  show ?thesis
    using assms hd
    by (simp add: bigint_of_string_def trim nopre is_digit_def decimal_literal_def)
qed

lemma bigint_of_minus_digits:
  assumes "s \<noteq> []" "list_all is_digit s"
  shows "bigint_of_string (CHR ''-'' # s) = Inr (- int (str_nat s))"
proof -
  have dig: "\<And>c. c \<in> set s \<Longrightarrow> is_digit c" using assms(2) by (simp add: list_all_iff)
  have trim: "js_trim (CHR ''-'' # s) = CHR ''-'' # s"
    using assms(1) is_digit_not_ws [OF dig] by (intro js_trim_id) (auto simp: is_ws_def [of "CHR ''-''"])
  show ?thesis
    using assms by (simp add: bigint_of_string_def trim decimal_literal_def)
qed

lemma bigint_of_nat_str [simp]: "bigint_of_string (nat_str n) = Inr (int n)"
  by (simp add: bigint_of_digits nat_str_digits)

lemma bigint_of_int_str [simp]: "bigint_of_string (int_str i) = Inr i"
  by (simp add: int_str_def bigint_of_minus_digits nat_str_digits)

section \<open>BigInt arithmetic\<close>

text \<open>
  BigInt division truncates towards zero and raises on a zero divisor; BigInt exponentiation
  raises on a negative exponent.
\<close>

definition bigint_div :: "int \<Rightarrow> int \<Rightarrow> int res" where
  "bigint_div a b = (if b = 0 then Inl RangeError else Inr (a sdiv b))"

definition bigint_pow :: "int \<Rightarrow> int \<Rightarrow> int res" where
  "bigint_pow a n = (if n < 0 then Inl RangeError else Inr (a ^ nat n))"

lemma sdiv_pos: "0 \<le> a \<Longrightarrow> 0 < b \<Longrightarrow> a sdiv b = a div (b::int)"
  by (simp add: signed_divide_int_def sgn_if)

lemma sdiv_abs_le: "\<bar>a sdiv b\<bar> \<le> \<bar>a :: int\<bar>"
proof -
  have "\<bar>a\<bar> div \<bar>b\<bar> \<le> \<bar>a\<bar>"
    by (cases "b = 0") (use zdiv_mono2 [of "\<bar>a\<bar>" 1 "\<bar>b\<bar>"] in auto)
  moreover have "0 \<le> \<bar>a\<bar> div \<bar>b\<bar>" by (cases "b = 0") (simp_all add: pos_imp_zdiv_nonneg_iff)
  ultimately show ?thesis by (auto simp: signed_divide_int_def abs_mult sgn_if)
qed

lemma sdiv_mult_bound:
  fixes a b :: int
  assumes "b \<noteq> 0"
  shows "\<bar>a - (a sdiv b) * b\<bar> < \<bar>b\<bar>"
proof -
  have "a sdiv b * b = sgn a * (\<bar>a\<bar> div \<bar>b\<bar> * \<bar>b\<bar>)"
    by (cases "b < 0") (auto simp: signed_divide_int_def sgn_if)
  then have "a - a sdiv b * b = sgn a * (\<bar>a\<bar> mod \<bar>b\<bar>)"
    by (cases "a < 0"; cases "a = 0") (auto simp: minus_div_mult_eq_mod [symmetric] sgn_if algebra_simps)
  moreover have "\<bar>sgn a * (\<bar>a\<bar> mod \<bar>b\<bar>)\<bar> \<le> \<bar>a\<bar> mod \<bar>b\<bar>"
    using assms by (auto simp: abs_mult sgn_if)
  moreover have "\<bar>a\<bar> mod \<bar>b\<bar> < \<bar>b\<bar>" using assms by simp
  ultimately show ?thesis by linarith
qed

section \<open>Evaluation\<close>

text \<open>The equations that evaluate the string and numeral functions on literals, for \<open>simp\<close>.\<close>

named_theorems js_eval \<open>evaluation of the string and numeral functions on literals\<close>

lemma digit_char_eval [js_eval]:
  "digit_char 0 = CHR ''0''" "digit_char (Suc 0) = CHR ''1''" "digit_char 1 = CHR ''1''" "digit_char 2 = CHR ''2''"
  "digit_char 3 = CHR ''3''" "digit_char 4 = CHR ''4''" "digit_char 5 = CHR ''5''"
  "digit_char 6 = CHR ''6''" "digit_char 7 = CHR ''7''" "digit_char 8 = CHR ''8''"
  "digit_char 9 = CHR ''9''"
  by (simp_all add: digit_char_def char_of_def bit_0 bit_iff_odd drop_bit_eq_div)

lemma replicate_eval [js_eval]: "replicate (numeral n) c = c # replicate (pred_numeral n) c"
  by (simp add: numeral_eq_Suc)

declare nat_str.simps [js_eval] int_str_def [js_eval] str_nat_def [js_eval] digit_val_def [js_eval]
  is_digit_def [js_eval] js_index_def [js_eval] js_slice_def [js_eval] js_slice_from_def [js_eval]
  js_pad_end_def [js_eval] js_pad_start_def [js_eval] is_ws_def [js_eval] js_trim_def [js_eval]
  bigint_of_string_def [js_eval] decimal_literal_def [js_eval] radix_literal_def [js_eval]
  bigint_div_def [js_eval] bigint_pow_def [js_eval]

end
