(* ===== verification/JsNumber.thy ===== *)
theory JsNumber
  imports Prelude
begin

text \<open>
  The JavaScript \<open>number\<close>: IEEE-754 binary64 values and the conversions the packages use
  (\<open>Number(x)\<close>, \<open>String(x)\<close>, \<open>Math.round\<close>, \<open>Math.trunc\<close>, \<open>Math.floor\<close>, \<open>BigInt(x)\<close>). A finite
  value is the rational it denotes; \<open>-0\<close> is identified with \<open>0\<close>, which no comparison,
  \<open>toString\<close> or BigInt conversion of the packages tells apart. \<open>dbl\<close> rounds an exact rational to
  the nearest double, ties to even, as every arithmetic operation does.
\<close>

datatype js_num = Fin rat | PInf | NInf | NaN

section \<open>Rounding\<close>

function bitlen :: "int \<Rightarrow> int" where
  "bitlen n = (if n \<le> 0 then 0 else 1 + bitlen (n div 2))"
  by pat_completeness auto
termination by (relation "measure nat") auto

declare bitlen.simps [simp del]

definition pow2 :: "int \<Rightarrow> rat" where
  "pow2 e = (if 0 \<le> e then 2 ^ nat e else 1 / 2 ^ nat (- e))"

text \<open>\<open>log2_floor x\<close> is the largest \<open>e\<close> with \<open>2 ^ e \<le> x\<close>, from the bit lengths of numerator and denominator.\<close>

definition log2_floor :: "rat \<Rightarrow> int" where
  "log2_floor x = (let (p, q) = quotient_of x; e = bitlen p - bitlen q
     in if pow2 e \<le> x then e else e - 1)"

definition round_half_even :: "rat \<Rightarrow> int" where
  "round_half_even x = (let f = \<lfloor>x\<rfloor>; d = x - of_int f in
     if d < 1 / 2 then f else if 1 / 2 < d then f + 1 else if even f then f else f + 1)"

definition dbl_pos :: "rat \<Rightarrow> rat" where
  "dbl_pos x = (let u = pow2 (max (log2_floor x - 52) (-1074))
     in of_int (round_half_even (x / u)) * u)"

definition dbl :: "rat \<Rightarrow> js_num" where
  "dbl x = (if x = 0 then Fin 0
     else let y = dbl_pos \<bar>x\<bar> in
       if pow2 1024 \<le> y then (if x < 0 then NInf else PInf)
       else Fin (if x < 0 then - y else y))"

section \<open>Arithmetic and comparison\<close>

fun num_neg :: "js_num \<Rightarrow> js_num" where
  "num_neg (Fin x) = Fin (- x)"
| "num_neg PInf = NInf"
| "num_neg NInf = PInf"
| "num_neg NaN = NaN"

fun num_add :: "js_num \<Rightarrow> js_num \<Rightarrow> js_num" where
  "num_add (Fin x) (Fin y) = dbl (x + y)"
| "num_add NaN _ = NaN"
| "num_add _ NaN = NaN"
| "num_add PInf NInf = NaN"
| "num_add NInf PInf = NaN"
| "num_add PInf _ = PInf"
| "num_add NInf _ = NInf"
| "num_add (Fin _) y = y"

definition num_sub :: "js_num \<Rightarrow> js_num \<Rightarrow> js_num" where
  "num_sub x y = num_add x (num_neg y)"

definition inf_of_sign :: "rat \<Rightarrow> js_num" where
  "inf_of_sign s = (if s = 0 then NaN else if 0 < s then PInf else NInf)"

fun num_sign :: "js_num \<Rightarrow> rat" where
  "num_sign (Fin x) = sgn x"
| "num_sign PInf = 1"
| "num_sign NInf = -1"
| "num_sign NaN = 0"

definition num_mul :: "js_num \<Rightarrow> js_num \<Rightarrow> js_num" where
  "num_mul a b =
     (case (a, b) of
        (NaN, _) \<Rightarrow> NaN
      | (_, NaN) \<Rightarrow> NaN
      | (Fin x, Fin y) \<Rightarrow> dbl (x * y)
      | _ \<Rightarrow> inf_of_sign (num_sign a * num_sign b))"

definition num_div :: "js_num \<Rightarrow> js_num \<Rightarrow> js_num" where
  "num_div a b =
     (case (a, b) of
        (NaN, _) \<Rightarrow> NaN
      | (_, NaN) \<Rightarrow> NaN
      | (Fin x, Fin y) \<Rightarrow> if y = 0 then inf_of_sign x else dbl (x / y)
      | (Fin _, _) \<Rightarrow> Fin 0
      | (_, Fin y) \<Rightarrow> if y < 0 then num_neg a else a
      | _ \<Rightarrow> NaN)"

fun num_less :: "js_num \<Rightarrow> js_num \<Rightarrow> bool" where
  "num_less (Fin x) (Fin y) = (x < y)"
| "num_less NaN _ = False"
| "num_less _ NaN = False"
| "num_less PInf _ = False"
| "num_less _ NInf = False"
| "num_less NInf _ = True"
| "num_less _ PInf = True"

definition num_eq :: "js_num \<Rightarrow> js_num \<Rightarrow> bool" where
  "num_eq x y = (x = y \<and> x \<noteq> NaN)"

definition num_leq :: "js_num \<Rightarrow> js_num \<Rightarrow> bool" where
  "num_leq x y = (num_less x y \<or> num_eq x y)"

fun num_map :: "(rat \<Rightarrow> int) \<Rightarrow> js_num \<Rightarrow> js_num" where
  "num_map f (Fin x) = Fin (of_int (f x))"
| "num_map f y = y"

definition math_floor :: "js_num \<Rightarrow> js_num" where
  "math_floor = num_map floor"

definition math_round :: "js_num \<Rightarrow> js_num" where
  "math_round = num_map (\<lambda>x. \<lfloor>x + 1 / 2\<rfloor>)"

definition math_trunc :: "js_num \<Rightarrow> js_num" where
  "math_trunc = num_map (\<lambda>x. if x < 0 then \<lceil>x\<rceil> else \<lfloor>x\<rfloor>)"

definition MAX_SAFE_INTEGER :: int where
  "MAX_SAFE_INTEGER = 2 ^ 53 - 1"

text \<open>\<open>BigInt(n)\<close> on a number raises unless it is an integer.\<close>

fun bigint_of_num :: "js_num \<Rightarrow> int res" where
  "bigint_of_num (Fin x) = (if of_int \<lfloor>x\<rfloor> = x then Inr \<lfloor>x\<rfloor> else Inl RangeError)"
| "bigint_of_num _ = Inl RangeError"

section \<open>Printing a number\<close>

text \<open>
  \<open>String(x)\<close>: the shortest decimal that reads back as the same double. \<open>exp10 x\<close> is the \<open>n\<close> with
  \<open>10 ^ (n - 1) \<le> x < 10 ^ n\<close>.
\<close>

definition pow10 :: "int \<Rightarrow> rat" where
  "pow10 e = (if 0 \<le> e then 10 ^ nat e else 1 / 10 ^ nat (- e))"

fun lead_zeros :: "nat \<Rightarrow> rat \<Rightarrow> int" where
  "lead_zeros 0 x = 0"
| "lead_zeros (Suc f) x = (if 1 \<le> x * 10 then 0 else 1 + lead_zeros f (x * 10))"

definition exp10 :: "rat \<Rightarrow> int" where
  "exp10 x = (if 1 \<le> x then int (length (nat_str (nat \<lfloor>x\<rfloor>))) else - lead_zeros 400 x)"

fun shortest :: "nat \<Rightarrow> int \<Rightarrow> rat \<Rightarrow> int \<Rightarrow> int \<times> int" where
  "shortest 0 k x n = (round_half_even (x / pow10 (n - k)), n)"
| "shortest (Suc f) k x n =
     (let s = round_half_even (x / pow10 (n - k)) in
      if dbl (of_int s * pow10 (n - k)) = Fin x
      then (if s = 10 ^ nat k then (10 ^ nat (k - 1), n + 1) else (s, n))
      else shortest f (k + 1) x n)"

definition format_digits :: "string \<Rightarrow> int \<Rightarrow> string" where
  "format_digits ds n =
     (let k = int (length ds); z = CHR ''0'' in
      if k \<le> n \<and> n \<le> 21 then ds @ replicate (nat (n - k)) z
      else if 0 < n \<and> n \<le> 21 then take (nat n) ds @ CHR ''.'' # drop (nat n) ds
      else if -6 < n \<and> n \<le> 0 then ''0.'' @ replicate (nat (- n)) z @ ds
      else (let e = n - 1; es = (if e < 0 then CHR ''-'' # nat_str (nat (- e)) else CHR ''+'' # nat_str (nat e))
            in if k = 1 then ds @ CHR ''e'' # es else hd ds # CHR ''.'' # tl ds @ CHR ''e'' # es))"

definition pos_to_string :: "rat \<Rightarrow> string" where
  "pos_to_string x = (let (s, n) = shortest 17 1 x (exp10 x) in format_digits (nat_str (nat s)) n)"

fun num_to_string :: "js_num \<Rightarrow> string" where
  "num_to_string (Fin x) =
     (if x = 0 then ''0'' else if x < 0 then CHR ''-'' # pos_to_string (- x) else pos_to_string x)"
| "num_to_string PInf = ''Infinity''"
| "num_to_string NInf = ''-Infinity''"
| "num_to_string NaN = ''NaN''"

section \<open>Reading a number\<close>

definition split_at :: "(char \<Rightarrow> bool) \<Rightarrow> string \<Rightarrow> string \<times> string option" where
  "split_at p s = (let a = takeWhile (\<lambda>c. \<not> p c) s; b = dropWhile (\<lambda>c. \<not> p c) s
     in (a, case b of [] \<Rightarrow> None | _ # r \<Rightarrow> Some r))"

definition exponent_val :: "string option \<Rightarrow> int option" where
  "exponent_val e =
     (case e of None \<Rightarrow> Some 0
      | Some t \<Rightarrow>
          (let (sg, d) = (if t \<noteq> [] \<and> hd t = CHR ''-'' then (-1, tl t)
                          else if t \<noteq> [] \<and> hd t = CHR ''+'' then (1, tl t) else (1, t))
           in if d \<noteq> [] \<and> list_all is_digit d then Some (sg * int (str_nat d)) else None))"

definition unsigned_decimal :: "string \<Rightarrow> rat option" where
  "unsigned_decimal s =
     (let (m, ex) = split_at (\<lambda>c. c = CHR ''e'' \<or> c = CHR ''E'') s;
          (i, fr) = split_at (\<lambda>c. c = CHR ''.'') m;
          f = (case fr of None \<Rightarrow> [] | Some f \<Rightarrow> f)
      in if list_all is_digit i \<and> list_all is_digit f \<and> i @ f \<noteq> []
         then (case exponent_val ex of None \<Rightarrow> None
               | Some e \<Rightarrow> Some (of_nat (str_nat (i @ f)) * pow10 (e - int (length f))))
         else None)"

definition signed_number :: "bool \<Rightarrow> string \<Rightarrow> js_num" where
  "signed_number neg s =
     (if s = ''Infinity'' then (if neg then NInf else PInf)
      else case unsigned_decimal s of None \<Rightarrow> NaN | Some q \<Rightarrow> dbl (if neg then - q else q))"

definition radix_number :: "nat \<Rightarrow> string \<Rightarrow> js_num" where
  "radix_number b s = (case radix_literal b s of Inl _ \<Rightarrow> NaN | Inr n \<Rightarrow> dbl (of_int n))"

definition string_to_num :: "string \<Rightarrow> js_num" where
  "string_to_num s =
     (let t = js_trim s in
      if t = [] then Fin 0
      else if starts_with ''0x'' t \<or> starts_with ''0X'' t then radix_number 16 (drop 2 t)
      else if starts_with ''0o'' t \<or> starts_with ''0O'' t then radix_number 8 (drop 2 t)
      else if starts_with ''0b'' t \<or> starts_with ''0B'' t then radix_number 2 (drop 2 t)
      else if hd t = CHR ''-'' then signed_number True (tl t)
      else if hd t = CHR ''+'' then signed_number False (tl t)
      else signed_number False t)"

end
