(* ===== verification/BigDec.thy ===== *)
theory BigDec
  imports JsNumber
begin

text \<open>
  The fixed-point decimal class of packages/oraidex-common/src/bigdecimal.ts. An object is a
  BigInt mantissa and a number of decimal places; \<open>bd_val\<close> is the rational it stands for.

  An operation works on a clone of its receiver, so the receiver never changes, but
  \<open>processDecimal\<close> rescales its \<^emph>\<open>argument\<close> in place when that is a \<open>BigDecimal\<close> with fewer
  decimal places: the in-place operations return the new receiver together with the argument
  object as they leave it.
\<close>

section \<open>The class\<close>

record bigdec =
  bigInt :: int
  dec :: nat

text \<open>
  \<open>DecimalLike\<close>: a number enters only through its \<open>toString()\<close>, so \<open>DNum s\<close> is the number
  that prints as \<open>s\<close>; \<open>DOther\<close> is a value of any other type.
\<close>

datatype decimal_like = DStr string | DNum string | DBig int | DDec bigdec | DOther

definition default_decimals :: "nat option \<Rightarrow> nat" where
  "default_decimals decimals = (case decimals of None \<Rightarrow> 6 | Some d \<Rightarrow> d)"

definition bd_of_text :: "string \<Rightarrow> nat option \<Rightarrow> bigdec res" where
  "bd_of_text s decimals =
     (let d = default_decimals decimals;
          parts = js_split (CHR ''.'') s;
          ints = hd parts;
          decis = (case tl parts of [] \<Rightarrow> [] | x # _ \<Rightarrow> x)
      in if d < length decis \<and> (decimals = None \<or> decimals = Some 0)
         then rbind (bigint_of_string (ints @ decis)) (\<lambda>n. Inr \<lparr>bigInt = n, dec = length decis\<rparr>)
         else let padding = (if decis \<noteq> [] then take d (js_pad_end d (CHR ''0'') decis)
                             else replicate d (CHR ''0''))
              in rbind (bigint_of_string (ints @ padding)) (\<lambda>n. Inr \<lparr>bigInt = n, dec = d\<rparr>))"

definition new_BigDecimal :: "decimal_like \<Rightarrow> nat option \<Rightarrow> bigdec res" where
  "new_BigDecimal v decimals =
     (case v of
        DDec b \<Rightarrow> Inr b
      | DBig n \<Rightarrow> (let d = default_decimals decimals in Inr \<lparr>bigInt = n * 10 ^ d, dec = d\<rparr>)
      | DStr s \<Rightarrow> bd_of_text s decimals
      | DNum s \<Rightarrow> bd_of_text s decimals
      | DOther \<Rightarrow> Inl (Thrown ''value is not `DecimalLike`''))"

definition processDecimal :: "bigdec \<Rightarrow> decimal_like \<Rightarrow> (bigdec \<times> bigdec) res" where
  "processDecimal self v =
     (case v of
        DDec o1 \<Rightarrow>
          (if dec o1 > dec self
           then Inr (self\<lparr>bigInt := bigInt self * 10 ^ (dec o1 - dec self), dec := dec o1\<rparr>, o1)
           else if dec self > dec o1
           then Inr (self, o1\<lparr>bigInt := bigInt o1 * 10 ^ (dec self - dec o1), dec := dec self\<rparr>)
           else Inr (self, o1))
      | _ \<Rightarrow> rbind (new_BigDecimal v (Some (dec self))) (\<lambda>o1. Inr (self, o1)))"

definition strip_zeros :: "string \<Rightarrow> string" where
  "strip_zeros s = rev (dropWhile (\<lambda>c. c = CHR ''0'') (rev s))"

definition bd_toString :: "bigdec \<Rightarrow> string" where
  "bd_toString self =
     (let str0 = int_str (bigInt self);
          neg = (hd str0 = CHR ''-'');
          str1 = (if neg then tl str0 else str0);
          ret0 = (if neg then ''-'' else []);
          pad = int (dec self) - int (length str1);
          str = (if pad > 0 then replicate (nat pad) (CHR ''0'') @ str1 else str1);
          ret = (if pad \<ge> 0 then ret0 @ ''0'' else ret0 @ js_slice str1 0 (- int (dec self)));
          denominator = strip_zeros (js_slice_from str (- int (dec self)))
      in if denominator \<noteq> [] then ret @ ''.'' @ denominator else ret)"

definition clone :: "bigdec \<Rightarrow> bigdec" where
  "clone self = \<lparr>bigInt = bigInt self, dec = dec self\<rparr>"

definition iadd :: "bigdec \<Rightarrow> decimal_like \<Rightarrow> (bigdec \<times> bigdec) res" where
  "iadd self v = rbind (processDecimal self v)
     (\<lambda>(s, o1). Inr (s\<lparr>bigInt := bigInt s + bigInt o1\<rparr>, o1))"

definition isub :: "bigdec \<Rightarrow> decimal_like \<Rightarrow> (bigdec \<times> bigdec) res" where
  "isub self v = rbind (processDecimal self v)
     (\<lambda>(s, o1). Inr (s\<lparr>bigInt := bigInt s - bigInt o1\<rparr>, o1))"

definition idiv :: "bigdec \<Rightarrow> decimal_like \<Rightarrow> (bigdec \<times> bigdec) res" where
  "idiv self v = rbind (processDecimal self v)
     (\<lambda>(s, o1). rbind (bigint_div (bigInt s * 10 ^ dec s) (bigInt o1))
       (\<lambda>q. Inr (s\<lparr>bigInt := q\<rparr>, o1)))"

definition imul :: "bigdec \<Rightarrow> decimal_like \<Rightarrow> (bigdec \<times> bigdec) res" where
  "imul self v = rbind (processDecimal self v)
     (\<lambda>(s, o1). rbind (bigint_div (bigInt s * bigInt o1) (10 ^ dec s))
       (\<lambda>q. Inr (s\<lparr>bigInt := q\<rparr>, o1)))"

text \<open>
  The exponent of \<open>pow\<close> goes through \<open>BigInt(other)\<close>: \<open>PNum None\<close> is a number that is not an
  integer, on which that call raises.
\<close>

datatype pow_arg = PBig int | PBool bool | PStr string | PNum "int option"

definition bigint_of_pow_arg :: "pow_arg \<Rightarrow> int res" where
  "bigint_of_pow_arg p =
     (case p of
        PBig n \<Rightarrow> Inr n
      | PBool b \<Rightarrow> Inr (if b then 1 else 0)
      | PStr s \<Rightarrow> bigint_of_string s
      | PNum (Some n) \<Rightarrow> Inr n
      | PNum None \<Rightarrow> Inl RangeError)"

definition ipow :: "bigdec \<Rightarrow> pow_arg \<Rightarrow> bigdec res" where
  "ipow self p =
     (let coeff = 10 ^ dec self in
      rbind (bigint_of_pow_arg p) (\<lambda>power.
      rbind (bigint_pow (bigInt self) power) (\<lambda>num.
      rbind (bigint_pow coeff (power - 1)) (\<lambda>den.
      rbind (bigint_div num den) (\<lambda>q. Inr (self\<lparr>bigInt := q\<rparr>))))))"

text \<open>
  The Newton loop of \<open>rootNth\<close>. Its condition \<open>x ** k !== k && x !== o && --limit\<close> counts
  \<open>limit\<close> down last, so from \<open>limit = 100\<close> the body runs at most 99 times.
\<close>

fun root_loop :: "int \<Rightarrow> int \<Rightarrow> int \<Rightarrow> int \<Rightarrow> nat \<Rightarrow> int res" where
  "root_loop v k o1 x 0 = Inr x"
| "root_loop v k o1 x (Suc l) =
     rbind (bigint_pow x k) (\<lambda>xk.
       if xk \<noteq> k \<and> x \<noteq> o1 \<and> l \<noteq> 0
       then rbind (bigint_pow x (k - 1)) (\<lambda>xk1.
            rbind (bigint_div v xk1) (\<lambda>q.
            rbind (bigint_div ((k - 1) * x + q) k) (\<lambda>x'.
            root_loop v k x x' l)))
       else Inr x)"

definition rootNth :: "decimal_like \<Rightarrow> int \<Rightarrow> bigdec res" where
  "rootNth value k =
     rbind (new_BigDecimal value None) (\<lambda>big.
       let bigValue = bigInt big * 10 ^ dec big in
       if bigValue < 0 then Inl (Thrown ''negative number is not supported'')
       else rbind (root_loop bigValue k 0 bigValue 100) (\<lambda>x. Inr (big\<lparr>bigInt := x\<rparr>)))"

definition static_sqrt :: "decimal_like \<Rightarrow> bigdec res" where
  "static_sqrt value = rootNth value 2"

definition bd_sqrt :: "bigdec \<Rightarrow> bigdec res" where
  "bd_sqrt self = rootNth (DDec self) 2"

definition bd_add :: "bigdec \<Rightarrow> decimal_like \<Rightarrow> bigdec res" where
  "bd_add self v = rbind (iadd (clone self) v) (\<lambda>(s, _). Inr s)"

definition bd_sub :: "bigdec \<Rightarrow> decimal_like \<Rightarrow> bigdec res" where
  "bd_sub self v = rbind (isub (clone self) v) (\<lambda>(s, _). Inr s)"

definition bd_div :: "bigdec \<Rightarrow> decimal_like \<Rightarrow> bigdec res" where
  "bd_div self v = rbind (idiv (clone self) v) (\<lambda>(s, _). Inr s)"

definition bd_mul :: "bigdec \<Rightarrow> decimal_like \<Rightarrow> bigdec res" where
  "bd_mul self v = rbind (imul (clone self) v) (\<lambda>(s, _). Inr s)"

definition mulByRatio :: "bigdec \<Rightarrow> decimal_like \<Rightarrow> decimal_like \<Rightarrow> bigdec res" where
  "mulByRatio self numerator denominator =
     (if denominator = DStr ''0'' \<or> denominator = DNum ''0'' \<or> denominator = DBig 0
      then Inl (Thrown ''Denominator cannot be zero'')
      else rbind (imul (clone self) numerator) (\<lambda>(s, _).
           rbind (idiv s denominator) (\<lambda>(s', _). Inr s')))"

definition bd_pow :: "bigdec \<Rightarrow> pow_arg \<Rightarrow> bigdec res" where
  "bd_pow self p = ipow (clone self) p"

definition bd_toNumber :: "bigdec \<Rightarrow> js_num" where
  "bd_toNumber self = string_to_num (bd_toString self)"

definition bd_valueOf :: "bigdec \<Rightarrow> js_num" where
  "bd_valueOf self = bd_toNumber self"

section \<open>The rational an object stands for\<close>

definition bd_val :: "bigdec \<Rightarrow> rat" where
  "bd_val b = of_int (bigInt b) / 10 ^ dec b"

definition bd_ulp :: "bigdec \<Rightarrow> rat" where
  "bd_ulp b = 1 / 10 ^ dec b"

lemma clone_eq [simp]: "clone b = b"
  by (simp add: clone_def)

lemma bd_ulp_pos [simp]: "0 < bd_ulp b"
  by (simp add: bd_ulp_def)

lemma bd_val_rescale: "d \<ge> dec b \<Longrightarrow> bd_val (b\<lparr>bigInt := bigInt b * 10 ^ (d - dec b), dec := d\<rparr>) = bd_val b"
proof -
  assume d: "d \<ge> dec b"
  then have "(10::rat) ^ d = 10 ^ (d - dec b) * 10 ^ dec b" by (simp flip: power_add)
  then show ?thesis by (simp add: bd_val_def)
qed

text \<open>On two objects \<open>processDecimal\<close> aligns both to the larger number of decimal places.\<close>

lemma processDecimal_dec:
  obtains s t where "processDecimal a (DDec b) = Inr (s, t)"
    "bd_val s = bd_val a" "bd_val t = bd_val b"
    "dec s = max (dec a) (dec b)" "dec t = max (dec a) (dec b)"
proof (cases "dec b > dec a")
  case True
  then show ?thesis using bd_val_rescale [of a "dec b"]
    by (intro that [of "a\<lparr>bigInt := bigInt a * 10 ^ (dec b - dec a), dec := dec b\<rparr>" b])
       (auto simp: processDecimal_def max_def)
next
  case False
  show ?thesis
  proof (cases "dec a > dec b")
    case True
    then show ?thesis using bd_val_rescale [of b "dec a"]
      by (intro that [of a "b\<lparr>bigInt := bigInt b * 10 ^ (dec a - dec b), dec := dec a\<rparr>"])
         (auto simp: processDecimal_def max_def)
  next
    case F: False
    with False show ?thesis by (intro that [of a b]) (auto simp: processDecimal_def)
  qed
qed

lemma bd_val_add: "dec s = dec t \<Longrightarrow> bd_val (s\<lparr>bigInt := bigInt s + bigInt t\<rparr>) = bd_val s + bd_val t"
  by (simp add: bd_val_def add_divide_distrib)

lemma bd_val_sub: "dec s = dec t \<Longrightarrow> bd_val (s\<lparr>bigInt := bigInt s - bigInt t\<rparr>) = bd_val s - bd_val t"
  by (simp add: bd_val_def diff_divide_distrib)

lemma bd_val_0_iff: "bd_val b = 0 \<longleftrightarrow> bigInt b = 0"
  by (simp add: bd_val_def)

lemma bd_val_mul_error:
  assumes "dec s = dec t"
  shows "\<bar>bd_val (s\<lparr>bigInt := (bigInt s * bigInt t) sdiv 10 ^ dec s\<rparr>) - bd_val s * bd_val t\<bar> < bd_ulp s"
proof -
  let ?c = "(10::int) ^ dec s" and ?p = "bigInt s * bigInt t"
  have "\<bar>?p - (?p sdiv ?c) * ?c\<bar> < \<bar>?c\<bar>" by (rule sdiv_mult_bound) simp
  then have "(of_int \<bar>?p - (?p sdiv ?c) * ?c\<bar> :: rat) < of_int ?c"
    by (simp only: of_int_less_iff) simp
  then have b: "\<bar>of_int ?p - of_int (?p sdiv ?c) * 10 ^ dec s\<bar> < (10 ^ dec s :: rat)"
    by (simp add: of_int_abs)
  let ?q = "bd_val (s\<lparr>bigInt := ?p sdiv ?c\<rparr>) - bd_val s * bd_val t"
  have "\<bar>?q\<bar> * (10 ^ dec s * 10 ^ dec s) = \<bar>?q * (10 ^ dec s * 10 ^ dec s)\<bar>"
    by (simp add: abs_mult)
  also have "?q * (10 ^ dec s * 10 ^ dec s) = of_int (?p sdiv ?c) * 10 ^ dec s - of_int ?p"
    using assms by (simp add: bd_val_def field_simps)
  also have "\<bar>of_int (?p sdiv ?c) * 10 ^ dec s - of_int ?p\<bar> < (10 ^ dec s :: rat)"
    using b by (simp add: abs_minus_commute)
  finally have "\<bar>?q\<bar> * 10 ^ dec s * 10 ^ dec s < 1 * (10 ^ dec s :: rat)" by (simp add: mult.assoc)
  then have "\<bar>?q\<bar> * 10 ^ dec s < 1" by (subst (asm) mult_less_cancel_right_pos) simp_all
  then show ?thesis by (simp add: bd_ulp_def field_simps)
qed

lemma bd_val_div_error:
  assumes "dec s = dec t" "bigInt t \<noteq> 0"
  shows "\<bar>bd_val (s\<lparr>bigInt := (bigInt s * 10 ^ dec s) sdiv bigInt t\<rparr>) - bd_val s / bd_val t\<bar> < bd_ulp s"
proof -
  let ?t = "bigInt t" and ?p = "bigInt s * 10 ^ dec s"
  have "\<bar>?p - (?p sdiv ?t) * ?t\<bar> < \<bar>?t\<bar>" using assms(2) by (rule sdiv_mult_bound)
  then have "(of_int \<bar>?p - (?p sdiv ?t) * ?t\<bar> :: rat) < of_int \<bar>?t\<bar>"
    by (simp only: of_int_less_iff)
  then have b: "\<bar>of_int (bigInt s) * 10 ^ dec s - of_int (?p sdiv ?t) * of_int ?t\<bar> < (\<bar>of_int ?t\<bar> :: rat)"
    by (simp add: of_int_abs)
  let ?q = "bd_val (s\<lparr>bigInt := ?p sdiv ?t\<rparr>) - bd_val s / bd_val t"
  have "\<bar>?q\<bar> * 10 ^ dec s * \<bar>of_int ?t\<bar> = \<bar>?q * 10 ^ dec s * of_int ?t\<bar>"
    by (simp add: abs_mult)
  also have "?q * 10 ^ dec s * of_int ?t = of_int (?p sdiv ?t) * of_int ?t - of_int (bigInt s) * 10 ^ dec s"
    using assms by (simp add: bd_val_def field_simps)
  also have "\<bar>of_int (?p sdiv ?t) * of_int ?t - of_int (bigInt s) * 10 ^ dec s\<bar> < (\<bar>of_int ?t\<bar> :: rat)"
    using b by (simp add: abs_minus_commute)
  finally have "\<bar>?q\<bar> * 10 ^ dec s * \<bar>of_int ?t\<bar> < 1 * (\<bar>of_int ?t\<bar> :: rat)" by simp
  then have "\<bar>?q\<bar> * 10 ^ dec s < 1"
    using assms(2) by (subst (asm) mult_less_cancel_right_pos) simp_all
  then show ?thesis by (simp add: bd_ulp_def field_simps)
qed


section \<open>Printing and parsing\<close>

definition int_part :: "bigdec \<Rightarrow> string" where
  "int_part b = (let str = nat_str (nat \<bar>bigInt b\<bar>) in
     if length str \<le> dec b then ''0'' else take (length str - dec b) str)"

definition frac_part :: "bigdec \<Rightarrow> string" where
  "frac_part b = (let str = nat_str (nat \<bar>bigInt b\<bar>); p = js_pad_start (dec b) (CHR ''0'') str
     in drop (length p - dec b) p)"

definition sign_part :: "bigdec \<Rightarrow> string" where
  "sign_part b = (if bigInt b < 0 then ''-'' else [])"

lemma strip_zeros_split: "\<exists>k. s = strip_zeros s @ replicate k (CHR ''0'')"
proof -
  let ?P = "\<lambda>c. c = CHR ''0''"
  have "rev s = takeWhile ?P (rev s) @ dropWhile ?P (rev s)" by simp
  then have "s = rev (dropWhile ?P (rev s)) @ rev (takeWhile ?P (rev s))"
    by (metis rev_append rev_rev_ident)
  moreover have "takeWhile ?P (rev s) = replicate (length (takeWhile ?P (rev s))) (CHR ''0'')"
    by (rule replicate_length_same [symmetric]) (auto dest: set_takeWhileD)
  then have "rev (takeWhile ?P (rev s)) = replicate (length (takeWhile ?P (rev s))) (CHR ''0'')"
    by (metis rev_replicate)
  ultimately show ?thesis unfolding strip_zeros_def by metis
qed

lemma strip_zeros_pad:
  assumes "length s = d"
  shows "js_pad_end d (CHR ''0'') (strip_zeros s) = s"
proof -
  obtain k where k: "s = strip_zeros s @ replicate k (CHR ''0'')" using strip_zeros_split by blast
  then have "d - length (strip_zeros s) = k" using assms
    by (metis add_diff_cancel_left' length_append length_replicate)
  with k show ?thesis by (simp add: js_pad_end_def)
qed

lemma strip_zeros_length: "length (strip_zeros s) \<le> length s"
  by (simp add: strip_zeros_def) (metis length_dropWhile_le length_rev)

lemma strip_zeros_subset: "set (strip_zeros s) \<subseteq> set s"
  by (auto simp: strip_zeros_def dest: set_dropWhileD)

lemma strip_zeros_Nil_iff: "strip_zeros s = [] \<longleftrightarrow> s = replicate (length s) (CHR ''0'')"
proof
  assume "strip_zeros s = []"
  then show "s = replicate (length s) (CHR ''0'')"
    using strip_zeros_split [of s] by auto
next
  assume "s = replicate (length s) (CHR ''0'')"
  then have "\<forall>c \<in> set s. c = CHR ''0''" by (metis in_set_replicate)
  then show "strip_zeros s = []" by (simp add: strip_zeros_def dropWhile_eq_Nil_conv)
qed

lemma frac_part_length [simp]: "length (frac_part b) = dec b"
proof -
  define p where "p = js_pad_start (dec b) (CHR ''0'') (nat_str (nat \<bar>bigInt b\<bar>))"
  have "dec b \<le> length p" by (simp add: p_def js_pad_start_def)
  then show ?thesis by (simp add: frac_part_def Let_def flip: p_def)
qed

lemma int_part_not_Nil [simp]: "int_part b \<noteq> []"
  by (simp add: int_part_def Let_def)

lemma int_part_div:
  assumes "0 \<le> bigInt b"
  shows "int_part b = nat_str (nat (bigInt b) div 10 ^ dec b)"
proof (cases "length (nat_str (nat \<bar>bigInt b\<bar>)) \<le> dec b")
  case True
  have "nat (bigInt b) < 10 ^ length (nat_str (nat (bigInt b)))" by (rule nat_str_length_upper)
  also have "\<dots> \<le> 10 ^ dec b" using True assms by (intro power_increasing) simp_all
  finally show ?thesis using True by (simp add: int_part_def nat_str.simps [of 0] digit_char_eval)
next
  case False
  then show ?thesis using assms nat_str_div [of "dec b" "nat (bigInt b)"] by (simp add: int_part_def Let_def)
qed

lemma parts_digits: "list_all is_digit (int_part b)" "list_all is_digit (frac_part b)"
  using nat_str_digits [of "nat \<bar>bigInt b\<bar>"]
  by (auto simp: int_part_def frac_part_def js_pad_start_def Let_def list_all_iff
      dest: in_set_takeD in_set_dropD)

lemma str_nat_parts: "str_nat (int_part b @ frac_part b) = nat \<bar>bigInt b\<bar>"
proof (cases "length (nat_str (nat \<bar>bigInt b\<bar>)) \<le> dec b")
  case True
  then show ?thesis
    by (simp only: int_part_def frac_part_def js_pad_start_def Let_def)
       (simp add: str_nat_append str_nat_def [of "''0''"] del: append_Cons)
next
  case False
  then show ?thesis
    by (simp add: int_part_def frac_part_def js_pad_start_def Let_def)
qed

lemma int_str_head: "hd (int_str i) = CHR ''-'' \<longleftrightarrow> i < 0"
  using nat_str_hd_digit is_digit_imp_not by (auto simp: int_str_def)

lemma bd_toString_eq:
  assumes "0 < dec b"
  shows "bd_toString b = sign_part b @ int_part b @
    (if strip_zeros (frac_part b) = [] then [] else CHR ''.'' # strip_zeros (frac_part b))"
proof -
  define str where "str = nat_str (nat \<bar>bigInt b\<bar>)"
  have one: "(if bigInt b < 0 then tl (int_str (bigInt b)) else int_str (bigInt b)) = str"
    by (auto simp: str_def int_str_def)
  have frac: "js_slice_from (if int (dec b) - int (length str) > 0
      then replicate (nat (int (dec b) - int (length str))) (CHR ''0'') @ str else str) (- int (dec b))
      = frac_part b"
    using assms by (auto simp: js_slice_from_def js_index_def frac_part_def js_pad_start_def Let_def
        str_def [symmetric] nat_diff_distrib of_nat_diff)
  have ip: "(if int (dec b) - int (length str) \<ge> 0 then r @ ''0''
      else r @ js_slice str 0 (- int (dec b))) = r @ int_part b" for r
    using assms by (auto simp: js_slice_def js_index_def int_part_def Let_def str_def [symmetric] nat_diff_distrib)
  show ?thesis
    unfolding bd_toString_def Let_def int_str_head one frac ip
    by (simp add: sign_part_def)
qed

lemma bd_of_text_parts:
  assumes "CHR ''.'' \<notin> set i" "CHR ''.'' \<notin> set f"
  shows "js_split (CHR ''.'') (i @ (if f = [] then [] else CHR ''.'' # f)) = (if f = [] then [i] else [i, f])"
  using assms by (auto simp: js_split_none js_split_sep)

lemma bigint_of_signed:
  assumes "list_all is_digit s" "s \<noteq> []"
  shows "bigint_of_string (sign_part b @ s) = Inr ((if bigInt b < 0 then -1 else 1) * int (str_nat s))"
  using assms by (simp add: sign_part_def bigint_of_digits bigint_of_minus_digits)

lemma parts_no_dot:
  "CHR ''.'' \<notin> set (sign_part b @ int_part b)" "CHR ''.'' \<notin> set (strip_zeros (frac_part b))"
  using parts_digits [of b] is_digit_imp_not strip_zeros_subset [of "frac_part b"]
  by (auto simp: sign_part_def list_all_iff)

lemma split_toString:
  assumes "0 < dec b"
  shows "js_split (CHR ''.'') (bd_toString b) =
    (sign_part b @ int_part b) # (if strip_zeros (frac_part b) = [] then [] else [strip_zeros (frac_part b)])"
  using bd_of_text_parts [OF parts_no_dot [of b]] by (simp add: bd_toString_eq [OF assms])

lemma sign_times_abs: "(if n < 0 then -1 else 1) * int (nat \<bar>n\<bar>) = n"
  by simp

lemma bd_of_text_narrow:
  assumes "js_split (CHR ''.'') s = i # (if f = [] then [] else [f])"
    and "length f \<le> default_decimals decimals"
  shows "bd_of_text s decimals =
    rbind (bigint_of_string (i @ js_pad_end (default_decimals decimals) (CHR ''0'') f))
      (\<lambda>n. Inr \<lparr>bigInt = n, dec = default_decimals decimals\<rparr>)"
proof (cases "f = []")
  case True
  with assms show ?thesis by (simp add: bd_of_text_def js_pad_end_def Let_def)
next
  case False
  with assms show ?thesis by (simp add: bd_of_text_def js_pad_end_def Let_def)
qed

lemma bd_of_text_wide:
  assumes "js_split (CHR ''.'') s = i # (if f = [] then [] else [f])"
    and "default_decimals decimals < length f" "decimals = None \<or> decimals = Some 0"
  shows "bd_of_text s decimals =
    rbind (bigint_of_string (i @ f)) (\<lambda>n. Inr \<lparr>bigInt = n, dec = length f\<rparr>)"
proof -
  have "f \<noteq> []" using assms(2) by auto
  with assms show ?thesis by (simp add: bd_of_text_def Let_def)
qed

text \<open>Parsing the printed text with the same number of decimals gives back the very object.\<close>

lemma parse_toString_exact:
  assumes "0 < dec b"
  shows "bd_of_text (bd_toString b) (Some (dec b)) = Inr b"
proof -
  have pad: "js_pad_end (dec b) (CHR ''0'') (strip_zeros (frac_part b)) = frac_part b"
    by (rule strip_zeros_pad) simp
  have "bigint_of_string (sign_part b @ int_part b @ frac_part b) = Inr (bigInt b)"
    using bigint_of_signed [of "int_part b @ frac_part b" b] parts_digits [of b]
    by (simp only: str_nat_parts sign_times_abs) simp
  then show ?thesis
    using strip_zeros_length [of "frac_part b"] pad
    by (simp add: bd_of_text_narrow [OF split_toString [OF assms]] default_decimals_def)
qed

text \<open>
  Parsing it with the default number of decimals keeps the value, whatever number of decimals the
  object had: digits beyond the sixth are kept because the constructor widens.
\<close>

lemma stripped_value:
  "bd_val \<lparr>bigInt = (if bigInt b < 0 then -1 else 1) * int (str_nat (int_part b @ strip_zeros (frac_part b))),
     dec = length (strip_zeros (frac_part b))\<rparr> = bd_val b"
proof -
  let ?f = "strip_zeros (frac_part b)"
  obtain k where k: "frac_part b = ?f @ replicate k (CHR ''0'')" using strip_zeros_split by blast
  then have len: "dec b = length ?f + k" by (metis frac_part_length length_append length_replicate)
  have "str_nat ((int_part b @ ?f) @ replicate k (CHR ''0'')) = nat \<bar>bigInt b\<bar>"
    using str_nat_parts [of b] k by simp
  then have n: "str_nat (int_part b @ ?f) * 10 ^ k = nat \<bar>bigInt b\<bar>"
    by (subst (asm) str_nat_append) simp
  have "int (str_nat (int_part b @ ?f)) * 10 ^ k = int (nat \<bar>bigInt b\<bar>)"
    by (simp only: n [symmetric]) simp
  then have "bigInt b = (if bigInt b < 0 then -1 else 1) * int (str_nat (int_part b @ ?f)) * 10 ^ k"
    by (auto split: if_splits)
  then have "(of_int (bigInt b) :: rat) =
      of_int ((if bigInt b < 0 then -1 else 1) * int (str_nat (int_part b @ ?f)) * 10 ^ k)" by metis
  then show ?thesis by (simp add: bd_val_def len power_add)
qed

lemma bd_val_widen: "bd_val \<lparr>bigInt = n * 10 ^ k, dec = d + k\<rparr> = bd_val \<lparr>bigInt = n, dec = d\<rparr>"
  by (simp add: bd_val_def power_add)

lemma parse_toString_default:
  assumes "0 < dec b"
  shows "\<exists>b'. bd_of_text (bd_toString b) None = Inr b' \<and> bd_val b' = bd_val b"
proof (cases "6 < length (strip_zeros (frac_part b))")
  let ?f = "strip_zeros (frac_part b)"
  have dig: "list_all is_digit (int_part b @ ?f)"
    using parts_digits [of b] strip_zeros_subset [of "frac_part b"] by (auto simp: list_all_iff)
  case True
  then show ?thesis
    using bigint_of_signed [OF dig, of b] stripped_value [of b]
    by (simp add: bd_of_text_wide [OF split_toString [OF assms]] default_decimals_def)
next
  let ?f = "strip_zeros (frac_part b)"
  case False
  let ?p = "replicate (6 - length ?f) (CHR ''0'')" and ?sg = "(if bigInt b < 0 then -1 else 1) :: int"
  have dig: "list_all is_digit ((int_part b @ ?f) @ ?p)"
    using parts_digits [of b] strip_zeros_subset [of "frac_part b"] by (auto simp: list_all_iff)
  have "bigint_of_string (sign_part b @ (int_part b @ ?f) @ ?p) =
      Inr (?sg * int (str_nat (int_part b @ ?f)) * 10 ^ (6 - length ?f))"
    using bigint_of_signed [OF dig, of b] by (simp add: str_nat_append power_add algebra_simps)
  moreover have "bd_val \<lparr>bigInt = ?sg * int (str_nat (int_part b @ ?f)) * 10 ^ (6 - length ?f), dec = 6\<rparr> = bd_val b"
    using bd_val_widen [of _ "6 - length ?f" "length ?f"] stripped_value [of b] False by simp
  ultimately show ?thesis
    using False by (simp add: bd_of_text_narrow [OF split_toString [OF assms]] default_decimals_def js_pad_end_def)
qed

text \<open>With no decimals at all the printer loses the integer part: it writes a point first.\<close>

lemma strip_nat_str_Nil: "strip_zeros (nat_str n) = [] \<longleftrightarrow> n = 0"
proof
  assume "strip_zeros (nat_str n) = []"
  then have "nat_str n = replicate (length (nat_str n)) (CHR ''0'')" by (simp add: strip_zeros_Nil_iff)
  then have "str_nat (nat_str n) = 0" by (metis str_nat_zeros)
  then show "n = 0" by simp
next
  assume "n = 0"
  moreover have "nat_str 0 = [digit_char 0]" by (subst nat_str.simps) simp
  ultimately show "strip_zeros (nat_str n) = []" by (simp add: strip_zeros_def digit_char_eq_0)
qed

lemma toString_no_decimals:
  assumes "dec b = 0"
  shows "bd_toString b = sign_part b @
    (if bigInt b = 0 then [] else CHR ''.'' # strip_zeros (nat_str (nat \<bar>bigInt b\<bar>)))"
proof -
  have one: "(if bigInt b < 0 then tl (int_str (bigInt b)) else int_str (bigInt b)) = nat_str (nat \<bar>bigInt b\<bar>)"
    by (auto simp: int_str_def)
  show ?thesis
    unfolding bd_toString_def Let_def int_str_head one
    using assms by (auto simp: sign_part_def js_slice_def js_index_def js_slice_from_def strip_nat_str_Nil)
qed

section \<open>The arithmetic as a fixed-point contract\<close>

text \<open>
  What the clients of the class rely on: addition and subtraction are exact, multiplication and
  division are off by less than one unit in the last place, and only a zero divisor raises.
\<close>

locale fixed_point =
  fixes val :: "'a \<Rightarrow> rat" and ulp :: "'a \<Rightarrow> rat"
    and add sub mul divide :: "'a \<Rightarrow> 'a \<Rightarrow> 'a res"
  assumes ulp_pos: "0 < ulp a"
    and add_law: "\<exists>r. add a b = Inr r \<and> val r = val a + val b \<and> ulp r = min (ulp a) (ulp b)"
    and sub_law: "\<exists>r. sub a b = Inr r \<and> val r = val a - val b \<and> ulp r = min (ulp a) (ulp b)"
    and mul_law: "\<exists>r. mul a b = Inr r \<and> \<bar>val r - val a * val b\<bar> < ulp r \<and> ulp r = min (ulp a) (ulp b)"
    and div_law: "val b \<noteq> 0 \<Longrightarrow>
      \<exists>r. divide a b = Inr r \<and> \<bar>val r - val a / val b\<bar> < ulp r \<and> ulp r = min (ulp a) (ulp b)"
    and div_zero: "val b = 0 \<Longrightarrow> divide a b = Inl RangeError"
begin

lemma ratio_law:
  assumes "val d \<noteq> 0"
  shows "\<exists>r. rbind (mul a n) (\<lambda>p. divide p d) = Inr r \<and>
    \<bar>val r - val a * val n / val d\<bar> < ulp r + min (ulp a) (ulp n) / \<bar>val d\<bar>"
proof -
  obtain p where p: "mul a n = Inr p" "\<bar>val p - val a * val n\<bar> < ulp p" "ulp p = min (ulp a) (ulp n)"
    using mul_law by blast
  obtain r where r: "divide p d = Inr r" "\<bar>val r - val p / val d\<bar> < ulp r"
    using div_law [OF assms] by blast
  have "val p / val d - val a * val n / val d = (val p - val a * val n) / val d"
    by (simp add: diff_divide_distrib)
  then have "\<bar>val p / val d - val a * val n / val d\<bar> = \<bar>val p - val a * val n\<bar> / \<bar>val d\<bar>"
    by (simp add: abs_divide)
  also have "\<dots> < ulp p / \<bar>val d\<bar>"
    using p(2) assms by (intro divide_strict_right_mono) auto
  finally have "\<bar>val r - val a * val n / val d\<bar> < ulp r + ulp p / \<bar>val d\<bar>" using r(2) by linarith
  with p r show ?thesis by auto
qed

lemma linear_law:
  "\<exists>m r. mul y q = Inr m \<and> add x m = Inr r \<and> \<bar>val r - (val x + val y * val q)\<bar> < min (ulp y) (ulp q)"
proof -
  obtain m where m: "mul y q = Inr m" "\<bar>val m - val y * val q\<bar> < ulp m" "ulp m = min (ulp y) (ulp q)"
    using mul_law by blast
  obtain r where "add x m = Inr r" "val r = val x + val m" using add_law by blast
  with m show ?thesis by auto
qed

end

definition dec_add :: "bigdec \<Rightarrow> bigdec \<Rightarrow> bigdec res" where "dec_add a b = bd_add a (DDec b)"
definition dec_sub :: "bigdec \<Rightarrow> bigdec \<Rightarrow> bigdec res" where "dec_sub a b = bd_sub a (DDec b)"
definition dec_mul :: "bigdec \<Rightarrow> bigdec \<Rightarrow> bigdec res" where "dec_mul a b = bd_mul a (DDec b)"
definition dec_div :: "bigdec \<Rightarrow> bigdec \<Rightarrow> bigdec res" where "dec_div a b = bd_div a (DDec b)"

lemmas bd_op_defs = bd_add_def bd_sub_def bd_mul_def bd_div_def iadd_def isub_def imul_def idiv_def

lemmas dec_op_defs = dec_add_def dec_sub_def dec_mul_def dec_div_def

lemma bd_ulp_dec: "dec r = max (dec a) (dec b) \<Longrightarrow> bd_ulp r = min (bd_ulp a) (bd_ulp b)"
proof -
  have le: "m \<le> n \<Longrightarrow> (1::rat) / 10 ^ n \<le> 1 / 10 ^ m" for m n :: nat
    by (intro divide_left_mono power_increasing) auto
  assume "dec r = max (dec a) (dec b)"
  then show ?thesis
    using le [of "dec a" "dec b"] le [of "dec b" "dec a"]
    by (cases "dec a \<le> dec b") (simp_all add: bd_ulp_def max_def min_absorb1 min_absorb2)
qed

lemma bd_ulp_upd [simp]: "bd_ulp (s\<lparr>bigInt := n\<rparr>) = bd_ulp s"
  by (simp add: bd_ulp_def)

interpretation bd: fixed_point bd_val bd_ulp dec_add dec_sub dec_mul dec_div
proof (unfold_locales, goal_cases)
  case 1 show ?case by simp
next
  case (2 a b)
  obtain s t where "processDecimal a (DDec b) = Inr (s, t)" "bd_val s = bd_val a" "bd_val t = bd_val b"
    "dec s = max (dec a) (dec b)" "dec t = max (dec a) (dec b)" by (rule processDecimal_dec)
  then show ?case by (simp add: bd_op_defs dec_op_defs bd_val_add bd_ulp_dec)
next
  case (3 a b)
  obtain s t where "processDecimal a (DDec b) = Inr (s, t)" "bd_val s = bd_val a" "bd_val t = bd_val b"
    "dec s = max (dec a) (dec b)" "dec t = max (dec a) (dec b)" by (rule processDecimal_dec)
  then show ?case by (simp add: bd_op_defs dec_op_defs bd_val_sub bd_ulp_dec)
next
  case (4 a b)
  obtain s t where "processDecimal a (DDec b) = Inr (s, t)" "bd_val s = bd_val a" "bd_val t = bd_val b"
    "dec s = max (dec a) (dec b)" "dec t = max (dec a) (dec b)" by (rule processDecimal_dec)
  then show ?case using bd_val_mul_error [of s t]
    by (simp add: bd_op_defs dec_op_defs bigint_div_def bd_ulp_dec)
next
  case (5 b a)
  obtain s t where st: "processDecimal a (DDec b) = Inr (s, t)" "bd_val s = bd_val a" "bd_val t = bd_val b"
    "dec s = max (dec a) (dec b)" "dec t = max (dec a) (dec b)" by (rule processDecimal_dec)
  with 5 have "bigInt t \<noteq> 0" by (metis bd_val_0_iff)
  then show ?case using bd_val_div_error [of s t] st
    by (simp add: bd_op_defs dec_op_defs bigint_div_def bd_ulp_dec)
next
  case (6 b a)
  obtain s t where st: "processDecimal a (DDec b) = Inr (s, t)" "bd_val t = bd_val b" by (rule processDecimal_dec)
  with 6 have "bigInt t = 0" by (metis bd_val_0_iff)
  then show ?case using st by (simp add: bd_op_defs dec_op_defs bigint_div_def)
qed

section \<open>The square root\<close>

lemma le_div_iff_int: "0 < y \<Longrightarrow> x \<le> v div y \<longleftrightarrow> x * y \<le> (v::int)"
proof
  assume y: "0 < y" "x \<le> v div y"
  then have "x * y \<le> v div y * y" by (intro mult_right_mono) auto
  also have "\<dots> = v - v mod y" by (simp add: minus_mod_eq_div_mult)
  also have "\<dots> \<le> v" using y by simp
  finally show "x * y \<le> v" .
next
  assume y: "0 < y" "x * y \<le> v"
  then have "x * y div y \<le> v div y" by (intro zdiv_mono1) auto
  with y show "x \<le> v div y" by simp
qed

declare root_loop.simps [simp del]

definition newton2 :: "int \<Rightarrow> int \<Rightarrow> int" where
  "newton2 v x = (x + v div x) div 2"

lemma newton2_ge:
  assumes "1 \<le> x" "s * s \<le> v" "0 \<le> s"
  shows "s \<le> newton2 v x"
proof -
  have "2 * s * x \<le> x * x + s * s" using zero_le_square [of "x - s"] by (simp add: algebra_simps)
  then have "2 * s * x \<le> x * x + v" using assms by linarith
  then have "(2 * s - x) * x \<le> v" by (simp add: algebra_simps)
  then have "2 * s - x \<le> v div x" using assms by (simp add: le_div_iff_int)
  then show ?thesis by (simp add: newton2_def)
qed

lemma newton2_above:
  assumes "s < x" "v < (s + 1) * (s + 1)" "0 \<le> s" "0 \<le> v"
  shows "2 * (newton2 v x - s) \<le> x - s"
proof -
  have "v div x \<le> s"
  proof (rule ccontr)
    assume "\<not> v div x \<le> s"
    then have "(s + 1) * x \<le> v" using assms le_div_iff_int [of x "s + 1" v] by simp
    moreover have "(s + 1) * (s + 1) \<le> (s + 1) * x" using assms by (intro mult_left_mono) auto
    ultimately show False using assms by linarith
  qed
  then show ?thesis by (simp add: newton2_def)
qed

lemma newton2_at:
  assumes "1 \<le> s" "s * s \<le> v" "v < (s + 1) * (s + 1)"
  shows "newton2 v s = s \<or> (newton2 v s = s + 1 \<and> v = (s + 1) * (s + 1) - 1)"
proof -
  have "s \<le> v div s" using assms by (simp add: le_div_iff_int)
  moreover have "v div s \<le> s + 2"
  proof -
    have "v < (s + 3) * s" using assms by (simp add: algebra_simps)
    then have "\<not> s + 3 \<le> v div s" using assms by (simp add: le_div_iff_int)
    then show ?thesis by simp
  qed
  moreover have "v = (s + 1) * (s + 1) - 1" if "v div s = s + 2"
  proof -
    have "(s + 2) * s \<le> v" using that assms le_div_iff_int [of s "s + 2" v] by simp
    then show ?thesis using assms by (simp add: algebra_simps)
  qed
  ultimately consider "v div s = s" | "v div s = s + 1" | "v div s = s + 2" "v = (s + 1) * (s + 1) - 1"
    by linarith
  then show ?thesis by cases (auto simp: newton2_def)
qed

lemma square_not_2: "x * x \<noteq> (2::int)"
proof
  assume h: "x * x = 2"
  have "x = 0 \<or> x = 1 \<or> x = -1 \<or> 2 \<le> x \<or> x \<le> -2" by linarith
  moreover have "4 \<le> x * x" if "2 \<le> x \<or> x \<le> -2"
    using that mult_mono [of 2 x 2 x] mult_mono [of 2 "-x" 2 "-x"] by auto
  ultimately show False using h by auto
qed

lemma root_loop_2_step:
  assumes "1 \<le> x" "0 \<le> v"
  shows "root_loop v 2 o1 x (Suc l) =
    (if x \<noteq> o1 \<and> l \<noteq> 0 then root_loop v 2 x (newton2 v x) l else Inr x)"
proof -
  have "bigint_div (x + v div x) 2 = Inr (newton2 v x)"
    using assms pos_imp_zdiv_nonneg_iff [of x v] by (simp add: bigint_div_def newton2_def sdiv_pos)
  then show ?thesis
    using assms square_not_2 [of x] by (simp add: root_loop.simps bigint_pow_def bigint_div_def power2_eq_square sdiv_pos)
qed

lemma root_loop_2:
  assumes "1 \<le> s" "s * s \<le> v" "v < (s + 1) * (s + 1)"
  shows "s \<le> x \<Longrightarrow> (x = o1 \<Longrightarrow> x = s) \<Longrightarrow> x - s < 2 ^ l \<Longrightarrow>
    \<exists>y. root_loop v 2 o1 x (Suc l) = Inr y \<and> (y = s \<or> y = s + 1 \<and> v = (s + 1) * (s + 1) - 1)"
proof (induction l arbitrary: o1 x)
  case 0
  have "0 \<le> v" using assms by (smt (verit) mult_nonneg_nonneg)
  with 0 assms show ?case using root_loop_2_step [of x v o1 0] by simp
next
  case (Suc l)
  have v: "0 \<le> v" using assms by (smt (verit) mult_nonneg_nonneg)
  have x: "1 \<le> x" using assms Suc.prems by simp
  show ?case
  proof (cases "x = o1")
    case True
    with Suc.prems show ?thesis using root_loop_2_step [OF x v, of o1] by simp
  next
    case ne: False
    have step: "root_loop v 2 o1 x (Suc (Suc l)) = root_loop v 2 x (newton2 v x) (Suc l)"
      using root_loop_2_step [OF x v, of o1 "Suc l"] ne by simp
    have ge: "s \<le> newton2 v x" using newton2_ge [OF x assms(2)] assms(1) by simp
    show ?thesis
    proof (cases "x = s")
      case False
      then have "2 * (newton2 v x - s) \<le> x - s" using newton2_above [of s x v] assms v Suc.prems by simp
      then have "newton2 v x - s < 2 ^ l" "newton2 v x = x \<Longrightarrow> newton2 v x = s"
        using Suc.prems by auto
      with ge step show ?thesis using Suc.IH by simp
    next
      case True
      from newton2_at [OF assms] consider "newton2 v x = s" | "newton2 v x = s + 1" "v = (s + 1) * (s + 1) - 1" "l = 0"
        | "newton2 v x = s + 1" "1 < (2::int) ^ l"
        using True by (cases "l = 0") (auto intro: one_less_power)
      then show ?thesis
      proof cases
        case 2
        have n: "1 \<le> newton2 v x" using ge assms by simp
        have "root_loop v 2 x (newton2 v x) (Suc l) = Inr (s + 1)"
          using root_loop_2_step [OF n v] 2 by simp
        with step 2 show ?thesis by simp
      qed (use step True Suc.IH ge in auto)
    qed
  qed
qed

lemma int_floor_sqrt:
  assumes "0 \<le> (v::int)"
  obtains s where "0 \<le> s" "s * s \<le> v" "v < (s + 1) * (s + 1)"
proof -
  define s where "s = \<lfloor>sqrt (real_of_int v)\<rfloor>"
  have sq: "sqrt (real_of_int v) * sqrt (real_of_int v) = real_of_int v" using assms by simp
  have nn: "0 \<le> sqrt (real_of_int v)" using assms by simp
  have lo: "real_of_int s \<le> sqrt (real_of_int v)" by (simp add: s_def)
  have hi: "sqrt (real_of_int v) < real_of_int (s + 1)" by (simp add: s_def)
  have s0: "0 \<le> s" using assms by (simp add: s_def)
  have "real_of_int s * real_of_int s \<le> real_of_int v"
    using mult_mono [OF lo lo] s0 nn sq by simp
  then have a: "s * s \<le> v" by (simp flip: of_int_mult)
  have "real_of_int v < real_of_int (s + 1) * real_of_int (s + 1)"
    using mult_strict_mono' [OF hi hi nn nn] sq by simp
  then have b: "v < (s + 1) * (s + 1)" by (simp only: of_int_mult [symmetric] of_int_less_iff)
  from that [OF s0 a b] show ?thesis .
qed

lemma sqrt_exists:
  assumes "0 \<le> bigInt b" "bigInt b * 10 ^ dec b < 2 ^ 99"
  shows "\<exists>r. bd_sqrt b = Inr r \<and> dec r = dec b \<and> 0 \<le> bigInt r \<and>
    bigInt b * 10 ^ dec b < (bigInt r + 1) * (bigInt r + 1) \<and>
    (bigInt r * bigInt r \<le> bigInt b * 10 ^ dec b \<or> bigInt b * 10 ^ dec b = bigInt r * bigInt r - 1)"
proof -
  define v where "v = bigInt b * 10 ^ dec b"
  have v: "0 \<le> v" "v < 2 ^ 99" using assms by (simp_all add: v_def)
  obtain s where s: "0 \<le> s" "s * s \<le> v" "v < (s + 1) * (s + 1)" using v(1) by (rule int_floor_sqrt)
  have def: "bd_sqrt b = rbind (root_loop v 2 0 v 100) (\<lambda>x. Inr (b\<lparr>bigInt := x\<rparr>))"
    using v by (simp add: bd_sqrt_def rootNth_def new_BigDecimal_def Let_def flip: v_def)
  show ?thesis
  proof (cases "v = 0")
    case True
    have "root_loop 0 2 0 0 (Suc 99) = Inr 0"
      by (simp only: root_loop.simps) (simp add: bigint_pow_def)
    then show ?thesis using True def by (simp add: v_def eval_nat_numeral)
  next
    case False
    with s v have "1 \<le> s" by (cases "s = 0") auto
    moreover have "s \<le> v" using s by (smt (verit) mult_left_mono mult_cancel_left1 calculation)
    moreover have "v - s < 2 ^ 99" using v s by linarith
    moreover have "v = 0 \<Longrightarrow> v = s" using False by simp
    ultimately obtain y where "root_loop v 2 0 v (Suc 99) = Inr y"
      "y = s \<or> y = s + 1 \<and> v = (s + 1) * (s + 1) - 1"
      using root_loop_2 [of s v v 0 99] s by blast
    then show ?thesis using def s by (auto simp: v_def [symmetric] eval_nat_numeral algebra_simps)
  qed
qed

section \<open>Properties\<close>


text \<open>Printing and parsing agree. For an object with at least one decimal place, parsing the text
  \<open>toString\<close> prints gives back the very object when the same number of decimals is passed, and
  an object of the same value when none is passed, whatever its number of decimals.\<close>

theorem print_parse:
  assumes "0 < dec b"
  shows "new_BigDecimal (DStr (bd_toString b)) (Some (dec b)) = Inr b \<and>
    (\<exists>b'. new_BigDecimal (DStr (bd_toString b)) None = Inr b' \<and> bd_val b' = bd_val b)"
  using parse_toString_exact [OF assms] parse_toString_default [OF assms]
  by (simp add: new_BigDecimal_def)

theorem print_parse_witness:
  "bd_toString \<lparr>bigInt = -1234500, dec = 6\<rparr> = ''-1.2345'' \<and>
   new_BigDecimal (DStr (bd_toString \<lparr>bigInt = -1234500, dec = 6\<rparr>)) (Some 6) = Inr \<lparr>bigInt = -1234500, dec = 6\<rparr>"
proof
  show "bd_toString \<lparr>bigInt = -1234500, dec = 6\<rparr> = ''-1.2345''"
    by (simp add: bd_toString_def strip_zeros_def js_eval)
  show "new_BigDecimal (DStr (bd_toString \<lparr>bigInt = -1234500, dec = 6\<rparr>)) (Some 6) = Inr \<lparr>bigInt = -1234500, dec = 6\<rparr>"
    using print_parse [of "\<lparr>bigInt = -1234500, dec = 6\<rparr>"] by simp
qed

text \<open>Addition and subtraction of two decimals are exact, never raise, and give the larger of
  the two numbers of decimals. They rescale the caller's argument object in place to that number
  of decimals, which changes its mantissa and keeps its value.\<close>

lemma add_sub_exact:
  "\<exists>r q t. iadd (clone a) (DDec b) = Inr (r, t) \<and> isub (clone a) (DDec b) = Inr (q, t) \<and>
     bd_add a (DDec b) = Inr r \<and> bd_sub a (DDec b) = Inr q \<and>
     bd_val r = bd_val a + bd_val b \<and> bd_val q = bd_val a - bd_val b \<and>
     dec r = max (dec a) (dec b) \<and> bd_val t = bd_val b \<and> dec t = max (dec a) (dec b)"
proof -
  obtain s t where "processDecimal a (DDec b) = Inr (s, t)" "bd_val s = bd_val a" "bd_val t = bd_val b"
    "dec s = max (dec a) (dec b)" "dec t = max (dec a) (dec b)" by (rule processDecimal_dec)
  then show ?thesis by (auto simp: bd_op_defs bd_val_add bd_val_sub)
qed

text \<open>C22. Multiplication and division of two decimals are wrong by less than one unit in the last
  place of the result; division raises a \<open>RangeError\<close> exactly on a zero divisor.\<close>

theorem mul_div_error:
  "(\<exists>r. bd_mul a (DDec b) = Inr r \<and> \<bar>bd_val r - bd_val a * bd_val b\<bar> < bd_ulp r \<and>
        bd_ulp r = min (bd_ulp a) (bd_ulp b)) \<and>
   (if bd_val b = 0 then bd_div a (DDec b) = Inl RangeError
    else \<exists>r. bd_div a (DDec b) = Inr r \<and> \<bar>bd_val r - bd_val a / bd_val b\<bar> < bd_ulp r \<and>
        bd_ulp r = min (bd_ulp a) (bd_ulp b))"
  using bd.mul_law [of a b] bd.div_law [of b a] bd.div_zero [of b a] by (simp add: dec_op_defs)

lemma mulByRatio_dec: "mulByRatio a (DDec n) (DDec d) = rbind (dec_mul a n) (\<lambda>p. dec_div p d)"
  by (simp add: mulByRatio_def dec_op_defs bd_op_defs rbind_assoc split_def)

text \<open>\<open>mulByRatio\<close> computes \<open>self * numerator / denominator\<close> up to one unit in the last place
  plus the truncation of the product scaled by the denominator. A zero denominator never
  yields a value: the literals \<open>"0"\<close>, \<open>0\<close> and \<open>0n\<close> are refused by name before the
  multiplication, a \<open>BigDecimal\<close> zero by the division.\<close>

theorem mulByRatio_bound:
  "mulByRatio a n (DStr ''0'') = Inl (Thrown ''Denominator cannot be zero'') \<and>
   mulByRatio a n (DBig 0) = Inl (Thrown ''Denominator cannot be zero'') \<and>
   (if bd_val d = 0 then mulByRatio a (DDec m) (DDec d) = Inl RangeError
    else \<exists>r. mulByRatio a (DDec m) (DDec d) = Inr r \<and>
      \<bar>bd_val r - bd_val a * bd_val m / bd_val d\<bar> < bd_ulp r + min (bd_ulp a) (bd_ulp m) / \<bar>bd_val d\<bar>)"
proof -
  obtain p where "dec_mul a m = Inr p" using bd.mul_law by blast
  then have "bd_val d = 0 \<Longrightarrow> mulByRatio a (DDec m) (DDec d) = Inl RangeError"
    by (simp add: mulByRatio_dec bd.div_zero)
  then show ?thesis using bd.ratio_law [of d a m]
    by (simp add: mulByRatio_dec) (simp add: mulByRatio_def)
qed

text \<open>C28. The square root of a non-negative decimal whose scaled mantissa is below \<open>2^99\<close> always
  returns within the loop's hundred rounds, keeps the number of decimals, and is the integer
  square root of the scaled mantissa, except when that mantissa is one less than a perfect
  square: there the loop alternates between the two candidates and may stop on the upper one.\<close>

theorem sqrt_floor:
  assumes "0 \<le> bigInt b" "bigInt b * 10 ^ dec b < 2 ^ 99"
  shows "\<exists>r. bd_sqrt b = Inr r \<and> dec r = dec b \<and> 0 \<le> bigInt r \<and>
    bigInt b * 10 ^ dec b < (bigInt r + 1) * (bigInt r + 1) \<and>
    (bigInt r * bigInt r \<le> bigInt b * 10 ^ dec b \<or> bigInt b * 10 ^ dec b = bigInt r * bigInt r - 1)"
  using assms by (rule sqrt_exists)

theorem sqrt_floor_witness:
  "\<exists>r. bd_sqrt \<lparr>bigInt = 2000000, dec = 6\<rparr> = Inr r \<and> dec r = 6 \<and> bigInt r = 1414213"
proof -
  obtain r where r: "bd_sqrt \<lparr>bigInt = 2000000, dec = 6\<rparr> = Inr r" "dec r = 6" "0 \<le> bigInt r"
    "2000000000000 < (bigInt r + 1) * (bigInt r + 1)"
    "bigInt r * bigInt r \<le> 2000000000000 \<or> 2000000000000 = bigInt r * bigInt r - 1"
    using sqrt_floor [of "\<lparr>bigInt = 2000000, dec = 6\<rparr>"] by auto
  have "bigInt r \<le> 1414213"
  proof (rule ccontr)
    assume "\<not> bigInt r \<le> 1414213"
    then have "1414214 * 1414214 \<le> bigInt r * bigInt r" by (intro mult_mono) auto
    with r(5) show False by auto
  qed
  moreover have "1414213 \<le> bigInt r"
  proof (rule ccontr)
    assume "\<not> 1414213 \<le> bigInt r"
    then have "(bigInt r + 1) * (bigInt r + 1) \<le> 1414213 * 1414213" using r(3) by (intro mult_mono) auto
    with r(4) show False by simp
  qed
  ultimately show ?thesis using r by auto
qed

lemma bd_val_pow_error:
  assumes "0 < p"
  shows "\<bar>bd_val (b\<lparr>bigInt := bigInt b ^ p sdiv (10 ^ dec b) ^ (p - 1)\<rparr>) - bd_val b ^ p\<bar> < bd_ulp b"
proof -
  let ?c = "((10::int) ^ dec b) ^ (p - 1)" and ?n = "bigInt b ^ p"
  have "\<bar>?n - (?n sdiv ?c) * ?c\<bar> < \<bar>?c\<bar>" by (rule sdiv_mult_bound) simp
  then have "(of_int \<bar>?n - (?n sdiv ?c) * ?c\<bar> :: rat) < of_int ?c" by (simp only: of_int_less_iff) simp
  then have b: "\<bar>of_int ?n - of_int (?n sdiv ?c) * (10 ^ dec b) ^ (p - 1)\<bar> < ((10 ^ dec b) ^ (p - 1) :: rat)"
    by (simp add: of_int_abs)
  let ?q = "bd_val (b\<lparr>bigInt := ?n sdiv ?c\<rparr>) - bd_val b ^ p"
  have e: "(10 ^ dec b :: rat) ^ p = (10 ^ dec b) ^ (p - 1) * 10 ^ dec b"
    using assms by (metis Suc_diff_1 power_Suc2)
  have "?q * 10 ^ dec b * (10 ^ dec b) ^ (p - 1) = of_int (?n sdiv ?c) * (10 ^ dec b) ^ (p - 1) - of_int ?n"
    by (simp add: bd_val_def power_divide e field_simps)
  then have "\<bar>?q\<bar> * 10 ^ dec b * (10 ^ dec b) ^ (p - 1) = \<bar>of_int (?n sdiv ?c) * (10 ^ dec b) ^ (p - 1) - of_int ?n\<bar>"
    by (metis abs_mult abs_of_nonneg zero_le_numeral zero_le_power)
  also have "\<dots> < 1 * (10 ^ dec b) ^ (p - 1)" using b by (simp add: abs_minus_commute)
  finally have "\<bar>?q\<bar> * 10 ^ dec b < 1" by (subst (asm) mult_less_cancel_right_pos) simp_all
  then show ?thesis by (simp add: bd_ulp_def field_simps)
qed

text \<open>A positive integer power is within one unit in the last place of the exact power. The
  power zero, which should be one, raises a \<open>RangeError\<close> like a negative power, because the code
  also raises the coefficient to the power minus one.\<close>

theorem pow_result:
  "if p \<le> 0 then bd_pow b (PBig p) = Inl RangeError
   else \<exists>r. bd_pow b (PBig p) = Inr r \<and> dec r = dec b \<and> \<bar>bd_val r - bd_val b ^ nat p\<bar> < bd_ulp b"
proof (cases "p \<le> 0")
  case True
  then show ?thesis by (auto simp: bd_pow_def ipow_def bigint_of_pow_arg_def bigint_pow_def rbind_def)
next
  case False
  then have "nat (p - 1) = nat p - 1" by (simp add: nat_diff_distrib)
  with False show ?thesis using bd_val_pow_error [of "nat p" b]
    by (simp add: bd_pow_def ipow_def bigint_of_pow_arg_def bigint_pow_def bigint_div_def)
qed

text \<open>With zero decimals \<open>toString\<close> is wrong: JavaScript's \<open>slice(0, -0)\<close> is empty, so a
  non-zero integer prints as a point followed by its own digits, and parsing that text gives
  the digits back as a fraction (5 prints as ".5").\<close>

theorem toString_loses_integers:
  assumes "0 < bigInt b" "dec b = 0"
  shows "bd_toString b = CHR ''.'' # strip_zeros (nat_str (nat (bigInt b)))"
  using assms by (simp add: toString_no_decimals sign_part_def)

theorem toString_loses_integers_witness:
  "bd_toString \<lparr>bigInt = 5, dec = 0\<rparr> = ''.5'' \<and>
   bd_toString \<lparr>bigInt = 5, dec = 0\<rparr> = CHR ''.'' # strip_zeros (nat_str 5) \<and>
   new_BigDecimal (DStr ''.5'') None = Inr \<lparr>bigInt = 500000, dec = 6\<rparr>"
proof (intro conjI)
  show "bd_toString \<lparr>bigInt = 5, dec = 0\<rparr> = ''.5''"
    by (simp add: bd_toString_def strip_zeros_def js_eval)
  show "bd_toString \<lparr>bigInt = 5, dec = 0\<rparr> = CHR ''.'' # strip_zeros (nat_str 5)"
    using toString_loses_integers [of "\<lparr>bigInt = 5, dec = 0\<rparr>"] by simp
  show "new_BigDecimal (DStr ''.5'') None = Inr \<lparr>bigInt = 500000, dec = 6\<rparr>"
    by (simp add: new_BigDecimal_def bd_of_text_def default_decimals_def js_eval)
qed

text \<open>A text operand is aligned with its receiver whenever the receiver has decimals: the operand
  \<open>processDecimal\<close> builds has the receiver's number of decimals, so the mantissas can be combined.
  A receiver without decimals breaks this: the constructor takes 0 for "not given" and widens
  the operand, and the mantissas of different scales are added (2 + "1.5" gives 17).\<close>

theorem text_operand_aligned:
  "(\<forall>t. processDecimal a (DStr x) = Inr t \<longrightarrow> 0 < dec a \<longrightarrow> dec (snd t) = dec a) \<and>
   bd_add \<lparr>bigInt = 2, dec = 0\<rparr> (DStr ''1.5'') = Inr \<lparr>bigInt = 17, dec = 0\<rparr>"
proof
  show "\<forall>t. processDecimal a (DStr x) = Inr t \<longrightarrow> 0 < dec a \<longrightarrow> dec (snd t) = dec a"
    by (auto simp: processDecimal_def new_BigDecimal_def bd_of_text_def default_decimals_def Let_def
        rbind_eq_Inr_iff)
  show "bd_add \<lparr>bigInt = 2, dec = 0\<rparr> (DStr ''1.5'') = Inr \<lparr>bigInt = 17, dec = 0\<rparr>"
    by (simp add: bd_op_defs processDecimal_def new_BigDecimal_def bd_of_text_def default_decimals_def js_eval)
qed

theorem text_operand_aligned_witness:
  "\<exists>t. processDecimal \<lparr>bigInt = 2000000, dec = 6\<rparr> (DStr ''1.5'') = Inr t \<and> dec (snd t) = 6"
proof -
  have p: "processDecimal \<lparr>bigInt = 2000000, dec = 6\<rparr> (DStr ''1.5'') =
      Inr (\<lparr>bigInt = 2000000, dec = 6\<rparr>, \<lparr>bigInt = 1500000, dec = 6\<rparr>)"
    by (simp add: processDecimal_def new_BigDecimal_def bd_of_text_def default_decimals_def js_eval)
  then show ?thesis using text_operand_aligned [of "\<lparr>bigInt = 2000000, dec = 6\<rparr>" "''1.5''"] by simp
qed

end
