(* ===== verification/Wire.thy ===== *)
theory Wire
  imports JsNumber "HOL-Library.Word"
begin

text \<open>
  The writer and reader of protobufjs/minimal, a third-party package, as a parameter of the memo
  codec: the record \<open>wire\<close> holds the operations the generated code calls, the locale
  \<open>proto_wire\<close> the documented behaviour it relies on (a value read where it was written comes
  back, a reader moves forward and stays inside the buffer, \<open>fork\<close>/\<open>ldelim\<close> prefix the length).
  \<open>pb_wire\<close> is the encoding of the protobuf specification, which satisfies the laws.

  The common shape of every generated \<open>decode\<close> is the loop \<open>decode_loop\<close>; its two facts are that
  it reads back a concatenation of fields and that it always ends.
\<close>

type_synonym byte = "8 word"

record wire =
  w_uint32 :: "nat \<Rightarrow> byte list"
  w_uint64 :: "js_num \<Rightarrow> byte list"
  w_string :: "string \<Rightarrow> byte list"
  w_ldelim :: "byte list \<Rightarrow> byte list"
  r_uint32 :: "byte list \<Rightarrow> nat \<Rightarrow> (nat \<times> nat) res"
  r_uint64 :: "byte list \<Rightarrow> nat \<Rightarrow> (nat \<times> nat) res"
  r_string :: "byte list \<Rightarrow> nat \<Rightarrow> (string \<times> nat) res"
  r_skipType :: "nat \<Rightarrow> byte list \<Rightarrow> nat \<Rightarrow> nat res"

text \<open>
  The handler of a message type: for a tag it knows, how to read the field and store it in the
  message; \<open>None\<close> for a tag the \<open>switch\<close> does not \<open>continue\<close> on.
\<close>

type_synonym 'm handler = "nat \<Rightarrow> 'm \<Rightarrow> byte list \<Rightarrow> nat \<Rightarrow> ('m \<times> nat) res option"

fun decode_loop :: "wire \<Rightarrow> 'm handler \<Rightarrow> nat \<Rightarrow> byte list \<Rightarrow> nat \<Rightarrow> nat \<Rightarrow> 'm \<Rightarrow> ('m \<times> nat) res" where
  "decode_loop W f 0 buf pos e m = (if pos < e then Inl OutOfFuel else Inr (m, pos))"
| "decode_loop W f (Suc n) buf pos e m =
     (if pos < e
      then rbind (r_uint32 W buf pos) (\<lambda>(tag, p1).
        case f tag m buf p1 of
          Some r \<Rightarrow> rbind r (\<lambda>(m', p2). decode_loop W f n buf p2 e m')
        | None \<Rightarrow>
            if tag mod 8 = 4 \<or> tag = 0 then Inr (m, p1)
            else rbind (r_skipType W (tag mod 8) buf p1) (\<lambda>p2. decode_loop W f n buf p2 e m))
      else Inr (m, pos))"

text \<open>\<open>end = length === undefined ? reader.len : reader.pos + length\<close>; the buffer bounds the rounds.\<close>

definition run_decode :: "wire \<Rightarrow> 'm handler \<Rightarrow> 'm \<Rightarrow> byte list \<Rightarrow> nat \<Rightarrow> nat option \<Rightarrow> ('m \<times> nat) res" where
  "run_decode W f base buf pos len =
     decode_loop W f (Suc (length buf)) buf pos (case len of None \<Rightarrow> length buf | Some l \<Rightarrow> pos + l) base"

definition longToNumber :: "int \<Rightarrow> js_num res" where
  "longToNumber long =
     (if long > MAX_SAFE_INTEGER then Inl (Thrown ''Value is larger than Number.MAX_SAFE_INTEGER'')
      else if long < - MAX_SAFE_INTEGER then Inl (Thrown ''Value is smaller than Number.MIN_SAFE_INTEGER'')
      else Inr (Fin (of_int long)))"

text \<open>The three kinds of field the generated decoders read.\<close>

definition rd_string :: "wire \<Rightarrow> (string \<Rightarrow> 'm \<Rightarrow> 'm) \<Rightarrow> 'm \<Rightarrow> byte list \<Rightarrow> nat \<Rightarrow> ('m \<times> nat) res" where
  "rd_string W upd m buf p = rbind (r_string W buf p) (\<lambda>(s, p'). Inr (upd s m, p'))"

definition rd_uint64 :: "wire \<Rightarrow> (js_num \<Rightarrow> 'm \<Rightarrow> 'm) \<Rightarrow> 'm \<Rightarrow> byte list \<Rightarrow> nat \<Rightarrow> ('m \<times> nat) res" where
  "rd_uint64 W upd m buf p = rbind (r_uint64 W buf p) (\<lambda>(n, p').
     rbind (longToNumber (int n)) (\<lambda>x. Inr (upd x m, p')))"

definition rd_message ::
    "wire \<Rightarrow> (byte list \<Rightarrow> nat \<Rightarrow> nat option \<Rightarrow> ('a \<times> nat) res) \<Rightarrow> ('a \<Rightarrow> 'm \<Rightarrow> 'm) \<Rightarrow>
     'm \<Rightarrow> byte list \<Rightarrow> nat \<Rightarrow> ('m \<times> nat) res" where
  "rd_message W dcd upd m buf p = rbind (r_uint32 W buf p) (\<lambda>(l, p').
     rbind (dcd buf p' (Some l)) (\<lambda>(x, p''). Inr (upd x m, p'')))"

section \<open>What a field and a message must satisfy\<close>

text \<open>
  \<open>field_reads W f bs u\<close>: wherever the bytes \<open>bs\<close> stand, the handler reads exactly them and updates
  the message by \<open>u\<close>. \<open>message_reads d bs x\<close>: the decoder \<open>d\<close> reads exactly \<open>bs\<close> and yields \<open>x\<close>.
\<close>

definition field_reads :: "wire \<Rightarrow> 'm handler \<Rightarrow> byte list \<Rightarrow> ('m \<Rightarrow> 'm) \<Rightarrow> bool" where
  "field_reads W f bs u \<longleftrightarrow> bs \<noteq> [] \<and>
     (\<forall>pre post m. \<exists>tag p1. r_uint32 W (pre @ bs @ post) (length pre) = Inr (tag, p1) \<and>
        f tag m (pre @ bs @ post) p1 = Some (Inr (u m, length pre + length bs)))"

definition message_reads :: "(byte list \<Rightarrow> nat \<Rightarrow> nat option \<Rightarrow> ('a \<times> nat) res) \<Rightarrow> byte list \<Rightarrow> 'a \<Rightarrow> bool" where
  "message_reads d bs x \<longleftrightarrow>
     (\<forall>pre post. d (pre @ bs @ post) (length pre) (Some (length bs)) = Inr (x, length pre + length bs))"

text \<open>A decoder or handler that goes forward and never runs out of rounds.\<close>

definition ends_from :: "nat \<Rightarrow> ('a \<times> nat) res \<Rightarrow> bool" where
  "ends_from p r = (case r of Inl e \<Rightarrow> e \<noteq> OutOfFuel | Inr (_, q) \<Rightarrow> p \<le> q)"

definition reader_ends :: "(byte list \<Rightarrow> nat \<Rightarrow> ('a \<times> nat) res) \<Rightarrow> bool" where
  "reader_ends r \<longleftrightarrow> (\<forall>buf p. ends_from p (r buf p))"

definition handler_ends :: "'m handler \<Rightarrow> bool" where
  "handler_ends f \<longleftrightarrow> (\<forall>tag m buf p r. f tag m buf p = Some r \<longrightarrow> ends_from p r)"

lemma ends_from_Inr [simp]: "ends_from p (Inr (x, q)) \<longleftrightarrow> p \<le> q"
  by (simp add: ends_from_def)

lemma ends_from_Inl [simp]: "ends_from p (Inl e) \<longleftrightarrow> e \<noteq> OutOfFuel"
  by (simp add: ends_from_def)

lemma ends_from_mono: "ends_from q r \<Longrightarrow> p \<le> q \<Longrightarrow> ends_from p r"
  by (auto simp: ends_from_def split: sum.splits)

lemma ends_from_bind:
  assumes "ends_from p r" "\<And>x q. p \<le> q \<Longrightarrow> r = Inr (x, q) \<Longrightarrow> ends_from q (g (x, q))"
  shows "ends_from p (rbind r g)"
proof (cases r)
  case (Inr xq)
  then show ?thesis using assms by (cases xq) (auto intro: ends_from_mono)
qed (use assms in simp)

text \<open>
  The behaviour of protobufjs the code relies on. Writing and reading a value are inverse. Reading goes forward; a tag
  or a length takes at least one byte and is refused (a \<open>RangeError\<close>) unless it ends within the buffer.
\<close>

locale proto_wire =
  fixes W :: wire
  assumes uint32_law: "n < 2 ^ 32 \<Longrightarrow>
      r_uint32 W (pre @ w_uint32 W n @ post) (length pre) = Inr (n, length pre + length (w_uint32 W n))"
    and uint64_law: "n < 2 ^ 64 \<Longrightarrow> r_uint64 W (pre @ w_uint64 W (Fin (of_nat n)) @ post) (length pre) =
      Inr (n, length pre + length (w_uint64 W (Fin (of_nat n))))"
    and string_law: "length (w_string W s) < 2 ^ 32 \<Longrightarrow>
      r_string W (pre @ w_string W s @ post) (length pre) = Inr (s, length pre + length (w_string W s))"
    and ldelim_law: "w_ldelim W bs = w_uint32 W (length bs) @ bs"
    and uint32_nonempty: "w_uint32 W n \<noteq> []"
    and uint32_forward: "r_uint32 W buf p = Inr (n, p') \<Longrightarrow> p < p' \<and> p' \<le> length buf"
    and uint64_forward: "r_uint64 W buf p = Inr (n, p') \<Longrightarrow> p \<le> p'"
    and string_forward: "r_string W buf p = Inr (s, p') \<Longrightarrow> p \<le> p'"
    and skip_forward: "r_skipType W t buf p = Inr p' \<Longrightarrow> p \<le> p'"
    and reads_end: "r_uint32 W buf p \<noteq> Inl OutOfFuel" "r_uint64 W buf p \<noteq> Inl OutOfFuel"
      "r_string W buf p \<noteq> Inl OutOfFuel" "r_skipType W t buf p \<noteq> Inl OutOfFuel"
begin

lemma tag_read:
  assumes "t < 2 ^ 32"
  shows "r_uint32 W (pre @ (w_uint32 W t @ body) @ post) (length pre) = Inr (t, length (pre @ w_uint32 W t))"
  using uint32_law [OF assms, of pre "body @ post"] by simp

lemma field_string:
  assumes "t < 2 ^ 32" "length (w_uint32 W t @ w_string W s) < 2 ^ 32"
    and "\<And>m buf p. f t m buf p = Some (rd_string W upd m buf p)"
  shows "field_reads W f (w_uint32 W t @ w_string W s) (upd s)"
  unfolding field_reads_def
proof (intro conjI allI exI)
  fix pre post m
  show "r_uint32 W (pre @ (w_uint32 W t @ w_string W s) @ post) (length pre) = Inr (t, length (pre @ w_uint32 W t))"
    using assms(1) by (rule tag_read)
  have "r_string W ((pre @ w_uint32 W t) @ w_string W s @ post) (length (pre @ w_uint32 W t)) =
      Inr (s, length (pre @ w_uint32 W t) + length (w_string W s))"
    using assms(2) by (intro string_law) simp
  then show "f t m (pre @ (w_uint32 W t @ w_string W s) @ post) (length (pre @ w_uint32 W t)) =
      Some (Inr (upd s m, length pre + length (w_uint32 W t @ w_string W s)))"
    by (simp add: assms(3) rd_string_def)
qed (simp add: uint32_nonempty)

lemma field_uint64:
  assumes "t < 2 ^ 32" "int n \<le> MAX_SAFE_INTEGER"
    and "\<And>m buf p. f t m buf p = Some (rd_uint64 W upd m buf p)"
  shows "field_reads W f (w_uint32 W t @ w_uint64 W (Fin (of_nat n))) (upd (Fin (of_nat n)))"
  unfolding field_reads_def
proof (intro conjI allI exI)
  fix pre post m
  let ?w = "w_uint64 W (Fin (of_nat n))"
  show "r_uint32 W (pre @ (w_uint32 W t @ ?w) @ post) (length pre) = Inr (t, length (pre @ w_uint32 W t))"
    using assms(1) by (rule tag_read)
  have "r_uint64 W ((pre @ w_uint32 W t) @ ?w @ post) (length (pre @ w_uint32 W t)) =
      Inr (n, length (pre @ w_uint32 W t) + length ?w)"
    using assms(2) by (intro uint64_law) (simp add: MAX_SAFE_INTEGER_def)
  then show "f t m (pre @ (w_uint32 W t @ ?w) @ post) (length (pre @ w_uint32 W t)) =
      Some (Inr (upd (Fin (of_nat n)) m, length pre + length (w_uint32 W t @ ?w)))"
    using assms(2) by (simp add: assms(3) rd_uint64_def longToNumber_def MAX_SAFE_INTEGER_def)
qed (simp add: uint32_nonempty)

lemma field_message:
  assumes "t < 2 ^ 32" "length (w_uint32 W t @ w_ldelim W bs) < 2 ^ 32" "message_reads dcd bs x"
    and "\<And>m buf p. f t m buf p = Some (rd_message W dcd upd m buf p)"
  shows "field_reads W f (w_uint32 W t @ w_ldelim W bs) (upd x)"
  unfolding field_reads_def
proof (intro conjI allI exI)
  fix pre post m
  let ?l = "w_uint32 W (length bs)"
  show "r_uint32 W (pre @ (w_uint32 W t @ w_ldelim W bs) @ post) (length pre) = Inr (t, length (pre @ w_uint32 W t))"
    using assms(1) by (rule tag_read)
  have "length bs < 2 ^ 32" using assms(2) by (simp add: ldelim_law)
  then have "r_uint32 W ((pre @ w_uint32 W t) @ ?l @ (bs @ post)) (length (pre @ w_uint32 W t)) =
      Inr (length bs, length (pre @ w_uint32 W t) + length ?l)"
    by (rule uint32_law)
  moreover have "dcd ((pre @ w_uint32 W t @ ?l) @ bs @ post) (length (pre @ w_uint32 W t @ ?l)) (Some (length bs)) =
      Inr (x, length (pre @ w_uint32 W t @ ?l) + length bs)"
    using assms(3) unfolding message_reads_def by blast
  ultimately show "f t m (pre @ (w_uint32 W t @ w_ldelim W bs) @ post) (length (pre @ w_uint32 W t)) =
      Some (Inr (upd x m, length pre + length (w_uint32 W t @ w_ldelim W bs)))"
    by (simp add: assms(4) rd_message_def ldelim_law add.assoc)
qed (simp add: uint32_nonempty)

lemma decode_fields:
  assumes "list_all (\<lambda>(bs, u). field_reads W f bs u) fs" "length fs \<le> n"
  shows "decode_loop W f n (pre @ concat (map fst fs) @ post) (length pre)
      (length pre + length (concat (map fst fs))) m =
    Inr (fold (\<lambda>(_, u) m. u m) fs m, length pre + length (concat (map fst fs)))"
  using assms
proof (induction fs arbitrary: n pre m)
  case Nil
  then show ?case by (cases n) simp_all
next
  case (Cons b fs)
  obtain bs u where b: "b = (bs, u)" by (cases b)
  obtain n' where n: "n = Suc n'" using Cons.prems(2) by (cases n) auto
  let ?rest = "concat (map fst fs)"
  from Cons.prems(1) b have fr: "field_reads W f bs u" and all: "list_all (\<lambda>(bs, u). field_reads W f bs u) fs"
    by auto
  then obtain tag p1 where t: "r_uint32 W (pre @ bs @ (?rest @ post)) (length pre) = Inr (tag, p1)"
    "f tag m (pre @ bs @ (?rest @ post)) p1 = Some (Inr (u m, length pre + length bs))"
    unfolding field_reads_def by meson
  have ne: "bs \<noteq> []" using fr by (simp add: field_reads_def)
  have "decode_loop W f n' ((pre @ bs) @ ?rest @ post) (length (pre @ bs))
      (length (pre @ bs) + length ?rest) (u m) =
    Inr (fold (\<lambda>(_, u) m. u m) fs (u m), length (pre @ bs) + length ?rest)"
    using Cons.prems(2) n all by (intro Cons.IH) simp_all
  then show ?case using t ne by (simp add: n b add.assoc)
qed

lemma fields_nonempty: "list_all (\<lambda>(bs, u). field_reads W f bs u) fs \<Longrightarrow> length fs \<le> length (concat (map fst fs))"
proof (induction fs)
  case (Cons b fs)
  then have "fst b \<noteq> []" by (cases b) (simp add: field_reads_def)
  then have "1 \<le> length (fst b)" by (simp add: Suc_leI)
  with Cons show ?case by simp
qed simp

lemma message_of_fields:
  assumes "list_all (\<lambda>(bs, u). field_reads W f bs u) fs" "fold (\<lambda>(_, u) m. u m) fs base = x"
  shows "message_reads (run_decode W f base) (concat (map fst fs)) x"
  unfolding message_reads_def run_decode_def
proof (intro allI)
  fix pre post :: "byte list"
  have "length fs \<le> Suc (length (pre @ concat (map fst fs) @ post))"
    using fields_nonempty [OF assms(1)] by simp
  from decode_fields [OF assms(1) this] assms(2)
  show "decode_loop W f (Suc (length (pre @ concat (map fst fs) @ post))) (pre @ concat (map fst fs) @ post)
      (length pre) (case Some (length (concat (map fst fs))) of None \<Rightarrow> length (pre @ concat (map fst fs) @ post)
       | Some l \<Rightarrow> length pre + l) base = Inr (x, length pre + length (concat (map fst fs)))"
    by simp
qed

subsection \<open>Every decoder ends\<close>

lemma reads_forward:
  "ends_from p (r_uint32 W buf p)" "ends_from p (r_uint64 W buf p)" "ends_from p (r_string W buf p)"
  using reads_end(1-3) [of buf p] uint32_forward [of buf p] uint64_forward [of buf p] string_forward [of buf p]
  by (auto simp: ends_from_def less_imp_le split: sum.splits)

lemma ends_string: "ends_from p (rd_string W upd m buf p)"
  unfolding rd_string_def by (intro ends_from_bind reads_forward) auto

lemma ends_uint64: "ends_from p (rd_uint64 W upd m buf p)"
  unfolding rd_uint64_def by (intro ends_from_bind reads_forward) (auto simp: longToNumber_def)

lemma ends_message:
  assumes "\<And>l. reader_ends (\<lambda>buf p. dcd buf p (Some l))"
  shows "ends_from p (rd_message W dcd upd m buf p)"
proof -
  have d: "ends_from q (dcd buf q (Some l))" for q l using assms unfolding reader_ends_def by blast
  show ?thesis unfolding rd_message_def
    by (rule ends_from_bind [OF reads_forward(1)]) (simp add: ends_from_bind [OF d])
qed

text \<open>A round of the loop starts with a tag, before the end of the buffer; the value behind it may run past the end,
  but then there is no next tag.\<close>

lemma decode_loop_ends:
  assumes "handler_ends f"
  shows "0 < n \<Longrightarrow> length buf < n + p \<Longrightarrow> ends_from p (decode_loop W f n buf p e m)"
proof (induction n arbitrary: p m)
  case (Suc n)
  show ?case
  proof (cases "p < e")
    case True
    show ?thesis
    proof (cases "r_uint32 W buf p")
      case (Inl err)
      then show ?thesis using True reads_end(1) by auto
    next
      case (Inr tp)
      obtain tag q where tp: "tp = (tag, q)" by (cases tp)
      with Inr have q: "p < q" "q \<le> length buf" using uint32_forward by auto
      have IH: "ends_from p2 (decode_loop W f n buf p2 e m')" if "q \<le> p2" for p2 m'
        using Suc.IH [of p2 m'] that q Suc.prems by simp
      have fin: "ends_from q (case f tag m buf q of
            Some r \<Rightarrow> rbind r (\<lambda>(m', p2). decode_loop W f n buf p2 e m')
          | None \<Rightarrow> if tag mod 8 = 4 \<or> tag = 0 then Inr (m, q)
              else rbind (r_skipType W (tag mod 8) buf q) (\<lambda>p2. decode_loop W f n buf p2 e m))"
      proof (cases "f tag m buf q")
        case None
        have "ends_from q (rbind (r_skipType W (tag mod 8) buf q) (\<lambda>p2. decode_loop W f n buf p2 e m))"
        proof (cases "r_skipType W (tag mod 8) buf q")
          case (Inr p2)
          then have "q \<le> p2" using skip_forward by auto
          then show ?thesis using Inr IH [of p2 m] by (auto intro: ends_from_mono)
        qed (use reads_end(4) in auto)
        then show ?thesis using None by simp
      next
        case (Some r)
        then have "ends_from q r" using assms unfolding handler_ends_def by blast
        then show ?thesis using Some IH by (auto intro!: ends_from_bind)
      qed
      show ?thesis unfolding decode_loop.simps(2) if_P [OF True] Inr tp rbind_Inr prod.case
        by (rule ends_from_mono [OF fin]) (use q(1) in simp)
    qed
  qed simp
qed simp

lemma run_decode_ends: "handler_ends f \<Longrightarrow> reader_ends (\<lambda>buf p. run_decode W f base buf p len)"
  unfolding reader_ends_def run_decode_def by (intro allI decode_loop_ends) simp_all

end

section \<open>The protobuf encoding\<close>

fun varint :: "nat \<Rightarrow> byte list" where
  "varint n = (if n < 128 then [of_nat n] else of_nat (128 + n mod 128) # varint (n div 128))"

declare varint.simps [simp del]

fun read_varint :: "byte list \<Rightarrow> (nat \<times> nat) option" where
  "read_varint [] = None"
| "read_varint (b # bs) =
     (if unat b < 128 then Some (unat b, 1)
      else (case read_varint bs of None \<Rightarrow> None
            | Some (v, k) \<Rightarrow> Some (unat b - 128 + 128 * v, Suc k)))"

definition utf8_char :: "char \<Rightarrow> byte list" where
  "utf8_char c = (let n = of_char c :: nat in
     if n < 128 then [of_nat n] else [of_nat (192 + n div 64), of_nat (128 + n mod 64)])"

definition utf8 :: "string \<Rightarrow> byte list" where
  "utf8 s = concat (map utf8_char s)"

fun read_utf8 :: "byte list \<Rightarrow> string option" where
  "read_utf8 [] = Some []"
| "read_utf8 (b # bs) =
     (if unat b < 128 then map_option ((#) (char_of (unat b))) (read_utf8 bs)
      else (case bs of [] \<Rightarrow> None
            | b2 # bs' \<Rightarrow> map_option ((#) (char_of ((unat b - 192) * 64 + (unat b2 - 128)))) (read_utf8 bs')))"

definition read_at :: "byte list \<Rightarrow> nat \<Rightarrow> (nat \<times> nat) res" where
  "read_at buf p = (case read_varint (drop p buf) of None \<Rightarrow> Inl RangeError | Some (v, k) \<Rightarrow> Inr (v, p + k))"

definition read_string_at :: "byte list \<Rightarrow> nat \<Rightarrow> (string \<times> nat) res" where
  "read_string_at buf p = rbind (read_at buf p) (\<lambda>(l, q).
     if length buf < q + l then Inl RangeError
     else case read_utf8 (take l (drop q buf)) of None \<Rightarrow> Inl RangeError | Some s \<Rightarrow> Inr (s, q + l))"

definition skip_at :: "nat \<Rightarrow> byte list \<Rightarrow> nat \<Rightarrow> nat res" where
  "skip_at t buf p =
     (let fwd = (\<lambda>q. if length buf < q then Inl RangeError else Inr q) in
      if t = 0 then rbind (read_at buf p) (\<lambda>(_, q). Inr q)
      else if t = 1 then fwd (p + 8)
      else if t = 2 then rbind (read_at buf p) (\<lambda>(l, q). fwd (q + l))
      else if t = 5 then fwd (p + 4)
      else Inl (Thrown ''invalid wire type''))"

definition pb_wire :: wire where
  "pb_wire = \<lparr>
     w_uint32 = varint,
     w_uint64 = (\<lambda>n. case n of Fin x \<Rightarrow> varint (nat \<lfloor>x\<rfloor>) | _ \<Rightarrow> varint 0),
     w_string = (\<lambda>s. varint (length (utf8 s)) @ utf8 s),
     w_ldelim = (\<lambda>bs. varint (length bs) @ bs),
     r_uint32 = read_at,
     r_uint64 = read_at,
     r_string = read_string_at,
     r_skipType = skip_at\<rparr>"

lemma varint_not_Nil [simp]: "varint n \<noteq> []"
  by (subst varint.simps) simp

lemma read_varint_append: "read_varint (varint n @ post) = Some (n, length (varint n))"
proof (induction n rule: varint.induct)
  case (1 n)
  show ?case
  proof (cases "n < 128")
    case True
    then show ?thesis by (subst (1 2) varint.simps) (simp add: unat_of_nat)
  next
    case False
    have "128 + n mod 128 < (256::nat)" using mod_less_divisor [of 128 n] by linarith
    then have "unat (of_nat (128 + n mod 128) :: byte) = 128 + n mod 128"
      by (simp only: unat_of_nat) simp
    with False 1 show ?thesis by (subst (1 2) varint.simps) simp
  qed
qed

lemma read_varint_len: "read_varint bs = Some (v, k) \<Longrightarrow> 0 < k \<and> k \<le> length bs"
  by (induction bs arbitrary: v k) (fastforce split: if_splits option.splits)+

lemma read_utf8_append: "read_utf8 (utf8_char c @ bs) = map_option ((#) c) (read_utf8 bs)"
proof -
  have n: "(of_char c :: nat) < 256" by (rule nat_of_char_less_256)
  show ?thesis
  proof (cases "(of_char c :: nat) < 128")
    case True
    then show ?thesis by (simp add: utf8_char_def unat_of_nat)
  next
    case False
    let ?n = "of_char c :: nat"
    have d: "?n div 64 < 4" using n by (simp add: less_mult_imp_div_less)
    have a: "unat (of_nat (192 + ?n div 64) :: byte) = 192 + ?n div 64"
      "unat (of_nat (128 + ?n mod 64) :: byte) = 128 + ?n mod 64"
      using d mod_less_divisor [of 64 ?n] by (simp_all only: unat_of_nat) simp_all
    have "?n div 64 * 64 + ?n mod 64 = ?n" by simp
    with False a show ?thesis by (simp add: utf8_char_def Let_def)
  qed
qed

lemma read_utf8_utf8: "read_utf8 (utf8 s) = Some s"
  by (induction s) (simp_all add: utf8_def read_utf8_append)

lemma read_at_varint: "read_at (pre @ varint n @ post) (length pre) = Inr (n, length pre + length (varint n))"
  by (simp add: read_at_def read_varint_append)

lemma read_at_forward: "read_at buf p = Inr (n, p') \<Longrightarrow> p < p' \<and> p' \<le> length buf"
  using read_varint_len [of "drop p buf"] by (fastforce simp: read_at_def split: option.splits)

lemma read_at_ends: "read_at buf p \<noteq> Inl OutOfFuel"
  by (simp add: read_at_def split: option.splits)

interpretation pb: proto_wire pb_wire
proof (unfold_locales, goal_cases)
  case (3 s pre post)
  have "read_at (pre @ varint (length (utf8 s)) @ (utf8 s @ post)) (length pre) =
      Inr (length (utf8 s), length pre + length (varint (length (utf8 s))))" by (rule read_at_varint)
  then show ?case by (simp add: pb_wire_def read_string_at_def read_utf8_utf8)
next
  case (6 buf p n p') then show ?case by (simp add: pb_wire_def read_at_forward)
next
  case (7 buf p n p') then show ?case by (auto simp: pb_wire_def dest: read_at_forward)
next
  case (8 buf p s p') then show ?case
    by (fastforce simp: pb_wire_def read_string_at_def rbind_eq_Inr_iff dest: read_at_forward split: if_splits option.splits)
next
  case (9 t buf p p') then show ?case
    by (fastforce simp: pb_wire_def skip_at_def Let_def rbind_eq_Inr_iff dest: read_at_forward split: if_splits)
next
  case (12 buf p) then show ?case
    by (auto simp: pb_wire_def read_string_at_def rbind_eq_Inl_iff read_at_ends split: if_splits option.splits)
next
  case (13 t buf p) then show ?case
    by (auto simp: pb_wire_def skip_at_def Let_def rbind_eq_Inl_iff read_at_ends split: if_splits)
qed (simp_all add: pb_wire_def read_at_varint read_at_ends)

end
