(* ===== verification/Json.thy ===== *)
theory Json
  imports JsNumber
begin

text \<open>
  JavaScript values as the SDK's untyped code handles them, the conversions \<open>String(v)\<close> and
  \<open>Number(v)\<close>, and \<open>JSON.stringify\<close>. An object is the list of its properties in insertion order.
\<close>

datatype json =
    JUndef
  | JNull
  | JBool bool
  | JNum js_num
  | JStr string
  | JArr "json list"
  | JObj "(string \<times> json) list"

text \<open>\<open>v.k\<close>: reading a property of \<open>undefined\<close> or \<open>null\<close> raises, an absent one is \<open>undefined\<close>.\<close>

fun json_get :: "json \<Rightarrow> string \<Rightarrow> json res" where
  "json_get JUndef k = Inl TypeError"
| "json_get JNull k = Inl TypeError"
| "json_get (JObj kvs) k = Inr (case map_of kvs k of None \<Rightarrow> JUndef | Some v \<Rightarrow> v)"
| "json_get v k = Inr JUndef"

definition isSet :: "json \<Rightarrow> bool" where
  "isSet v = (v \<noteq> JNull \<and> v \<noteq> JUndef)"

fun js_String :: "json \<Rightarrow> string" where
  "js_String JUndef = ''undefined''"
| "js_String JNull = ''null''"
| "js_String (JBool b) = (if b then ''true'' else ''false'')"
| "js_String (JNum n) = num_to_string n"
| "js_String (JStr s) = s"
| "js_String (JArr vs) =
     js_join (CHR '','') (map (\<lambda>v. if isSet v then js_String v else []) vs)"
| "js_String (JObj kvs) = ''[object Object]''"

fun js_Number :: "json \<Rightarrow> js_num" where
  "js_Number JUndef = NaN"
| "js_Number JNull = Fin 0"
| "js_Number (JBool b) = Fin (if b then 1 else 0)"
| "js_Number (JNum n) = n"
| "js_Number (JStr s) = string_to_num s"
| "js_Number v = string_to_num (js_String v)"

section \<open>JSON.stringify\<close>

definition hex_digit :: "nat \<Rightarrow> char" where
  "hex_digit d = (if d < 10 then char_of (48 + d) else char_of (87 + d))"

definition escape_char :: "char \<Rightarrow> string" where
  "escape_char c =
     (let n = of_char c :: nat in
      if n = 34 then [char_of (92::nat), CHR 0x22]
      else if n = 92 then [char_of (92::nat), char_of (92::nat)]
      else if n = 8 then [char_of (92::nat), CHR ''b'']
      else if n = 9 then [char_of (92::nat), CHR ''t'']
      else if n = 10 then [char_of (92::nat), CHR ''n'']
      else if n = 12 then [char_of (92::nat), CHR ''f'']
      else if n = 13 then [char_of (92::nat), CHR ''r'']
      else if n < 32 then [char_of (92::nat), CHR ''u'', CHR ''0'', CHR ''0'', hex_digit (n div 16), hex_digit (n mod 16)]
      else [c])"

definition quote :: "string \<Rightarrow> string" where
  "quote s = CHR 0x22 # concat (map escape_char s) @ [CHR 0x22]"

fun stringify :: "json \<Rightarrow> string option" where
  "stringify JUndef = None"
| "stringify JNull = Some ''null''"
| "stringify (JBool b) = Some (if b then ''true'' else ''false'')"
| "stringify (JNum (Fin x)) = Some (num_to_string (Fin x))"
| "stringify (JNum n) = Some ''null''"
| "stringify (JStr s) = Some (quote s)"
| "stringify (JArr vs) =
     Some (CHR ''['' # js_join (CHR '','') (map (\<lambda>v. case stringify v of None \<Rightarrow> ''null'' | Some t \<Rightarrow> t) vs) @ '']'')"
| "stringify (JObj kvs) =
     Some (CHR ''{'' # js_join (CHR '','')
       (concat (map (\<lambda>(k, v). case stringify v of None \<Rightarrow> [] | Some t \<Rightarrow> [quote k @ CHR '':'' # t]) kvs)) @ ''}'')"

definition JSON_stringify :: "json \<Rightarrow> string" where
  "JSON_stringify v = (case stringify v of None \<Rightarrow> ''undefined'' | Some t \<Rightarrow> t)"

section \<open>Objects built from defined properties\<close>

text \<open>\<open>if (c) obj.k = v\<close> on an object under construction.\<close>

definition put :: "bool \<Rightarrow> string \<Rightarrow> json \<Rightarrow> (string \<times> json) list" where
  "put c k v = (if c then [(k, v)] else [])"

lemma map_of_put [simp]: "map_of (put c k v) j = (if c \<and> j = k then Some v else None)"
  by (simp add: put_def)

lemma json_get_obj [simp]: "json_get (JObj kvs) k = Inr (case map_of kvs k of None \<Rightarrow> JUndef | Some v \<Rightarrow> v)"
  by simp

lemma isSet_simps [simp]:
  "isSet (JStr s)" "isSet (JNum n)" "isSet (JObj kvs)" "isSet (JArr vs)" "\<not> isSet JUndef" "\<not> isSet JNull"
  by (simp_all add: isSet_def)

end
