(* ===== verification/MemoCodec.thy ===== *)
theory MemoCodec
  imports Wire Json
begin

text \<open>
  The memo messages of \<open>packages/universal-swap/src/proto/universal_swap_memo.ts\<close>: for each message
  type its record, its base value, \<open>encode\<close>, \<open>decode\<close> (the field handler inside the common loop),
  \<open>fromJSON\<close>, \<open>toJSON\<close>, \<open>fromPartial\<close> and \<open>create\<close>. A field that may be \<open>undefined\<close> is an
  \<open>option\<close>; \<open>encode\<close> yields the bytes appended to the writer. Messages come in dependency order.
\<close>

section \<open>Messages\<close>

record Memo_SwapOperation =
  so_poolId :: "string"
  so_denomIn :: "string"
  so_denomOut :: "string"

definition createBaseMemo_SwapOperation :: "Memo_SwapOperation" where
  "createBaseMemo_SwapOperation = \<lparr>so_poolId = [], so_denomIn = [], so_denomOut = []\<rparr>"

record Memo_SwapExactAssetIn =
  sx_operations :: "Memo_SwapOperation list"

definition createBaseMemo_SwapExactAssetIn :: "Memo_SwapExactAssetIn" where
  "createBaseMemo_SwapExactAssetIn = \<lparr>sx_operations = []\<rparr>"

record Memo_Route =
  rt_offerAmount :: "string"
  rt_operations :: "Memo_SwapOperation list"

definition createBaseMemo_Route :: "Memo_Route" where
  "createBaseMemo_Route = \<lparr>rt_offerAmount = [], rt_operations = []\<rparr>"

record Memo_SmartSwapExactAssetIn =
  ss_routes :: "Memo_Route list"

definition createBaseMemo_SmartSwapExactAssetIn :: "Memo_SmartSwapExactAssetIn" where
  "createBaseMemo_SmartSwapExactAssetIn = \<lparr>ss_routes = []\<rparr>"

record Memo_UserSwap =
  us_swapVenueName :: "string"
  us_swapExactAssetIn :: "Memo_SwapExactAssetIn option"
  us_smartSwapExactAssetIn :: "Memo_SmartSwapExactAssetIn option"

definition createBaseMemo_UserSwap :: "Memo_UserSwap" where
  "createBaseMemo_UserSwap = \<lparr>us_swapVenueName = [], us_swapExactAssetIn = None, us_smartSwapExactAssetIn = None\<rparr>"

record Memo_IbcTransfer =
  it_sourceChannel :: "string"
  it_sourcePort :: "string"
  it_receiver :: "string"
  it_memo :: "string"
  it_recoverAddress :: "string"

definition createBaseMemo_IbcTransfer :: "Memo_IbcTransfer" where
  "createBaseMemo_IbcTransfer = \<lparr>it_sourceChannel = [], it_sourcePort = [], it_receiver = [], it_memo = [], it_recoverAddress = []\<rparr>"

record Memo_IbcWasmTransfer =
  iw_localChannelId :: "string"
  iw_remoteAddress :: "string"
  iw_remoteDenom :: "string"
  iw_timeout :: "js_num option"
  iw_memo :: "string option"

definition createBaseMemo_IbcWasmTransfer :: "Memo_IbcWasmTransfer" where
  "createBaseMemo_IbcWasmTransfer = \<lparr>iw_localChannelId = [], iw_remoteAddress = [], iw_remoteDenom = [], iw_timeout = None, iw_memo = None\<rparr>"

record Memo_ContractCall =
  cc_contractAddress :: "string"
  cc_msg :: "string"

definition createBaseMemo_ContractCall :: "Memo_ContractCall" where
  "createBaseMemo_ContractCall = \<lparr>cc_contractAddress = [], cc_msg = []\<rparr>"

record Memo_Transfer =
  tr_toAddress :: "string"

definition createBaseMemo_Transfer :: "Memo_Transfer" where
  "createBaseMemo_Transfer = \<lparr>tr_toAddress = []\<rparr>"

record Memo_PostAction =
  pa_ibcTransferMsg :: "Memo_IbcTransfer option"
  pa_ibcWasmTransferMsg :: "Memo_IbcWasmTransfer option"
  pa_contractCall :: "Memo_ContractCall option"
  pa_transferMsg :: "Memo_Transfer option"

definition createBaseMemo_PostAction :: "Memo_PostAction" where
  "createBaseMemo_PostAction = \<lparr>pa_ibcTransferMsg = None, pa_ibcWasmTransferMsg = None, pa_contractCall = None, pa_transferMsg = None\<rparr>"

record Memo =
  m_userSwap :: "Memo_UserSwap option"
  m_minimumReceive :: "string"
  m_timeoutTimestamp :: "js_num"
  m_postSwapAction :: "Memo_PostAction option"
  m_recoveryAddr :: "string"

definition createBaseMemo :: "Memo" where
  "createBaseMemo = \<lparr>m_userSwap = None, m_minimumReceive = [], m_timeoutTimestamp = Fin 0, m_postSwapAction = None, m_recoveryAddr = []\<rparr>"

section \<open>Binary codec\<close>

definition Memo_SwapOperation_encode :: "wire \<Rightarrow> Memo_SwapOperation \<Rightarrow> byte list" where
  "Memo_SwapOperation_encode W m =
     (if so_poolId m \<noteq> [] then w_uint32 W 10 @ w_string W (so_poolId m) else []) @
     (if so_denomIn m \<noteq> [] then w_uint32 W 18 @ w_string W (so_denomIn m) else []) @
     (if so_denomOut m \<noteq> [] then w_uint32 W 26 @ w_string W (so_denomOut m) else [])"

definition Memo_SwapOperation_field :: "wire \<Rightarrow> Memo_SwapOperation handler" where
  "Memo_SwapOperation_field W tag m buf p =
     (if tag = 10 then Some (rd_string W (\<lambda>s m. m\<lparr>so_poolId := s\<rparr>) m buf p)
      else if tag = 18 then Some (rd_string W (\<lambda>s m. m\<lparr>so_denomIn := s\<rparr>) m buf p)
      else if tag = 26 then Some (rd_string W (\<lambda>s m. m\<lparr>so_denomOut := s\<rparr>) m buf p)
      else None)"

definition Memo_SwapOperation_decode :: "wire \<Rightarrow> byte list \<Rightarrow> nat \<Rightarrow> nat option \<Rightarrow> (Memo_SwapOperation \<times> nat) res" where
  "Memo_SwapOperation_decode W = run_decode W (Memo_SwapOperation_field W) createBaseMemo_SwapOperation"

definition Memo_SwapExactAssetIn_encode :: "wire \<Rightarrow> Memo_SwapExactAssetIn \<Rightarrow> byte list" where
  "Memo_SwapExactAssetIn_encode W m =
     concat (map (\<lambda>v. w_uint32 W 10 @ w_ldelim W (Memo_SwapOperation_encode W v)) (sx_operations m))"

definition Memo_SwapExactAssetIn_field :: "wire \<Rightarrow> Memo_SwapExactAssetIn handler" where
  "Memo_SwapExactAssetIn_field W tag m buf p =
     (if tag = 10 then Some (rd_message W (Memo_SwapOperation_decode W) (\<lambda>x m. m\<lparr>sx_operations := sx_operations m @ [x]\<rparr>) m buf p)
      else None)"

definition Memo_SwapExactAssetIn_decode :: "wire \<Rightarrow> byte list \<Rightarrow> nat \<Rightarrow> nat option \<Rightarrow> (Memo_SwapExactAssetIn \<times> nat) res" where
  "Memo_SwapExactAssetIn_decode W = run_decode W (Memo_SwapExactAssetIn_field W) createBaseMemo_SwapExactAssetIn"

definition Memo_Route_encode :: "wire \<Rightarrow> Memo_Route \<Rightarrow> byte list" where
  "Memo_Route_encode W m =
     (if rt_offerAmount m \<noteq> [] then w_uint32 W 10 @ w_string W (rt_offerAmount m) else []) @
     concat (map (\<lambda>v. w_uint32 W 18 @ w_ldelim W (Memo_SwapOperation_encode W v)) (rt_operations m))"

definition Memo_Route_field :: "wire \<Rightarrow> Memo_Route handler" where
  "Memo_Route_field W tag m buf p =
     (if tag = 10 then Some (rd_string W (\<lambda>s m. m\<lparr>rt_offerAmount := s\<rparr>) m buf p)
      else if tag = 18 then Some (rd_message W (Memo_SwapOperation_decode W) (\<lambda>x m. m\<lparr>rt_operations := rt_operations m @ [x]\<rparr>) m buf p)
      else None)"

definition Memo_Route_decode :: "wire \<Rightarrow> byte list \<Rightarrow> nat \<Rightarrow> nat option \<Rightarrow> (Memo_Route \<times> nat) res" where
  "Memo_Route_decode W = run_decode W (Memo_Route_field W) createBaseMemo_Route"

definition Memo_SmartSwapExactAssetIn_encode :: "wire \<Rightarrow> Memo_SmartSwapExactAssetIn \<Rightarrow> byte list" where
  "Memo_SmartSwapExactAssetIn_encode W m =
     concat (map (\<lambda>v. w_uint32 W 10 @ w_ldelim W (Memo_Route_encode W v)) (ss_routes m))"

definition Memo_SmartSwapExactAssetIn_field :: "wire \<Rightarrow> Memo_SmartSwapExactAssetIn handler" where
  "Memo_SmartSwapExactAssetIn_field W tag m buf p =
     (if tag = 10 then Some (rd_message W (Memo_Route_decode W) (\<lambda>x m. m\<lparr>ss_routes := ss_routes m @ [x]\<rparr>) m buf p)
      else None)"

definition Memo_SmartSwapExactAssetIn_decode :: "wire \<Rightarrow> byte list \<Rightarrow> nat \<Rightarrow> nat option \<Rightarrow> (Memo_SmartSwapExactAssetIn \<times> nat) res" where
  "Memo_SmartSwapExactAssetIn_decode W = run_decode W (Memo_SmartSwapExactAssetIn_field W) createBaseMemo_SmartSwapExactAssetIn"

definition Memo_UserSwap_encode :: "wire \<Rightarrow> Memo_UserSwap \<Rightarrow> byte list" where
  "Memo_UserSwap_encode W m =
     (if us_swapVenueName m \<noteq> [] then w_uint32 W 10 @ w_string W (us_swapVenueName m) else []) @
     (case us_swapExactAssetIn m of None \<Rightarrow> [] | Some v \<Rightarrow> w_uint32 W 18 @ w_ldelim W (Memo_SwapExactAssetIn_encode W v)) @
     (case us_smartSwapExactAssetIn m of None \<Rightarrow> [] | Some v \<Rightarrow> w_uint32 W 26 @ w_ldelim W (Memo_SmartSwapExactAssetIn_encode W v))"

definition Memo_UserSwap_field :: "wire \<Rightarrow> Memo_UserSwap handler" where
  "Memo_UserSwap_field W tag m buf p =
     (if tag = 10 then Some (rd_string W (\<lambda>s m. m\<lparr>us_swapVenueName := s\<rparr>) m buf p)
      else if tag = 18 then Some (rd_message W (Memo_SwapExactAssetIn_decode W) (\<lambda>x m. m\<lparr>us_swapExactAssetIn := Some x\<rparr>) m buf p)
      else if tag = 26 then Some (rd_message W (Memo_SmartSwapExactAssetIn_decode W) (\<lambda>x m. m\<lparr>us_smartSwapExactAssetIn := Some x\<rparr>) m buf p)
      else None)"

definition Memo_UserSwap_decode :: "wire \<Rightarrow> byte list \<Rightarrow> nat \<Rightarrow> nat option \<Rightarrow> (Memo_UserSwap \<times> nat) res" where
  "Memo_UserSwap_decode W = run_decode W (Memo_UserSwap_field W) createBaseMemo_UserSwap"

definition Memo_IbcTransfer_encode :: "wire \<Rightarrow> Memo_IbcTransfer \<Rightarrow> byte list" where
  "Memo_IbcTransfer_encode W m =
     (if it_sourceChannel m \<noteq> [] then w_uint32 W 10 @ w_string W (it_sourceChannel m) else []) @
     (if it_sourcePort m \<noteq> [] then w_uint32 W 18 @ w_string W (it_sourcePort m) else []) @
     (if it_receiver m \<noteq> [] then w_uint32 W 26 @ w_string W (it_receiver m) else []) @
     (if it_memo m \<noteq> [] then w_uint32 W 34 @ w_string W (it_memo m) else []) @
     (if it_recoverAddress m \<noteq> [] then w_uint32 W 42 @ w_string W (it_recoverAddress m) else [])"

definition Memo_IbcTransfer_field :: "wire \<Rightarrow> Memo_IbcTransfer handler" where
  "Memo_IbcTransfer_field W tag m buf p =
     (if tag = 10 then Some (rd_string W (\<lambda>s m. m\<lparr>it_sourceChannel := s\<rparr>) m buf p)
      else if tag = 18 then Some (rd_string W (\<lambda>s m. m\<lparr>it_sourcePort := s\<rparr>) m buf p)
      else if tag = 26 then Some (rd_string W (\<lambda>s m. m\<lparr>it_receiver := s\<rparr>) m buf p)
      else if tag = 34 then Some (rd_string W (\<lambda>s m. m\<lparr>it_memo := s\<rparr>) m buf p)
      else if tag = 42 then Some (rd_string W (\<lambda>s m. m\<lparr>it_recoverAddress := s\<rparr>) m buf p)
      else None)"

definition Memo_IbcTransfer_decode :: "wire \<Rightarrow> byte list \<Rightarrow> nat \<Rightarrow> nat option \<Rightarrow> (Memo_IbcTransfer \<times> nat) res" where
  "Memo_IbcTransfer_decode W = run_decode W (Memo_IbcTransfer_field W) createBaseMemo_IbcTransfer"

definition Memo_IbcWasmTransfer_encode :: "wire \<Rightarrow> Memo_IbcWasmTransfer \<Rightarrow> byte list" where
  "Memo_IbcWasmTransfer_encode W m =
     (if iw_localChannelId m \<noteq> [] then w_uint32 W 10 @ w_string W (iw_localChannelId m) else []) @
     (if iw_remoteAddress m \<noteq> [] then w_uint32 W 18 @ w_string W (iw_remoteAddress m) else []) @
     (if iw_remoteDenom m \<noteq> [] then w_uint32 W 26 @ w_string W (iw_remoteDenom m) else []) @
     (case iw_timeout m of None \<Rightarrow> [] | Some v \<Rightarrow> w_uint32 W 32 @ w_uint64 W v) @
     (case iw_memo m of None \<Rightarrow> [] | Some v \<Rightarrow> w_uint32 W 42 @ w_string W v)"

definition Memo_IbcWasmTransfer_field :: "wire \<Rightarrow> Memo_IbcWasmTransfer handler" where
  "Memo_IbcWasmTransfer_field W tag m buf p =
     (if tag = 10 then Some (rd_string W (\<lambda>s m. m\<lparr>iw_localChannelId := s\<rparr>) m buf p)
      else if tag = 18 then Some (rd_string W (\<lambda>s m. m\<lparr>iw_remoteAddress := s\<rparr>) m buf p)
      else if tag = 26 then Some (rd_string W (\<lambda>s m. m\<lparr>iw_remoteDenom := s\<rparr>) m buf p)
      else if tag = 32 then Some (rd_uint64 W (\<lambda>n m. m\<lparr>iw_timeout := Some n\<rparr>) m buf p)
      else if tag = 42 then Some (rd_string W (\<lambda>s m. m\<lparr>iw_memo := Some s\<rparr>) m buf p)
      else None)"

definition Memo_IbcWasmTransfer_decode :: "wire \<Rightarrow> byte list \<Rightarrow> nat \<Rightarrow> nat option \<Rightarrow> (Memo_IbcWasmTransfer \<times> nat) res" where
  "Memo_IbcWasmTransfer_decode W = run_decode W (Memo_IbcWasmTransfer_field W) createBaseMemo_IbcWasmTransfer"

definition Memo_ContractCall_encode :: "wire \<Rightarrow> Memo_ContractCall \<Rightarrow> byte list" where
  "Memo_ContractCall_encode W m =
     (if cc_contractAddress m \<noteq> [] then w_uint32 W 10 @ w_string W (cc_contractAddress m) else []) @
     (if cc_msg m \<noteq> [] then w_uint32 W 18 @ w_string W (cc_msg m) else [])"

definition Memo_ContractCall_field :: "wire \<Rightarrow> Memo_ContractCall handler" where
  "Memo_ContractCall_field W tag m buf p =
     (if tag = 10 then Some (rd_string W (\<lambda>s m. m\<lparr>cc_contractAddress := s\<rparr>) m buf p)
      else if tag = 18 then Some (rd_string W (\<lambda>s m. m\<lparr>cc_msg := s\<rparr>) m buf p)
      else None)"

definition Memo_ContractCall_decode :: "wire \<Rightarrow> byte list \<Rightarrow> nat \<Rightarrow> nat option \<Rightarrow> (Memo_ContractCall \<times> nat) res" where
  "Memo_ContractCall_decode W = run_decode W (Memo_ContractCall_field W) createBaseMemo_ContractCall"

definition Memo_Transfer_encode :: "wire \<Rightarrow> Memo_Transfer \<Rightarrow> byte list" where
  "Memo_Transfer_encode W m =
     (if tr_toAddress m \<noteq> [] then w_uint32 W 10 @ w_string W (tr_toAddress m) else [])"

definition Memo_Transfer_field :: "wire \<Rightarrow> Memo_Transfer handler" where
  "Memo_Transfer_field W tag m buf p =
     (if tag = 10 then Some (rd_string W (\<lambda>s m. m\<lparr>tr_toAddress := s\<rparr>) m buf p)
      else None)"

definition Memo_Transfer_decode :: "wire \<Rightarrow> byte list \<Rightarrow> nat \<Rightarrow> nat option \<Rightarrow> (Memo_Transfer \<times> nat) res" where
  "Memo_Transfer_decode W = run_decode W (Memo_Transfer_field W) createBaseMemo_Transfer"

definition Memo_PostAction_encode :: "wire \<Rightarrow> Memo_PostAction \<Rightarrow> byte list" where
  "Memo_PostAction_encode W m =
     (case pa_ibcTransferMsg m of None \<Rightarrow> [] | Some v \<Rightarrow> w_uint32 W 10 @ w_ldelim W (Memo_IbcTransfer_encode W v)) @
     (case pa_ibcWasmTransferMsg m of None \<Rightarrow> [] | Some v \<Rightarrow> w_uint32 W 18 @ w_ldelim W (Memo_IbcWasmTransfer_encode W v)) @
     (case pa_contractCall m of None \<Rightarrow> [] | Some v \<Rightarrow> w_uint32 W 26 @ w_ldelim W (Memo_ContractCall_encode W v)) @
     (case pa_transferMsg m of None \<Rightarrow> [] | Some v \<Rightarrow> w_uint32 W 34 @ w_ldelim W (Memo_Transfer_encode W v))"

definition Memo_PostAction_field :: "wire \<Rightarrow> Memo_PostAction handler" where
  "Memo_PostAction_field W tag m buf p =
     (if tag = 10 then Some (rd_message W (Memo_IbcTransfer_decode W) (\<lambda>x m. m\<lparr>pa_ibcTransferMsg := Some x\<rparr>) m buf p)
      else if tag = 18 then Some (rd_message W (Memo_IbcWasmTransfer_decode W) (\<lambda>x m. m\<lparr>pa_ibcWasmTransferMsg := Some x\<rparr>) m buf p)
      else if tag = 26 then Some (rd_message W (Memo_ContractCall_decode W) (\<lambda>x m. m\<lparr>pa_contractCall := Some x\<rparr>) m buf p)
      else if tag = 34 then Some (rd_message W (Memo_Transfer_decode W) (\<lambda>x m. m\<lparr>pa_transferMsg := Some x\<rparr>) m buf p)
      else None)"

definition Memo_PostAction_decode :: "wire \<Rightarrow> byte list \<Rightarrow> nat \<Rightarrow> nat option \<Rightarrow> (Memo_PostAction \<times> nat) res" where
  "Memo_PostAction_decode W = run_decode W (Memo_PostAction_field W) createBaseMemo_PostAction"

definition Memo_encode :: "wire \<Rightarrow> Memo \<Rightarrow> byte list" where
  "Memo_encode W m =
     (case m_userSwap m of None \<Rightarrow> [] | Some v \<Rightarrow> w_uint32 W 10 @ w_ldelim W (Memo_UserSwap_encode W v)) @
     (if m_minimumReceive m \<noteq> [] then w_uint32 W 18 @ w_string W (m_minimumReceive m) else []) @
     (if m_timeoutTimestamp m \<noteq> Fin 0 then w_uint32 W 24 @ w_uint64 W (m_timeoutTimestamp m) else []) @
     (case m_postSwapAction m of None \<Rightarrow> [] | Some v \<Rightarrow> w_uint32 W 34 @ w_ldelim W (Memo_PostAction_encode W v)) @
     (if m_recoveryAddr m \<noteq> [] then w_uint32 W 42 @ w_string W (m_recoveryAddr m) else [])"

definition Memo_field :: "wire \<Rightarrow> Memo handler" where
  "Memo_field W tag m buf p =
     (if tag = 10 then Some (rd_message W (Memo_UserSwap_decode W) (\<lambda>x m. m\<lparr>m_userSwap := Some x\<rparr>) m buf p)
      else if tag = 18 then Some (rd_string W (\<lambda>s m. m\<lparr>m_minimumReceive := s\<rparr>) m buf p)
      else if tag = 24 then Some (rd_uint64 W (\<lambda>n m. m\<lparr>m_timeoutTimestamp := n\<rparr>) m buf p)
      else if tag = 34 then Some (rd_message W (Memo_PostAction_decode W) (\<lambda>x m. m\<lparr>m_postSwapAction := Some x\<rparr>) m buf p)
      else if tag = 42 then Some (rd_string W (\<lambda>s m. m\<lparr>m_recoveryAddr := s\<rparr>) m buf p)
      else None)"

definition Memo_decode :: "wire \<Rightarrow> byte list \<Rightarrow> nat \<Rightarrow> nat option \<Rightarrow> (Memo \<times> nat) res" where
  "Memo_decode W = run_decode W (Memo_field W) createBaseMemo"

section \<open>JSON\<close>

text \<open>The right-hand sides of \<open>fromJSON\<close>: \<open>isSet(o.k) ? f(o.k) : base\<close> and the array test on \<open>o?.k\<close>.\<close>

definition string_field :: "json \<Rightarrow> string \<Rightarrow> string res" where
  "string_field j k = rbind (json_get j k) (\<lambda>v. Inr (if isSet v then js_String v else []))"

definition number_field :: "json \<Rightarrow> string \<Rightarrow> js_num res" where
  "number_field j k = rbind (json_get j k) (\<lambda>v. Inr (if isSet v then js_Number v else Fin 0))"

definition opt_string_field :: "json \<Rightarrow> string \<Rightarrow> string option res" where
  "opt_string_field j k = rbind (json_get j k) (\<lambda>v. Inr (if isSet v then Some (js_String v) else None))"

definition opt_number_field :: "json \<Rightarrow> string \<Rightarrow> js_num option res" where
  "opt_number_field j k = rbind (json_get j k) (\<lambda>v. Inr (if isSet v then Some (js_Number v) else None))"

definition message_field :: "(json \<Rightarrow> 'a res) \<Rightarrow> json \<Rightarrow> string \<Rightarrow> 'a option res" where
  "message_field f j k = rbind (json_get j k) (\<lambda>v.
     if isSet v then rbind (f v) (\<lambda>x. Inr (Some x)) else Inr None)"

definition list_field :: "(json \<Rightarrow> 'a res) \<Rightarrow> json \<Rightarrow> string \<Rightarrow> 'a list res" where
  "list_field f j k = (if isSet j then rbind (json_get j k) (\<lambda>v.
     case v of JArr vs \<Rightarrow> rmap f vs | _ \<Rightarrow> Inr []) else Inr [])"

definition put_some :: "string \<Rightarrow> ('a \<Rightarrow> json) \<Rightarrow> 'a option \<Rightarrow> (string \<times> json) list" where
  "put_some k f x = (case x of None \<Rightarrow> [] | Some v \<Rightarrow> [(k, f v)])"

definition Memo_SwapOperation_fromJSON :: "json \<Rightarrow> Memo_SwapOperation res" where
  "Memo_SwapOperation_fromJSON j =
     rbind (string_field j ''poolId'') (\<lambda>v_poolId.
     rbind (string_field j ''denomIn'') (\<lambda>v_denomIn.
     rbind (string_field j ''denomOut'') (\<lambda>v_denomOut.
     Inr \<lparr>so_poolId = v_poolId, so_denomIn = v_denomIn, so_denomOut = v_denomOut\<rparr>)))"

definition Memo_SwapOperation_toJSON :: "Memo_SwapOperation \<Rightarrow> json" where
  "Memo_SwapOperation_toJSON m = JObj
    (put (so_poolId m \<noteq> []) ''poolId'' (JStr (so_poolId m)) @
     put (so_denomIn m \<noteq> []) ''denomIn'' (JStr (so_denomIn m)) @
     put (so_denomOut m \<noteq> []) ''denomOut'' (JStr (so_denomOut m)))"

definition Memo_SwapExactAssetIn_fromJSON :: "json \<Rightarrow> Memo_SwapExactAssetIn res" where
  "Memo_SwapExactAssetIn_fromJSON j =
     rbind (list_field Memo_SwapOperation_fromJSON j ''operations'') (\<lambda>v_operations.
     Inr \<lparr>sx_operations = v_operations\<rparr>)"

definition Memo_SwapExactAssetIn_toJSON :: "Memo_SwapExactAssetIn \<Rightarrow> json" where
  "Memo_SwapExactAssetIn_toJSON m = JObj
    (put (sx_operations m \<noteq> []) ''operations'' (JArr (map Memo_SwapOperation_toJSON (sx_operations m))))"

definition Memo_Route_fromJSON :: "json \<Rightarrow> Memo_Route res" where
  "Memo_Route_fromJSON j =
     rbind (string_field j ''offerAmount'') (\<lambda>v_offerAmount.
     rbind (list_field Memo_SwapOperation_fromJSON j ''operations'') (\<lambda>v_operations.
     Inr \<lparr>rt_offerAmount = v_offerAmount, rt_operations = v_operations\<rparr>))"

definition Memo_Route_toJSON :: "Memo_Route \<Rightarrow> json" where
  "Memo_Route_toJSON m = JObj
    (put (rt_offerAmount m \<noteq> []) ''offerAmount'' (JStr (rt_offerAmount m)) @
     put (rt_operations m \<noteq> []) ''operations'' (JArr (map Memo_SwapOperation_toJSON (rt_operations m))))"

definition Memo_SmartSwapExactAssetIn_fromJSON :: "json \<Rightarrow> Memo_SmartSwapExactAssetIn res" where
  "Memo_SmartSwapExactAssetIn_fromJSON j =
     rbind (list_field Memo_Route_fromJSON j ''routes'') (\<lambda>v_routes.
     Inr \<lparr>ss_routes = v_routes\<rparr>)"

definition Memo_SmartSwapExactAssetIn_toJSON :: "Memo_SmartSwapExactAssetIn \<Rightarrow> json" where
  "Memo_SmartSwapExactAssetIn_toJSON m = JObj
    (put (ss_routes m \<noteq> []) ''routes'' (JArr (map Memo_Route_toJSON (ss_routes m))))"

definition Memo_UserSwap_fromJSON :: "json \<Rightarrow> Memo_UserSwap res" where
  "Memo_UserSwap_fromJSON j =
     rbind (string_field j ''swapVenueName'') (\<lambda>v_swapVenueName.
     rbind (message_field Memo_SwapExactAssetIn_fromJSON j ''swapExactAssetIn'') (\<lambda>v_swapExactAssetIn.
     rbind (message_field Memo_SmartSwapExactAssetIn_fromJSON j ''smartSwapExactAssetIn'') (\<lambda>v_smartSwapExactAssetIn.
     Inr \<lparr>us_swapVenueName = v_swapVenueName, us_swapExactAssetIn = v_swapExactAssetIn, us_smartSwapExactAssetIn = v_smartSwapExactAssetIn\<rparr>)))"

definition Memo_UserSwap_toJSON :: "Memo_UserSwap \<Rightarrow> json" where
  "Memo_UserSwap_toJSON m = JObj
    (put (us_swapVenueName m \<noteq> []) ''swapVenueName'' (JStr (us_swapVenueName m)) @
     put_some ''swapExactAssetIn'' Memo_SwapExactAssetIn_toJSON (us_swapExactAssetIn m) @
     put_some ''smartSwapExactAssetIn'' Memo_SmartSwapExactAssetIn_toJSON (us_smartSwapExactAssetIn m))"

definition Memo_IbcTransfer_fromJSON :: "json \<Rightarrow> Memo_IbcTransfer res" where
  "Memo_IbcTransfer_fromJSON j =
     rbind (string_field j ''sourceChannel'') (\<lambda>v_sourceChannel.
     rbind (string_field j ''sourcePort'') (\<lambda>v_sourcePort.
     rbind (string_field j ''receiver'') (\<lambda>v_receiver.
     rbind (string_field j ''memo'') (\<lambda>v_memo.
     rbind (string_field j ''recoverAddress'') (\<lambda>v_recoverAddress.
     Inr \<lparr>it_sourceChannel = v_sourceChannel, it_sourcePort = v_sourcePort, it_receiver = v_receiver, it_memo = v_memo, it_recoverAddress = v_recoverAddress\<rparr>)))))"

definition Memo_IbcTransfer_toJSON :: "Memo_IbcTransfer \<Rightarrow> json" where
  "Memo_IbcTransfer_toJSON m = JObj
    (put (it_sourceChannel m \<noteq> []) ''sourceChannel'' (JStr (it_sourceChannel m)) @
     put (it_sourcePort m \<noteq> []) ''sourcePort'' (JStr (it_sourcePort m)) @
     put (it_receiver m \<noteq> []) ''receiver'' (JStr (it_receiver m)) @
     put (it_memo m \<noteq> []) ''memo'' (JStr (it_memo m)) @
     put (it_recoverAddress m \<noteq> []) ''recoverAddress'' (JStr (it_recoverAddress m)))"

definition Memo_IbcWasmTransfer_fromJSON :: "json \<Rightarrow> Memo_IbcWasmTransfer res" where
  "Memo_IbcWasmTransfer_fromJSON j =
     rbind (string_field j ''localChannelId'') (\<lambda>v_localChannelId.
     rbind (string_field j ''remoteAddress'') (\<lambda>v_remoteAddress.
     rbind (string_field j ''remoteDenom'') (\<lambda>v_remoteDenom.
     rbind (opt_number_field j ''timeout'') (\<lambda>v_timeout.
     rbind (opt_string_field j ''memo'') (\<lambda>v_memo.
     Inr \<lparr>iw_localChannelId = v_localChannelId, iw_remoteAddress = v_remoteAddress, iw_remoteDenom = v_remoteDenom, iw_timeout = v_timeout, iw_memo = v_memo\<rparr>)))))"

definition Memo_IbcWasmTransfer_toJSON :: "Memo_IbcWasmTransfer \<Rightarrow> json" where
  "Memo_IbcWasmTransfer_toJSON m = JObj
    (put (iw_localChannelId m \<noteq> []) ''localChannelId'' (JStr (iw_localChannelId m)) @
     put (iw_remoteAddress m \<noteq> []) ''remoteAddress'' (JStr (iw_remoteAddress m)) @
     put (iw_remoteDenom m \<noteq> []) ''remoteDenom'' (JStr (iw_remoteDenom m)) @
     put_some ''timeout'' (\<lambda>n. JNum (math_round n)) (iw_timeout m) @
     put_some ''memo'' JStr (iw_memo m))"

definition Memo_ContractCall_fromJSON :: "json \<Rightarrow> Memo_ContractCall res" where
  "Memo_ContractCall_fromJSON j =
     rbind (string_field j ''contractAddress'') (\<lambda>v_contractAddress.
     rbind (string_field j ''msg'') (\<lambda>v_msg.
     Inr \<lparr>cc_contractAddress = v_contractAddress, cc_msg = v_msg\<rparr>))"

definition Memo_ContractCall_toJSON :: "Memo_ContractCall \<Rightarrow> json" where
  "Memo_ContractCall_toJSON m = JObj
    (put (cc_contractAddress m \<noteq> []) ''contractAddress'' (JStr (cc_contractAddress m)) @
     put (cc_msg m \<noteq> []) ''msg'' (JStr (cc_msg m)))"

definition Memo_Transfer_fromJSON :: "json \<Rightarrow> Memo_Transfer res" where
  "Memo_Transfer_fromJSON j =
     rbind (string_field j ''toAddress'') (\<lambda>v_toAddress.
     Inr \<lparr>tr_toAddress = v_toAddress\<rparr>)"

definition Memo_Transfer_toJSON :: "Memo_Transfer \<Rightarrow> json" where
  "Memo_Transfer_toJSON m = JObj
    (put (tr_toAddress m \<noteq> []) ''toAddress'' (JStr (tr_toAddress m)))"

definition Memo_PostAction_fromJSON :: "json \<Rightarrow> Memo_PostAction res" where
  "Memo_PostAction_fromJSON j =
     rbind (message_field Memo_IbcTransfer_fromJSON j ''ibcTransferMsg'') (\<lambda>v_ibcTransferMsg.
     rbind (message_field Memo_IbcWasmTransfer_fromJSON j ''ibcWasmTransferMsg'') (\<lambda>v_ibcWasmTransferMsg.
     rbind (message_field Memo_ContractCall_fromJSON j ''contractCall'') (\<lambda>v_contractCall.
     rbind (message_field Memo_Transfer_fromJSON j ''transferMsg'') (\<lambda>v_transferMsg.
     Inr \<lparr>pa_ibcTransferMsg = v_ibcTransferMsg, pa_ibcWasmTransferMsg = v_ibcWasmTransferMsg, pa_contractCall = v_contractCall, pa_transferMsg = v_transferMsg\<rparr>))))"

definition Memo_PostAction_toJSON :: "Memo_PostAction \<Rightarrow> json" where
  "Memo_PostAction_toJSON m = JObj
    (put_some ''ibcTransferMsg'' Memo_IbcTransfer_toJSON (pa_ibcTransferMsg m) @
     put_some ''ibcWasmTransferMsg'' Memo_IbcWasmTransfer_toJSON (pa_ibcWasmTransferMsg m) @
     put_some ''contractCall'' Memo_ContractCall_toJSON (pa_contractCall m) @
     put_some ''transferMsg'' Memo_Transfer_toJSON (pa_transferMsg m))"

definition Memo_fromJSON :: "json \<Rightarrow> Memo res" where
  "Memo_fromJSON j =
     rbind (message_field Memo_UserSwap_fromJSON j ''userSwap'') (\<lambda>v_userSwap.
     rbind (string_field j ''minimumReceive'') (\<lambda>v_minimumReceive.
     rbind (number_field j ''timeoutTimestamp'') (\<lambda>v_timeoutTimestamp.
     rbind (message_field Memo_PostAction_fromJSON j ''postSwapAction'') (\<lambda>v_postSwapAction.
     rbind (string_field j ''recoveryAddr'') (\<lambda>v_recoveryAddr.
     Inr \<lparr>m_userSwap = v_userSwap, m_minimumReceive = v_minimumReceive, m_timeoutTimestamp = v_timeoutTimestamp, m_postSwapAction = v_postSwapAction, m_recoveryAddr = v_recoveryAddr\<rparr>)))))"

definition Memo_toJSON :: "Memo \<Rightarrow> json" where
  "Memo_toJSON m = JObj
    (put_some ''userSwap'' Memo_UserSwap_toJSON (m_userSwap m) @
     put (m_minimumReceive m \<noteq> []) ''minimumReceive'' (JStr (m_minimumReceive m)) @
     put (m_timeoutTimestamp m \<noteq> Fin 0) ''timeoutTimestamp'' (JNum (math_round (m_timeoutTimestamp m))) @
     put_some ''postSwapAction'' Memo_PostAction_toJSON (m_postSwapAction m) @
     put (m_recoveryAddr m \<noteq> []) ''recoveryAddr'' (JStr (m_recoveryAddr m)))"

section \<open>Partial messages\<close>

text \<open>\<open>x ?? d\<close>\<close>

definition nullish :: "'a option \<Rightarrow> 'a \<Rightarrow> 'a" where
  "nullish x d = (case x of None \<Rightarrow> d | Some v \<Rightarrow> v)"

record Memo_SwapOperation_partial =
  pso_poolId :: "string option"
  pso_denomIn :: "string option"
  pso_denomOut :: "string option"

definition Memo_SwapOperation_fromPartial :: "Memo_SwapOperation_partial \<Rightarrow> Memo_SwapOperation" where
  "Memo_SwapOperation_fromPartial b = createBaseMemo_SwapOperation
    \<lparr>so_poolId := nullish (pso_poolId b) ([]),
     so_denomIn := nullish (pso_denomIn b) ([]),
     so_denomOut := nullish (pso_denomOut b) ([])\<rparr>"

definition Memo_SwapOperation_create :: "Memo_SwapOperation_partial option \<Rightarrow> Memo_SwapOperation" where
  "Memo_SwapOperation_create b = Memo_SwapOperation_fromPartial (nullish b \<lparr>pso_poolId = None, pso_denomIn = None, pso_denomOut = None\<rparr>)"

record Memo_SwapExactAssetIn_partial =
  psx_operations :: "Memo_SwapOperation_partial list option"

definition Memo_SwapExactAssetIn_fromPartial :: "Memo_SwapExactAssetIn_partial \<Rightarrow> Memo_SwapExactAssetIn" where
  "Memo_SwapExactAssetIn_fromPartial b = createBaseMemo_SwapExactAssetIn
    \<lparr>sx_operations := (case psx_operations b of None \<Rightarrow> [] | Some vs \<Rightarrow> map Memo_SwapOperation_fromPartial vs)\<rparr>"

definition Memo_SwapExactAssetIn_create :: "Memo_SwapExactAssetIn_partial option \<Rightarrow> Memo_SwapExactAssetIn" where
  "Memo_SwapExactAssetIn_create b = Memo_SwapExactAssetIn_fromPartial (nullish b \<lparr>psx_operations = None\<rparr>)"

record Memo_Route_partial =
  prt_offerAmount :: "string option"
  prt_operations :: "Memo_SwapOperation_partial list option"

definition Memo_Route_fromPartial :: "Memo_Route_partial \<Rightarrow> Memo_Route" where
  "Memo_Route_fromPartial b = createBaseMemo_Route
    \<lparr>rt_offerAmount := nullish (prt_offerAmount b) ([]),
     rt_operations := (case prt_operations b of None \<Rightarrow> [] | Some vs \<Rightarrow> map Memo_SwapOperation_fromPartial vs)\<rparr>"

definition Memo_Route_create :: "Memo_Route_partial option \<Rightarrow> Memo_Route" where
  "Memo_Route_create b = Memo_Route_fromPartial (nullish b \<lparr>prt_offerAmount = None, prt_operations = None\<rparr>)"

record Memo_SmartSwapExactAssetIn_partial =
  pss_routes :: "Memo_Route_partial list option"

definition Memo_SmartSwapExactAssetIn_fromPartial :: "Memo_SmartSwapExactAssetIn_partial \<Rightarrow> Memo_SmartSwapExactAssetIn" where
  "Memo_SmartSwapExactAssetIn_fromPartial b = createBaseMemo_SmartSwapExactAssetIn
    \<lparr>ss_routes := (case pss_routes b of None \<Rightarrow> [] | Some vs \<Rightarrow> map Memo_Route_fromPartial vs)\<rparr>"

definition Memo_SmartSwapExactAssetIn_create :: "Memo_SmartSwapExactAssetIn_partial option \<Rightarrow> Memo_SmartSwapExactAssetIn" where
  "Memo_SmartSwapExactAssetIn_create b = Memo_SmartSwapExactAssetIn_fromPartial (nullish b \<lparr>pss_routes = None\<rparr>)"

record Memo_UserSwap_partial =
  pus_swapVenueName :: "string option"
  pus_swapExactAssetIn :: "Memo_SwapExactAssetIn_partial option"
  pus_smartSwapExactAssetIn :: "Memo_SmartSwapExactAssetIn_partial option"

definition Memo_UserSwap_fromPartial :: "Memo_UserSwap_partial \<Rightarrow> Memo_UserSwap" where
  "Memo_UserSwap_fromPartial b = createBaseMemo_UserSwap
    \<lparr>us_swapVenueName := nullish (pus_swapVenueName b) ([]),
     us_swapExactAssetIn := map_option Memo_SwapExactAssetIn_fromPartial (pus_swapExactAssetIn b),
     us_smartSwapExactAssetIn := map_option Memo_SmartSwapExactAssetIn_fromPartial (pus_smartSwapExactAssetIn b)\<rparr>"

definition Memo_UserSwap_create :: "Memo_UserSwap_partial option \<Rightarrow> Memo_UserSwap" where
  "Memo_UserSwap_create b = Memo_UserSwap_fromPartial (nullish b \<lparr>pus_swapVenueName = None, pus_swapExactAssetIn = None, pus_smartSwapExactAssetIn = None\<rparr>)"

record Memo_IbcTransfer_partial =
  pit_sourceChannel :: "string option"
  pit_sourcePort :: "string option"
  pit_receiver :: "string option"
  pit_memo :: "string option"
  pit_recoverAddress :: "string option"

definition Memo_IbcTransfer_fromPartial :: "Memo_IbcTransfer_partial \<Rightarrow> Memo_IbcTransfer" where
  "Memo_IbcTransfer_fromPartial b = createBaseMemo_IbcTransfer
    \<lparr>it_sourceChannel := nullish (pit_sourceChannel b) ([]),
     it_sourcePort := nullish (pit_sourcePort b) ([]),
     it_receiver := nullish (pit_receiver b) ([]),
     it_memo := nullish (pit_memo b) ([]),
     it_recoverAddress := nullish (pit_recoverAddress b) ([])\<rparr>"

definition Memo_IbcTransfer_create :: "Memo_IbcTransfer_partial option \<Rightarrow> Memo_IbcTransfer" where
  "Memo_IbcTransfer_create b = Memo_IbcTransfer_fromPartial (nullish b \<lparr>pit_sourceChannel = None, pit_sourcePort = None, pit_receiver = None, pit_memo = None, pit_recoverAddress = None\<rparr>)"

record Memo_IbcWasmTransfer_partial =
  piw_localChannelId :: "string option"
  piw_remoteAddress :: "string option"
  piw_remoteDenom :: "string option"
  piw_timeout :: "js_num option"
  piw_memo :: "string option"

definition Memo_IbcWasmTransfer_fromPartial :: "Memo_IbcWasmTransfer_partial \<Rightarrow> Memo_IbcWasmTransfer" where
  "Memo_IbcWasmTransfer_fromPartial b = createBaseMemo_IbcWasmTransfer
    \<lparr>iw_localChannelId := nullish (piw_localChannelId b) ([]),
     iw_remoteAddress := nullish (piw_remoteAddress b) ([]),
     iw_remoteDenom := nullish (piw_remoteDenom b) ([]),
     iw_timeout := piw_timeout b,
     iw_memo := piw_memo b\<rparr>"

definition Memo_IbcWasmTransfer_create :: "Memo_IbcWasmTransfer_partial option \<Rightarrow> Memo_IbcWasmTransfer" where
  "Memo_IbcWasmTransfer_create b = Memo_IbcWasmTransfer_fromPartial (nullish b \<lparr>piw_localChannelId = None, piw_remoteAddress = None, piw_remoteDenom = None, piw_timeout = None, piw_memo = None\<rparr>)"

record Memo_ContractCall_partial =
  pcc_contractAddress :: "string option"
  pcc_msg :: "string option"

definition Memo_ContractCall_fromPartial :: "Memo_ContractCall_partial \<Rightarrow> Memo_ContractCall" where
  "Memo_ContractCall_fromPartial b = createBaseMemo_ContractCall
    \<lparr>cc_contractAddress := nullish (pcc_contractAddress b) ([]),
     cc_msg := nullish (pcc_msg b) ([])\<rparr>"

definition Memo_ContractCall_create :: "Memo_ContractCall_partial option \<Rightarrow> Memo_ContractCall" where
  "Memo_ContractCall_create b = Memo_ContractCall_fromPartial (nullish b \<lparr>pcc_contractAddress = None, pcc_msg = None\<rparr>)"

record Memo_Transfer_partial =
  ptr_toAddress :: "string option"

definition Memo_Transfer_fromPartial :: "Memo_Transfer_partial \<Rightarrow> Memo_Transfer" where
  "Memo_Transfer_fromPartial b = createBaseMemo_Transfer
    \<lparr>tr_toAddress := nullish (ptr_toAddress b) ([])\<rparr>"

definition Memo_Transfer_create :: "Memo_Transfer_partial option \<Rightarrow> Memo_Transfer" where
  "Memo_Transfer_create b = Memo_Transfer_fromPartial (nullish b \<lparr>ptr_toAddress = None\<rparr>)"

record Memo_PostAction_partial =
  ppa_ibcTransferMsg :: "Memo_IbcTransfer_partial option"
  ppa_ibcWasmTransferMsg :: "Memo_IbcWasmTransfer_partial option"
  ppa_contractCall :: "Memo_ContractCall_partial option"
  ppa_transferMsg :: "Memo_Transfer_partial option"

definition Memo_PostAction_fromPartial :: "Memo_PostAction_partial \<Rightarrow> Memo_PostAction" where
  "Memo_PostAction_fromPartial b = createBaseMemo_PostAction
    \<lparr>pa_ibcTransferMsg := map_option Memo_IbcTransfer_fromPartial (ppa_ibcTransferMsg b),
     pa_ibcWasmTransferMsg := map_option Memo_IbcWasmTransfer_fromPartial (ppa_ibcWasmTransferMsg b),
     pa_contractCall := map_option Memo_ContractCall_fromPartial (ppa_contractCall b),
     pa_transferMsg := map_option Memo_Transfer_fromPartial (ppa_transferMsg b)\<rparr>"

definition Memo_PostAction_create :: "Memo_PostAction_partial option \<Rightarrow> Memo_PostAction" where
  "Memo_PostAction_create b = Memo_PostAction_fromPartial (nullish b \<lparr>ppa_ibcTransferMsg = None, ppa_ibcWasmTransferMsg = None, ppa_contractCall = None, ppa_transferMsg = None\<rparr>)"

record Memo_partial =
  pm_userSwap :: "Memo_UserSwap_partial option"
  pm_minimumReceive :: "string option"
  pm_timeoutTimestamp :: "js_num option"
  pm_postSwapAction :: "Memo_PostAction_partial option"
  pm_recoveryAddr :: "string option"

definition Memo_fromPartial :: "Memo_partial \<Rightarrow> Memo" where
  "Memo_fromPartial b = createBaseMemo
    \<lparr>m_userSwap := map_option Memo_UserSwap_fromPartial (pm_userSwap b),
     m_minimumReceive := nullish (pm_minimumReceive b) ([]),
     m_timeoutTimestamp := nullish (pm_timeoutTimestamp b) (Fin 0),
     m_postSwapAction := map_option Memo_PostAction_fromPartial (pm_postSwapAction b),
     m_recoveryAddr := nullish (pm_recoveryAddr b) ([])\<rparr>"

definition Memo_create :: "Memo_partial option \<Rightarrow> Memo" where
  "Memo_create b = Memo_fromPartial (nullish b \<lparr>pm_userSwap = None, pm_minimumReceive = None, pm_timeoutTimestamp = None, pm_postSwapAction = None, pm_recoveryAddr = None\<rparr>)"

end
