(* ===== verification/MemoLaws.thy ===== *)
theory MemoLaws
  imports MemoCodec
begin

text \<open>
  What the memo codec promises: each \<open>decode\<close> reads back what \<open>encode\<close> wrote and ends on every
  input, \<open>fromJSON\<close> reads back \<open>toJSON\<close>, \<open>fromPartial\<close> of a complete message is the message. The
  facts about one message type follow one scheme, from the inner types outwards.
\<close>

section \<open>Messages whose numbers fit\<close>

fun safe_uint :: "js_num \<Rightarrow> bool" where
  "safe_uint (Fin x) \<longleftrightarrow> 0 \<le> x \<and> x \<le> of_int MAX_SAFE_INTEGER \<and> of_int \<lfloor>x\<rfloor> = x"
| "safe_uint _ \<longleftrightarrow> False"

lemma safe_uint_cases: "safe_uint x \<Longrightarrow> \<exists>n. x = Fin (of_nat n) \<and> int n \<le> MAX_SAFE_INTEGER"
proof (cases x)
  case (Fin q)
  assume "safe_uint x"
  then have q: "0 \<le> q" "q \<le> of_int MAX_SAFE_INTEGER" "of_int \<lfloor>q\<rfloor> = q" using Fin by auto
  then have "0 \<le> \<lfloor>q\<rfloor>" "\<lfloor>q\<rfloor> \<le> MAX_SAFE_INTEGER" by (simp, metis of_int_le_iff)
  moreover have "of_nat (nat \<lfloor>q\<rfloor>) = q" using q \<open>0 \<le> \<lfloor>q\<rfloor>\<close> by (metis of_int_of_nat_eq int_nat_eq)
  ultimately show ?thesis using Fin by (intro exI [of _ "nat \<lfloor>q\<rfloor>"]) simp
qed auto

definition Memo_IbcWasmTransfer_ok :: "Memo_IbcWasmTransfer \<Rightarrow> bool" where
  "Memo_IbcWasmTransfer_ok m \<longleftrightarrow> pred_option safe_uint (iw_timeout m)"

definition Memo_PostAction_ok :: "Memo_PostAction \<Rightarrow> bool" where
  "Memo_PostAction_ok m \<longleftrightarrow> pred_option Memo_IbcWasmTransfer_ok (pa_ibcWasmTransferMsg m)"

definition Memo_ok :: "Memo \<Rightarrow> bool" where
  "Memo_ok m \<longleftrightarrow> safe_uint (m_timeoutTimestamp m) \<and> pred_option Memo_PostAction_ok (m_postSwapAction m)"

section \<open>Lists of fields\<close>

definition opt :: "bool \<Rightarrow> 'a \<Rightarrow> 'a list" where
  "opt c x = (if c then [x] else [])"

definition opt_some :: "('a \<Rightarrow> 'b) \<Rightarrow> 'a option \<Rightarrow> 'b list" where
  "opt_some f x = (case x of None \<Rightarrow> [] | Some v \<Rightarrow> [f v])"

lemma opt_simps [simp]:
  "set (opt c x) = (if c then {x} else {})"
  "concat (map fst (opt c (b, u))) = (if c then b else [])"
  "fold g (opt c x) m = (if c then g x m else m)"
  by (cases c; simp add: opt_def)+

lemma opt_some_simps [simp]:
  "concat (map fst (opt_some (\<lambda>v. (b v, u v)) x)) = (case x of None \<Rightarrow> [] | Some v \<Rightarrow> b v)"
  "fold g (opt_some f x) m = (case x of None \<Rightarrow> m | Some v \<Rightarrow> g (f v) m)"
  by (simp_all add: opt_some_def split: option.splits)

lemma set_opt_some: "set (opt_some f x) = (case x of None \<Rightarrow> {} | Some v \<Rightarrow> {f v})"
  by (simp add: opt_some_def split: option.splits)

lemma concat_member_le: "v \<in> set xs \<Longrightarrow> length (f v) \<le> length (concat (map f xs))"
  by (induction xs) auto

section \<open>Decoding what was encoded\<close>

context proto_wire
begin

lemma field_safe_uint:
  assumes "t < 2 ^ 32" "safe_uint x"
    and "\<And>m buf p. f t m buf p = Some (rd_uint64 W upd m buf p)"
  shows "field_reads W f (w_uint32 W t @ w_uint64 W x) (upd x)"
proof -
  obtain n where "x = Fin (of_nat n)" "int n \<le> MAX_SAFE_INTEGER" using safe_uint_cases [OF assms(2)] by blast
  then show ?thesis using field_uint64 [where upd = upd] assms(1,3) by blast
qed

lemma sized_message:
  assumes "t < 2 ^ 32" "length (w_uint32 W t @ w_ldelim W bs) < 2 ^ 32"
    and "length bs < 2 ^ 32 \<Longrightarrow> message_reads dcd bs x"
    and "\<And>m buf p. f t m buf p = Some (rd_message W dcd upd m buf p)"
  shows "field_reads W f (w_uint32 W t @ w_ldelim W bs) (upd x)"
proof -
  have "length bs < 2 ^ 32" using assms(2) by (simp add: ldelim_law)
  then show ?thesis using assms by (intro field_message) auto
qed

lemma message_by_fields:
  assumes "bs = concat (map fst fs)" "length bs < 2 ^ 32"
    and "list_all (\<lambda>(bs, u). length bs < 2 ^ 32 \<longrightarrow> field_reads W f bs u) fs"
    and "fold (\<lambda>(_, u) m. u m) fs base = x"
  shows "message_reads (run_decode W f base) bs x"
proof -
  have "length (fst b) < 2 ^ 32" if "b \<in> set fs" for b
    using concat_member_le [OF that, of fst] assms(1,2) by simp
  then have "list_all (\<lambda>(bs, u). field_reads W f bs u) fs"
    using assms(3) by (fastforce simp: list_all_iff)
  then show ?thesis unfolding assms(1) using assms(4) by (rule message_of_fields)
qed

lemma so_poolId_reads:
  "length (w_uint32 W 10 @ w_string W s) < 2 ^ 32 \<Longrightarrow>
   field_reads W (Memo_SwapOperation_field W) (w_uint32 W 10 @ w_string W s) (\<lambda>m. m\<lparr>so_poolId := s\<rparr>)"
  by (rule field_string [where upd = "\<lambda>s m. m\<lparr>so_poolId := s\<rparr>"]) (simp_all add: Memo_SwapOperation_field_def)

lemma so_denomIn_reads:
  "length (w_uint32 W 18 @ w_string W s) < 2 ^ 32 \<Longrightarrow>
   field_reads W (Memo_SwapOperation_field W) (w_uint32 W 18 @ w_string W s) (\<lambda>m. m\<lparr>so_denomIn := s\<rparr>)"
  by (rule field_string [where upd = "\<lambda>s m. m\<lparr>so_denomIn := s\<rparr>"]) (simp_all add: Memo_SwapOperation_field_def)

lemma so_denomOut_reads:
  "length (w_uint32 W 26 @ w_string W s) < 2 ^ 32 \<Longrightarrow>
   field_reads W (Memo_SwapOperation_field W) (w_uint32 W 26 @ w_string W s) (\<lambda>m. m\<lparr>so_denomOut := s\<rparr>)"
  by (rule field_string [where upd = "\<lambda>s m. m\<lparr>so_denomOut := s\<rparr>"]) (simp_all add: Memo_SwapOperation_field_def)

lemma reads_Memo_SwapOperation:
  assumes "length (Memo_SwapOperation_encode W m) < 2 ^ 32"
  shows "message_reads (Memo_SwapOperation_decode W) (Memo_SwapOperation_encode W m) m"
proof -
  let ?fs = "opt (so_poolId m \<noteq> []) (w_uint32 W 10 @ w_string W (so_poolId m), \<lambda>m'. m'\<lparr>so_poolId := so_poolId m\<rparr>) @
     opt (so_denomIn m \<noteq> []) (w_uint32 W 18 @ w_string W (so_denomIn m), \<lambda>m'. m'\<lparr>so_denomIn := so_denomIn m\<rparr>) @
     opt (so_denomOut m \<noteq> []) (w_uint32 W 26 @ w_string W (so_denomOut m), \<lambda>m'. m'\<lparr>so_denomOut := so_denomOut m\<rparr>)"
  have enc: "Memo_SwapOperation_encode W m = concat (map fst ?fs)"
    by (simp add: Memo_SwapOperation_encode_def comp_def)
  have fields: "list_all (\<lambda>(bs, u). length bs < 2 ^ 32 \<longrightarrow> field_reads W (Memo_SwapOperation_field W) bs u) ?fs"
    using assms(1) unfolding list_all_iff
    by (auto simp: set_opt_some simp del: length_append intro!: so_poolId_reads so_denomIn_reads so_denomOut_reads
        split: option.splits if_splits)
  have fold: "fold (\<lambda>(_, u) m. u m) ?fs createBaseMemo_SwapOperation = m"
    by (cases m) (auto simp: createBaseMemo_SwapOperation_def fold_map comp_def split: option.splits)
  show ?thesis unfolding Memo_SwapOperation_decode_def
    by (rule message_by_fields [OF enc _ fields fold]) (use assms in simp)
qed

lemma sx_operations_reads:
  "length (w_uint32 W 10 @ w_ldelim W bs) < 2 ^ 32 \<Longrightarrow> (length bs < 2 ^ 32 \<Longrightarrow> message_reads (Memo_SwapOperation_decode W) bs x) \<Longrightarrow>
   field_reads W (Memo_SwapExactAssetIn_field W) (w_uint32 W 10 @ w_ldelim W bs) (\<lambda>m. m\<lparr>sx_operations := sx_operations m @ [x]\<rparr>)"
  by (rule sized_message [where upd = "\<lambda>x m. m\<lparr>sx_operations := sx_operations m @ [x]\<rparr>"]) (simp_all add: Memo_SwapExactAssetIn_field_def)

lemma fold_sx_operations: "fold (\<lambda>x m. m\<lparr>sx_operations := sx_operations m @ [x]\<rparr>) xs m = m\<lparr>sx_operations := sx_operations m @ xs\<rparr>"
  by (induction xs arbitrary: m) simp_all

lemma reads_Memo_SwapExactAssetIn:
  assumes "length (Memo_SwapExactAssetIn_encode W m) < 2 ^ 32"
  shows "message_reads (Memo_SwapExactAssetIn_decode W) (Memo_SwapExactAssetIn_encode W m) m"
proof -
  let ?fs = "map (\<lambda>v. (w_uint32 W 10 @ w_ldelim W (Memo_SwapOperation_encode W v), \<lambda>m'. m'\<lparr>sx_operations := sx_operations m' @ [v]\<rparr>)) (sx_operations m)"
  have enc: "Memo_SwapExactAssetIn_encode W m = concat (map fst ?fs)"
    by (simp add: Memo_SwapExactAssetIn_encode_def comp_def)
  have fields: "list_all (\<lambda>(bs, u). length bs < 2 ^ 32 \<longrightarrow> field_reads W (Memo_SwapExactAssetIn_field W) bs u) ?fs"
    using assms(1) unfolding list_all_iff
    by (auto simp: set_opt_some simp del: length_append intro!: sx_operations_reads reads_Memo_SwapOperation
        split: option.splits if_splits)
  have fold: "fold (\<lambda>(_, u) m. u m) ?fs createBaseMemo_SwapExactAssetIn = m"
    by (cases m) (auto simp: createBaseMemo_SwapExactAssetIn_def fold_map comp_def fold_sx_operations split: option.splits)
  show ?thesis unfolding Memo_SwapExactAssetIn_decode_def
    by (rule message_by_fields [OF enc _ fields fold]) (use assms in simp)
qed

lemma rt_offerAmount_reads:
  "length (w_uint32 W 10 @ w_string W s) < 2 ^ 32 \<Longrightarrow>
   field_reads W (Memo_Route_field W) (w_uint32 W 10 @ w_string W s) (\<lambda>m. m\<lparr>rt_offerAmount := s\<rparr>)"
  by (rule field_string [where upd = "\<lambda>s m. m\<lparr>rt_offerAmount := s\<rparr>"]) (simp_all add: Memo_Route_field_def)

lemma rt_operations_reads:
  "length (w_uint32 W 18 @ w_ldelim W bs) < 2 ^ 32 \<Longrightarrow> (length bs < 2 ^ 32 \<Longrightarrow> message_reads (Memo_SwapOperation_decode W) bs x) \<Longrightarrow>
   field_reads W (Memo_Route_field W) (w_uint32 W 18 @ w_ldelim W bs) (\<lambda>m. m\<lparr>rt_operations := rt_operations m @ [x]\<rparr>)"
  by (rule sized_message [where upd = "\<lambda>x m. m\<lparr>rt_operations := rt_operations m @ [x]\<rparr>"]) (simp_all add: Memo_Route_field_def)

lemma fold_rt_operations: "fold (\<lambda>x m. m\<lparr>rt_operations := rt_operations m @ [x]\<rparr>) xs m = m\<lparr>rt_operations := rt_operations m @ xs\<rparr>"
  by (induction xs arbitrary: m) simp_all

lemma reads_Memo_Route:
  assumes "length (Memo_Route_encode W m) < 2 ^ 32"
  shows "message_reads (Memo_Route_decode W) (Memo_Route_encode W m) m"
proof -
  let ?fs = "opt (rt_offerAmount m \<noteq> []) (w_uint32 W 10 @ w_string W (rt_offerAmount m), \<lambda>m'. m'\<lparr>rt_offerAmount := rt_offerAmount m\<rparr>) @
     map (\<lambda>v. (w_uint32 W 18 @ w_ldelim W (Memo_SwapOperation_encode W v), \<lambda>m'. m'\<lparr>rt_operations := rt_operations m' @ [v]\<rparr>)) (rt_operations m)"
  have enc: "Memo_Route_encode W m = concat (map fst ?fs)"
    by (simp add: Memo_Route_encode_def comp_def)
  have fields: "list_all (\<lambda>(bs, u). length bs < 2 ^ 32 \<longrightarrow> field_reads W (Memo_Route_field W) bs u) ?fs"
    using assms(1) unfolding list_all_iff
    by (auto simp: set_opt_some simp del: length_append intro!: rt_offerAmount_reads rt_operations_reads reads_Memo_SwapOperation
        split: option.splits if_splits)
  have fold: "fold (\<lambda>(_, u) m. u m) ?fs createBaseMemo_Route = m"
    by (cases m) (auto simp: createBaseMemo_Route_def fold_map comp_def fold_rt_operations split: option.splits)
  show ?thesis unfolding Memo_Route_decode_def
    by (rule message_by_fields [OF enc _ fields fold]) (use assms in simp)
qed

lemma ss_routes_reads:
  "length (w_uint32 W 10 @ w_ldelim W bs) < 2 ^ 32 \<Longrightarrow> (length bs < 2 ^ 32 \<Longrightarrow> message_reads (Memo_Route_decode W) bs x) \<Longrightarrow>
   field_reads W (Memo_SmartSwapExactAssetIn_field W) (w_uint32 W 10 @ w_ldelim W bs) (\<lambda>m. m\<lparr>ss_routes := ss_routes m @ [x]\<rparr>)"
  by (rule sized_message [where upd = "\<lambda>x m. m\<lparr>ss_routes := ss_routes m @ [x]\<rparr>"]) (simp_all add: Memo_SmartSwapExactAssetIn_field_def)

lemma fold_ss_routes: "fold (\<lambda>x m. m\<lparr>ss_routes := ss_routes m @ [x]\<rparr>) xs m = m\<lparr>ss_routes := ss_routes m @ xs\<rparr>"
  by (induction xs arbitrary: m) simp_all

lemma reads_Memo_SmartSwapExactAssetIn:
  assumes "length (Memo_SmartSwapExactAssetIn_encode W m) < 2 ^ 32"
  shows "message_reads (Memo_SmartSwapExactAssetIn_decode W) (Memo_SmartSwapExactAssetIn_encode W m) m"
proof -
  let ?fs = "map (\<lambda>v. (w_uint32 W 10 @ w_ldelim W (Memo_Route_encode W v), \<lambda>m'. m'\<lparr>ss_routes := ss_routes m' @ [v]\<rparr>)) (ss_routes m)"
  have enc: "Memo_SmartSwapExactAssetIn_encode W m = concat (map fst ?fs)"
    by (simp add: Memo_SmartSwapExactAssetIn_encode_def comp_def)
  have fields: "list_all (\<lambda>(bs, u). length bs < 2 ^ 32 \<longrightarrow> field_reads W (Memo_SmartSwapExactAssetIn_field W) bs u) ?fs"
    using assms(1) unfolding list_all_iff
    by (auto simp: set_opt_some simp del: length_append intro!: ss_routes_reads reads_Memo_Route
        split: option.splits if_splits)
  have fold: "fold (\<lambda>(_, u) m. u m) ?fs createBaseMemo_SmartSwapExactAssetIn = m"
    by (cases m) (auto simp: createBaseMemo_SmartSwapExactAssetIn_def fold_map comp_def fold_ss_routes split: option.splits)
  show ?thesis unfolding Memo_SmartSwapExactAssetIn_decode_def
    by (rule message_by_fields [OF enc _ fields fold]) (use assms in simp)
qed

lemma us_swapVenueName_reads:
  "length (w_uint32 W 10 @ w_string W s) < 2 ^ 32 \<Longrightarrow>
   field_reads W (Memo_UserSwap_field W) (w_uint32 W 10 @ w_string W s) (\<lambda>m. m\<lparr>us_swapVenueName := s\<rparr>)"
  by (rule field_string [where upd = "\<lambda>s m. m\<lparr>us_swapVenueName := s\<rparr>"]) (simp_all add: Memo_UserSwap_field_def)

lemma us_swapExactAssetIn_reads:
  "length (w_uint32 W 18 @ w_ldelim W bs) < 2 ^ 32 \<Longrightarrow> (length bs < 2 ^ 32 \<Longrightarrow> message_reads (Memo_SwapExactAssetIn_decode W) bs x) \<Longrightarrow>
   field_reads W (Memo_UserSwap_field W) (w_uint32 W 18 @ w_ldelim W bs) (\<lambda>m. m\<lparr>us_swapExactAssetIn := Some x\<rparr>)"
  by (rule sized_message [where upd = "\<lambda>x m. m\<lparr>us_swapExactAssetIn := Some x\<rparr>"]) (simp_all add: Memo_UserSwap_field_def)

lemma us_smartSwapExactAssetIn_reads:
  "length (w_uint32 W 26 @ w_ldelim W bs) < 2 ^ 32 \<Longrightarrow> (length bs < 2 ^ 32 \<Longrightarrow> message_reads (Memo_SmartSwapExactAssetIn_decode W) bs x) \<Longrightarrow>
   field_reads W (Memo_UserSwap_field W) (w_uint32 W 26 @ w_ldelim W bs) (\<lambda>m. m\<lparr>us_smartSwapExactAssetIn := Some x\<rparr>)"
  by (rule sized_message [where upd = "\<lambda>x m. m\<lparr>us_smartSwapExactAssetIn := Some x\<rparr>"]) (simp_all add: Memo_UserSwap_field_def)

lemma reads_Memo_UserSwap:
  assumes "length (Memo_UserSwap_encode W m) < 2 ^ 32"
  shows "message_reads (Memo_UserSwap_decode W) (Memo_UserSwap_encode W m) m"
proof -
  let ?fs = "opt (us_swapVenueName m \<noteq> []) (w_uint32 W 10 @ w_string W (us_swapVenueName m), \<lambda>m'. m'\<lparr>us_swapVenueName := us_swapVenueName m\<rparr>) @
     opt_some (\<lambda>v. (w_uint32 W 18 @ w_ldelim W (Memo_SwapExactAssetIn_encode W v), \<lambda>m'. m'\<lparr>us_swapExactAssetIn := Some v\<rparr>)) (us_swapExactAssetIn m) @
     opt_some (\<lambda>v. (w_uint32 W 26 @ w_ldelim W (Memo_SmartSwapExactAssetIn_encode W v), \<lambda>m'. m'\<lparr>us_smartSwapExactAssetIn := Some v\<rparr>)) (us_smartSwapExactAssetIn m)"
  have enc: "Memo_UserSwap_encode W m = concat (map fst ?fs)"
    by (simp add: Memo_UserSwap_encode_def comp_def)
  have fields: "list_all (\<lambda>(bs, u). length bs < 2 ^ 32 \<longrightarrow> field_reads W (Memo_UserSwap_field W) bs u) ?fs"
    using assms(1) unfolding list_all_iff
    by (auto simp: set_opt_some simp del: length_append intro!: us_swapVenueName_reads us_swapExactAssetIn_reads us_smartSwapExactAssetIn_reads reads_Memo_SwapExactAssetIn reads_Memo_SmartSwapExactAssetIn
        split: option.splits if_splits)
  have fold: "fold (\<lambda>(_, u) m. u m) ?fs createBaseMemo_UserSwap = m"
    by (cases m) (auto simp: createBaseMemo_UserSwap_def fold_map comp_def split: option.splits)
  show ?thesis unfolding Memo_UserSwap_decode_def
    by (rule message_by_fields [OF enc _ fields fold]) (use assms in simp)
qed

lemma it_sourceChannel_reads:
  "length (w_uint32 W 10 @ w_string W s) < 2 ^ 32 \<Longrightarrow>
   field_reads W (Memo_IbcTransfer_field W) (w_uint32 W 10 @ w_string W s) (\<lambda>m. m\<lparr>it_sourceChannel := s\<rparr>)"
  by (rule field_string [where upd = "\<lambda>s m. m\<lparr>it_sourceChannel := s\<rparr>"]) (simp_all add: Memo_IbcTransfer_field_def)

lemma it_sourcePort_reads:
  "length (w_uint32 W 18 @ w_string W s) < 2 ^ 32 \<Longrightarrow>
   field_reads W (Memo_IbcTransfer_field W) (w_uint32 W 18 @ w_string W s) (\<lambda>m. m\<lparr>it_sourcePort := s\<rparr>)"
  by (rule field_string [where upd = "\<lambda>s m. m\<lparr>it_sourcePort := s\<rparr>"]) (simp_all add: Memo_IbcTransfer_field_def)

lemma it_receiver_reads:
  "length (w_uint32 W 26 @ w_string W s) < 2 ^ 32 \<Longrightarrow>
   field_reads W (Memo_IbcTransfer_field W) (w_uint32 W 26 @ w_string W s) (\<lambda>m. m\<lparr>it_receiver := s\<rparr>)"
  by (rule field_string [where upd = "\<lambda>s m. m\<lparr>it_receiver := s\<rparr>"]) (simp_all add: Memo_IbcTransfer_field_def)

lemma it_memo_reads:
  "length (w_uint32 W 34 @ w_string W s) < 2 ^ 32 \<Longrightarrow>
   field_reads W (Memo_IbcTransfer_field W) (w_uint32 W 34 @ w_string W s) (\<lambda>m. m\<lparr>it_memo := s\<rparr>)"
  by (rule field_string [where upd = "\<lambda>s m. m\<lparr>it_memo := s\<rparr>"]) (simp_all add: Memo_IbcTransfer_field_def)

lemma it_recoverAddress_reads:
  "length (w_uint32 W 42 @ w_string W s) < 2 ^ 32 \<Longrightarrow>
   field_reads W (Memo_IbcTransfer_field W) (w_uint32 W 42 @ w_string W s) (\<lambda>m. m\<lparr>it_recoverAddress := s\<rparr>)"
  by (rule field_string [where upd = "\<lambda>s m. m\<lparr>it_recoverAddress := s\<rparr>"]) (simp_all add: Memo_IbcTransfer_field_def)

lemma reads_Memo_IbcTransfer:
  assumes "length (Memo_IbcTransfer_encode W m) < 2 ^ 32"
  shows "message_reads (Memo_IbcTransfer_decode W) (Memo_IbcTransfer_encode W m) m"
proof -
  let ?fs = "opt (it_sourceChannel m \<noteq> []) (w_uint32 W 10 @ w_string W (it_sourceChannel m), \<lambda>m'. m'\<lparr>it_sourceChannel := it_sourceChannel m\<rparr>) @
     opt (it_sourcePort m \<noteq> []) (w_uint32 W 18 @ w_string W (it_sourcePort m), \<lambda>m'. m'\<lparr>it_sourcePort := it_sourcePort m\<rparr>) @
     opt (it_receiver m \<noteq> []) (w_uint32 W 26 @ w_string W (it_receiver m), \<lambda>m'. m'\<lparr>it_receiver := it_receiver m\<rparr>) @
     opt (it_memo m \<noteq> []) (w_uint32 W 34 @ w_string W (it_memo m), \<lambda>m'. m'\<lparr>it_memo := it_memo m\<rparr>) @
     opt (it_recoverAddress m \<noteq> []) (w_uint32 W 42 @ w_string W (it_recoverAddress m), \<lambda>m'. m'\<lparr>it_recoverAddress := it_recoverAddress m\<rparr>)"
  have enc: "Memo_IbcTransfer_encode W m = concat (map fst ?fs)"
    by (simp add: Memo_IbcTransfer_encode_def comp_def)
  have fields: "list_all (\<lambda>(bs, u). length bs < 2 ^ 32 \<longrightarrow> field_reads W (Memo_IbcTransfer_field W) bs u) ?fs"
    using assms(1) unfolding list_all_iff
    by (auto simp: set_opt_some simp del: length_append intro!: it_sourceChannel_reads it_sourcePort_reads it_receiver_reads it_memo_reads it_recoverAddress_reads
        split: option.splits if_splits)
  have fold: "fold (\<lambda>(_, u) m. u m) ?fs createBaseMemo_IbcTransfer = m"
    by (cases m) (auto simp: createBaseMemo_IbcTransfer_def fold_map comp_def split: option.splits)
  show ?thesis unfolding Memo_IbcTransfer_decode_def
    by (rule message_by_fields [OF enc _ fields fold]) (use assms in simp)
qed

lemma iw_localChannelId_reads:
  "length (w_uint32 W 10 @ w_string W s) < 2 ^ 32 \<Longrightarrow>
   field_reads W (Memo_IbcWasmTransfer_field W) (w_uint32 W 10 @ w_string W s) (\<lambda>m. m\<lparr>iw_localChannelId := s\<rparr>)"
  by (rule field_string [where upd = "\<lambda>s m. m\<lparr>iw_localChannelId := s\<rparr>"]) (simp_all add: Memo_IbcWasmTransfer_field_def)

lemma iw_remoteAddress_reads:
  "length (w_uint32 W 18 @ w_string W s) < 2 ^ 32 \<Longrightarrow>
   field_reads W (Memo_IbcWasmTransfer_field W) (w_uint32 W 18 @ w_string W s) (\<lambda>m. m\<lparr>iw_remoteAddress := s\<rparr>)"
  by (rule field_string [where upd = "\<lambda>s m. m\<lparr>iw_remoteAddress := s\<rparr>"]) (simp_all add: Memo_IbcWasmTransfer_field_def)

lemma iw_remoteDenom_reads:
  "length (w_uint32 W 26 @ w_string W s) < 2 ^ 32 \<Longrightarrow>
   field_reads W (Memo_IbcWasmTransfer_field W) (w_uint32 W 26 @ w_string W s) (\<lambda>m. m\<lparr>iw_remoteDenom := s\<rparr>)"
  by (rule field_string [where upd = "\<lambda>s m. m\<lparr>iw_remoteDenom := s\<rparr>"]) (simp_all add: Memo_IbcWasmTransfer_field_def)

lemma iw_timeout_reads:
  "safe_uint x \<Longrightarrow>
   field_reads W (Memo_IbcWasmTransfer_field W) (w_uint32 W 32 @ w_uint64 W x) (\<lambda>m. m\<lparr>iw_timeout := Some x\<rparr>)"
  by (rule field_safe_uint [where upd = "\<lambda>x m. m\<lparr>iw_timeout := Some x\<rparr>"]) (simp_all add: Memo_IbcWasmTransfer_field_def)

lemma iw_memo_reads:
  "length (w_uint32 W 42 @ w_string W s) < 2 ^ 32 \<Longrightarrow>
   field_reads W (Memo_IbcWasmTransfer_field W) (w_uint32 W 42 @ w_string W s) (\<lambda>m. m\<lparr>iw_memo := Some s\<rparr>)"
  by (rule field_string [where upd = "\<lambda>s m. m\<lparr>iw_memo := Some s\<rparr>"]) (simp_all add: Memo_IbcWasmTransfer_field_def)

lemma reads_Memo_IbcWasmTransfer:
  assumes "Memo_IbcWasmTransfer_ok m" "length (Memo_IbcWasmTransfer_encode W m) < 2 ^ 32"
  shows "message_reads (Memo_IbcWasmTransfer_decode W) (Memo_IbcWasmTransfer_encode W m) m"
proof -
  let ?fs = "opt (iw_localChannelId m \<noteq> []) (w_uint32 W 10 @ w_string W (iw_localChannelId m), \<lambda>m'. m'\<lparr>iw_localChannelId := iw_localChannelId m\<rparr>) @
     opt (iw_remoteAddress m \<noteq> []) (w_uint32 W 18 @ w_string W (iw_remoteAddress m), \<lambda>m'. m'\<lparr>iw_remoteAddress := iw_remoteAddress m\<rparr>) @
     opt (iw_remoteDenom m \<noteq> []) (w_uint32 W 26 @ w_string W (iw_remoteDenom m), \<lambda>m'. m'\<lparr>iw_remoteDenom := iw_remoteDenom m\<rparr>) @
     opt_some (\<lambda>v. (w_uint32 W 32 @ w_uint64 W v, \<lambda>m'. m'\<lparr>iw_timeout := Some v\<rparr>)) (iw_timeout m) @
     opt_some (\<lambda>v. (w_uint32 W 42 @ w_string W v, \<lambda>m'. m'\<lparr>iw_memo := Some v\<rparr>)) (iw_memo m)"
  have enc: "Memo_IbcWasmTransfer_encode W m = concat (map fst ?fs)"
    by (simp add: Memo_IbcWasmTransfer_encode_def comp_def)
  have fields: "list_all (\<lambda>(bs, u). length bs < 2 ^ 32 \<longrightarrow> field_reads W (Memo_IbcWasmTransfer_field W) bs u) ?fs"
    using assms(1) unfolding list_all_iff
    by (auto simp: set_opt_some Memo_IbcWasmTransfer_ok_def simp del: length_append intro!: iw_localChannelId_reads iw_remoteAddress_reads iw_remoteDenom_reads iw_timeout_reads iw_memo_reads
        split: option.splits if_splits)
  have fold: "fold (\<lambda>(_, u) m. u m) ?fs createBaseMemo_IbcWasmTransfer = m"
    by (cases m) (auto simp: createBaseMemo_IbcWasmTransfer_def fold_map comp_def split: option.splits)
  show ?thesis unfolding Memo_IbcWasmTransfer_decode_def
    by (rule message_by_fields [OF enc _ fields fold]) (use assms in simp)
qed

lemma cc_contractAddress_reads:
  "length (w_uint32 W 10 @ w_string W s) < 2 ^ 32 \<Longrightarrow>
   field_reads W (Memo_ContractCall_field W) (w_uint32 W 10 @ w_string W s) (\<lambda>m. m\<lparr>cc_contractAddress := s\<rparr>)"
  by (rule field_string [where upd = "\<lambda>s m. m\<lparr>cc_contractAddress := s\<rparr>"]) (simp_all add: Memo_ContractCall_field_def)

lemma cc_msg_reads:
  "length (w_uint32 W 18 @ w_string W s) < 2 ^ 32 \<Longrightarrow>
   field_reads W (Memo_ContractCall_field W) (w_uint32 W 18 @ w_string W s) (\<lambda>m. m\<lparr>cc_msg := s\<rparr>)"
  by (rule field_string [where upd = "\<lambda>s m. m\<lparr>cc_msg := s\<rparr>"]) (simp_all add: Memo_ContractCall_field_def)

lemma reads_Memo_ContractCall:
  assumes "length (Memo_ContractCall_encode W m) < 2 ^ 32"
  shows "message_reads (Memo_ContractCall_decode W) (Memo_ContractCall_encode W m) m"
proof -
  let ?fs = "opt (cc_contractAddress m \<noteq> []) (w_uint32 W 10 @ w_string W (cc_contractAddress m), \<lambda>m'. m'\<lparr>cc_contractAddress := cc_contractAddress m\<rparr>) @
     opt (cc_msg m \<noteq> []) (w_uint32 W 18 @ w_string W (cc_msg m), \<lambda>m'. m'\<lparr>cc_msg := cc_msg m\<rparr>)"
  have enc: "Memo_ContractCall_encode W m = concat (map fst ?fs)"
    by (simp add: Memo_ContractCall_encode_def comp_def)
  have fields: "list_all (\<lambda>(bs, u). length bs < 2 ^ 32 \<longrightarrow> field_reads W (Memo_ContractCall_field W) bs u) ?fs"
    using assms(1) unfolding list_all_iff
    by (auto simp: set_opt_some simp del: length_append intro!: cc_contractAddress_reads cc_msg_reads
        split: option.splits if_splits)
  have fold: "fold (\<lambda>(_, u) m. u m) ?fs createBaseMemo_ContractCall = m"
    by (cases m) (auto simp: createBaseMemo_ContractCall_def fold_map comp_def split: option.splits)
  show ?thesis unfolding Memo_ContractCall_decode_def
    by (rule message_by_fields [OF enc _ fields fold]) (use assms in simp)
qed

lemma tr_toAddress_reads:
  "length (w_uint32 W 10 @ w_string W s) < 2 ^ 32 \<Longrightarrow>
   field_reads W (Memo_Transfer_field W) (w_uint32 W 10 @ w_string W s) (\<lambda>m. m\<lparr>tr_toAddress := s\<rparr>)"
  by (rule field_string [where upd = "\<lambda>s m. m\<lparr>tr_toAddress := s\<rparr>"]) (simp_all add: Memo_Transfer_field_def)

lemma reads_Memo_Transfer:
  assumes "length (Memo_Transfer_encode W m) < 2 ^ 32"
  shows "message_reads (Memo_Transfer_decode W) (Memo_Transfer_encode W m) m"
proof -
  let ?fs = "opt (tr_toAddress m \<noteq> []) (w_uint32 W 10 @ w_string W (tr_toAddress m), \<lambda>m'. m'\<lparr>tr_toAddress := tr_toAddress m\<rparr>)"
  have enc: "Memo_Transfer_encode W m = concat (map fst ?fs)"
    by (simp add: Memo_Transfer_encode_def comp_def)
  have fields: "list_all (\<lambda>(bs, u). length bs < 2 ^ 32 \<longrightarrow> field_reads W (Memo_Transfer_field W) bs u) ?fs"
    using assms(1) unfolding list_all_iff
    by (auto simp: set_opt_some simp del: length_append intro!: tr_toAddress_reads
        split: option.splits if_splits)
  have fold: "fold (\<lambda>(_, u) m. u m) ?fs createBaseMemo_Transfer = m"
    by (cases m) (auto simp: createBaseMemo_Transfer_def fold_map comp_def split: option.splits)
  show ?thesis unfolding Memo_Transfer_decode_def
    by (rule message_by_fields [OF enc _ fields fold]) (use assms in simp)
qed

lemma pa_ibcTransferMsg_reads:
  "length (w_uint32 W 10 @ w_ldelim W bs) < 2 ^ 32 \<Longrightarrow> (length bs < 2 ^ 32 \<Longrightarrow> message_reads (Memo_IbcTransfer_decode W) bs x) \<Longrightarrow>
   field_reads W (Memo_PostAction_field W) (w_uint32 W 10 @ w_ldelim W bs) (\<lambda>m. m\<lparr>pa_ibcTransferMsg := Some x\<rparr>)"
  by (rule sized_message [where upd = "\<lambda>x m. m\<lparr>pa_ibcTransferMsg := Some x\<rparr>"]) (simp_all add: Memo_PostAction_field_def)

lemma pa_ibcWasmTransferMsg_reads:
  "length (w_uint32 W 18 @ w_ldelim W bs) < 2 ^ 32 \<Longrightarrow> (length bs < 2 ^ 32 \<Longrightarrow> message_reads (Memo_IbcWasmTransfer_decode W) bs x) \<Longrightarrow>
   field_reads W (Memo_PostAction_field W) (w_uint32 W 18 @ w_ldelim W bs) (\<lambda>m. m\<lparr>pa_ibcWasmTransferMsg := Some x\<rparr>)"
  by (rule sized_message [where upd = "\<lambda>x m. m\<lparr>pa_ibcWasmTransferMsg := Some x\<rparr>"]) (simp_all add: Memo_PostAction_field_def)

lemma pa_contractCall_reads:
  "length (w_uint32 W 26 @ w_ldelim W bs) < 2 ^ 32 \<Longrightarrow> (length bs < 2 ^ 32 \<Longrightarrow> message_reads (Memo_ContractCall_decode W) bs x) \<Longrightarrow>
   field_reads W (Memo_PostAction_field W) (w_uint32 W 26 @ w_ldelim W bs) (\<lambda>m. m\<lparr>pa_contractCall := Some x\<rparr>)"
  by (rule sized_message [where upd = "\<lambda>x m. m\<lparr>pa_contractCall := Some x\<rparr>"]) (simp_all add: Memo_PostAction_field_def)

lemma pa_transferMsg_reads:
  "length (w_uint32 W 34 @ w_ldelim W bs) < 2 ^ 32 \<Longrightarrow> (length bs < 2 ^ 32 \<Longrightarrow> message_reads (Memo_Transfer_decode W) bs x) \<Longrightarrow>
   field_reads W (Memo_PostAction_field W) (w_uint32 W 34 @ w_ldelim W bs) (\<lambda>m. m\<lparr>pa_transferMsg := Some x\<rparr>)"
  by (rule sized_message [where upd = "\<lambda>x m. m\<lparr>pa_transferMsg := Some x\<rparr>"]) (simp_all add: Memo_PostAction_field_def)

lemma reads_Memo_PostAction:
  assumes "Memo_PostAction_ok m" "length (Memo_PostAction_encode W m) < 2 ^ 32"
  shows "message_reads (Memo_PostAction_decode W) (Memo_PostAction_encode W m) m"
proof -
  let ?fs = "opt_some (\<lambda>v. (w_uint32 W 10 @ w_ldelim W (Memo_IbcTransfer_encode W v), \<lambda>m'. m'\<lparr>pa_ibcTransferMsg := Some v\<rparr>)) (pa_ibcTransferMsg m) @
     opt_some (\<lambda>v. (w_uint32 W 18 @ w_ldelim W (Memo_IbcWasmTransfer_encode W v), \<lambda>m'. m'\<lparr>pa_ibcWasmTransferMsg := Some v\<rparr>)) (pa_ibcWasmTransferMsg m) @
     opt_some (\<lambda>v. (w_uint32 W 26 @ w_ldelim W (Memo_ContractCall_encode W v), \<lambda>m'. m'\<lparr>pa_contractCall := Some v\<rparr>)) (pa_contractCall m) @
     opt_some (\<lambda>v. (w_uint32 W 34 @ w_ldelim W (Memo_Transfer_encode W v), \<lambda>m'. m'\<lparr>pa_transferMsg := Some v\<rparr>)) (pa_transferMsg m)"
  have enc: "Memo_PostAction_encode W m = concat (map fst ?fs)"
    by (simp add: Memo_PostAction_encode_def comp_def)
  have fields: "list_all (\<lambda>(bs, u). length bs < 2 ^ 32 \<longrightarrow> field_reads W (Memo_PostAction_field W) bs u) ?fs"
    using assms(1) unfolding list_all_iff
    by (auto simp: set_opt_some Memo_PostAction_ok_def simp del: length_append intro!: pa_ibcTransferMsg_reads pa_ibcWasmTransferMsg_reads pa_contractCall_reads pa_transferMsg_reads reads_Memo_IbcTransfer reads_Memo_IbcWasmTransfer reads_Memo_ContractCall reads_Memo_Transfer
        split: option.splits if_splits)
  have fold: "fold (\<lambda>(_, u) m. u m) ?fs createBaseMemo_PostAction = m"
    by (cases m) (auto simp: createBaseMemo_PostAction_def fold_map comp_def split: option.splits)
  show ?thesis unfolding Memo_PostAction_decode_def
    by (rule message_by_fields [OF enc _ fields fold]) (use assms in simp)
qed

lemma m_userSwap_reads:
  "length (w_uint32 W 10 @ w_ldelim W bs) < 2 ^ 32 \<Longrightarrow> (length bs < 2 ^ 32 \<Longrightarrow> message_reads (Memo_UserSwap_decode W) bs x) \<Longrightarrow>
   field_reads W (Memo_field W) (w_uint32 W 10 @ w_ldelim W bs) (\<lambda>m. m\<lparr>m_userSwap := Some x\<rparr>)"
  by (rule sized_message [where upd = "\<lambda>x m. m\<lparr>m_userSwap := Some x\<rparr>"]) (simp_all add: Memo_field_def)

lemma m_minimumReceive_reads:
  "length (w_uint32 W 18 @ w_string W s) < 2 ^ 32 \<Longrightarrow>
   field_reads W (Memo_field W) (w_uint32 W 18 @ w_string W s) (\<lambda>m. m\<lparr>m_minimumReceive := s\<rparr>)"
  by (rule field_string [where upd = "\<lambda>s m. m\<lparr>m_minimumReceive := s\<rparr>"]) (simp_all add: Memo_field_def)

lemma m_timeoutTimestamp_reads:
  "safe_uint x \<Longrightarrow>
   field_reads W (Memo_field W) (w_uint32 W 24 @ w_uint64 W x) (\<lambda>m. m\<lparr>m_timeoutTimestamp := x\<rparr>)"
  by (rule field_safe_uint [where upd = "\<lambda>x m. m\<lparr>m_timeoutTimestamp := x\<rparr>"]) (simp_all add: Memo_field_def)

lemma m_postSwapAction_reads:
  "length (w_uint32 W 34 @ w_ldelim W bs) < 2 ^ 32 \<Longrightarrow> (length bs < 2 ^ 32 \<Longrightarrow> message_reads (Memo_PostAction_decode W) bs x) \<Longrightarrow>
   field_reads W (Memo_field W) (w_uint32 W 34 @ w_ldelim W bs) (\<lambda>m. m\<lparr>m_postSwapAction := Some x\<rparr>)"
  by (rule sized_message [where upd = "\<lambda>x m. m\<lparr>m_postSwapAction := Some x\<rparr>"]) (simp_all add: Memo_field_def)

lemma m_recoveryAddr_reads:
  "length (w_uint32 W 42 @ w_string W s) < 2 ^ 32 \<Longrightarrow>
   field_reads W (Memo_field W) (w_uint32 W 42 @ w_string W s) (\<lambda>m. m\<lparr>m_recoveryAddr := s\<rparr>)"
  by (rule field_string [where upd = "\<lambda>s m. m\<lparr>m_recoveryAddr := s\<rparr>"]) (simp_all add: Memo_field_def)

lemma reads_Memo:
  assumes "Memo_ok m" "length (Memo_encode W m) < 2 ^ 32"
  shows "message_reads (Memo_decode W) (Memo_encode W m) m"
proof -
  let ?fs = "opt_some (\<lambda>v. (w_uint32 W 10 @ w_ldelim W (Memo_UserSwap_encode W v), \<lambda>m'. m'\<lparr>m_userSwap := Some v\<rparr>)) (m_userSwap m) @
     opt (m_minimumReceive m \<noteq> []) (w_uint32 W 18 @ w_string W (m_minimumReceive m), \<lambda>m'. m'\<lparr>m_minimumReceive := m_minimumReceive m\<rparr>) @
     opt (m_timeoutTimestamp m \<noteq> Fin 0) (w_uint32 W 24 @ w_uint64 W (m_timeoutTimestamp m), \<lambda>m'. m'\<lparr>m_timeoutTimestamp := m_timeoutTimestamp m\<rparr>) @
     opt_some (\<lambda>v. (w_uint32 W 34 @ w_ldelim W (Memo_PostAction_encode W v), \<lambda>m'. m'\<lparr>m_postSwapAction := Some v\<rparr>)) (m_postSwapAction m) @
     opt (m_recoveryAddr m \<noteq> []) (w_uint32 W 42 @ w_string W (m_recoveryAddr m), \<lambda>m'. m'\<lparr>m_recoveryAddr := m_recoveryAddr m\<rparr>)"
  have enc: "Memo_encode W m = concat (map fst ?fs)"
    by (simp add: Memo_encode_def comp_def)
  have fields: "list_all (\<lambda>(bs, u). length bs < 2 ^ 32 \<longrightarrow> field_reads W (Memo_field W) bs u) ?fs"
    using assms(1) unfolding list_all_iff
    by (auto simp: set_opt_some Memo_ok_def simp del: length_append intro!: m_userSwap_reads m_minimumReceive_reads m_timeoutTimestamp_reads m_postSwapAction_reads m_recoveryAddr_reads reads_Memo_UserSwap reads_Memo_PostAction
        split: option.splits if_splits)
  have fold: "fold (\<lambda>(_, u) m. u m) ?fs createBaseMemo = m"
    by (cases m) (auto simp: createBaseMemo_def fold_map comp_def split: option.splits)
  show ?thesis unfolding Memo_decode_def
    by (rule message_by_fields [OF enc _ fields fold]) (use assms in simp)
qed

section \<open>Every decoder ends\<close>

lemma ends_Memo_SwapOperation: "reader_ends (\<lambda>buf p. Memo_SwapOperation_decode W buf p len)"
  unfolding Memo_SwapOperation_decode_def
  by (rule run_decode_ends)
    (auto simp: handler_ends_def Memo_SwapOperation_field_def split: if_splits
      intro: ends_string ends_uint64 ends_message)

lemma ends_Memo_SwapExactAssetIn: "reader_ends (\<lambda>buf p. Memo_SwapExactAssetIn_decode W buf p len)"
  unfolding Memo_SwapExactAssetIn_decode_def
  by (rule run_decode_ends)
    (auto simp: handler_ends_def Memo_SwapExactAssetIn_field_def split: if_splits
      intro: ends_string ends_uint64 ends_message ends_Memo_SwapOperation)

lemma ends_Memo_Route: "reader_ends (\<lambda>buf p. Memo_Route_decode W buf p len)"
  unfolding Memo_Route_decode_def
  by (rule run_decode_ends)
    (auto simp: handler_ends_def Memo_Route_field_def split: if_splits
      intro: ends_string ends_uint64 ends_message ends_Memo_SwapOperation)

lemma ends_Memo_SmartSwapExactAssetIn: "reader_ends (\<lambda>buf p. Memo_SmartSwapExactAssetIn_decode W buf p len)"
  unfolding Memo_SmartSwapExactAssetIn_decode_def
  by (rule run_decode_ends)
    (auto simp: handler_ends_def Memo_SmartSwapExactAssetIn_field_def split: if_splits
      intro: ends_string ends_uint64 ends_message ends_Memo_Route)

lemma ends_Memo_UserSwap: "reader_ends (\<lambda>buf p. Memo_UserSwap_decode W buf p len)"
  unfolding Memo_UserSwap_decode_def
  by (rule run_decode_ends)
    (auto simp: handler_ends_def Memo_UserSwap_field_def split: if_splits
      intro: ends_string ends_uint64 ends_message ends_Memo_SwapExactAssetIn ends_Memo_SmartSwapExactAssetIn)

lemma ends_Memo_IbcTransfer: "reader_ends (\<lambda>buf p. Memo_IbcTransfer_decode W buf p len)"
  unfolding Memo_IbcTransfer_decode_def
  by (rule run_decode_ends)
    (auto simp: handler_ends_def Memo_IbcTransfer_field_def split: if_splits
      intro: ends_string ends_uint64 ends_message)

lemma ends_Memo_IbcWasmTransfer: "reader_ends (\<lambda>buf p. Memo_IbcWasmTransfer_decode W buf p len)"
  unfolding Memo_IbcWasmTransfer_decode_def
  by (rule run_decode_ends)
    (auto simp: handler_ends_def Memo_IbcWasmTransfer_field_def split: if_splits
      intro: ends_string ends_uint64 ends_message)

lemma ends_Memo_ContractCall: "reader_ends (\<lambda>buf p. Memo_ContractCall_decode W buf p len)"
  unfolding Memo_ContractCall_decode_def
  by (rule run_decode_ends)
    (auto simp: handler_ends_def Memo_ContractCall_field_def split: if_splits
      intro: ends_string ends_uint64 ends_message)

lemma ends_Memo_Transfer: "reader_ends (\<lambda>buf p. Memo_Transfer_decode W buf p len)"
  unfolding Memo_Transfer_decode_def
  by (rule run_decode_ends)
    (auto simp: handler_ends_def Memo_Transfer_field_def split: if_splits
      intro: ends_string ends_uint64 ends_message)

lemma ends_Memo_PostAction: "reader_ends (\<lambda>buf p. Memo_PostAction_decode W buf p len)"
  unfolding Memo_PostAction_decode_def
  by (rule run_decode_ends)
    (auto simp: handler_ends_def Memo_PostAction_field_def split: if_splits
      intro: ends_string ends_uint64 ends_message ends_Memo_IbcTransfer ends_Memo_IbcWasmTransfer ends_Memo_ContractCall ends_Memo_Transfer)

lemma ends_Memo: "reader_ends (\<lambda>buf p. Memo_decode W buf p len)"
  unfolding Memo_decode_def
  by (rule run_decode_ends)
    (auto simp: handler_ends_def Memo_field_def split: if_splits
      intro: ends_string ends_uint64 ends_message ends_Memo_UserSwap ends_Memo_PostAction)

subsection \<open>A number beyond the safe integers\<close>

lemma decode_prefix:
  assumes "list_all (\<lambda>(bs, u). field_reads W f bs u) fs" "length pre + length (concat (map fst fs)) \<le> e"
  shows "decode_loop W f (length fs + n) (pre @ concat (map fst fs) @ post) (length pre) e m =
    decode_loop W f n (pre @ concat (map fst fs) @ post) (length pre + length (concat (map fst fs))) e
      (fold (\<lambda>(_, u) m. u m) fs m)"
  using assms
proof (induction fs arbitrary: pre m)
  case (Cons b fs)
  obtain bs u where b: "b = (bs, u)" by (cases b)
  let ?rest = "concat (map fst fs)"
  from Cons.prems(1) b have fr: "field_reads W f bs u" and all: "list_all (\<lambda>(bs, u). field_reads W f bs u) fs"
    by auto
  then obtain tag p1 where t: "r_uint32 W (pre @ bs @ (?rest @ post)) (length pre) = Inr (tag, p1)"
    "f tag m (pre @ bs @ (?rest @ post)) p1 = Some (Inr (u m, length pre + length bs))"
    unfolding field_reads_def by meson
  have "length pre < e" using fr Cons.prems(2) b by (cases bs) (simp_all add: field_reads_def)
  moreover have "decode_loop W f (length fs + n) ((pre @ bs) @ ?rest @ post) (length (pre @ bs)) e (u m) =
    decode_loop W f n ((pre @ bs) @ ?rest @ post) (length (pre @ bs) + length ?rest) e
      (fold (\<lambda>(_, u) m. u m) fs (u m))"
    using Cons.prems(2) b all by (intro Cons.IH) simp_all
  ultimately show ?case using t by (simp add: b add.assoc)
qed simp

lemma decode_unsafe_number:
  assumes fs: "list_all (\<lambda>(bs, u). field_reads W f bs u) fs"
    and t: "t < 2 ^ 32" "\<And>m buf p. f t m buf p = Some (rd_uint64 W upd m buf p)"
    and n: "MAX_SAFE_INTEGER < int n" "n < 2 ^ 64"
  shows "run_decode W f base (concat (map fst fs) @ (w_uint32 W t @ w_uint64 W (Fin (of_nat n))) @ post) 0 None =
    Inl (Thrown ''Value is larger than Number.MAX_SAFE_INTEGER'')"
proof -
  let ?c = "concat (map fst fs)" and ?w = "w_uint64 W (Fin (of_nat n))"
  let ?buf = "?c @ (w_uint32 W t @ ?w) @ post"
  have "length fs \<le> length ?buf" using fields_nonempty [OF fs] by simp
  then obtain k where k: "Suc (length ?buf) = length fs + Suc k" by (metis add_Suc_right le_Suc_ex)
  have tag: "r_uint32 W (?c @ w_uint32 W t @ ?w @ post) (length ?c) = Inr (t, length ?c + length (w_uint32 W t))"
    using uint32_law [OF t(1), of ?c "?w @ post"] by simp
  have num: "r_uint64 W (?c @ w_uint32 W t @ ?w @ post) (length ?c + length (w_uint32 W t)) =
      Inr (n, length ?c + length (w_uint32 W t) + length ?w)"
    using uint64_law [OF n(2), of "?c @ w_uint32 W t" post] by simp
  have "0 < length (w_uint32 W t)" using uint32_nonempty by simp
  then have "decode_loop W f (Suc k) ?buf (length ?c) (length ?buf) m =
      Inl (Thrown ''Value is larger than Number.MAX_SAFE_INTEGER'')" for m
    using tag num n(1) by (simp add: t(2) rd_uint64_def longToNumber_def)
  then show ?thesis
    using decode_prefix [OF fs, of "[]" "length ?buf" "Suc k" "(w_uint32 W t @ ?w) @ post" base] k
    by (simp add: run_decode_def del: decode_loop.simps)
qed

lemma memo_unsafe_timestamp:
  assumes us: "length (Memo_encode W m) < 2 ^ 32"
    and ts: "m_timeoutTimestamp m = Fin (of_nat n)" "MAX_SAFE_INTEGER < int n" "n < 2 ^ 64"
  shows "Memo_decode W (Memo_encode W m) 0 None = Inl (Thrown ''Value is larger than Number.MAX_SAFE_INTEGER'')"
proof -
  let ?fs = "opt_some (\<lambda>v. (w_uint32 W 10 @ w_ldelim W (Memo_UserSwap_encode W v), \<lambda>m' :: Memo. m'\<lparr>m_userSwap := Some v\<rparr>)) (m_userSwap m) @
     opt (m_minimumReceive m \<noteq> []) (w_uint32 W 18 @ w_string W (m_minimumReceive m), \<lambda>m' :: Memo. m'\<lparr>m_minimumReceive := m_minimumReceive m\<rparr>)"
  have nz: "of_nat n \<noteq> (0 :: rat)" using ts(2) by (auto simp: MAX_SAFE_INTEGER_def)
  obtain post where enc: "Memo_encode W m = concat (map fst ?fs) @ (w_uint32 W 24 @ w_uint64 W (Fin (of_nat n))) @ post"
    using nz ts(1) by (simp add: Memo_encode_def)
  have "list_all (\<lambda>(bs, u). length bs < 2 ^ 32 \<longrightarrow> field_reads W (Memo_field W) bs u) ?fs"
    unfolding list_all_iff by (auto simp: set_opt_some simp del: length_append
        intro!: m_userSwap_reads m_minimumReceive_reads reads_Memo_UserSwap split: option.splits if_splits)
  moreover have "length (fst b) < 2 ^ 32" if "b \<in> set ?fs" for b
    using concat_member_le [OF that, of fst] us unfolding enc by simp
  ultimately have fs: "list_all (\<lambda>(bs, u). field_reads W (Memo_field W) bs u) ?fs"
    by (fastforce simp: list_all_iff)
  have field: "Memo_field W 24 m buf p = Some (rd_uint64 W (\<lambda>n m. m\<lparr>m_timeoutTimestamp := n\<rparr>) m buf p)" for m buf p
    by (simp add: Memo_field_def)
  have "24 < (2::nat) ^ 32" by simp
  from decode_unsafe_number [OF fs this field ts(2,3), of createBaseMemo post]
  show ?thesis unfolding enc Memo_decode_def .
qed

end

section \<open>JSON\<close>

definition integral :: "js_num \<Rightarrow> bool" where
  "integral n \<longleftrightarrow> math_round n = n"

definition Memo_IbcWasmTransfer_rounded :: "Memo_IbcWasmTransfer \<Rightarrow> bool" where
  "Memo_IbcWasmTransfer_rounded m \<longleftrightarrow> pred_option integral (iw_timeout m)"

definition Memo_PostAction_rounded :: "Memo_PostAction \<Rightarrow> bool" where
  "Memo_PostAction_rounded m \<longleftrightarrow> pred_option Memo_IbcWasmTransfer_rounded (pa_ibcWasmTransferMsg m)"

definition Memo_rounded :: "Memo \<Rightarrow> bool" where
  "Memo_rounded m \<longleftrightarrow> integral (m_timeoutTimestamp m) \<and> pred_option Memo_PostAction_rounded (m_postSwapAction m)"

lemma map_of_put_some [simp]:
  "map_of (put_some k f x) j = (if j = k then map_option f x else None)"
  by (simp add: put_some_def split: option.splits)

lemmas json_fields = string_field_def number_field_def opt_string_field_def opt_number_field_def
  message_field_def list_field_def map_add_def integral_def

lemma rmap_json: "(\<And>x. f (g x) = Inr x) \<Longrightarrow> rmap f (map g xs) = Inr xs"
  by (induction xs) auto

lemma isSet_Memo_SwapOperation [simp]: "isSet (Memo_SwapOperation_toJSON m)"
  by (simp add: Memo_SwapOperation_toJSON_def)

lemma json_Memo_SwapOperation: "Memo_SwapOperation_fromJSON (Memo_SwapOperation_toJSON m) = Inr m"
  by (cases m) (auto simp: Memo_SwapOperation_fromJSON_def Memo_SwapOperation_toJSON_def json_fields rmap_json split: option.splits)

lemma isSet_Memo_SwapExactAssetIn [simp]: "isSet (Memo_SwapExactAssetIn_toJSON m)"
  by (simp add: Memo_SwapExactAssetIn_toJSON_def)

lemma json_Memo_SwapExactAssetIn: "Memo_SwapExactAssetIn_fromJSON (Memo_SwapExactAssetIn_toJSON m) = Inr m"
  by (cases m) (auto simp: Memo_SwapExactAssetIn_fromJSON_def Memo_SwapExactAssetIn_toJSON_def json_fields rmap_json json_Memo_SwapOperation split: option.splits)

lemma isSet_Memo_Route [simp]: "isSet (Memo_Route_toJSON m)"
  by (simp add: Memo_Route_toJSON_def)

lemma json_Memo_Route: "Memo_Route_fromJSON (Memo_Route_toJSON m) = Inr m"
  by (cases m) (auto simp: Memo_Route_fromJSON_def Memo_Route_toJSON_def json_fields rmap_json json_Memo_SwapOperation split: option.splits)

lemma isSet_Memo_SmartSwapExactAssetIn [simp]: "isSet (Memo_SmartSwapExactAssetIn_toJSON m)"
  by (simp add: Memo_SmartSwapExactAssetIn_toJSON_def)

lemma json_Memo_SmartSwapExactAssetIn: "Memo_SmartSwapExactAssetIn_fromJSON (Memo_SmartSwapExactAssetIn_toJSON m) = Inr m"
  by (cases m) (auto simp: Memo_SmartSwapExactAssetIn_fromJSON_def Memo_SmartSwapExactAssetIn_toJSON_def json_fields rmap_json json_Memo_Route split: option.splits)

lemma isSet_Memo_UserSwap [simp]: "isSet (Memo_UserSwap_toJSON m)"
  by (simp add: Memo_UserSwap_toJSON_def)

lemma json_Memo_UserSwap: "Memo_UserSwap_fromJSON (Memo_UserSwap_toJSON m) = Inr m"
  by (cases m) (auto simp: Memo_UserSwap_fromJSON_def Memo_UserSwap_toJSON_def json_fields rmap_json json_Memo_SwapExactAssetIn json_Memo_SmartSwapExactAssetIn split: option.splits)

lemma isSet_Memo_IbcTransfer [simp]: "isSet (Memo_IbcTransfer_toJSON m)"
  by (simp add: Memo_IbcTransfer_toJSON_def)

lemma json_Memo_IbcTransfer: "Memo_IbcTransfer_fromJSON (Memo_IbcTransfer_toJSON m) = Inr m"
  by (cases m) (auto simp: Memo_IbcTransfer_fromJSON_def Memo_IbcTransfer_toJSON_def json_fields rmap_json split: option.splits)

lemma isSet_Memo_IbcWasmTransfer [simp]: "isSet (Memo_IbcWasmTransfer_toJSON m)"
  by (simp add: Memo_IbcWasmTransfer_toJSON_def)

lemma json_Memo_IbcWasmTransfer: "Memo_IbcWasmTransfer_rounded m \<Longrightarrow> Memo_IbcWasmTransfer_fromJSON (Memo_IbcWasmTransfer_toJSON m) = Inr m"
  by (cases m) (auto simp: Memo_IbcWasmTransfer_fromJSON_def Memo_IbcWasmTransfer_toJSON_def json_fields rmap_json Memo_IbcWasmTransfer_rounded_def split: option.splits)

lemma isSet_Memo_ContractCall [simp]: "isSet (Memo_ContractCall_toJSON m)"
  by (simp add: Memo_ContractCall_toJSON_def)

lemma json_Memo_ContractCall: "Memo_ContractCall_fromJSON (Memo_ContractCall_toJSON m) = Inr m"
  by (cases m) (auto simp: Memo_ContractCall_fromJSON_def Memo_ContractCall_toJSON_def json_fields rmap_json split: option.splits)

lemma isSet_Memo_Transfer [simp]: "isSet (Memo_Transfer_toJSON m)"
  by (simp add: Memo_Transfer_toJSON_def)

lemma json_Memo_Transfer: "Memo_Transfer_fromJSON (Memo_Transfer_toJSON m) = Inr m"
  by (cases m) (auto simp: Memo_Transfer_fromJSON_def Memo_Transfer_toJSON_def json_fields rmap_json split: option.splits)

lemma isSet_Memo_PostAction [simp]: "isSet (Memo_PostAction_toJSON m)"
  by (simp add: Memo_PostAction_toJSON_def)

lemma json_Memo_PostAction: "Memo_PostAction_rounded m \<Longrightarrow> Memo_PostAction_fromJSON (Memo_PostAction_toJSON m) = Inr m"
  by (cases m) (auto simp: Memo_PostAction_fromJSON_def Memo_PostAction_toJSON_def json_fields rmap_json Memo_PostAction_rounded_def json_Memo_IbcTransfer json_Memo_IbcWasmTransfer json_Memo_ContractCall json_Memo_Transfer split: option.splits)

lemma isSet_Memo [simp]: "isSet (Memo_toJSON m)"
  by (simp add: Memo_toJSON_def)

lemma json_Memo: "Memo_rounded m \<Longrightarrow> Memo_fromJSON (Memo_toJSON m) = Inr m"
  by (cases m) (auto simp: Memo_fromJSON_def Memo_toJSON_def json_fields rmap_json Memo_rounded_def json_Memo_UserSwap json_Memo_PostAction split: option.splits)

section \<open>Partial messages\<close>

definition Memo_SwapOperation_partial_of :: "Memo_SwapOperation \<Rightarrow> Memo_SwapOperation_partial" where
  "Memo_SwapOperation_partial_of m = \<lparr>pso_poolId = Some (so_poolId m), pso_denomIn = Some (so_denomIn m), pso_denomOut = Some (so_denomOut m)\<rparr>"

lemma partial_Memo_SwapOperation: "Memo_SwapOperation_fromPartial (Memo_SwapOperation_partial_of m) = m"
  by (cases m) (simp add: Memo_SwapOperation_fromPartial_def Memo_SwapOperation_partial_of_def createBaseMemo_SwapOperation_def nullish_def option.map_comp option.map_ident comp_def)

definition Memo_SwapExactAssetIn_partial_of :: "Memo_SwapExactAssetIn \<Rightarrow> Memo_SwapExactAssetIn_partial" where
  "Memo_SwapExactAssetIn_partial_of m = \<lparr>psx_operations = Some (map Memo_SwapOperation_partial_of (sx_operations m))\<rparr>"

lemma partial_Memo_SwapExactAssetIn: "Memo_SwapExactAssetIn_fromPartial (Memo_SwapExactAssetIn_partial_of m) = m"
  by (cases m) (simp add: Memo_SwapExactAssetIn_fromPartial_def Memo_SwapExactAssetIn_partial_of_def createBaseMemo_SwapExactAssetIn_def nullish_def option.map_comp option.map_ident comp_def partial_Memo_SwapOperation)

definition Memo_Route_partial_of :: "Memo_Route \<Rightarrow> Memo_Route_partial" where
  "Memo_Route_partial_of m = \<lparr>prt_offerAmount = Some (rt_offerAmount m), prt_operations = Some (map Memo_SwapOperation_partial_of (rt_operations m))\<rparr>"

lemma partial_Memo_Route: "Memo_Route_fromPartial (Memo_Route_partial_of m) = m"
  by (cases m) (simp add: Memo_Route_fromPartial_def Memo_Route_partial_of_def createBaseMemo_Route_def nullish_def option.map_comp option.map_ident comp_def partial_Memo_SwapOperation)

definition Memo_SmartSwapExactAssetIn_partial_of :: "Memo_SmartSwapExactAssetIn \<Rightarrow> Memo_SmartSwapExactAssetIn_partial" where
  "Memo_SmartSwapExactAssetIn_partial_of m = \<lparr>pss_routes = Some (map Memo_Route_partial_of (ss_routes m))\<rparr>"

lemma partial_Memo_SmartSwapExactAssetIn: "Memo_SmartSwapExactAssetIn_fromPartial (Memo_SmartSwapExactAssetIn_partial_of m) = m"
  by (cases m) (simp add: Memo_SmartSwapExactAssetIn_fromPartial_def Memo_SmartSwapExactAssetIn_partial_of_def createBaseMemo_SmartSwapExactAssetIn_def nullish_def option.map_comp option.map_ident comp_def partial_Memo_Route)

definition Memo_UserSwap_partial_of :: "Memo_UserSwap \<Rightarrow> Memo_UserSwap_partial" where
  "Memo_UserSwap_partial_of m = \<lparr>pus_swapVenueName = Some (us_swapVenueName m), pus_swapExactAssetIn = map_option Memo_SwapExactAssetIn_partial_of (us_swapExactAssetIn m), pus_smartSwapExactAssetIn = map_option Memo_SmartSwapExactAssetIn_partial_of (us_smartSwapExactAssetIn m)\<rparr>"

lemma partial_Memo_UserSwap: "Memo_UserSwap_fromPartial (Memo_UserSwap_partial_of m) = m"
  by (cases m) (simp add: Memo_UserSwap_fromPartial_def Memo_UserSwap_partial_of_def createBaseMemo_UserSwap_def nullish_def option.map_comp option.map_ident comp_def partial_Memo_SwapExactAssetIn partial_Memo_SmartSwapExactAssetIn)

definition Memo_IbcTransfer_partial_of :: "Memo_IbcTransfer \<Rightarrow> Memo_IbcTransfer_partial" where
  "Memo_IbcTransfer_partial_of m = \<lparr>pit_sourceChannel = Some (it_sourceChannel m), pit_sourcePort = Some (it_sourcePort m), pit_receiver = Some (it_receiver m), pit_memo = Some (it_memo m), pit_recoverAddress = Some (it_recoverAddress m)\<rparr>"

lemma partial_Memo_IbcTransfer: "Memo_IbcTransfer_fromPartial (Memo_IbcTransfer_partial_of m) = m"
  by (cases m) (simp add: Memo_IbcTransfer_fromPartial_def Memo_IbcTransfer_partial_of_def createBaseMemo_IbcTransfer_def nullish_def option.map_comp option.map_ident comp_def)

definition Memo_IbcWasmTransfer_partial_of :: "Memo_IbcWasmTransfer \<Rightarrow> Memo_IbcWasmTransfer_partial" where
  "Memo_IbcWasmTransfer_partial_of m = \<lparr>piw_localChannelId = Some (iw_localChannelId m), piw_remoteAddress = Some (iw_remoteAddress m), piw_remoteDenom = Some (iw_remoteDenom m), piw_timeout = iw_timeout m, piw_memo = iw_memo m\<rparr>"

lemma partial_Memo_IbcWasmTransfer: "Memo_IbcWasmTransfer_fromPartial (Memo_IbcWasmTransfer_partial_of m) = m"
  by (cases m) (simp add: Memo_IbcWasmTransfer_fromPartial_def Memo_IbcWasmTransfer_partial_of_def createBaseMemo_IbcWasmTransfer_def nullish_def option.map_comp option.map_ident comp_def)

definition Memo_ContractCall_partial_of :: "Memo_ContractCall \<Rightarrow> Memo_ContractCall_partial" where
  "Memo_ContractCall_partial_of m = \<lparr>pcc_contractAddress = Some (cc_contractAddress m), pcc_msg = Some (cc_msg m)\<rparr>"

lemma partial_Memo_ContractCall: "Memo_ContractCall_fromPartial (Memo_ContractCall_partial_of m) = m"
  by (cases m) (simp add: Memo_ContractCall_fromPartial_def Memo_ContractCall_partial_of_def createBaseMemo_ContractCall_def nullish_def option.map_comp option.map_ident comp_def)

definition Memo_Transfer_partial_of :: "Memo_Transfer \<Rightarrow> Memo_Transfer_partial" where
  "Memo_Transfer_partial_of m = \<lparr>ptr_toAddress = Some (tr_toAddress m)\<rparr>"

lemma partial_Memo_Transfer: "Memo_Transfer_fromPartial (Memo_Transfer_partial_of m) = m"
  by (cases m) (simp add: Memo_Transfer_fromPartial_def Memo_Transfer_partial_of_def createBaseMemo_Transfer_def nullish_def option.map_comp option.map_ident comp_def)

definition Memo_PostAction_partial_of :: "Memo_PostAction \<Rightarrow> Memo_PostAction_partial" where
  "Memo_PostAction_partial_of m = \<lparr>ppa_ibcTransferMsg = map_option Memo_IbcTransfer_partial_of (pa_ibcTransferMsg m), ppa_ibcWasmTransferMsg = map_option Memo_IbcWasmTransfer_partial_of (pa_ibcWasmTransferMsg m), ppa_contractCall = map_option Memo_ContractCall_partial_of (pa_contractCall m), ppa_transferMsg = map_option Memo_Transfer_partial_of (pa_transferMsg m)\<rparr>"

lemma partial_Memo_PostAction: "Memo_PostAction_fromPartial (Memo_PostAction_partial_of m) = m"
  by (cases m) (simp add: Memo_PostAction_fromPartial_def Memo_PostAction_partial_of_def createBaseMemo_PostAction_def nullish_def option.map_comp option.map_ident comp_def partial_Memo_IbcTransfer partial_Memo_IbcWasmTransfer partial_Memo_ContractCall partial_Memo_Transfer)

definition Memo_partial_of :: "Memo \<Rightarrow> Memo_partial" where
  "Memo_partial_of m = \<lparr>pm_userSwap = map_option Memo_UserSwap_partial_of (m_userSwap m), pm_minimumReceive = Some (m_minimumReceive m), pm_timeoutTimestamp = Some (m_timeoutTimestamp m), pm_postSwapAction = map_option Memo_PostAction_partial_of (m_postSwapAction m), pm_recoveryAddr = Some (m_recoveryAddr m)\<rparr>"

lemma partial_Memo: "Memo_fromPartial (Memo_partial_of m) = m"
  by (cases m) (simp add: Memo_fromPartial_def Memo_partial_of_def createBaseMemo_def nullish_def option.map_comp option.map_ident comp_def partial_Memo_UserSwap partial_Memo_PostAction)


section \<open>Properties\<close>

text \<open>A small memo for the witnesses: a one-hop swap, then a transfer on Oraichain.\<close>

definition sample_memo :: "nat \<Rightarrow> Memo" where
  "sample_memo ts = \<lparr>
     m_userSwap = Some \<lparr>us_swapVenueName = ''v3'', us_swapExactAssetIn = None,
       us_smartSwapExactAssetIn = Some \<lparr>ss_routes = [\<lparr>rt_offerAmount = ''7'',
         rt_operations = [\<lparr>so_poolId = ''p'', so_denomIn = ''a'', so_denomOut = ''b''\<rparr>]\<rparr>]\<rparr>\<rparr>,
     m_minimumReceive = ''5'', m_timeoutTimestamp = Fin (of_nat ts),
     m_postSwapAction = Some \<lparr>pa_ibcTransferMsg = None,
       pa_ibcWasmTransferMsg = Some \<lparr>iw_localChannelId = ''c'', iw_remoteAddress = ''r'', iw_remoteDenom = ''d'',
         iw_timeout = Some (Fin 9), iw_memo = None\<rparr>, pa_contractCall = None,
       pa_transferMsg = Some \<lparr>tr_toAddress = ''t''\<rparr>\<rparr>,
     m_recoveryAddr = ''o''\<rparr>"

lemmas encode_defs = Memo_encode_def Memo_UserSwap_encode_def Memo_SwapExactAssetIn_encode_def
  Memo_SmartSwapExactAssetIn_encode_def Memo_Route_encode_def Memo_SwapOperation_encode_def
  Memo_PostAction_encode_def Memo_IbcTransfer_encode_def Memo_IbcWasmTransfer_encode_def
  Memo_ContractCall_encode_def Memo_Transfer_encode_def

lemma varint_small: "n < 128 \<Longrightarrow> varint n = [of_nat n]"
  by (simp add: varint.simps)

lemma utf8_char_ascii: "of_char c < (128::nat) \<Longrightarrow> utf8_char c = [of_nat (of_char c)]"
  by (simp add: utf8_char_def)

lemmas pb_eval = pb_wire_def utf8_def varint_small utf8_char_ascii

text \<open>C4. For every reader and writer with the protobufjs behaviour, a memo whose numbers are safe
  integers and whose encoding is below the 32-bit length limit is decoded back exactly, with every
  nested message, list and optional field, and the decoder stops at the end of its bytes.\<close>

theorem memo_roundtrip:
  assumes "proto_wire W" "Memo_ok m" "length (Memo_encode W m) < 2 ^ 32"
  shows "Memo_decode W (Memo_encode W m) 0 None = Inr (m, length (Memo_encode W m))"
  using proto_wire.reads_Memo [OF assms] unfolding message_reads_def Memo_decode_def run_decode_def
  by (metis append_Nil append_Nil2 list.size(3) add_0 option.simps(4,5))

theorem memo_roundtrip_witness:
  "Memo_decode pb_wire (Memo_encode pb_wire (sample_memo 60)) 0 None =
     Inr (sample_memo 60, length (Memo_encode pb_wire (sample_memo 60)))"
  by (rule memo_roundtrip [OF pb.proto_wire_axioms])
    (simp_all add: sample_memo_def Memo_ok_def Memo_PostAction_ok_def Memo_IbcWasmTransfer_ok_def
      MAX_SAFE_INTEGER_def encode_defs pb_eval)

text \<open>C25. Decoding ends: for every byte string, however malformed, at every position and for every declared
  length, no nested decode loop makes more rounds than the buffer has bytes plus one, so that \<open>decode\<close> returns a memo
  or raises.\<close>

theorem memo_decode_ends:
  assumes "proto_wire W"
  shows "Memo_decode W buf pos len \<noteq> Inl OutOfFuel"
  using proto_wire.ends_Memo [OF assms, of len] unfolding reader_ends_def by (metis ends_from_Inl)

theorem memo_decode_ends_witness: "Memo_decode pb_wire [10, 200, 1, 7] 0 None \<noteq> Inl OutOfFuel"
  by (rule memo_decode_ends [OF pb.proto_wire_axioms])

text \<open>A memo whose \<open>timeoutTimestamp\<close> exceeds \<open>Number.MAX_SAFE_INTEGER\<close> can be encoded but never
  decoded: \<open>longToNumber\<close> raises. Every timestamp in nanoseconds is of this kind.\<close>

theorem memo_nanosecond_timestamp:
  assumes "proto_wire W" "length (Memo_encode W m) < 2 ^ 32"
    and "m_timeoutTimestamp m = Fin (of_nat n)" "MAX_SAFE_INTEGER < int n" "n < 2 ^ 64"
  shows "Memo_decode W (Memo_encode W m) 0 None =
    Inl (Thrown ''Value is larger than Number.MAX_SAFE_INTEGER'')"
  using assms by (rule proto_wire.memo_unsafe_timestamp)

theorem memo_nanosecond_timestamp_witness:
  "Memo_decode pb_wire (Memo_encode pb_wire (createBaseMemo\<lparr>m_timeoutTimestamp := Fin 1700000000000000000\<rparr>)) 0 None =
     Inl (Thrown ''Value is larger than Number.MAX_SAFE_INTEGER'')"
  by (rule memo_nanosecond_timestamp [OF pb.proto_wire_axioms, where n = 1700000000000000000])
    (simp_all add: createBaseMemo_def MAX_SAFE_INTEGER_def encode_defs pb_wire_def varint.simps)

text \<open>\<open>fromJSON\<close> reads back what \<open>toJSON\<close> wrote, with every field \<open>toJSON\<close> leaves out restored to
  its base value, for a memo whose numbers \<open>Math.round\<close> does not change.\<close>

theorem memo_json_roundtrip:
  assumes "Memo_rounded m"
  shows "Memo_fromJSON (Memo_toJSON m) = Inr m"
  using assms by (rule json_Memo)

theorem memo_json_roundtrip_witness:
  "Memo_fromJSON (Memo_toJSON (sample_memo 1700000000000000000)) = Inr (sample_memo 1700000000000000000)"
  by (rule memo_json_roundtrip)
    (simp add: sample_memo_def Memo_rounded_def Memo_PostAction_rounded_def Memo_IbcWasmTransfer_rounded_def
      integral_def math_round_def floor_eq_iff)

text \<open>\<open>fromPartial\<close> of a partial that gives every field is that memo, and \<open>create()\<close> without an
  argument is the base memo, so an absent field and an explicit base value cannot be told apart.\<close>

theorem memo_fromPartial: "Memo_fromPartial (Memo_partial_of m) = m \<and> Memo_create None = createBaseMemo"
proof
  show "Memo_create None = createBaseMemo"
    by (simp add: Memo_create_def Memo_fromPartial_def createBaseMemo_def nullish_def)
qed (rule partial_Memo)

end
