(* ===== verification/SdkTypes.thy ===== *)
theory SdkTypes
  imports BigDec Json Wire
begin

text \<open>
  The data of the route builders (\<open>packages/universal-swap/src/types.ts\<close>, \<open>msg/types.ts\<close>), the
  constants of \<open>packages/oraidex-common/src/constant.ts\<close> they use, and the record \<open>ext\<close> of
  everything the code calls that is not part of the repository: address codecs (bech32, ethers,
  @ton/core), the cosmjs encoders \<open>toBinary\<close> and \<open>toUtf8\<close>, \<open>Buffer\<close>'s base64, the protobufjs
  reader and writer, the clock and the chain lists the caller passes as \<open>OraidexCommon\<close>.
  \<open>fromBech32\<close> and \<open>toBech32\<close> are the address codec of @cosmjs/encoding, of whose result the code reads
  the data only; \<open>bech32_decode\<close> is the decoder of the bech32 package, of which it reads the prefix.
  \<open>bech32_decode\<close> and \<open>ton_parse_error\<close> give the message of the error those decoders raise.
  The clock is read several times while one message is built; the model gives all of these reads
  the same value.
\<close>

section \<open>The environment\<close>

record cosmos_chain =
  ch_chainId :: string
  ch_bech32PrefixAccAddr :: string
  ch_coinType :: "nat option"

record ext =
  bech32_decode :: "string \<Rightarrow> string + string"
  fromBech32 :: "string \<Rightarrow> byte list res"
  toBech32 :: "string \<Rightarrow> byte list \<Rightarrow> string"
  eth_getAddress :: "string \<Rightarrow> string option"
  eth_isAddress :: "string \<Rightarrow> bool"
  ton_parse_error :: "string \<Rightarrow> string option"
  toBinary :: "json \<Rightarrow> string"
  toUtf8 :: "string \<Rightarrow> byte list"
  toBase64 :: "byte list \<Rightarrow> string"
  ext_wire :: wire
  Date_now :: int
  common_IBC_TRANSFER_TIMEOUT :: int
  cosmosChains :: "cosmos_chain list"
  evmChains :: "string list"

section \<open>Constants\<close>

definition IBC_TRANSFER_TIMEOUT :: int where
  "IBC_TRANSFER_TIMEOUT = 3600"

definition ORAI_BRIDGE_EVM_DENOM_PREFIX :: string where
  "ORAI_BRIDGE_EVM_DENOM_PREFIX = ''oraib''"

definition ORAI_BRIDGE_EVM_ETH_DENOM_PREFIX :: string where
  "ORAI_BRIDGE_EVM_ETH_DENOM_PREFIX = ''eth-mainnet''"

definition ORAI_BRIDGE_EVM_TRON_DENOM_PREFIX :: string where
  "ORAI_BRIDGE_EVM_TRON_DENOM_PREFIX = ''trontrx-mainnet''"

definition TON_CONTRACT :: string where
  "TON_CONTRACT = ''EQAAAAAAAAAAAAAAAAAAAAAAAAAAAAAAAAAAAAAAAAAAAM9c''"

definition TON20_USDT_CONTRACT :: string where
  "TON20_USDT_CONTRACT = ''EQCxE6mUtQJKFnGfaROTKOt1lZbDiiX1kCixRv7Nw2Id_sDs''"

definition HMSTR_TON_CONTRACT :: string where
  "HMSTR_TON_CONTRACT = ''EQAJ8uWd7EBqsmpSWaRdf_I-8R8-XHwh3gsNKhy-UrdrPcUo''"

definition jUSDC_TON_CONTRACT :: string where
  "jUSDC_TON_CONTRACT = ''EQB-MPwrd1G6WKNkLz_VnV6WqBDd142KMQv-g1O-8QUA3728''"

definition JETTONS_ADDRESS :: "(string \<times> string) list" where
  "JETTONS_ADDRESS =
    [(TON_CONTRACT, TON_CONTRACT),
     (TON20_USDT_CONTRACT, ''EQANiP_ggkS0lJbR12xmDNT7hgqphdnVG0cCiJN6BN35Z498''),
     (HMSTR_TON_CONTRACT, ''EQC6hNI8R02lWfTV7wKXo9zueMoUP7ZBY4KZp5fkvN_Ad9Um''),
     (jUSDC_TON_CONTRACT, ''EQAacZPtQpnIHS1PlQgVaceb_I4v2HE3rvrZC91ynSRqXd9d'')]"

definition CONVERTER_CONTRACT :: string where
  "CONVERTER_CONTRACT = ''orai14wy8xndhnvjmx6zl2866xqvs7fqwv2arhhrqq9''"

definition IBC_WASM_CONTRACT :: string where
  "IBC_WASM_CONTRACT = ''orai195269awwnt5m6c843q6w7hp8rt0k7syfu9de4h0wz384slshuzps8y7ccm''"

section \<open>Routes\<close>

record swap_info =
  si_poolId :: string
  si_tokenOut :: string

record bridge_info =
  bi_port :: string
  bi_channel :: string

definition Bridge :: string where "Bridge = ''Bridge''"
definition Swap :: string where "Swap = ''Swap''"
definition Convert :: string where "Convert = ''Convert''"

lemmas action_types = Bridge_def Swap_def Convert_def

text \<open>
  \<open>tokenOutChainId\<close> is not declared in \<open>Action\<close>, but the router sends it with a bridge and \<open>Routes\<close> has it.
\<close>

record action =
  a_type :: string
  a_tokenIn :: string
  a_tokenInAmount :: string
  a_tokenOut :: string
  a_tokenOutAmount :: string
  a_protocol :: "string option"
  a_swapInfo :: "swap_info list option"
  a_bridgeInfo :: "bridge_info option"
  a_tokenOutChainId :: "string option"

record path =
  p_chainId :: string
  p_tokenIn :: string
  p_tokenInAmount :: string
  p_tokenOut :: string
  p_tokenOutAmount :: string
  p_tokenOutChainId :: string
  p_actions :: "action list"

record route =
  r_swapAmount :: string
  r_returnAmount :: string
  r_paths :: "path list"

record router_response =
  rr_swapAmount :: string
  rr_returnAmount :: string
  rr_routes :: "route list"

section \<open>Messages\<close>

record bridge_msg_info =
  bm_amount :: string
  bm_sourceChannel :: string
  bm_sourcePort :: string
  bm_receiver :: string
  bm_timeout :: js_num
  bm_memo :: string
  bm_prefix :: "string option"
  bm_fromToken :: string
  bm_fromChain :: string
  bm_toToken :: string
  bm_toChain :: string

record middleware_response =
  mr_memo :: string
  mr_receiver :: string

record swap_operation =
  denom_in :: string
  denom_out :: string
  pool :: string

record coin =
  c_denom :: string
  c_amount :: string

record msg_transfer =
  mt_sourcePort :: string
  mt_sourceChannel :: string
  mt_receiver :: string
  mt_token :: coin
  mt_sender :: string
  mt_memo :: string
  mt_timeoutTimestamp :: js_num

record msg_execute_contract =
  me_sender :: string
  me_contract :: string
  me_msg :: "byte list"
  me_funds :: "coin list"

datatype msg_value = MsgTransfer msg_transfer | MsgExecuteContract msg_execute_contract

record encode_object =
  typeUrl :: string
  eo_value :: msg_value

definition TRANSFER_URL :: string where
  "TRANSFER_URL = ''/ibc.applications.transfer.v1.MsgTransfer''"

definition EXECUTE_URL :: string where
  "EXECUTE_URL = ''/cosmwasm.wasm.v1.MsgExecuteContract''"

text \<open>A string that may be \<open>undefined\<close>, as a condition and with \<open>undefined\<close> read as empty.\<close>

definition truthy :: "string option \<Rightarrow> bool" where
  "truthy s = (case s of None \<Rightarrow> False | Some t \<Rightarrow> t \<noteq> [])"

definition str_of :: "string option \<Rightarrow> string" where
  "str_of s = (case s of None \<Rightarrow> [] | Some t \<Rightarrow> t)"

lemma truthy_simps [simp]: "\<not> truthy None" "truthy (Some t) \<longleftrightarrow> t \<noteq> []"
  by (simp_all add: truthy_def)

lemma str_of_simps [simp]: "str_of None = []" "str_of (Some t) = t"
  by (simp_all add: str_of_def)

lemma truthy_iff: "truthy s \<longleftrightarrow> (\<exists>t. s = Some t \<and> t \<noteq> [])"
  by (cases s) auto

end
