(* ===== verification/MsgCommon.thy ===== *)
theory MsgCommon
  imports SdkTypes
begin

text \<open>
  The checks every message builder shares: \<open>msg/common.ts\<close>, the base class \<open>ChainMsg\<close> of
  \<open>msg/chains/chain.ts\<close>, and from \<open>oraidex-common/src/helper.ts\<close> the chain predicates, the address
  test and the timeout. \<open>generateError(m)\<close> builds the object the callers throw: \<open>Thrown m\<close>.
\<close>

section \<open>Paths and receivers\<close>

definition generateError :: "string \<Rightarrow> 'a res" where
  "generateError message = Inl (Thrown message)"

definition validatePath :: "path \<Rightarrow> bool \<Rightarrow> unit res" where
  "validatePath path hasSwap =
     (let numBridgeActions = length (filter (\<lambda>a. a_type a = Bridge) (p_actions path)) in
      if length (p_actions path) = 0 then generateError ''Require at least one action''
      else if 1 < numBridgeActions then generateError ''Only one Bridge action is allowed in the path''
      else if numBridgeActions = 1 \<and> a_type (p_actions path ! (length (p_actions path) - 1)) \<noteq> Bridge
      then generateError ''Bridge action must be the last in the path''
      else if \<not> hasSwap \<and> list_ex (\<lambda>a. a_type a = Convert \<or> a_type a = Swap) (p_actions path)
      then generateError ''Don't support swap action''
      else Inr ())"

definition validateReceiver :: "string option \<Rightarrow> string option \<Rightarrow> string \<Rightarrow> unit res" where
  "validateReceiver receiver currentChainAddress chainId =
     (if \<not> truthy receiver then generateError (''Missing receiver when build msg in '' @ chainId)
      else if \<not> truthy currentChainAddress then generateError (''Missing address of '' @ chainId)
      else Inr ())"

definition isCw20Token :: "ext \<Rightarrow> string \<Rightarrow> bool" where
  "isCw20Token X address = (case bech32_decode X address of Inl _ \<Rightarrow> False | Inr _ \<Rightarrow> True)"

section \<open>Chains, addresses and timeouts\<close>

definition isCosmosChain :: "string \<Rightarrow> cosmos_chain list \<Rightarrow> bool" where
  "isCosmosChain chainId cs = (find (\<lambda>c. ch_chainId c = chainId) cs \<noteq> None)"

definition isEvmChain :: "string \<Rightarrow> string list \<Rightarrow> bool" where
  "isEvmChain chainId cs = (find (\<lambda>c. c = chainId) cs \<noteq> None)"

definition isTonChain :: "string \<Rightarrow> bool" where
  "isTonChain chainId = (chainId = ''ton'')"

definition isEthAddress :: "ext \<Rightarrow> string \<Rightarrow> bool" where
  "isEthAddress X address = (case eth_getAddress X address of None \<Rightarrow> False | Some c \<Rightarrow> eth_isAddress X c)"

text \<open>
  \<open>Long\<close> is a signed 64-bit integer: \<open>fromNumber\<close> stops at the ends of its range and the product wraps. The seconds \<open>Math.floor(ms / 1000)\<close> are
  exact, because the rounding of the quotient of two integers below \<open>2^53\<close> by 1000 cannot reach
  the next integer.
\<close>

definition long :: "int \<Rightarrow> int" where
  "long n = sint (word_of_int n :: 64 word)"

definition Long_fromNumber :: "int \<Rightarrow> int" where
  "Long_fromNumber n = (if n \<le> - (2 ^ 63) then - (2 ^ 63) else if 2 ^ 63 \<le> n + 1 then 2 ^ 63 - 1 else n)"

definition calculateTimeoutTimestamp :: "int \<Rightarrow> int \<Rightarrow> string" where
  "calculateTimeoutTimestamp timeout dateNow =
     int_str (long (Long_fromNumber (dateNow div 1000 + timeout) * 1000000000))"

text \<open>\<open>+calculateTimeoutTimestamp(IBC_TRANSFER_TIMEOUT)\<close>\<close>

definition timeout_ns :: "ext \<Rightarrow> js_num" where
  "timeout_ns X = string_to_num (calculateTimeoutTimestamp IBC_TRANSFER_TIMEOUT (Date_now X))"

section \<open>Address validation\<close>

text \<open>\<open>{ isValid, network?, error? }\<close>\<close>

record address_check =
  isValid :: bool
  ac_network :: "string option"
  ac_error :: "string option"

definition is_lower_letter :: "char \<Rightarrow> bool" where
  "is_lower_letter c = (let n = of_char c :: nat in 97 \<le> n \<and> n \<le> 122)"

definition is_upper_letter :: "char \<Rightarrow> bool" where
  "is_upper_letter c = (let n = of_char c :: nat in 65 \<le> n \<and> n \<le> 90)"

text \<open>\<open>/^[a-z]{1,6}[0-9a-z]{0,64}$/\<close>\<close>

definition cosmosAddressRegex :: "string \<Rightarrow> bool" where
  "cosmosAddressRegex s = list_ex (\<lambda>k. k \<le> length s \<and> list_all is_lower_letter (take k s) \<and>
     length (drop k s) \<le> 64 \<and> list_all (\<lambda>c. is_digit c \<or> is_lower_letter c) (drop k s)) [1, 2, 3, 4, 5, 6]"

definition validateAndIdentifyCosmosAddress :: "ext \<Rightarrow> string \<Rightarrow> string \<Rightarrow> cosmos_chain list \<Rightarrow> address_check" where
  "validateAndIdentifyCosmosAddress X address network cs =
     (let invalid = (\<lambda>e. \<lparr>isValid = False, ac_network = None, ac_error = Some e\<rparr>) in
      if \<not> cosmosAddressRegex address then invalid ''Invalid address''
      else case bech32_decode X address of
        Inl e \<Rightarrow> invalid e
      | Inr pfx \<Rightarrow>
          (let chainInfo = find (\<lambda>c. ch_chainId c = network) (rev cs) in
           if (case chainInfo of None \<Rightarrow> False | Some c \<Rightarrow> ch_bech32PrefixAccAddr c \<noteq> pfx)
           then invalid ''Network doesn't match''
           else if list_ex (\<lambda>c. ch_bech32PrefixAccAddr c = pfx) cs
           then \<lparr>isValid = True, ac_network = Some network, ac_error = None\<rparr>
           else invalid ''Unsupported address network''))"

definition validateEvmAddress :: "ext \<Rightarrow> string \<Rightarrow> string \<Rightarrow> address_check" where
  "validateEvmAddress X address network =
     (if eth_isAddress X address then \<lparr>isValid = True, ac_network = Some network, ac_error = None\<rparr>
      else \<lparr>isValid = False, ac_network = None, ac_error = None\<rparr>)"

text \<open>\<open>/T[a-zA-Z0-9]{32}/\<close>, not anchored\<close>

definition isValidTronAddress :: "string \<Rightarrow> bool" where
  "isValidTronAddress address = list_ex (\<lambda>t. t \<noteq> [] \<and> hd t = CHR ''T'' \<and> 32 \<le> length (tl t) \<and>
     list_all (\<lambda>c. is_digit c \<or> is_lower_letter c \<or> is_upper_letter c) (take 32 (tl t))) (suffixes address)"

definition validateAddressTonTron :: "ext \<Rightarrow> string \<Rightarrow> string \<Rightarrow> address_check" where
  "validateAddressTonTron X address network =
     (let invalid = (\<lambda>e. \<lparr>isValid = False, ac_network = None, ac_error = Some e\<rparr>);
          result = (\<lambda>v. \<lparr>isValid = v, ac_network = Some network, ac_error = None\<rparr>) in
      if network = ''0x2b6653dc'' then result (isValidTronAddress address)
      else if network = ''ton''
      then (case ton_parse_error X address of None \<Rightarrow> result True | Some e \<Rightarrow> invalid e)
      else invalid ''Unsupported network'')"

definition checkValidateAddressWithNetwork :: "ext \<Rightarrow> string \<Rightarrow> string \<Rightarrow> cosmos_chain list \<Rightarrow> address_check" where
  "checkValidateAddressWithNetwork X address network cs =
     (if network = ''0x01'' \<or> network = ''0x38'' then validateEvmAddress X address network
      else if network = ''0x2b6653dc'' \<or> network = ''ton'' then validateAddressTonTron X address network
      else validateAndIdentifyCosmosAddress X address network cs)"

section \<open>The base class\<close>

record chain_msg =
  cm_path :: path
  cm_minimumReceive :: string
  cm_receiver :: string
  cm_currentChainAddress :: string
  cm_memo :: string

definition new_ChainMsg :: "path \<Rightarrow> string \<Rightarrow> string option \<Rightarrow> string option \<Rightarrow> string \<Rightarrow> chain_msg res" where
  "new_ChainMsg path minimumReceive receiver currentChainAddress memo =
     rbind (validatePath path True) (\<lambda>_.
     rbind (validateReceiver receiver currentChainAddress (p_chainId path)) (\<lambda>_.
     Inr \<lparr>cm_path = path, cm_minimumReceive = minimumReceive, cm_receiver = str_of receiver,
          cm_currentChainAddress = str_of currentChainAddress, cm_memo = memo\<rparr>))"

definition setMinimumReceive :: "string \<Rightarrow> 'a chain_msg_scheme \<Rightarrow> 'a chain_msg_scheme" where
  "setMinimumReceive minimumReceive self = self\<lparr>cm_minimumReceive := minimumReceive\<rparr>"

definition getMinimumReceive :: "'a chain_msg_scheme \<Rightarrow> string" where
  "getMinimumReceive self = cm_minimumReceive self"

text \<open>
  The body of the three \<open>setMinimumReceiveForSwap\<close>: \<open>new BigDecimal(1 - slippage).mul(amount)\<close>,
  printed and cut at the decimal point.
\<close>

definition checkSlippage :: "js_num \<Rightarrow> unit res" where
  "checkSlippage slippage =
     (if num_leq slippage (Fin 0) \<or> num_leq (Fin 1) slippage
      then generateError ''Slippage must be between 0 and 1'' else Inr ())"

definition cut_decimals :: "string \<Rightarrow> string" where
  "cut_decimals s = (if str_includes ''.'' s then js_split (CHR ''.'') s ! 0 else s)"

definition minimumReceiveOf :: "js_num \<Rightarrow> string \<Rightarrow> string res" where
  "minimumReceiveOf slippage amount =
     rbind (new_BigDecimal (DNum (num_to_string (num_sub (Fin 1) slippage))) None) (\<lambda>b.
     rbind (bd_mul b (DStr amount)) (\<lambda>m. Inr (cut_decimals (bd_toString m))))"

section \<open>What the checks establish\<close>

lemma generateError_simps [simp]: "generateError m \<noteq> Inr x" "generateError m = Inl e \<longleftrightarrow> e = Thrown m"
  by (auto simp: generateError_def)

lemma rbind_generateError [simp]: "rbind (generateError m) f = generateError m"
  by (simp add: generateError_def)

lemma validatePath_ok_iff:
  "validatePath path True = Inr () \<longleftrightarrow>
     p_actions path \<noteq> [] \<and> (\<forall>a \<in> set (butlast (p_actions path)). a_type a \<noteq> Bridge)"
proof (cases "p_actions path" rule: rev_exhaust)
  case (snoc as a)
  let ?n = "length (filter (\<lambda>a. a_type a = Bridge) as)"
  have n0: "?n = 0 \<longleftrightarrow> (\<forall>a \<in> set as. a_type a \<noteq> Bridge)" by (simp add: filter_empty_conv)
  have "validatePath path True = Inr () \<longleftrightarrow> ?n = 0"
  proof (cases "a_type a = Bridge")
    case True
    then show ?thesis using snoc by (simp add: validatePath_def)
  next
    case False
    then have "validatePath path True = (if 1 < ?n then generateError ''Only one Bridge action is allowed in the path''
        else if ?n = 1 then generateError ''Bridge action must be the last in the path'' else Inr ())"
      using snoc by (simp add: validatePath_def)
    moreover have "?n = 0 \<or> ?n = 1 \<or> 1 < ?n" by linarith
    ultimately show ?thesis by (elim disjE) auto
  qed
  then show ?thesis using snoc unfolding n0 by simp
qed (simp add: validatePath_def)

lemma new_ChainMsg_ok:
  assumes "new_ChainMsg path mr receiver addr memo = Inr m"
  shows "validatePath path True = Inr ()" "cm_path m = path" "receiver = Some (cm_receiver m)" "cm_receiver m \<noteq> []"
    "addr = Some (cm_currentChainAddress m)" "cm_currentChainAddress m \<noteq> []" "cm_memo m = memo"
    "cm_minimumReceive m = mr"
  using assms by (auto simp: new_ChainMsg_def rbind_eq_Inr_iff validateReceiver_def truthy_iff split: if_splits)

end
