(* ===== verification/MsgBuilders.thy ===== *)
theory MsgBuilders
  imports MsgCommon MemoCodec
begin

text \<open>
  The three message builders of \<open>packages/universal-swap/src/msg/chains\<close>: \<open>CosmosMsg\<close>,
  \<open>OsmosisMsg\<close> and \<open>OraichainMsg\<close>. A builder is the record its constructor makes; its methods
  are functions of that record and the environment. JSON objects keep the order of the source,
  since \<open>JSON.stringify\<close> prints it.
\<close>

section \<open>Shared pieces\<close>

text \<open>The inner \<open>forEach\<close>: each hop takes in what the hop before gave out.\<close>

fun swap_ops_of :: "string \<Rightarrow> swap_info list \<Rightarrow> swap_operation list" where
  "swap_ops_of denomIn [] = []"
| "swap_ops_of denomIn (s # ss) =
     \<lparr>denom_in = denomIn, denom_out = si_tokenOut s, pool = si_poolId s\<rparr> # swap_ops_of (si_tokenOut s) ss"

definition bridge_msg :: "ext \<Rightarrow> 'a chain_msg_scheme \<Rightarrow> action \<Rightarrow> bridge_info \<Rightarrow> bridge_msg_info" where
  "bridge_msg X self a b = \<lparr>
     bm_amount = a_tokenInAmount a, bm_sourceChannel = bi_channel b, bm_sourcePort = bi_port b,
     bm_receiver = cm_receiver self, bm_timeout = timeout_ns X, bm_memo = cm_memo self, bm_prefix = None,
     bm_fromToken = a_tokenIn a, bm_fromChain = p_chainId (cm_path self),
     bm_toToken = a_tokenOut a, bm_toChain = p_tokenOutChainId (cm_path self)\<rparr>"

definition forward_memo :: "ext \<Rightarrow> 'a chain_msg_scheme \<Rightarrow> bridge_msg_info \<Rightarrow> json" where
  "forward_memo X self b = JObj [(''forward'', JObj
     [(''receiver'', JStr (cm_receiver self)),
      (''port'', JStr (bm_sourcePort b)),
      (''channel'', JStr (bm_sourceChannel b)),
      (''timeout'', JNum (timeout_ns X)),
      (''retries'', JNum (Fin 2)),
      (''next'', if cm_memo self \<noteq> [] then JStr (cm_memo self) else JUndef)])]"

definition transfer_msg :: "ext \<Rightarrow> 'a chain_msg_scheme \<Rightarrow> bridge_msg_info \<Rightarrow> encode_object" where
  "transfer_msg X self b = \<lparr>typeUrl = TRANSFER_URL, eo_value = MsgTransfer
     \<lparr>mt_sourcePort = bm_sourcePort b, mt_sourceChannel = bm_sourceChannel b, mt_receiver = cm_receiver self,
      mt_token = \<lparr>c_denom = p_tokenIn (cm_path self), c_amount = p_tokenInAmount (cm_path self)\<rparr>,
      mt_sender = cm_currentChainAddress self, mt_memo = cm_memo self, mt_timeoutTimestamp = timeout_ns X\<rparr>\<rparr>"

definition transfer_action :: "'a chain_msg_scheme \<Rightarrow> json" where
  "transfer_action self = JObj [(''transfer'', JObj [(''to_address'', JStr (cm_receiver self))])]"

definition ibc_transfer_action :: "'a chain_msg_scheme \<Rightarrow> bridge_msg_info \<Rightarrow> json" where
  "ibc_transfer_action self b = JObj [(''ibc_transfer'', JObj [(''ibc_info'', JObj
     [(''source_channel'', JStr (bm_sourceChannel b)),
      (''receiver'', JStr (bm_receiver b)),
      (''memo'', JStr (bm_memo b)),
      (''recover_address'', JStr (cm_currentChainAddress self))])])]"

definition min_asset :: "ext \<Rightarrow> 'a chain_msg_scheme \<Rightarrow> string \<Rightarrow> json" where
  "min_asset X self tokenOutOfSwap =
     (if isCw20Token X tokenOutOfSwap
      then JObj [(''cw20'', JObj [(''amount'', JStr (cm_minimumReceive self)), (''address'', JStr tokenOutOfSwap)])]
      else JObj [(''native'', JObj [(''amount'', JStr (cm_minimumReceive self)), (''denom'', JStr tokenOutOfSwap)])])"

definition op_json :: "swap_operation \<Rightarrow> json" where
  "op_json s = JObj [(''denom_in'', JStr (denom_in s)), (''denom_out'', JStr (denom_out s)), (''pool'', JStr (pool s))]"

definition user_swap :: "string \<Rightarrow> swap_operation list \<Rightarrow> json" where
  "user_swap venue ops = JObj [(''swap_exact_asset_in'', JObj
     [(''swap_venue_name'', JStr venue), (''operations'', JArr (map op_json ops))])]"

text \<open>The same message in the property order of \<open>genMemoAsMiddleware\<close> and of \<open>genExecuteMsg\<close>.\<close>

definition memo_swap_and_action :: "ext \<Rightarrow> 'a chain_msg_scheme \<Rightarrow> string \<Rightarrow> swap_operation list \<Rightarrow> json \<Rightarrow> json" where
  "memo_swap_and_action X self venue ops post = JObj [(''swap_and_action'', JObj
     [(''user_swap'', user_swap venue ops),
      (''min_asset'', min_asset X self (denom_out (last ops))),
      (''timeout_timestamp'', JNum (timeout_ns X)),
      (''post_swap_action'', post),
      (''affiliates'', JArr [])])]"

definition exec_swap_and_action :: "ext \<Rightarrow> 'a chain_msg_scheme \<Rightarrow> string \<Rightarrow> swap_operation list \<Rightarrow> json \<Rightarrow> json" where
  "exec_swap_and_action X self venue ops post = JObj [(''swap_and_action'', JObj
     [(''affiliates'', JArr []),
      (''min_asset'', min_asset X self (denom_out (last ops))),
      (''post_swap_action'', post),
      (''timeout_timestamp'', JNum (timeout_ns X)),
      (''user_swap'', user_swap venue ops)])]"

definition wasm_memo :: "string \<Rightarrow> json \<Rightarrow> json" where
  "wasm_memo contract msg = JObj [(''wasm'', JObj [(''contract'', JStr contract), (''msg'', msg)])]"

text \<open>The two ways to call a contract: through the cw20 token that is spent, or with native funds.\<close>

definition cw20_send :: "ext \<Rightarrow> 'a chain_msg_scheme \<Rightarrow> string \<Rightarrow> string \<Rightarrow> json \<Rightarrow> encode_object" where
  "cw20_send X self token contract msg = \<lparr>typeUrl = EXECUTE_URL, eo_value = MsgExecuteContract
     \<lparr>me_sender = cm_currentChainAddress self, me_contract = token,
      me_msg = toUtf8 X (JSON_stringify (JObj [(''send'', JObj
        [(''contract'', JStr contract), (''amount'', JStr (p_tokenInAmount (cm_path self))),
         (''msg'', JStr (toBinary X msg))])])),
      me_funds = []\<rparr>\<rparr>"

definition native_call :: "ext \<Rightarrow> 'a chain_msg_scheme \<Rightarrow> string \<Rightarrow> json \<Rightarrow> encode_object" where
  "native_call X self contract msg = \<lparr>typeUrl = EXECUTE_URL, eo_value = MsgExecuteContract
     \<lparr>me_sender = cm_currentChainAddress self, me_contract = contract, me_msg = toUtf8 X (JSON_stringify msg),
      me_funds = [\<lparr>c_denom = p_tokenIn (cm_path self), c_amount = p_tokenInAmount (cm_path self)\<rparr>]\<rparr>\<rparr>"

section \<open>CosmosMsg\<close>

definition new_CosmosMsg :: "path \<Rightarrow> string \<Rightarrow> string option \<Rightarrow> string option \<Rightarrow> string \<Rightarrow> chain_msg res" where
  "new_CosmosMsg path minimumReceive receiver currentChainAddress memo =
     new_ChainMsg path minimumReceive receiver currentChainAddress memo"

text \<open>The loop either breaks or throws on the first action.\<close>

definition cosmos_getBridgeInfo :: "ext \<Rightarrow> chain_msg \<Rightarrow> bridge_msg_info res" where
  "cosmos_getBridgeInfo X self =
     rbind (case p_actions (cm_path self) of
         [] \<Rightarrow> generateError ''Bridge action not found in path actions''
       | a # _ \<Rightarrow>
           if a_type a = Bridge
           then (case a_bridgeInfo a of None \<Rightarrow> Inl TypeError | Some b \<Rightarrow> Inr (bridge_msg X self a b))
           else generateError (''Only support bridge on '' @ p_chainId (cm_path self)))
       (\<lambda>b. if bm_sourcePort b \<noteq> ''transfer''
            then generateError (''Only support IBC bridge on '' @ p_chainId (cm_path self))
            else Inr b)"

definition cosmos_setMinimumReceiveForSwap :: "ext \<Rightarrow> chain_msg \<Rightarrow> js_num \<Rightarrow> chain_msg res" where
  "cosmos_setMinimumReceiveForSwap X self slippage =
     rbind (checkSlippage slippage) (\<lambda>_.
     rbind (cosmos_getBridgeInfo X self) (\<lambda>b.
     rbind (minimumReceiveOf slippage (bm_amount b)) (\<lambda>r. Inr (self\<lparr>cm_minimumReceive := r\<rparr>))))"

definition cosmos_getPostAction :: "chain_msg \<Rightarrow> bridge_msg_info option \<Rightarrow> json res" where
  "cosmos_getPostAction self bridge =
     (case bridge of
        None \<Rightarrow> Inr (transfer_action self)
      | Some b \<Rightarrow>
          if bm_sourcePort b = ''transfer'' then Inr (ibc_transfer_action self b)
          else generateError (''Missing postAction for universalSwap on '' @ p_chainId (cm_path self)))"

definition cosmos_genMemoAsMiddleware :: "ext \<Rightarrow> chain_msg \<Rightarrow> middleware_response res" where
  "cosmos_genMemoAsMiddleware X self =
     rbind (cosmos_getBridgeInfo X self) (\<lambda>b.
     Inr \<lparr>mr_memo = JSON_stringify (forward_memo X self b), mr_receiver = cm_currentChainAddress self\<rparr>)"

definition cosmos_genExecuteMsg :: "ext \<Rightarrow> chain_msg \<Rightarrow> encode_object res" where
  "cosmos_genExecuteMsg X self =
     rbind (cosmos_getBridgeInfo X self) (\<lambda>b.
     if bm_sourcePort b \<noteq> ''transfer''
     then generateError ''Error on generate executeMsg on Oraichain: Only support ibc transfer''
     else Inr (transfer_msg X self b))"

section \<open>OsmosisMsg\<close>

definition OSMOSIS_SWAP_VENUE_NAME :: string where
  "OSMOSIS_SWAP_VENUE_NAME = ''osmosis-poolmanager''"

definition OSMOSIS_ENTRY_POINT_CONTRACT :: string where
  "OSMOSIS_ENTRY_POINT_CONTRACT = ''osmo1h3jkejkcpthl45xrrm5geed3eq75p5rgfce9taufkwfr89k63muqweu2y7''"

definition new_OsmosisMsg :: "path \<Rightarrow> string \<Rightarrow> string option \<Rightarrow> string option \<Rightarrow> string \<Rightarrow> chain_msg res" where
  "new_OsmosisMsg path minimumReceive receiver currentChainAddress memo =
     rbind (new_ChainMsg path minimumReceive receiver currentChainAddress memo) (\<lambda>self.
     if p_chainId path \<noteq> ''osmosis-1'' then generateError ''This path must be on Osmosis'' else Inr self)"

fun osmosis_collect :: "ext \<Rightarrow> chain_msg \<Rightarrow> action list \<Rightarrow> swap_operation list \<Rightarrow> bridge_msg_info option \<Rightarrow>
    (swap_operation list \<times> bridge_msg_info option) res" where
  "osmosis_collect X self [] swapOps bridge = Inr (swapOps, bridge)"
| "osmosis_collect X self (a # as) swapOps bridge =
     (if a_type a = Swap
      then (case a_swapInfo a of None \<Rightarrow> Inl TypeError
            | Some ss \<Rightarrow> osmosis_collect X self as (swapOps @ swap_ops_of (a_tokenIn a) ss) bridge)
      else if a_type a = Bridge
      then (case a_bridgeInfo a of None \<Rightarrow> Inl TypeError
            | Some b \<Rightarrow>
                if bi_port b \<noteq> ''transfer''
                then generateError (''Only support IBC bridge on '' @ p_chainId (cm_path self))
                else osmosis_collect X self as swapOps (Some (bridge_msg X self a b)))
      else generateError ''Only support swap + bridge on Osmosis'')"

definition osmosis_getSwapAndBridgeInfo ::
    "ext \<Rightarrow> chain_msg \<Rightarrow> (swap_operation list \<times> bridge_msg_info option) res" where
  "osmosis_getSwapAndBridgeInfo X self = osmosis_collect X self (p_actions (cm_path self)) [] None"

text \<open>The amount the slippage applies to: what the bridge carries, or the path's own result.\<close>

definition returnAmount :: "'a chain_msg_scheme \<Rightarrow> bridge_msg_info option \<Rightarrow> string" where
  "returnAmount self bridge = (case bridge of Some b \<Rightarrow> bm_amount b | None \<Rightarrow> p_tokenOutAmount (cm_path self))"

definition osmosis_setMinimumReceiveForSwap :: "ext \<Rightarrow> chain_msg \<Rightarrow> js_num \<Rightarrow> chain_msg res" where
  "osmosis_setMinimumReceiveForSwap X self slippage =
     rbind (checkSlippage slippage) (\<lambda>_.
     rbind (osmosis_getSwapAndBridgeInfo X self) (\<lambda>(_, bridge).
     rbind (minimumReceiveOf slippage (returnAmount self bridge)) (\<lambda>r. Inr (self\<lparr>cm_minimumReceive := r\<rparr>))))"

definition osmosis_getPostAction :: "chain_msg \<Rightarrow> bridge_msg_info option \<Rightarrow> json res" where
  "osmosis_getPostAction self bridge =
     (case bridge of
        None \<Rightarrow> Inr (transfer_action self)
      | Some b \<Rightarrow>
          if bm_sourcePort b = ''transfer'' then Inr (ibc_transfer_action self b)
          else generateError (''Missing postAction for universalSwap on '' @ p_chainId (cm_path self)))"

definition osmosis_genMemoAsMiddleware :: "ext \<Rightarrow> chain_msg \<Rightarrow> middleware_response res" where
  "osmosis_genMemoAsMiddleware X self =
     rbind (osmosis_getSwapAndBridgeInfo X self) (\<lambda>(swapOps, bridge).
     if length swapOps = 0
     then (case bridge of None \<Rightarrow> Inl TypeError
           | Some b \<Rightarrow>
               if bm_sourcePort b \<noteq> ''transfer''
               then generateError ''Error on generate memo as middleware: Only support ibc bridge''
               else Inr \<lparr>mr_memo = JSON_stringify (forward_memo X self b), mr_receiver = cm_currentChainAddress self\<rparr>)
     else rbind (osmosis_getPostAction self bridge) (\<lambda>post.
       Inr \<lparr>mr_memo = JSON_stringify (wasm_memo OSMOSIS_ENTRY_POINT_CONTRACT
              (memo_swap_and_action X self OSMOSIS_SWAP_VENUE_NAME swapOps post)),
            mr_receiver = OSMOSIS_ENTRY_POINT_CONTRACT\<rparr>))"

definition osmosis_genExecuteMsg :: "ext \<Rightarrow> chain_msg \<Rightarrow> encode_object res" where
  "osmosis_genExecuteMsg X self =
     rbind (osmosis_getSwapAndBridgeInfo X self) (\<lambda>(swapOps, bridge).
     if length swapOps = 0
     then (case bridge of None \<Rightarrow> Inl TypeError
           | Some b \<Rightarrow>
               if bm_sourcePort b = ''transfer'' then Inr (transfer_msg X self b)
               else generateError ''Error on generate executeMsg on Osmosis: Only support ibc transfer'')
     else rbind (osmosis_getPostAction self bridge) (\<lambda>post.
       let msg = exec_swap_and_action X self OSMOSIS_SWAP_VENUE_NAME swapOps post in
       if isCw20Token X (p_tokenIn (cm_path self))
       then Inr (cw20_send X self (p_tokenIn (cm_path self)) OSMOSIS_ENTRY_POINT_CONTRACT msg)
       else Inr (native_call X self OSMOSIS_ENTRY_POINT_CONTRACT msg)))"

section \<open>OraichainMsg\<close>

definition ORAICHAIN_SWAP_VENUE_NAME :: string where
  "ORAICHAIN_SWAP_VENUE_NAME = ''oraidex''"

definition ORAICHAIN_ENTRY_POINT_CONTRACT :: string where
  "ORAICHAIN_ENTRY_POINT_CONTRACT = ''orai1yglsm0u2x3xmct9kq3lxa654cshaxj9j5d9rw5enemkkkdjgzj7sr3gwt0''"

definition TON_BRIDGE_ADAPTER :: string where
  "TON_BRIDGE_ADAPTER = ''orai159l8l9c5ckhqpuwdfgs9p4v599nqt3cjlfahalmtrhfuncnec2ms5mz60e''"

record oraichain_msg = chain_msg +
  om_destPrefix :: "string option"
  om_obridgeAddress :: "string option"

definition new_OraichainMsg :: "path \<Rightarrow> string \<Rightarrow> string option \<Rightarrow> string option \<Rightarrow> string \<Rightarrow>
    string option \<Rightarrow> string option \<Rightarrow> oraichain_msg res" where
  "new_OraichainMsg path minimumReceive receiver currentChainAddress memo destPrefix obridgeAddress =
     rbind (new_ChainMsg path minimumReceive receiver currentChainAddress memo) (\<lambda>self.
     if p_chainId path \<noteq> ''Oraichain'' then generateError ''This path must be on Oraichain''
     else Inr (chain_msg.extend self \<lparr>om_destPrefix = destPrefix, om_obridgeAddress = obridgeAddress\<rparr>))"

definition parseConverterMsgToPoolId :: "ext \<Rightarrow> string \<Rightarrow> string \<Rightarrow> string" where
  "parseConverterMsgToPoolId X tokenIn tokenOut =
     (if isCw20Token X tokenIn
      then toBinary X (JObj [(''contract'', JStr CONVERTER_CONTRACT),
             (''msg'', JStr (toBinary X (JObj [(''convert_reverse'', JObj [(''from'', JObj
                [(''native_token'', JObj [(''denom'', JStr tokenOut)])])])])))])
      else toBinary X (JObj [(''contract'', JStr CONVERTER_CONTRACT),
             (''msg'', JStr (toBinary X (JObj [(''convert'', JObj [])])))]))"

fun oraichain_collect :: "ext \<Rightarrow> oraichain_msg \<Rightarrow> action list \<Rightarrow> swap_operation list \<Rightarrow> bridge_msg_info option \<Rightarrow>
    (swap_operation list \<times> bridge_msg_info option) res" where
  "oraichain_collect X self [] swapOps bridge = Inr (swapOps, bridge)"
| "oraichain_collect X self (a # as) swapOps bridge =
     (if a_type a = Swap
      then (case a_swapInfo a of None \<Rightarrow> Inl TypeError
            | Some ss \<Rightarrow> oraichain_collect X self as (swapOps @ swap_ops_of (a_tokenIn a) ss) bridge)
      else if a_type a = Convert
      then oraichain_collect X self as
             (swapOps @ [\<lparr>denom_in = a_tokenIn a, denom_out = a_tokenOut a,
                pool = parseConverterMsgToPoolId X (a_tokenIn a) (a_tokenOut a)\<rparr>]) bridge
      else if a_type a = Bridge
      then (case a_bridgeInfo a of None \<Rightarrow> Inl TypeError
            | Some b \<Rightarrow> oraichain_collect X self as swapOps (Some (bridge_msg X self a b)))
      else generateError ''Only support swap + convert + bridge on Oraichain'')"

definition oraichain_getSwapAndBridgeInfo ::
    "ext \<Rightarrow> oraichain_msg \<Rightarrow> (swap_operation list \<times> bridge_msg_info option) res" where
  "oraichain_getSwapAndBridgeInfo X self = oraichain_collect X self (p_actions (cm_path self)) [] None"

definition oraichain_setMinimumReceiveForSwap :: "ext \<Rightarrow> oraichain_msg \<Rightarrow> js_num \<Rightarrow> oraichain_msg res" where
  "oraichain_setMinimumReceiveForSwap X self slippage =
     rbind (checkSlippage slippage) (\<lambda>_.
     rbind (oraichain_getSwapAndBridgeInfo X self) (\<lambda>(_, bridge).
     rbind (minimumReceiveOf slippage (returnAmount self bridge)) (\<lambda>r. Inr (self\<lparr>cm_minimumReceive := r\<rparr>))))"

text \<open>The message to the TON bridge, bare or wrapped in \<open>bridge_to_ton\<close>.\<close>

definition ton_args :: "ext \<Rightarrow> oraichain_msg \<Rightarrow> bridge_msg_info \<Rightarrow> string \<Rightarrow> json" where
  "ton_args X self b denom = JObj
     [(''to'', JStr (bm_receiver b)), (''denom'', JStr denom),
      (''timeout'', JNum (Fin (of_int (Date_now X div 1000 + IBC_TRANSFER_TIMEOUT)))),
      (''recovery_addr'', JStr (cm_currentChainAddress self))]"

definition ton_msg :: "ext \<Rightarrow> oraichain_msg \<Rightarrow> bridge_msg_info \<Rightarrow> string \<Rightarrow> json" where
  "ton_msg X self b denom =
     (if isCw20Token X (bm_fromToken b) then ton_args X self b denom
      else JObj [(''bridge_to_ton'', ton_args X self b denom)])"

text \<open>
  The prefix of the remote denom and whether the receiver is an EVM address, with the check that
  the two values needed for such a receiver are there.
\<close>

definition evm_prefix :: "ext \<Rightarrow> oraichain_msg \<Rightarrow> string res" where
  "evm_prefix X self =
     (if isEthAddress X (cm_receiver self)
      then if \<not> truthy (om_destPrefix self) \<or> \<not> truthy (om_obridgeAddress self)
           then generateError ''Missing prefix or Obridge address for bridge to EVM''
           else Inr (str_of (om_destPrefix self))
      else Inr [])"

definition wasm_remote_address :: "ext \<Rightarrow> oraichain_msg \<Rightarrow> string" where
  "wasm_remote_address X self =
     (if isEthAddress X (cm_receiver self) then str_of (om_obridgeAddress self) else cm_receiver self)"

definition wasm_remote_memo :: "ext \<Rightarrow> oraichain_msg \<Rightarrow> string \<Rightarrow> string" where
  "wasm_remote_memo X self pfx =
     (if isEthAddress X (cm_receiver self) then pfx @ cm_receiver self else cm_memo self)"

definition no_post_action :: Memo_PostAction where
  "no_post_action = \<lparr>pa_ibcTransferMsg = None, pa_ibcWasmTransferMsg = None, pa_contractCall = None, pa_transferMsg = None\<rparr>"

definition getProtoForPostAction :: "ext \<Rightarrow> oraichain_msg \<Rightarrow> bridge_msg_info option \<Rightarrow> Memo_PostAction res" where
  "getProtoForPostAction X self bridge =
     (case bridge of
        None \<Rightarrow> Inr (no_post_action\<lparr>pa_transferMsg := Some \<lparr>tr_toAddress = cm_receiver self\<rparr>\<rparr>)
      | Some b \<Rightarrow>
          if isTonChain (bm_toChain b)
          then (let jetton = map_of JETTONS_ADDRESS (bm_toToken b) in
            if \<not> truthy jetton
            then Inl (Thrown (''getProtoForPostAction: jetton address of '' @ bm_toToken b @ '' not found!''))
            else Inr (no_post_action\<lparr>pa_contractCall := Some
              \<lparr>cc_contractAddress = TON_BRIDGE_ADAPTER, cc_msg = toBinary X (ton_msg X self b (str_of jetton))\<rparr>\<rparr>))
          else if bm_sourcePort b = ''transfer''
          then Inr (no_post_action\<lparr>pa_ibcTransferMsg := Some
            \<lparr>it_sourceChannel = bm_sourceChannel b, it_sourcePort = bm_sourcePort b, it_receiver = bm_receiver b,
             it_memo = bm_memo b, it_recoverAddress = cm_currentChainAddress self\<rparr>\<rparr>)
          else if starts_with ''wasm'' (bm_sourcePort b)
          then rbind (evm_prefix X self) (\<lambda>prefix.
            Inr (no_post_action\<lparr>pa_ibcWasmTransferMsg := Some
              \<lparr>iw_localChannelId = bm_sourceChannel b, iw_remoteAddress = wasm_remote_address X self,
               iw_remoteDenom = prefix @ bm_toToken b, iw_timeout = None,
               iw_memo = Some (wasm_remote_memo X self prefix)\<rparr>\<rparr>))
          else generateError ''Missing postAction for ibc wasm memo'')"

definition memo_user_swap :: "swap_operation list \<Rightarrow> Memo_UserSwap option" where
  "memo_user_swap swapOps =
     (if length swapOps \<noteq> 0
      then Some \<lparr>us_swapVenueName = ORAICHAIN_SWAP_VENUE_NAME,
        us_swapExactAssetIn = Some \<lparr>sx_operations =
          map (\<lambda>s. \<lparr>so_poolId = pool s, so_denomIn = denom_in s, so_denomOut = denom_out s\<rparr>) swapOps\<rparr>,
        us_smartSwapExactAssetIn = None\<rparr>
      else None)"

definition oraichain_memo :: "ext \<Rightarrow> oraichain_msg \<Rightarrow> Memo_UserSwap option \<Rightarrow> bridge_msg_info option \<Rightarrow> Memo res" where
  "oraichain_memo X self swap bridge =
     rbind (getProtoForPostAction X self bridge) (\<lambda>post.
     Inr \<lparr>m_userSwap = swap, m_minimumReceive = cm_minimumReceive self, m_timeoutTimestamp = timeout_ns X,
          m_postSwapAction = Some post, m_recoveryAddr = cm_currentChainAddress self\<rparr>)"

definition genMemoForIbcWasm :: "ext \<Rightarrow> oraichain_msg \<Rightarrow> middleware_response res" where
  "genMemoForIbcWasm X self =
     rbind (oraichain_getSwapAndBridgeInfo X self) (\<lambda>(swapOps, bridge).
     rbind (oraichain_memo X self (memo_user_swap swapOps) bridge) (\<lambda>memo.
     Inr \<lparr>mr_memo = toBase64 X (Memo_encode (ext_wire X) memo), mr_receiver = cm_currentChainAddress self\<rparr>))"

definition oraichain_getPostAction :: "ext \<Rightarrow> oraichain_msg \<Rightarrow> bridge_msg_info option \<Rightarrow> json res" where
  "oraichain_getPostAction X self bridge =
     (case bridge of
        None \<Rightarrow> Inr (transfer_action self)
      | Some b \<Rightarrow>
          if isTonChain (bm_toChain b)
          then (let jetton = map_of JETTONS_ADDRESS (bm_toToken b) in
            if \<not> truthy jetton
            then Inl (Thrown (''getPostAction: jetton address of '' @ bm_toToken b @ '' not found!''))
            else Inr (JObj [(''contract_call'', JObj
              [(''contract_address'', JStr TON_BRIDGE_ADAPTER),
               (''msg'', JStr (toBinary X (ton_msg X self b (str_of jetton))))])]))
          else if bm_sourcePort b = ''transfer'' then Inr (ibc_transfer_action self b)
          else if starts_with ''wasm'' (bm_sourcePort b)
          then rbind (evm_prefix X self) (\<lambda>prefix.
            Inr (JObj [(''ibc_wasm_transfer'', JObj [(''ibc_wasm_info'', JObj
              [(''local_channel_id'', JStr (bm_sourceChannel b)),
               (''remote_address'', JStr (wasm_remote_address X self)),
               (''remote_denom'', JStr (prefix @ bm_toToken b)),
               (''memo'', JStr (wasm_remote_memo X self prefix))])])]))
          else generateError ''Missing postAction for postAction in Oraichain'')"

definition ibc_hooks_memo :: "ext \<Rightarrow> oraichain_msg \<Rightarrow> Memo \<Rightarrow> json" where
  "ibc_hooks_memo X self memo = wasm_memo IBC_WASM_CONTRACT (JObj [(''ibc_hooks_receive'', JObj
     [(''func'', JStr ''universal_swap''),
      (''orai_receiver'', JStr (cm_currentChainAddress self)),
      (''args'', JStr (toBase64 X (Memo_encode (ext_wire X) memo)))])])"

definition oraichain_genMemoAsMiddleware :: "ext \<Rightarrow> oraichain_msg \<Rightarrow> middleware_response res" where
  "oraichain_genMemoAsMiddleware X self =
     rbind (oraichain_getSwapAndBridgeInfo X self) (\<lambda>(swapOps, bridge).
     if length swapOps = 0
     then (case bridge of None \<Rightarrow> Inl TypeError
           | Some b \<Rightarrow>
               if isTonChain (bm_toChain b)
               then rbind (oraichain_memo X self None bridge) (\<lambda>memo.
                 Inr \<lparr>mr_memo = JSON_stringify (ibc_hooks_memo X self memo), mr_receiver = IBC_WASM_CONTRACT\<rparr>)
               else if bm_sourcePort b = ''transfer''
               then Inr \<lparr>mr_memo = JSON_stringify (forward_memo X self b), mr_receiver = cm_currentChainAddress self\<rparr>
               else generateError ''Error on generate memo as middleware: Only support ibc bridge & ton bridge'')
     else rbind (oraichain_getPostAction X self bridge) (\<lambda>post.
       Inr \<lparr>mr_memo = JSON_stringify (wasm_memo ORAICHAIN_ENTRY_POINT_CONTRACT
              (memo_swap_and_action X self ORAICHAIN_SWAP_VENUE_NAME swapOps post)),
            mr_receiver = ORAICHAIN_ENTRY_POINT_CONTRACT\<rparr>))"

text \<open>\<open>genBridgeMsg\<close>: the message and the contract of the wasm and TON branches, \<open>None\<close> when neither ran.\<close>

definition bridge_call :: "ext \<Rightarrow> oraichain_msg \<Rightarrow> bridge_msg_info \<Rightarrow> (json \<times> string) option res" where
  "bridge_call X self b =
     (if starts_with ''wasm'' (bm_sourcePort b)
      then rbind (evm_prefix X self) (\<lambda>prefix.
        (case js_split (CHR ''.'') (bm_sourcePort b) of
           _ # contract # _ \<Rightarrow>
             if contract = [] then generateError ''IBC Wasm source port is invalid. Cannot transfer to the destination chain''
             else (let msg = JObj
                    [(''local_channel_id'', JStr (bm_sourceChannel b)),
                     (''remote_address'', JStr (wasm_remote_address X self)),
                     (''remote_denom'', JStr (prefix @ bm_toToken b)),
                     (''timeout'', JNum (timeout_ns X)),
                     (''memo'', JStr (wasm_remote_memo X self prefix))]
                   in Inr (Some (if isCw20Token X (bm_fromToken b) then msg else JObj [(''transfer_to_remote'', msg)],
                                 contract)))
         | _ \<Rightarrow> generateError ''IBC Wasm source port is invalid. Cannot transfer to the destination chain''))
      else if isTonChain (bm_toChain b)
      then (if \<not> truthy (map_of JETTONS_ADDRESS (bm_toToken b))
            then Inl (Thrown (''jetton address of '' @ bm_toToken b @ '' not found!''))
            else Inr (Some (ton_msg X self b (bm_toToken b), TON_BRIDGE_ADAPTER)))
      else Inr None)"

definition genBridgeMsg :: "ext \<Rightarrow> oraichain_msg \<Rightarrow> bridge_msg_info \<Rightarrow> encode_object res" where
  "genBridgeMsg X self b =
     (if bm_sourcePort b = ''transfer'' \<and> isCosmosChain (bm_toChain b) (cosmosChains X)
      then Inr (transfer_msg X self b)
      else rbind (bridge_call X self b) (\<lambda>call.
        case call of
          None \<Rightarrow> generateError ''Error on generate executeMsg on Oraichain: Only support ibc, ibc wasm bridge, ton bridge''
        | Some (msg, contractAddr) \<Rightarrow>
            if isCw20Token X (bm_fromToken b) then Inr (cw20_send X self (bm_fromToken b) contractAddr msg)
            else Inr (native_call X self contractAddr msg)))"

definition oraichain_genExecuteMsg :: "ext \<Rightarrow> oraichain_msg \<Rightarrow> encode_object res" where
  "oraichain_genExecuteMsg X self =
     rbind (oraichain_getSwapAndBridgeInfo X self) (\<lambda>(swapOps, bridge).
     if length swapOps = 0
     then (case bridge of None \<Rightarrow> Inl TypeError | Some b \<Rightarrow> genBridgeMsg X self b)
     else rbind (oraichain_getPostAction X self bridge) (\<lambda>post.
       let msg = exec_swap_and_action X self ORAICHAIN_SWAP_VENUE_NAME swapOps post in
       if isCw20Token X (p_tokenIn (cm_path self))
       then Inr (cw20_send X self (p_tokenIn (cm_path self)) ORAICHAIN_ENTRY_POINT_CONTRACT msg)
       else Inr (native_call X self ORAICHAIN_ENTRY_POINT_CONTRACT msg)))"

end
