(* ===== verification/MsgSwap.thy ===== *)
theory MsgSwap
  imports MsgBuilders MemoLaws
begin

text \<open>
  \<open>packages/universal-swap/src/msg/msgs.ts\<close>: the message of a whole route, built from the last path
  back to the first, and \<open>proto/universal-swap-memo-proto-handler.ts\<close>: the memo of a smart swap.
  \<open>addresses\<close> is the caller's address on each chain.
\<close>

section \<open>One path\<close>

definition prefixMap :: "(string \<times> string) list" where
  "prefixMap = [(''0x01'', ORAI_BRIDGE_EVM_ETH_DENOM_PREFIX), (''0x38'', ORAI_BRIDGE_EVM_DENOM_PREFIX),
     (''0x2b6653dc'', ORAI_BRIDGE_EVM_TRON_DENOM_PREFIX)]"

definition getDestPrefixForBridgeToEvmOnOrai :: "string \<Rightarrow> string res" where
  "getDestPrefixForBridgeToEvmOnOrai chainId =
     (case map_of prefixMap chainId of
        Some p \<Rightarrow> Inr p
      | None \<Rightarrow>
          if starts_with ''0x'' chainId then generateError (''Don't support bridge from Oraichain to '' @ chainId)
          else Inr [])"

definition ORAIBRIDGE_SUBNET :: string where
  "ORAIBRIDGE_SUBNET = ''oraibridge-subnet-2''"

text \<open>The preparation \<open>buildMemoSwap\<close> and \<open>buildExecuteMsg\<close> have in common: the builder with its minimum receive set.\<close>

definition oraichain_builder :: "ext \<Rightarrow> path \<Rightarrow> string option \<Rightarrow> string \<Rightarrow> (string \<Rightarrow> string option) \<Rightarrow> js_num \<Rightarrow>
    oraichain_msg res" where
  "oraichain_builder X path receiver memo addresses slippage =
     rbind (getDestPrefixForBridgeToEvmOnOrai (p_tokenOutChainId path)) (\<lambda>pfx.
     let oBridgeAddress = addresses ORAIBRIDGE_SUBNET in
     if \<not> truthy oBridgeAddress \<and> \<not> isEvmChain (p_tokenOutChainId path) (evmChains X)
     then generateError (''Missing oBridge address for '' @ ORAIBRIDGE_SUBNET)
     else rbind (new_OraichainMsg path ''1'' receiver (addresses (p_chainId path)) memo (Some pfx) oBridgeAddress)
       (\<lambda>m. oraichain_setMinimumReceiveForSwap X m slippage))"

definition osmosis_builder :: "ext \<Rightarrow> path \<Rightarrow> string option \<Rightarrow> string \<Rightarrow> (string \<Rightarrow> string option) \<Rightarrow> js_num \<Rightarrow>
    chain_msg res" where
  "osmosis_builder X path receiver memo addresses slippage =
     rbind (new_OsmosisMsg path ''1'' receiver (addresses (p_chainId path)) memo)
       (\<lambda>m. osmosis_setMinimumReceiveForSwap X m slippage)"

definition cosmos_builder :: "ext \<Rightarrow> path \<Rightarrow> string option \<Rightarrow> string \<Rightarrow> (string \<Rightarrow> string option) \<Rightarrow> js_num \<Rightarrow>
    chain_msg res" where
  "cosmos_builder X path receiver memo addresses slippage =
     (if starts_with ''0x'' (p_chainId path) then generateError ''Don't support universal swap in EVM''
      else rbind (new_CosmosMsg path ''1'' receiver (addresses (p_chainId path)) memo)
        (\<lambda>m. cosmos_setMinimumReceiveForSwap X m slippage))"

definition from_ibc_wasm :: "ext \<Rightarrow> string option \<Rightarrow> bool" where
  "from_ibc_wasm X previousChain =
     (case previousChain of None \<Rightarrow> False
      | Some c \<Rightarrow> c \<noteq> [] \<and> (c = ''noble-1'' \<or> isEvmChain c (evmChains X) \<or> isTonChain c))"

definition buildMemoSwap :: "ext \<Rightarrow> path \<Rightarrow> string option \<Rightarrow> string \<Rightarrow> (string \<Rightarrow> string option) \<Rightarrow> js_num \<Rightarrow>
    string option \<Rightarrow> middleware_response res" where
  "buildMemoSwap X path receiver memo addresses slippage previousChain =
     (if p_chainId path = ''Oraichain''
      then rbind (oraichain_builder X path receiver memo addresses slippage) (\<lambda>m.
        if from_ibc_wasm X previousChain then genMemoForIbcWasm X m else oraichain_genMemoAsMiddleware X m)
      else if p_chainId path = ''osmosis-1''
      then rbind (osmosis_builder X path receiver memo addresses slippage) (osmosis_genMemoAsMiddleware X)
      else rbind (cosmos_builder X path receiver memo addresses slippage) (cosmos_genMemoAsMiddleware X))"

definition buildExecuteMsg :: "ext \<Rightarrow> path \<Rightarrow> string option \<Rightarrow> string \<Rightarrow> (string \<Rightarrow> string option) \<Rightarrow> js_num \<Rightarrow>
    encode_object res" where
  "buildExecuteMsg X path receiver memo addresses slippage =
     (if p_chainId path = ''Oraichain''
      then rbind (oraichain_builder X path receiver memo addresses slippage) (oraichain_genExecuteMsg X)
      else if p_chainId path = ''osmosis-1''
      then rbind (osmosis_builder X path receiver memo addresses slippage) (osmosis_genExecuteMsg X)
      else rbind (cosmos_builder X path receiver memo addresses slippage) (cosmos_genExecuteMsg X))"

section \<open>A route\<close>

text \<open>\<open>for (let i = route.paths.length - 1; i > 0; i--)\<close>\<close>

fun memo_loop :: "ext \<Rightarrow> path list \<Rightarrow> (string \<Rightarrow> string option) \<Rightarrow> js_num \<Rightarrow> nat \<Rightarrow> string \<Rightarrow> string option \<Rightarrow>
    (string \<times> string option) res" where
  "memo_loop X paths addresses slippage 0 memo receiver = Inr (memo, receiver)"
| "memo_loop X paths addresses slippage (Suc i) memo receiver =
     rbind (buildMemoSwap X (paths ! Suc i) receiver memo addresses slippage (Some (p_chainId (paths ! i)))) (\<lambda>r.
     memo_loop X paths addresses slippage i (mr_memo r) (Some (mr_receiver r)))"

definition final_receiver :: "ext \<Rightarrow> route \<Rightarrow> (string \<Rightarrow> string option) \<Rightarrow> string option \<Rightarrow> string \<Rightarrow> string option res" where
  "final_receiver X route addresses recipientAddress caller =
     (let tokenOutChainId = p_tokenOutChainId (last (r_paths route)) in
      if truthy recipientAddress
      then if \<not> isValid (checkValidateAddressWithNetwork X (str_of recipientAddress) tokenOutChainId (cosmosChains X))
           then generateError (''Recipient address invalid when '' @ caller @ ''!'')
           else Inr recipientAddress
      else Inr (addresses tokenOutChainId))"

definition generateMsgSwap :: "ext \<Rightarrow> route \<Rightarrow> js_num \<Rightarrow> (string \<Rightarrow> string option) \<Rightarrow> string option \<Rightarrow>
    encode_object res" where
  "generateMsgSwap X route slippage addresses recipientAddress =
     (if length (r_paths route) = 0 then generateError ''Require at least 1 action''
      else rbind (final_receiver X route addresses recipientAddress ''generateMsgSwap'') (\<lambda>receiver0.
        rbind (memo_loop X (r_paths route) addresses slippage (length (r_paths route) - 1) [] receiver0) (\<lambda>(memo, receiver).
        buildExecuteMsg X (r_paths route ! 0) receiver memo addresses slippage)))"

definition generateMemoSwap :: "ext \<Rightarrow> route \<Rightarrow> js_num \<Rightarrow> (string \<Rightarrow> string option) \<Rightarrow> string option \<Rightarrow> string option \<Rightarrow>
    middleware_response res" where
  "generateMemoSwap X route slippage addresses recipientAddress previousChain =
     (if length (r_paths route) = 0 then Inr \<lparr>mr_memo = [], mr_receiver = []\<rparr>
      else rbind (final_receiver X route addresses recipientAddress ''generateMemoSwap'') (\<lambda>receiver0.
        rbind (memo_loop X (r_paths route) addresses slippage (length (r_paths route) - 1) [] receiver0) (\<lambda>(memo, receiver).
        buildMemoSwap X (r_paths route ! 0) receiver memo addresses slippage previousChain)))"

section \<open>The memo of a smart swap\<close>

fun memo_ops_of :: "string \<Rightarrow> swap_info list \<Rightarrow> Memo_SwapOperation list" where
  "memo_ops_of denomIn [] = []"
| "memo_ops_of denomIn (s # ss) =
     Memo_SwapOperation_fromPartial \<lparr>pso_poolId = Some (si_poolId s), pso_denomIn = Some denomIn,
       pso_denomOut = Some (si_tokenOut s)\<rparr> # memo_ops_of (si_tokenOut s) ss"

definition action_memo_ops :: "action \<Rightarrow> Memo_SwapOperation list res" where
  "action_memo_ops a =
     (if a_type a \<noteq> ''Swap'' then Inl (Thrown ''Only support swap on Oraichain!'')
      else case a_swapInfo a of
        None \<Rightarrow> Inl (Thrown ''No swap info with action type Swap'')
      | Some ss \<Rightarrow> Inr (memo_ops_of (a_tokenIn a) ss))"

definition convertApiOpsToMemoRoute :: "route \<Rightarrow> Memo_Route option res" where
  "convertApiOpsToMemoRoute route =
     (if length (r_paths route) = 0 then Inr None
      else if length (r_paths route) \<noteq> 1 then Inl (Thrown ''Only support swap on Oraichain!'')
      else rbind (rmap action_memo_ops (p_actions (r_paths route ! 0))) (\<lambda>ops.
        Inr (Some (Memo_Route_fromPartial
          \<lparr>prt_offerAmount = Some (r_swapAmount route),
           prt_operations = Some (map Memo_SwapOperation_partial_of (concat ops))\<rparr>))))"

definition universal_swap_memo :: "ext \<Rightarrow> string \<Rightarrow> string \<Rightarrow> router_response option \<Rightarrow> Memo_IbcWasmTransfer option \<Rightarrow>
    Memo_ContractCall option \<Rightarrow> Memo_IbcTransfer option \<Rightarrow> Memo_Transfer option \<Rightarrow> Memo res" where
  "universal_swap_memo X minimumReceive recoveryAddr userSwap ibcWasm contractCall ibcTransfer transfer =
     rbind (rmap convertApiOpsToMemoRoute (case userSwap of None \<Rightarrow> [] | Some u \<Rightarrow> rr_routes u)) (\<lambda>rs.
     let routes = List.map_filter id rs;
         noPostSwapAction = (contractCall = None \<and> ibcTransfer = None \<and> ibcWasm = None \<and> transfer = None)
     in Inr (Memo_fromPartial \<lparr>
       pm_userSwap = (if length routes > 0
         then Some \<lparr>pus_swapVenueName = Some ''oraidex'', pus_swapExactAssetIn = None,
           pus_smartSwapExactAssetIn = Some \<lparr>pss_routes = Some (map Memo_Route_partial_of routes)\<rparr>\<rparr>
         else None),
       pm_minimumReceive = Some minimumReceive,
       pm_timeoutTimestamp = Some (num_mul
         (num_add (Fin (of_int (Date_now X))) (Fin (of_int (common_IBC_TRANSFER_TIMEOUT X * 1000)))) (Fin 1000000)),
       pm_postSwapAction = (if \<not> noPostSwapAction
         then Some \<lparr>ppa_ibcTransferMsg = map_option Memo_IbcTransfer_partial_of ibcTransfer,
           ppa_ibcWasmTransferMsg = map_option Memo_IbcWasmTransfer_partial_of ibcWasm,
           ppa_contractCall = map_option Memo_ContractCall_partial_of contractCall,
           ppa_transferMsg = map_option Memo_Transfer_partial_of transfer\<rparr>
         else None),
       pm_recoveryAddr = Some recoveryAddr\<rparr>))"

definition buildUniversalSwapMemo :: "ext \<Rightarrow> string \<Rightarrow> string \<Rightarrow> router_response option \<Rightarrow> Memo_IbcWasmTransfer option \<Rightarrow>
    Memo_ContractCall option \<Rightarrow> Memo_IbcTransfer option \<Rightarrow> Memo_Transfer option \<Rightarrow> string res" where
  "buildUniversalSwapMemo X minimumReceive recoveryAddr userSwap ibcWasm contractCall ibcTransfer transfer =
     rbind (universal_swap_memo X minimumReceive recoveryAddr userSwap ibcWasm contractCall ibcTransfer transfer)
       (\<lambda>memo. Inr (toBase64 X (Memo_encode (ext_wire X) memo)))"

end
