(* ===== verification/NumLaws.thy ===== *)
theory NumLaws
  imports JsNumber
begin

text \<open>
  Exactness of the number model: a rational with a mantissa below \<open>2^53\<close> is its own double, so the
  rounding of the model is the identity on every integer and binary fraction the SDK computes with.
\<close>

lemma pow2_powi: "pow2 e = 2 powi e"
  by (simp add: pow2_def power_int_def power_inverse field_simps)

lemma pow2_pos [simp]: "0 < pow2 e"
  by (simp add: pow2_powi)

lemma pow2_add: "pow2 (a + b) = pow2 a * pow2 b"
  by (simp add: pow2_powi power_int_add)

lemma pow2_diff: "pow2 (a - b) = pow2 a / pow2 b"
  by (simp add: pow2_powi power_int_diff)

lemma pow2_le_iff: "pow2 a \<le> pow2 b \<longleftrightarrow> a \<le> b"
  unfolding pow2_powi by (meson linorder_not_le one_less_numeral_iff power_int_increasing power_int_strict_increasing
      semiring_norm(76) le_less_trans less_imp_le not_le)

lemma pow2_less_iff: "pow2 a < pow2 b \<longleftrightarrow> a < b"
  using pow2_le_iff [of b a] by (simp add: not_le [symmetric])

lemma pow2_nat: "pow2 (int k) = 2 ^ k"
  by (simp add: pow2_def)

lemma div2_bounds: "(B::int) \<le> n div 2 \<Longrightarrow> n div 2 < 2 * B \<Longrightarrow> 2 * B \<le> n \<and> n < 4 * B"
  by presburger

lemma bitlen_bounds: "0 < n \<Longrightarrow> 0 < bitlen n \<and> 2 ^ nat (bitlen n - 1) \<le> n \<and> n < 2 ^ nat (bitlen n)"
proof (induction n rule: bitlen.induct)
  case (1 n)
  show ?case
  proof (cases "n = 1")
    case True
    then show ?thesis by (simp add: bitlen.simps)
  next
    case False
    with 1 have m: "0 < n div 2" "0 < bitlen (n div 2)" "2 ^ nat (bitlen (n div 2) - 1) \<le> n div 2"
      "n div 2 < 2 ^ nat (bitlen (n div 2))" by auto
    have b: "bitlen n = 1 + bitlen (n div 2)" using 1(2) by (simp add: bitlen.simps)
    have e: "nat (bitlen (n div 2)) = Suc (nat (bitlen (n div 2) - 1))" using m(2) by simp
    have e': "nat (1 + bitlen (n div 2)) = Suc (nat (bitlen (n div 2)))" using m(2) by simp
    show ?thesis unfolding b using m e e' div2_bounds [of "2 ^ nat (bitlen (n div 2) - 1)" n]
      by (simp add: nat_add_distrib)
  qed
qed

lemma bitlen_pow2:
  assumes "0 < n"
  shows "pow2 (bitlen n - 1) \<le> of_int n" "of_int n < pow2 (bitlen n)"
proof -
  have b: "0 < bitlen n" "2 ^ nat (bitlen n - 1) \<le> n" "n < 2 ^ nat (bitlen n)" using bitlen_bounds [OF assms] by auto
  have "(of_int (2 ^ nat (bitlen n - 1)) :: rat) \<le> of_int n" "(of_int n :: rat) < of_int (2 ^ nat (bitlen n))"
    using b(2,3) by (simp_all only: of_int_le_iff of_int_less_iff)
  then show "pow2 (bitlen n - 1) \<le> of_int n" "of_int n < pow2 (bitlen n)"
    using b(1) by (simp_all add: pow2_def)
qed

lemma log2_floor_bounds:
  assumes "0 < x"
  shows "pow2 (log2_floor x) \<le> x" "x < pow2 (log2_floor x + 1)"
proof -
  obtain p q where pq: "quotient_of x = (p, q)" by (cases "quotient_of x")
  then have q: "0 < q" and x: "x = of_int p / of_int q" by (auto simp: quotient_of_denom_pos quotient_of_div)
  with assms have p: "0 < p" by (simp add: zero_less_divide_iff)
  let ?b = "bitlen p" and ?c = "bitlen q"
  note pl = bitlen_pow2 [OF p] and ql = bitlen_pow2 [OF q]
  have "x < pow2 ?b / pow2 (?c - 1)"
    unfolding x using pl ql q p by (intro frac_less) simp_all
  then have up: "x < pow2 (?b - ?c + 1)" by (simp add: pow2_diff [symmetric] algebra_simps)
  have "pow2 (?b - 1) / pow2 ?c \<le> x"
    unfolding x using pl ql q p by (intro frac_le) simp_all
  then have lo: "pow2 (?b - ?c - 1) \<le> x" by (simp add: pow2_diff [symmetric] algebra_simps)
  show "pow2 (log2_floor x) \<le> x" "x < pow2 (log2_floor x + 1)"
    using up lo by (simp_all add: log2_floor_def pq Let_def)
qed

lemma round_half_even_int: "x = of_int n \<Longrightarrow> round_half_even x = n"
  by (simp add: round_half_even_def)

text \<open>The representable numbers.\<close>

lemma dbl_pos_exact:
  assumes m: "0 < m" "m < 2 ^ 53" and e: "-1074 \<le> e"
  shows "dbl_pos (of_int m * pow2 e) = of_int m * pow2 e"
proof -
  let ?x = "of_int m * pow2 e" and ?L = "log2_floor (of_int m * pow2 e)"
  have pos: "0 < ?x" using m by simp
  have "of_int m < (of_int (2 ^ 53) :: rat)" using m(2) by (simp only: of_int_less_iff)
  then have "of_int m < pow2 53" by (simp add: pow2_def)
  then have "?x < pow2 (53 + e)" by (simp add: pow2_add)
  then have "pow2 ?L < pow2 (53 + e)" using log2_floor_bounds(1) [OF pos] by linarith
  then have "?L - 52 \<le> e" by (simp add: pow2_less_iff)
  then have le: "max (?L - 52) (-1074) \<le> e" using e by simp
  let ?u = "max (?L - 52) (-1074)"
  have "?x / pow2 ?u = of_int m * pow2 (e - ?u)" by (simp add: pow2_diff)
  also have "\<dots> = of_int (m * 2 ^ nat (e - ?u))" using le by (simp add: pow2_def)
  finally have q: "?x / pow2 ?u = of_int (m * 2 ^ nat (e - ?u))" .
  then have "of_int (round_half_even (?x / pow2 ?u)) * pow2 ?u = ?x / pow2 ?u * pow2 ?u"
    using round_half_even_int [OF q] by simp
  then show ?thesis using pow2_pos [of ?u] by (simp add: dbl_pos_def Let_def)
qed

lemma dbl_exact:
  assumes "0 < m" "m < 2 ^ 53" "-1074 \<le> e" "e \<le> 970"
  shows "dbl (of_int m * pow2 e) = Fin (of_int m * pow2 e)"
proof -
  have "of_int m < (of_int (2 ^ 53) :: rat)" using assms(2) by (simp only: of_int_less_iff)
  then have "of_int m < pow2 53" by (simp add: pow2_def)
  then have "of_int m * pow2 e < pow2 (53 + e)" by (simp add: pow2_add)
  also have "\<dots> \<le> pow2 1024" using assms(4) by (simp add: pow2_le_iff)
  finally have "\<not> pow2 1024 \<le> of_int m * pow2 e" by simp
  then show ?thesis using assms(1) dbl_pos_exact [OF assms(1-3)]
    by (simp add: dbl_def abs_mult order.strict_implies_not_eq [symmetric] less_imp_le Let_def not_less)
qed

lemma dbl_int_exact: "0 < m \<Longrightarrow> m < 2 ^ 53 \<Longrightarrow> k \<le> 970 \<Longrightarrow> dbl (of_int (m * 2 ^ k)) = Fin (of_int (m * 2 ^ k))"
  using dbl_exact [of m "int k"] by (simp add: pow2_nat)

lemma dbl_half_power:
  assumes "0 < m" "m < 2 ^ 53" "k \<le> 1074"
  shows "dbl (of_int m / 2 ^ k) = Fin (of_int m / 2 ^ k)"
proof -
  have "pow2 (- int k) = 1 / 2 ^ k" by (cases "k = 0") (simp_all add: pow2_def)
  then show ?thesis using dbl_exact [of m "- int k"] assms by simp
qed

section \<open>Reading and printing\<close>

lemma split_at_none: "(\<And>x. x \<in> set s \<Longrightarrow> \<not> p x) \<Longrightarrow> split_at p s = (s, None)"
proof -
  assume "\<And>x. x \<in> set s \<Longrightarrow> \<not> p x"
  then have "dropWhile (\<lambda>c. \<not> p c) s = []" "takeWhile (\<lambda>c. \<not> p c) s = s"
    by (auto simp: dropWhile_eq_Nil_conv takeWhile_eq_all_conv)
  then show ?thesis by (simp only: split_at_def Let_def list.case)
qed

lemma string_to_num_digits:
  assumes "s \<noteq> []" "list_all is_digit s"
  shows "string_to_num s = dbl (of_nat (str_nat s))"
proof -
  have dig: "\<And>c. c \<in> set s \<Longrightarrow> is_digit c" using assms(2) by (simp add: list_all_iff)
  have trim: "js_trim s = s"
    using assms(1) is_digit_not_ws [OF dig] by (intro js_trim_id) auto
  have hd: "hd s \<noteq> CHR ''-''" "hd s \<noteq> CHR ''+''"
    using assms(1) dig is_digit_imp_not by auto
  have nopre: "\<not> starts_with [CHR ''0'', x] s" if "\<not> is_digit x" for x
    using that dig by (cases s; cases "tl s") (auto simp: starts_with_def)
  have inf: "s \<noteq> ''Infinity''" using assms by (auto simp: is_digit_def)
  have e: "\<not> is_digit (CHR ''e'')" "\<not> is_digit (CHR ''E'')" "\<not> is_digit (CHR ''.'')"
    by (simp_all add: is_digit_def)
  have "split_at (\<lambda>c. c = CHR ''e'' \<or> c = CHR ''E'') s = (s, None)" "split_at (\<lambda>c. c = CHR ''.'') s = (s, None)"
    using dig e by (auto intro!: split_at_none)
  then have "unsigned_decimal s = Some (of_nat (str_nat s))"
    using assms by (simp add: unsigned_decimal_def exponent_val_def pow10_def)
  then show ?thesis
    using assms hd inf by (simp add: string_to_num_def trim nopre is_digit_def signed_number_def)
qed

lemma string_to_num_nat_str: "string_to_num (nat_str n) = dbl (of_nat n)"
  by (simp add: string_to_num_digits nat_str_digits)

lemma half_to_string: "num_to_string (num_sub (Fin 1) (Fin (1 / 2))) = ''0.5''"
proof -
  have d: "dbl (1 / 2) = Fin (1 / 2)" using dbl_half_power [of 1 1] by simp
  have "exp10 (1 / 2) = 0" by (simp add: exp10_def numeral_eq_Suc)
  moreover have r: "round_half_even 5 = 5" using round_half_even_int [of 5 5] by simp
  moreover have "shortest 17 1 (1 / 2) 0 = (5, 0)"
    using d r by (simp add: numeral_eq_Suc pow10_def Let_def)
  ultimately have "pos_to_string (1 / 2) = ''0.5''"
    by (simp add: pos_to_string_def format_digits_def Let_def nat_str.simps [of 5] digit_char_eval)
  then show ?thesis using d by (simp add: num_sub_def)
qed

end
