(* ===== verification/MsgLaws.thy ===== *)
theory MsgLaws
  imports MsgSwap NumLaws
begin

text \<open>
  What the message builders promise: the contract of a hop (the locale \<open>hop_builder\<close>, interpreted on
  the three builders), what a message spends and where it sends, and how the messages of one builder
  relate to each other. The properties of whole routes are in the root theory.
\<close>

section \<open>What the collecting loops gather\<close>

text \<open>Hops whose input denom is the output of the hop before.\<close>

fun linked :: "string \<Rightarrow> swap_operation list \<Rightarrow> bool" where
  "linked d [] \<longleftrightarrow> True"
| "linked d (s # ss) \<longleftrightarrow> denom_in s = d \<and> linked (denom_out s) ss"

fun end_denom :: "string \<Rightarrow> swap_operation list \<Rightarrow> string" where
  "end_denom d [] = d"
| "end_denom d (s # ss) = end_denom (denom_out s) ss"

lemma linked_append: "linked d (xs @ ys) \<longleftrightarrow> linked d xs \<and> linked (end_denom d xs) ys"
  by (induction xs arbitrary: d) auto

lemma end_denom_append: "end_denom d (xs @ ys) = end_denom (end_denom d xs) ys"
  by (induction xs arbitrary: d) auto

lemma end_denom_last: "xs \<noteq> [] \<Longrightarrow> end_denom d xs = denom_out (last xs)"
  by (induction xs arbitrary: d) auto

lemma linked_swap_ops_of: "linked d (swap_ops_of d ss)"
  by (induction ss arbitrary: d) auto

lemma swap_ops_of_pools: "map pool (swap_ops_of d ss) = map si_poolId ss"
  by (induction ss arbitrary: d) auto

lemma end_swap_ops_of: "end_denom d (swap_ops_of d ss) = (if ss = [] then d else si_tokenOut (last ss))"
  by (induction ss arbitrary: d) auto

text \<open>What one action contributes, and when consecutive actions fit together.\<close>

definition action_end :: "action \<Rightarrow> string" where
  "action_end a = (if a_type a = Swap
     then (case a_swapInfo a of None \<Rightarrow> a_tokenIn a
           | Some ss \<Rightarrow> if ss = [] then a_tokenIn a else si_tokenOut (last ss))
     else a_tokenOut a)"

fun actions_linked :: "string \<Rightarrow> action list \<Rightarrow> bool" where
  "actions_linked d [] \<longleftrightarrow> True"
| "actions_linked d (a # as) \<longleftrightarrow> a_tokenIn a = d \<and> (a_type a = Bridge \<longrightarrow> as = []) \<and> actions_linked (action_end a) as"

lemma oraichain_collect_bridge:
  assumes "oraichain_collect X self as ops b0 = Inr (ops', b)"
  shows "b = b0 \<or> (\<exists>a\<in>set as. \<exists>bi. a_type a = Bridge \<and> a_bridgeInfo a = Some bi \<and> b = Some (bridge_msg X self a bi))"
  using assms
  by (induction X self as ops b0 rule: oraichain_collect.induct)
    (auto split: if_splits option.splits)

lemma osmosis_collect_bridge:
  assumes "osmosis_collect X self as ops b0 = Inr (ops', b)"
  shows "b = b0 \<or> (\<exists>a\<in>set as. \<exists>bi. a_type a = Bridge \<and> a_bridgeInfo a = Some bi \<and> bi_port bi = ''transfer'' \<and>
    b = Some (bridge_msg X self a bi))"
  using assms
  by (induction X self as ops b0 rule: osmosis_collect.induct)
    (auto split: if_splits option.splits)

lemma oraichain_collect_linked:
  assumes "oraichain_collect X self as ops b0 = Inr (ops', b)" "linked d ops" "actions_linked (end_denom d ops) as"
  shows "linked d ops'"
  using assms
  by (induction X self as ops b0 rule: oraichain_collect.induct)
    (auto simp: linked_append end_denom_append linked_swap_ops_of end_swap_ops_of action_end_def action_types
      split: if_splits option.splits)

lemma osmosis_collect_linked:
  assumes "osmosis_collect X self as ops b0 = Inr (ops', b)" "linked d ops" "actions_linked (end_denom d ops) as"
  shows "linked d ops'"
  using assms
  by (induction X self as ops b0 rule: osmosis_collect.induct)
    (auto simp: linked_append end_denom_append linked_swap_ops_of end_swap_ops_of action_end_def action_types
      split: if_splits option.splits)

section \<open>What a message spends\<close>

definition bridged_tokens :: "path \<Rightarrow> string set" where
  "bridged_tokens p = {a_tokenIn a | a. a \<in> set (p_actions p) \<and> a_type a = Bridge}"

definition spends :: "ext \<Rightarrow> 'a chain_msg_scheme \<Rightarrow> encode_object \<Rightarrow> bool" where
  "spends X self eo \<longleftrightarrow>
     (let p = cm_path self; c = \<lparr>c_denom = p_tokenIn p, c_amount = p_tokenInAmount p\<rparr> in
      case eo_value eo of
        MsgTransfer t \<Rightarrow> typeUrl eo = TRANSFER_URL \<and> mt_sender t = cm_currentChainAddress self \<and> mt_token t = c \<and>
          mt_receiver t = cm_receiver self \<and> mt_memo t = cm_memo self
      | MsgExecuteContract e \<Rightarrow> typeUrl eo = EXECUTE_URL \<and> me_sender e = cm_currentChainAddress self \<and>
          (me_funds e = [c] \<or>
           me_funds e = [] \<and> (me_contract e = p_tokenIn p \<or> me_contract e \<in> bridged_tokens p) \<and>
           (\<exists>contract payload. me_msg e = toUtf8 X (JSON_stringify (JObj [(''send'', JObj
              [(''contract'', JStr contract), (''amount'', JStr (p_tokenInAmount p)), (''msg'', JStr payload)])])))))"

lemma spends_transfer: "spends X self (transfer_msg X self b)"
  by (simp add: spends_def transfer_msg_def)

lemma spends_native: "spends X self (native_call X self contract msg)"
  by (simp add: spends_def native_call_def)

lemma spends_cw20:
  "token = p_tokenIn (cm_path self) \<or> token \<in> bridged_tokens (cm_path self) \<Longrightarrow>
   spends X self (cw20_send X self token contract msg)"
  by (auto simp: spends_def cw20_send_def Let_def)

section \<open>The contract of a hop\<close>

locale hop_builder =
  fixes new :: "path \<Rightarrow> string \<Rightarrow> string option \<Rightarrow> string option \<Rightarrow> string \<Rightarrow> 'm res"
    and base :: "'m \<Rightarrow> chain_msg"
    and set_minimum :: "ext \<Rightarrow> 'm \<Rightarrow> js_num \<Rightarrow> 'm res"
    and gen_memo :: "ext \<Rightarrow> 'm \<Rightarrow> middleware_response res"
    and gen_exec :: "ext \<Rightarrow> 'm \<Rightarrow> encode_object res"
    and contracts :: "string set"
  assumes new_law: "new path mr receiver addr memo = Inr m \<Longrightarrow>
      new_ChainMsg path mr receiver addr memo = Inr (base m)"
    and minimum_law: "set_minimum X m s = Inr m' \<Longrightarrow> \<exists>r. base m' = (base m)\<lparr>cm_minimumReceive := r\<rparr>"
    and memo_law: "gen_memo X m = Inr r \<Longrightarrow> mr_receiver r \<in> insert (cm_currentChainAddress (base m)) contracts"
    and exec_law: "gen_exec X m = Inr eo \<Longrightarrow> spends X (base m) eo"
begin

lemma built:
  assumes "rbind (new path mr receiver addr memo) (\<lambda>m. set_minimum X m s) = Inr m"
  shows "cm_path (base m) = path" "addr = Some (cm_currentChainAddress (base m))" "cm_currentChainAddress (base m) \<noteq> []"
    "receiver = Some (cm_receiver (base m))" "cm_memo (base m) = memo" "validatePath path True = Inr ()"
proof -
  obtain m0 where m0: "new path mr receiver addr memo = Inr m0" "set_minimum X m0 s = Inr m"
    using assms by (auto simp: rbind_eq_Inr_iff)
  obtain r where r: "base m = (base m0)\<lparr>cm_minimumReceive := r\<rparr>" using minimum_law [OF m0(2)] by blast
  show "cm_path (base m) = path" "addr = Some (cm_currentChainAddress (base m))" "cm_currentChainAddress (base m) \<noteq> []"
    "receiver = Some (cm_receiver (base m))" "cm_memo (base m) = memo" "validatePath path True = Inr ()"
    using new_ChainMsg_ok [OF new_law [OF m0(1)]] r by simp_all
qed

lemma hop_receiver:
  assumes "rbind (rbind (new path mr receiver addr memo) (\<lambda>m. set_minimum X m s)) (gen_memo X) = Inr r"
  shows "mr_receiver r \<in> contracts \<or> (addr = Some (mr_receiver r) \<and> mr_receiver r \<noteq> [])"
proof -
  obtain m where m: "rbind (new path mr receiver addr memo) (\<lambda>m. set_minimum X m s) = Inr m" "gen_memo X m = Inr r"
    using assms by (auto simp: rbind_eq_Inr_iff)
  show ?thesis using memo_law [OF m(2)] built [OF m(1)] by auto
qed

lemma hop_spends:
  assumes "rbind (rbind (new path mr receiver addr memo) (\<lambda>m. set_minimum X m s)) (gen_exec X) = Inr eo"
  shows "\<exists>self. cm_path self = path \<and> addr = Some (cm_currentChainAddress self) \<and>
    cm_currentChainAddress self \<noteq> [] \<and> receiver = Some (cm_receiver self) \<and> cm_memo self = memo \<and>
    spends X (self :: chain_msg) eo"
proof -
  obtain m where m: "rbind (new path mr receiver addr memo) (\<lambda>m. set_minimum X m s) = Inr m" "gen_exec X m = Inr eo"
    using assms by (auto simp: rbind_eq_Inr_iff)
  show ?thesis using exec_law [OF m(2)] built [OF m(1)] by blast
qed

end

interpretation cosmos: hop_builder new_CosmosMsg "\<lambda>m. m" cosmos_setMinimumReceiveForSwap cosmos_genMemoAsMiddleware
  cosmos_genExecuteMsg "{}"
  by unfold_locales
    (auto simp: new_CosmosMsg_def cosmos_setMinimumReceiveForSwap_def cosmos_genMemoAsMiddleware_def
      cosmos_genExecuteMsg_def rbind_eq_Inr_iff spends_transfer split: if_splits)

interpretation osmosis: hop_builder new_OsmosisMsg "\<lambda>m. m" osmosis_setMinimumReceiveForSwap osmosis_genMemoAsMiddleware
  osmosis_genExecuteMsg "{OSMOSIS_ENTRY_POINT_CONTRACT}"
  by unfold_locales
    (auto simp: new_OsmosisMsg_def osmosis_setMinimumReceiveForSwap_def osmosis_genMemoAsMiddleware_def
      osmosis_genExecuteMsg_def rbind_eq_Inr_iff spends_transfer spends_native spends_cw20 Let_def
      split: if_splits option.splits)

lemma bridge_token:
  assumes "oraichain_getSwapAndBridgeInfo X m = Inr (ops, Some b)"
  shows "bm_fromToken b \<in> bridged_tokens (cm_path m)"
  using oraichain_collect_bridge [OF assms [unfolded oraichain_getSwapAndBridgeInfo_def]]
  by (auto simp: bridge_msg_def bridged_tokens_def)

lemma truncate_base [simp]:
  "cm_path (chain_msg.truncate m) = cm_path m" "cm_currentChainAddress (chain_msg.truncate m) = cm_currentChainAddress m"
  "cm_receiver (chain_msg.truncate m) = cm_receiver m" "cm_memo (chain_msg.truncate m) = cm_memo m"
  by (simp_all add: chain_msg.truncate_def)

lemma spends_truncate: "spends X (chain_msg.truncate m) eo = spends X m eo"
  unfolding spends_def truncate_base ..

lemma genBridgeMsg_spends:
  assumes "bm_fromToken b \<in> bridged_tokens (cm_path m)" "genBridgeMsg X m b = Inr eo"
  shows "spends X m eo"
proof (cases "bm_sourcePort b = ''transfer'' \<and> isCosmosChain (bm_toChain b) (cosmosChains X)")
  case True
  then show ?thesis using assms(2) by (auto simp: genBridgeMsg_def spends_transfer)
next
  case False
  then obtain call where call: "bridge_call X m b = Inr call" "(case call of
      None \<Rightarrow> generateError ''Error on generate executeMsg on Oraichain: Only support ibc, ibc wasm bridge, ton bridge''
    | Some (msg, c) \<Rightarrow> if isCw20Token X (bm_fromToken b) then Inr (cw20_send X m (bm_fromToken b) c msg)
        else Inr (native_call X m c msg)) = Inr eo"
    using assms(2) unfolding genBridgeMsg_def if_not_P [OF False] rbind_eq_Inr_iff by blast
  then obtain msg c where "call = Some (msg, c)" by (cases call) auto
  with call(2) show ?thesis using assms(1)
    by (cases "isCw20Token X (bm_fromToken b)") (auto simp: spends_native intro: spends_cw20)
qed

interpretation oraichain: hop_builder "\<lambda>path mr receiver addr memo. new_OraichainMsg path mr receiver addr memo d ob"
  chain_msg.truncate oraichain_setMinimumReceiveForSwap
  "\<lambda>X m. if wasm then genMemoForIbcWasm X m else oraichain_genMemoAsMiddleware X m" oraichain_genExecuteMsg
  "{ORAICHAIN_ENTRY_POINT_CONTRACT, IBC_WASM_CONTRACT}" for d ob wasm
proof (unfold_locales, goal_cases)
  case (1 path mr receiver addr memo m)
  then show ?case
    by (auto simp: new_OraichainMsg_def rbind_eq_Inr_iff chain_msg.defs split: if_splits)
next
  case (2 X m s m')
  then show ?case
    by (auto simp: oraichain_setMinimumReceiveForSwap_def rbind_eq_Inr_iff chain_msg.truncate_def)
next
  case (3 X m r)
  then show ?case
    by (auto simp: oraichain_genMemoAsMiddleware_def genMemoForIbcWasm_def rbind_eq_Inr_iff split: if_splits option.splits)
next
  case (4 X m eo)
  then show ?case
    by (auto simp: oraichain_genExecuteMsg_def rbind_eq_Inr_iff spends_truncate spends_native spends_cw20 Let_def
        split: if_splits option.splits intro: genBridgeMsg_spends dest: bridge_token)
qed

section \<open>Timeouts\<close>

lemma long_id: "- (2 ^ 63) \<le> n \<Longrightarrow> n < 2 ^ 63 \<Longrightarrow> long n = n"
  by (simp add: long_def signed_of_int signed_take_bit_int_eq_self)

lemma timeout_no_wrap:
  assumes "0 < now div 1000 + t" "now div 1000 + t < 2 ^ 32"
  shows "calculateTimeoutTimestamp t now = nat_str (nat ((now div 1000 + t) * 1000000000))"
  using assms by (simp add: calculateTimeoutTimestamp_def Long_fromNumber_def long_id int_str_def)

lemma timeout_value:
  assumes "0 < now div 1000 + t" "now div 1000 + t < 2 ^ 32"
  shows "string_to_num (calculateTimeoutTimestamp t now) = Fin (of_int ((now div 1000 + t) * 1000000000))"
proof -
  let ?s = "now div 1000 + t"
  have e: "?s * 1000000000 = (?s * 1953125) * 2 ^ 9" by simp
  have "dbl (of_int ((?s * 1953125) * 2 ^ 9)) = Fin (of_int ((?s * 1953125) * 2 ^ 9))"
    using assms by (intro dbl_int_exact) simp_all
  then have "dbl (of_int (?s * 1000000000)) = Fin (of_int (?s * 1000000000))" unfolding e .
  moreover have "of_nat (nat (?s * 1000000000)) = (of_int (?s * 1000000000) :: rat)" using assms by simp
  ultimately show ?thesis by (simp only: timeout_no_wrap [OF assms] string_to_num_nat_str)
qed

section \<open>The minimum to receive\<close>

lemma cut_decimals_split: "cut_decimals s = hd (js_split (CHR ''.'') s)"
proof (cases "CHR ''.'' \<in> set s")
  case True
  then show ?thesis by (cases "js_split (CHR ''.'') s") (simp_all add: cut_decimals_def str_includes_char)
qed (simp add: cut_decimals_def str_includes_char js_split_none)

lemma bd_of_ratio:
  assumes "list_all is_digit ds" "ds \<noteq> []"
  shows "bd_of_text (''0.'' @ ds) None =
    Inr \<lparr>bigInt = int (str_nat ds * 10 ^ (6 - length ds)), dec = length ds + (6 - length ds)\<rparr>"
proof -
  have "CHR ''.'' \<notin> set ds" using assms(1) is_digit_imp_not by (auto simp: list_all_iff)
  then have sp: "js_split (CHR ''.'') (''0.'' @ ds) = ''0'' # (if ds = [] then [] else [ds])"
    using assms js_split_sep [of "CHR ''.''" "''0''" ds] by (simp add: js_split_none)
  have dig: "bigint_of_string (''0'' @ ds @ replicate k (CHR ''0'')) = Inr (int (str_nat ds * 10 ^ k))" for k
  proof -
    have "list_all is_digit (''0'' @ ds @ replicate k (CHR ''0''))" using assms(1) by simp
    moreover have "str_nat (''0'' @ ds @ replicate k (CHR ''0'')) = str_nat ds * 10 ^ k"
      using str_nat_zeros [of 1] by (simp only: str_nat_append) simp
    ultimately show ?thesis by (subst bigint_of_digits) simp_all
  qed
  show ?thesis
  proof (cases "length ds \<le> 6")
    case True
    then show ?thesis using bd_of_text_narrow [OF sp, of None] dig [of "6 - length ds"]
      by (simp add: default_decimals_def js_pad_end_def)
  next
    case False
    then show ?thesis using bd_of_text_wide [OF sp, of None] dig [of 0] by (simp add: default_decimals_def)
  qed
qed

lemma mul_amount:
  assumes "0 < d"
  shows "bd_mul \<lparr>bigInt = int m, dec = d\<rparr> (DStr (nat_str n)) = Inr \<lparr>bigInt = int (m * n), dec = d\<rparr>"
proof -
  have sp: "js_split (CHR ''.'') (nat_str n) = nat_str n # (if [] = [] then [] else [[]])"
    by (simp add: js_split_none nat_str_no_dot)
  have "list_all is_digit (nat_str n @ replicate d (CHR ''0''))" using nat_str_digits [of n] by simp
  then have "bigint_of_string (nat_str n @ replicate d (CHR ''0'')) = Inr (int (n * 10 ^ d))"
    by (subst bigint_of_digits) (simp_all add: str_nat_append)
  then have "bd_of_text (nat_str n) (Some d) = Inr \<lparr>bigInt = int (n * 10 ^ d), dec = d\<rparr>"
    using bd_of_text_narrow [OF sp, of "Some d"] by (simp add: default_decimals_def js_pad_end_def)
  moreover have "(int m * int (n * 10 ^ d)) sdiv 10 ^ d = int (m * n)"
    by (subst sdiv_pos) (simp_all add: mult.assoc [symmetric])
  ultimately show ?thesis
    by (simp add: bd_mul_def imul_def processDecimal_def new_BigDecimal_def bigint_div_def)
qed

lemma cut_toString:
  assumes "0 < d"
  shows "cut_decimals (bd_toString \<lparr>bigInt = int m, dec = d\<rparr>) = nat_str (m div 10 ^ d)"
  using split_toString [of "\<lparr>bigInt = int m, dec = d\<rparr>"] int_part_div [of "\<lparr>bigInt = int m, dec = d\<rparr>"] assms
  by (simp add: cut_decimals_split sign_part_def)

lemma minimumReceive_floor:
  assumes "num_to_string (num_sub (Fin 1) slippage) = ''0.'' @ ds" "list_all is_digit ds" "ds \<noteq> []"
  shows "minimumReceiveOf slippage (nat_str n) = Inr (nat_str (n * str_nat ds div 10 ^ length ds))"
proof -
  let ?k = "6 - length ds"
  have "0 < length ds + ?k" by simp
  then have "minimumReceiveOf slippage (nat_str n) =
      Inr (nat_str (str_nat ds * 10 ^ ?k * n div 10 ^ (length ds + ?k)))"
    unfolding minimumReceiveOf_def assms(1)
    by (simp add: new_BigDecimal_def bd_of_ratio [OF assms(2,3)] mul_amount cut_toString del: of_nat_mult append.simps)
  moreover have "str_nat ds * 10 ^ ?k * n div 10 ^ (length ds + ?k) = n * str_nat ds div 10 ^ length ds"
    using div_mult_mult2 [of "10 ^ ?k" "n * str_nat ds" "10 ^ length ds"] by (simp add: power_add mult_ac)
  ultimately show ?thesis by simp
qed

section \<open>Linked paths\<close>

lemma oraichain_collect_end:
  assumes "oraichain_collect X self as ops b0 = Inr (ops', Some b)" "actions_linked (end_denom d ops) as"
    and "b0 = Some b \<Longrightarrow> bm_fromToken b = end_denom d ops \<and> as = []"
  shows "bm_fromToken b = end_denom d ops'"
  using assms
  by (induction X self as ops b0 rule: oraichain_collect.induct)
    (auto simp: end_denom_append end_swap_ops_of action_end_def action_types bridge_msg_def
      split: if_splits option.splits)

lemma osmosis_collect_end:
  assumes "osmosis_collect X self as ops b0 = Inr (ops', Some b)" "actions_linked (end_denom d ops) as"
    and "b0 = Some b \<Longrightarrow> bm_fromToken b = end_denom d ops \<and> as = []"
  shows "bm_fromToken b = end_denom d ops'"
  using assms
  by (induction X self as ops b0 rule: osmosis_collect.induct)
    (auto simp: end_denom_append end_swap_ops_of action_end_def action_types bridge_msg_def
      split: if_splits option.splits)

section \<open>Paths on which no builder fails by accident\<close>

definition action_complete :: "action \<Rightarrow> bool" where
  "action_complete a \<longleftrightarrow> (a_type a = Swap \<longrightarrow> a_swapInfo a \<noteq> None \<and> a_swapInfo a \<noteq> Some []) \<and>
     (a_type a = Bridge \<longrightarrow> a_bridgeInfo a \<noteq> None)"

lemma swap_ops_of_Nil: "swap_ops_of d ss = [] \<longleftrightarrow> ss = []"
  by (cases ss) simp_all

lemma oraichain_collect_complete:
  assumes "list_all action_complete as"
  shows "oraichain_collect X self as ops b0 \<noteq> Inl TypeError"
    "oraichain_collect X self as ops b0 = Inr (ops', b) \<Longrightarrow> as \<noteq> [] \<or> ops \<noteq> [] \<or> b0 \<noteq> None \<Longrightarrow> ops' \<noteq> [] \<or> b \<noteq> None"
  using assms
  by (induction X self as ops b0 rule: oraichain_collect.induct)
    (auto simp: action_complete_def swap_ops_of_Nil split: if_splits option.splits)

lemma osmosis_collect_complete:
  assumes "list_all action_complete as"
  shows "osmosis_collect X self as ops b0 \<noteq> Inl TypeError"
    "osmosis_collect X self as ops b0 = Inr (ops', b) \<Longrightarrow> as \<noteq> [] \<or> ops \<noteq> [] \<or> b0 \<noteq> None \<Longrightarrow> ops' \<noteq> [] \<or> b \<noteq> None"
  using assms
  by (induction X self as ops b0 rule: osmosis_collect.induct)
    (auto simp: action_complete_def swap_ops_of_Nil split: if_splits option.splits)

lemma evm_prefix_TypeError [simp]: "evm_prefix X m \<noteq> Inl TypeError"
  by (simp add: evm_prefix_def)

lemma post_action_TypeError [simp]:
  "getProtoForPostAction X m b \<noteq> Inl TypeError" "oraichain_getPostAction X m b \<noteq> Inl TypeError"
  "oraichain_memo X m u b \<noteq> Inl TypeError" "osmosis_getPostAction c b \<noteq> Inl TypeError"
  by (auto simp: getProtoForPostAction_def oraichain_getPostAction_def oraichain_memo_def osmosis_getPostAction_def
      rbind_eq_Inl_iff Let_def split: option.splits)

lemma genBridgeMsg_TypeError [simp]: "genBridgeMsg X m b \<noteq> Inl TypeError"
proof -
  have "bridge_call X m b \<noteq> Inl TypeError"
    by (auto simp: bridge_call_def rbind_eq_Inl_iff Let_def split: list.splits)
  then show ?thesis by (auto simp: genBridgeMsg_def rbind_eq_Inl_iff split: option.splits if_splits)
qed

section \<open>A concrete environment and message\<close>

definition sample_ext :: ext where
  "sample_ext = \<lparr>
     bech32_decode = (\<lambda>s. if starts_with ''orai1'' s then Inr ''orai'' else Inl ''not bech32''),
     fromBech32 = (\<lambda>s. if starts_with ''orai1'' s then Inr (utf8 (drop 5 s)) else Inl (Thrown ''not bech32'')),
     toBech32 = (\<lambda>p d. p @ CHR ''1'' # map (\<lambda>b. char_of (unat b)) d),
     eth_getAddress = (\<lambda>s. if starts_with ''0x'' s then Some s else None),
     eth_isAddress = (\<lambda>s. starts_with ''0x'' s),
     ton_parse_error = (\<lambda>s. if starts_with ''EQ'' s then None else Some ''unknown address''),
     toBinary = JSON_stringify, toUtf8 = utf8, toBase64 = map (\<lambda>b. char_of (unat b)),
     ext_wire = pb_wire, Date_now = 1700000000000, common_IBC_TRANSFER_TIMEOUT = 3600,
     cosmosChains = [\<lparr>ch_chainId = ''Oraichain'', ch_bech32PrefixAccAddr = ''orai'', ch_coinType = Some 118\<rparr>,
       \<lparr>ch_chainId = ''noble-1'', ch_bech32PrefixAccAddr = ''noble'', ch_coinType = Some 118\<rparr>],
     evmChains = [''0x38'']\<rparr>"

definition swap_action :: "string \<Rightarrow> swap_info list \<Rightarrow> action" where
  "swap_action d ss = \<lparr>a_type = Swap, a_tokenIn = d, a_tokenInAmount = ''9'', a_tokenOut = ''uusdc'',
     a_tokenOutAmount = ''7'', a_protocol = None, a_swapInfo = Some ss, a_bridgeInfo = None, a_tokenOutChainId = None\<rparr>"

definition bridge_action :: "string \<Rightarrow> string \<Rightarrow> action" where
  "bridge_action d p = \<lparr>a_type = Bridge, a_tokenIn = d, a_tokenInAmount = ''7'', a_tokenOut = ''uusdc'',
     a_tokenOutAmount = ''7'', a_protocol = None, a_swapInfo = None,
     a_bridgeInfo = Some \<lparr>bi_port = p, bi_channel = ''channel-1''\<rparr>, a_tokenOutChainId = None\<rparr>"

definition sample_path :: "string \<Rightarrow> string \<Rightarrow> action list \<Rightarrow> path" where
  "sample_path c c' as = \<lparr>p_chainId = c, p_tokenIn = ''orai'', p_tokenInAmount = ''9'', p_tokenOut = ''uusdc'',
     p_tokenOutAmount = ''7'', p_tokenOutChainId = c', p_actions = as\<rparr>"

definition two_hops :: "swap_info list" where
  "two_hops = [\<lparr>si_poolId = ''p1'', si_tokenOut = ''usdt''\<rparr>, \<lparr>si_poolId = ''p2'', si_tokenOut = ''usdc''\<rparr>]"

definition sample_msg :: "path \<Rightarrow> chain_msg" where
  "sample_msg p = \<lparr>cm_path = p, cm_minimumReceive = ''1'', cm_receiver = ''noble1r'',
     cm_currentChainAddress = ''orai1me'', cm_memo = []\<rparr>"

definition sample_oraichain :: "path \<Rightarrow> oraichain_msg" where
  "sample_oraichain p = chain_msg.extend (sample_msg p) \<lparr>om_destPrefix = Some [], om_obridgeAddress = Some ''oraib1me''\<rparr>"

lemmas sample_defs = sample_ext_def swap_action_def bridge_action_def sample_path_def two_hops_def
  sample_msg_def sample_oraichain_def chain_msg.defs action_types

section \<open>Properties\<close>

text \<open>C5. On Oraichain, when the actions of a path fit together, the swap operations sent to the entry
  point form one chain: the first takes the token of the path, each next one the output of the
  operation before, and the bridge carries exactly the token the swaps end with.\<close>

theorem oraichain_operations_linked:
  assumes "oraichain_getSwapAndBridgeInfo X m = Inr (ops, b)"
    and "actions_linked (p_tokenIn (cm_path m)) (p_actions (cm_path m))"
  shows "linked (p_tokenIn (cm_path m)) ops \<and>
    (\<forall>x. b = Some x \<longrightarrow> bm_fromToken x = end_denom (p_tokenIn (cm_path m)) ops)"
  using assms oraichain_collect_linked [of X m "p_actions (cm_path m)" "[]" None ops b "p_tokenIn (cm_path m)"]
    oraichain_collect_end [of X m "p_actions (cm_path m)" "[]" None ops _ "p_tokenIn (cm_path m)"]
  unfolding oraichain_getSwapAndBridgeInfo_def by auto

theorem oraichain_operations_linked_witness:
  "\<exists>ops x. oraichain_getSwapAndBridgeInfo sample_ext
       (sample_oraichain (sample_path ''Oraichain'' ''noble-1'' [swap_action ''orai'' two_hops, bridge_action ''usdc'' ''transfer''])) =
     Inr (ops, Some x) \<and> length ops = 2 \<and> linked ''orai'' ops \<and> bm_fromToken x = end_denom ''orai'' ops"
proof -
  let ?m = "sample_oraichain (sample_path ''Oraichain'' ''noble-1'' [swap_action ''orai'' two_hops, bridge_action ''usdc'' ''transfer''])"
  obtain ops x where r: "oraichain_getSwapAndBridgeInfo sample_ext ?m = Inr (ops, Some x)" "length ops = 2"
    by (simp add: oraichain_getSwapAndBridgeInfo_def sample_defs)
  have "actions_linked (p_tokenIn (cm_path ?m)) (p_actions (cm_path ?m))" "p_tokenIn (cm_path ?m) = ''orai''"
    by (simp_all add: sample_defs action_end_def)
  with oraichain_operations_linked [OF r(1)] r show ?thesis by auto
qed

text \<open>The same on Osmosis, where the bridge is always an IBC transfer.\<close>

theorem osmosis_operations_linked:
  assumes "osmosis_getSwapAndBridgeInfo X m = Inr (ops, b)"
    and "actions_linked (p_tokenIn (cm_path m)) (p_actions (cm_path m))"
  shows "linked (p_tokenIn (cm_path m)) ops \<and>
    (\<forall>x. b = Some x \<longrightarrow> bm_fromToken x = end_denom (p_tokenIn (cm_path m)) ops \<and> bm_sourcePort x = ''transfer'')"
  using assms osmosis_collect_linked [of X m "p_actions (cm_path m)" "[]" None ops b "p_tokenIn (cm_path m)"]
    osmosis_collect_end [of X m "p_actions (cm_path m)" "[]" None ops _ "p_tokenIn (cm_path m)"]
    osmosis_collect_bridge [of X m "p_actions (cm_path m)" "[]" None ops b]
  unfolding osmosis_getSwapAndBridgeInfo_def by (auto simp: bridge_msg_def)

theorem osmosis_operations_linked_witness:
  "\<exists>ops x. osmosis_getSwapAndBridgeInfo sample_ext
       (sample_msg (sample_path ''osmosis-1'' ''noble-1'' [swap_action ''orai'' two_hops, bridge_action ''usdc'' ''transfer''])) =
     Inr (ops, Some x) \<and> length ops = 2 \<and> linked ''orai'' ops \<and> bm_sourcePort x = ''transfer''"
proof -
  let ?m = "sample_msg (sample_path ''osmosis-1'' ''noble-1'' [swap_action ''orai'' two_hops, bridge_action ''usdc'' ''transfer''])"
  obtain ops x where r: "osmosis_getSwapAndBridgeInfo sample_ext ?m = Inr (ops, Some x)" "length ops = 2"
    by (simp add: osmosis_getSwapAndBridgeInfo_def sample_defs)
  have "actions_linked (p_tokenIn (cm_path ?m)) (p_actions (cm_path ?m))" "p_tokenIn (cm_path ?m) = ''orai''"
    by (simp_all add: sample_defs action_end_def)
  with osmosis_operations_linked [OF r(1)] r show ?thesis by auto
qed

text \<open>The JSON action that a protobuf post action stands for.\<close>

definition action_of_proto :: "Memo_PostAction \<Rightarrow> json" where
  "action_of_proto p =
     (case (pa_transferMsg p, pa_contractCall p, pa_ibcTransferMsg p, pa_ibcWasmTransferMsg p) of
        (Some t, _, _, _) \<Rightarrow> JObj [(''transfer'', JObj [(''to_address'', JStr (tr_toAddress t))])]
      | (None, Some c, _, _) \<Rightarrow> JObj [(''contract_call'', JObj
          [(''contract_address'', JStr (cc_contractAddress c)), (''msg'', JStr (cc_msg c))])]
      | (None, None, Some t, _) \<Rightarrow> JObj [(''ibc_transfer'', JObj [(''ibc_info'', JObj
          [(''source_channel'', JStr (it_sourceChannel t)), (''receiver'', JStr (it_receiver t)),
           (''memo'', JStr (it_memo t)), (''recover_address'', JStr (it_recoverAddress t))])])]
      | (None, None, None, Some w) \<Rightarrow> JObj [(''ibc_wasm_transfer'', JObj [(''ibc_wasm_info'', JObj
          [(''local_channel_id'', JStr (iw_localChannelId w)), (''remote_address'', JStr (iw_remoteAddress w)),
           (''remote_denom'', JStr (iw_remoteDenom w)), (''memo'', JStr (str_of (iw_memo w)))])])]
      | _ \<Rightarrow> JUndef)"

text \<open>C23. The two post-action builders of \<open>OraichainMsg\<close> are one function in two encodings: for every
  message and bridge, \<open>getPostAction\<close> and \<open>getProtoForPostAction\<close> both raise, or both succeed on
  the same kind of action with the same addresses, channel, denom and memo.\<close>

theorem post_actions_agree:
  "case (getProtoForPostAction X m b, oraichain_getPostAction X m b) of
     (Inr p, Inr a) \<Rightarrow> a = action_of_proto p
   | (Inl _, Inl _) \<Rightarrow> True
   | _ \<Rightarrow> False"
proof (cases b)
  case None
  then show ?thesis
    by (simp add: getProtoForPostAction_def oraichain_getPostAction_def no_post_action_def action_of_proto_def
        transfer_action_def)
next
  case (Some x)
  then show ?thesis
    by (cases "evm_prefix X m")
      (simp_all add: getProtoForPostAction_def oraichain_getPostAction_def no_post_action_def action_of_proto_def
        ibc_transfer_action_def Let_def generateError_def)
qed

text \<open>C14. \<open>setMinimumReceiveForSwap\<close> never asks for more than the slippage allows: when \<open>1 - slippage\<close>
  prints as \<open>0.d1...dk\<close>, the minimum is the exact floor of the expected amount times that decimal,
  whatever the size of the amount, and at most the amount.\<close>

theorem minimum_receive:
  assumes "num_less (Fin 0) slippage" "num_less slippage (Fin 1)"
    and "num_to_string (num_sub (Fin 1) slippage) = ''0.'' @ ds" "list_all is_digit ds" "ds \<noteq> []"
    and "oraichain_getSwapAndBridgeInfo X m = Inr (ops, b)" "returnAmount m b = nat_str n"
  shows "oraichain_setMinimumReceiveForSwap X m slippage =
      Inr (m\<lparr>cm_minimumReceive := nat_str (n * str_nat ds div 10 ^ length ds)\<rparr>) \<and>
    n * str_nat ds div 10 ^ length ds \<le> n"
proof
  have "checkSlippage slippage = Inr ()"
    using assms(1,2) by (cases slippage) (auto simp: checkSlippage_def num_leq_def num_eq_def)
  then show "oraichain_setMinimumReceiveForSwap X m slippage =
      Inr (m\<lparr>cm_minimumReceive := nat_str (n * str_nat ds div 10 ^ length ds)\<rparr>)"
    using assms(6,7) minimumReceive_floor [OF assms(3-5), of n] by (simp add: oraichain_setMinimumReceiveForSwap_def)
  have "n * str_nat ds \<le> n * 10 ^ length ds" using str_nat_bound [OF assms(4)] by (intro mult_le_mono2) simp
  then have "n * str_nat ds div 10 ^ length ds \<le> n * 10 ^ length ds div 10 ^ length ds" by (rule div_le_mono)
  then show "n * str_nat ds div 10 ^ length ds \<le> n" by simp
qed

theorem minimum_receive_witness:
  "oraichain_setMinimumReceiveForSwap sample_ext (sample_oraichain (sample_path ''Oraichain'' ''noble-1'' [])) (Fin (1 / 2)) =
     Inr ((sample_oraichain (sample_path ''Oraichain'' ''noble-1'' []))\<lparr>cm_minimumReceive := ''3''\<rparr>)"
proof -
  have "oraichain_setMinimumReceiveForSwap sample_ext (sample_oraichain (sample_path ''Oraichain'' ''noble-1'' [])) (Fin (1 / 2)) =
      Inr ((sample_oraichain (sample_path ''Oraichain'' ''noble-1'' []))\<lparr>cm_minimumReceive := nat_str (7 * str_nat ''5'' div 10 ^ length ''5'')\<rparr>)"
    by (rule minimum_receive [where ds = "''5''" and ops = "[]" and b = None, THEN conjunct1])
      (simp_all add: half_to_string oraichain_getSwapAndBridgeInfo_def sample_defs returnAmount_def js_eval)
  then show ?thesis by (simp add: js_eval)
qed

text \<open>C26. The timeout of every message is exact for a clock below \<open>2^32\<close> seconds: the 64-bit product
  does not wrap, and the conversion \<open>+timeout\<close> of the decimal text to a double loses nothing, since
  a number of nanoseconds that is a whole number of seconds has a mantissa below \<open>2^53\<close>.\<close>

theorem timeout_exact:
  assumes "0 < now div 1000 + t" "now div 1000 + t < 2 ^ 32"
  shows "calculateTimeoutTimestamp t now = nat_str (nat ((now div 1000 + t) * 1000000000)) \<and>
    string_to_num (calculateTimeoutTimestamp t now) = Fin (of_int ((now div 1000 + t) * 1000000000))"
  using timeout_no_wrap [OF assms] timeout_value [OF assms] ..

theorem timeout_exact_witness: "timeout_ns sample_ext = Fin 1700003600000000000"
  using timeout_exact [of 1700000000000 3600, THEN conjunct2] by (simp add: timeout_ns_def sample_ext_def IBC_TRANSFER_TIMEOUT_def)

text \<open>C24. A path whose swap actions name at least one pool and whose bridge action names its channel
  never makes an Oraichain or Osmosis message fail on an \<open>undefined\<close> value: every error of the
  message and memo builders is one they raise themselves.\<close>

theorem no_accidental_error:
  assumes "list_all action_complete (p_actions (cm_path m))" "p_actions (cm_path m) \<noteq> []"
    and "list_all action_complete (p_actions (cm_path c))" "p_actions (cm_path c) \<noteq> []"
  shows "oraichain_genExecuteMsg X m \<noteq> Inl TypeError \<and> oraichain_genMemoAsMiddleware X m \<noteq> Inl TypeError \<and>
    genMemoForIbcWasm X m \<noteq> Inl TypeError \<and>
    osmosis_genExecuteMsg X c \<noteq> Inl TypeError \<and> osmosis_genMemoAsMiddleware X c \<noteq> Inl TypeError"
proof -
  note o = oraichain_collect_complete [OF assms(1), of X m "[]" None]
  note p = osmosis_collect_complete [OF assms(3), of X c "[]" None]
  have ends: "oraichain_getSwapAndBridgeInfo X m \<noteq> Inl TypeError" "oraichain_getSwapAndBridgeInfo X m \<noteq> Inr ([], None)"
    "osmosis_getSwapAndBridgeInfo X c \<noteq> Inl TypeError" "osmosis_getSwapAndBridgeInfo X c \<noteq> Inr ([], None)"
    using o p assms(2,4) unfolding oraichain_getSwapAndBridgeInfo_def osmosis_getSwapAndBridgeInfo_def by auto
  then show ?thesis
    by (auto simp: oraichain_genExecuteMsg_def oraichain_genMemoAsMiddleware_def genMemoForIbcWasm_def
        osmosis_genExecuteMsg_def osmosis_genMemoAsMiddleware_def rbind_eq_Inl_iff Let_def
        split: if_splits option.splits)
qed

theorem no_accidental_error_witness:
  "oraichain_genExecuteMsg sample_ext (sample_oraichain (sample_path ''Oraichain'' ''noble-1'' [swap_action ''orai'' two_hops])) \<noteq> Inl TypeError \<and>
   oraichain_genExecuteMsg sample_ext (sample_oraichain (sample_path ''Oraichain'' ''noble-1'' [swap_action ''orai'' []])) = Inl TypeError"
proof
  show "oraichain_genExecuteMsg sample_ext (sample_oraichain (sample_path ''Oraichain'' ''noble-1'' [swap_action ''orai'' two_hops])) \<noteq> Inl TypeError"
    by (rule no_accidental_error [where c = "sample_msg (sample_path ''osmosis-1'' ''noble-1'' [swap_action ''orai'' two_hops])", THEN conjunct1])
      (simp_all add: sample_defs action_complete_def)
  show "oraichain_genExecuteMsg sample_ext (sample_oraichain (sample_path ''Oraichain'' ''noble-1'' [swap_action ''orai'' []])) = Inl TypeError"
    by (simp add: oraichain_genExecuteMsg_def oraichain_getSwapAndBridgeInfo_def sample_defs)
qed

text \<open>An address accepted for a listed Cosmos network is a bech32 address with the prefix of a chain
  of that id. For a network that is in no list (and is not EVM, TRON or TON) an address with the
  prefix of any listed chain is accepted.\<close>

theorem cosmos_address_checked:
  assumes "network \<notin> {''0x01'', ''0x38'', ''0x2b6653dc'', ''ton''}"
    and "isValid (checkValidateAddressWithNetwork X address network cs)"
  shows "\<exists>c \<in> set cs. bech32_decode X address = Inr (ch_bech32PrefixAccAddr c) \<and>
    ((\<exists>k \<in> set cs. ch_chainId k = network) \<longrightarrow>
     (\<exists>k \<in> set cs. ch_chainId k = network \<and> bech32_decode X address = Inr (ch_bech32PrefixAccAddr k)))"
proof -
  have v: "isValid (validateAndIdentifyCosmosAddress X address network cs)"
    using assms by (simp add: checkValidateAddressWithNetwork_def)
  then obtain p where p: "bech32_decode X address = Inr p"
    by (auto simp: validateAndIdentifyCosmosAddress_def Let_def split: if_splits sum.splits)
  with v have q: "list_ex (\<lambda>c. ch_bech32PrefixAccAddr c = p) cs"
    "case find (\<lambda>c. ch_chainId c = network) (rev cs) of None \<Rightarrow> True | Some c \<Rightarrow> ch_bech32PrefixAccAddr c = p"
    by (auto simp: validateAndIdentifyCosmosAddress_def Let_def split: if_splits option.splits)
  have "\<exists>k \<in> set cs. ch_chainId k = network \<and> p = ch_bech32PrefixAccAddr k" if "\<exists>k \<in> set cs. ch_chainId k = network"
  proof -
    obtain k where k: "find (\<lambda>c. ch_chainId c = network) (rev cs) = Some k"
      using \<open>\<exists>k \<in> set cs. ch_chainId k = network\<close> by (cases "find (\<lambda>c. ch_chainId c = network) (rev cs)") (auto simp: find_None_iff)
    then obtain i where "i < length (rev cs)" "k = rev cs ! i" "ch_chainId k = network" by (auto simp: find_Some_iff)
    then have "k \<in> set cs" "ch_chainId k = network" using nth_mem [of i "rev cs"] by simp_all
    then show ?thesis using q(2) k by auto
  qed
  moreover obtain c where "c \<in> set cs" "p = ch_bech32PrefixAccAddr c" using q(1) by (auto simp: list_ex_iff)
  ultimately show ?thesis using p by auto
qed

theorem cosmos_address_checked_witness:
  "bech32_decode sample_ext ''orai1me'' = Inr ''orai'' \<and>
   isValid (checkValidateAddressWithNetwork sample_ext ''orai1me'' ''Oraichain'' (cosmosChains sample_ext))"
proof -
  have v: "isValid (checkValidateAddressWithNetwork sample_ext ''orai1me'' ''Oraichain'' (cosmosChains sample_ext))"
    by (simp add: checkValidateAddressWithNetwork_def validateAndIdentifyCosmosAddress_def cosmosAddressRegex_def
        is_lower_letter_def is_digit_def sample_ext_def)
  then show ?thesis
    using cosmos_address_checked [OF _ v] by (auto simp: sample_ext_def)
qed

text \<open>The TRON test is not anchored: whatever surrounds an accepted text, the result is accepted as
  a TRON address as well, so padding, white space or a second address do not make it invalid.\<close>

theorem tron_address_not_anchored:
  assumes "isValid (checkValidateAddressWithNetwork X a ''0x2b6653dc'' cs)"
  shows "isValid (checkValidateAddressWithNetwork X (xs @ a @ ys) ''0x2b6653dc'' cs)"
proof -
  have "isValidTronAddress a"
    using assms by (simp add: checkValidateAddressWithNetwork_def validateAddressTonTron_def)
  then obtain t where t: "suffix t a" "t \<noteq> []" "hd t = CHR ''T''" "32 \<le> length (tl t)"
    "list_all (\<lambda>c. is_digit c \<or> is_lower_letter c \<or> is_upper_letter c) (take 32 (tl t))"
    by (auto simp: isValidTronAddress_def list_ex_iff)
  have "suffix (t @ ys) (xs @ a @ ys)" using t(1) by (auto simp: suffix_def)
  then have "isValidTronAddress (xs @ a @ ys)"
    unfolding isValidTronAddress_def list_ex_iff using t
    by (intro bexI [of _ "t @ ys"]) (auto simp: hd_append tl_append split: list.splits)
  then show ?thesis by (simp add: checkValidateAddressWithNetwork_def validateAddressTonTron_def)
qed

theorem tron_address_not_anchored_witness:
  "isValid (checkValidateAddressWithNetwork sample_ext (''x '' @ (CHR ''T'' # replicate 32 (CHR ''1'')) @ '' y'') ''0x2b6653dc'' [])"
proof (rule tron_address_not_anchored)
  have "list_all (\<lambda>c. is_digit c \<or> is_lower_letter c \<or> is_upper_letter c) (replicate 32 (CHR ''1''))"
    by (simp add: is_digit_def list_all_iff)
  then have "isValidTronAddress (CHR ''T'' # replicate 32 (CHR ''1''))"
    by (simp add: isValidTronAddress_def)
  then show "isValid (checkValidateAddressWithNetwork sample_ext (CHR ''T'' # replicate 32 (CHR ''1'')) ''0x2b6653dc'' [])"
    by (simp add: checkValidateAddressWithNetwork_def validateAddressTonTron_def)
qed

text \<open>Bridging to TON names the token in two ways. A post action sends the jetton wallet address
  \<open>JETTONS_ADDRESS\<close> gives for the token; \<open>genBridgeMsg\<close> looks that address up, only to refuse tokens
  without one, and then sends the token's own address. The two differ for every listed token but
  TON itself.\<close>

theorem ton_denoms_differ:
  assumes "isTonChain (bm_toChain b)" "bm_sourcePort b = []" "map_of JETTONS_ADDRESS (bm_toToken b) = Some jetton"
    and "bm_toToken b \<noteq> TON_CONTRACT"
  shows "bridge_call X m b = Inr (Some (ton_msg X m b (bm_toToken b), TON_BRIDGE_ADAPTER)) \<and>
    oraichain_getPostAction X m (Some b) = Inr (JObj [(''contract_call'', JObj
      [(''contract_address'', JStr TON_BRIDGE_ADAPTER), (''msg'', JStr (toBinary X (ton_msg X m b jetton)))])]) \<and>
    ton_msg X m b (bm_toToken b) \<noteq> ton_msg X m b jetton"
proof -
  have j: "jetton \<noteq> []" "jetton \<noteq> bm_toToken b"
    using assms(3,4) by (auto simp: JETTONS_ADDRESS_def TON_CONTRACT_def TON20_USDT_CONTRACT_def HMSTR_TON_CONTRACT_def
        jUSDC_TON_CONTRACT_def split: if_splits)
  then show ?thesis using assms
    by (auto simp: bridge_call_def oraichain_getPostAction_def ton_msg_def ton_args_def Let_def)
qed

theorem ton_denoms_differ_witness:
  "\<exists>b. bm_toToken b = TON20_USDT_CONTRACT \<and>
    bridge_call sample_ext (sample_oraichain (sample_path ''Oraichain'' ''ton'' [])) b =
      Inr (Some (ton_msg sample_ext (sample_oraichain (sample_path ''Oraichain'' ''ton'' [])) b TON20_USDT_CONTRACT, TON_BRIDGE_ADAPTER)) \<and>
    ton_msg sample_ext (sample_oraichain (sample_path ''Oraichain'' ''ton'' [])) b TON20_USDT_CONTRACT \<noteq>
      ton_msg sample_ext (sample_oraichain (sample_path ''Oraichain'' ''ton'' [])) b ''EQANiP_ggkS0lJbR12xmDNT7hgqphdnVG0cCiJN6BN35Z498''"
proof -
  define b where "b = \<lparr>bm_amount = ''7'', bm_sourceChannel = [], bm_sourcePort = [], bm_receiver = ''EQr'', bm_timeout = Fin 0,
    bm_memo = [], bm_prefix = None, bm_fromToken = ''orai'', bm_fromChain = ''Oraichain'', bm_toToken = TON20_USDT_CONTRACT,
    bm_toChain = ''ton''\<rparr>"
  have b: "isTonChain (bm_toChain b)" "bm_sourcePort b = []" "bm_toToken b = TON20_USDT_CONTRACT"
    "map_of JETTONS_ADDRESS (bm_toToken b) = Some ''EQANiP_ggkS0lJbR12xmDNT7hgqphdnVG0cCiJN6BN35Z498''"
    "bm_toToken b \<noteq> TON_CONTRACT"
    by (simp_all add: b_def isTonChain_def JETTONS_ADDRESS_def TON_CONTRACT_def TON20_USDT_CONTRACT_def)
  from ton_denoms_differ [OF b(1,2,4,5)] b(3) show ?thesis by metis
qed

end
