(* ===== verification/RouteLaws.thy ===== *)
theory RouteLaws
  imports MsgLaws
begin

text \<open>
  Whole routes: the loop of \<open>generateMsgSwap\<close> and \<open>generateMemoSwap\<close> is a recursion over the paths,
  every path is built through the contract of its chain's builder, and so the executed message
  spends the first path's token and hands over to the second path only.
\<close>

section \<open>One path through its builder\<close>

definition hop_contracts :: "string set" where
  "hop_contracts = {ORAICHAIN_ENTRY_POINT_CONTRACT, OSMOSIS_ENTRY_POINT_CONTRACT, IBC_WASM_CONTRACT}"

lemma oraichain_builder_built:
  assumes "oraichain_builder X p receiver memo addresses s = Inr m"
  shows "\<exists>pfx. rbind (new_OraichainMsg p ''1'' receiver (addresses (p_chainId p)) memo (Some pfx) (addresses ORAIBRIDGE_SUBNET))
    (\<lambda>m. oraichain_setMinimumReceiveForSwap X m s) = Inr m"
  using assms unfolding oraichain_builder_def rbind_eq_Inr_iff [of "getDestPrefixForBridgeToEvmOnOrai _"]
  by (auto simp: Let_def split: if_splits)

lemma buildMemoSwap_receiver:
  assumes "buildMemoSwap X p receiver memo addresses s prev = Inr r"
  shows "mr_receiver r \<in> hop_contracts \<or> (addresses (p_chainId p) = Some (mr_receiver r) \<and> mr_receiver r \<noteq> [])"
proof -
  consider (orai) "p_chainId p = ''Oraichain''" | (osmo) "p_chainId p = ''osmosis-1''" "p_chainId p \<noteq> ''Oraichain''"
    | (other) "p_chainId p \<noteq> ''osmosis-1''" "p_chainId p \<noteq> ''Oraichain''" by blast
  then show ?thesis
  proof cases
    case orai
    with assms obtain m where m: "oraichain_builder X p receiver memo addresses s = Inr m"
      "(if from_ibc_wasm X prev then genMemoForIbcWasm X m else oraichain_genMemoAsMiddleware X m) = Inr r"
      by (auto simp: buildMemoSwap_def rbind_eq_Inr_iff)
    obtain pfx where "rbind (new_OraichainMsg p ''1'' receiver (addresses (p_chainId p)) memo (Some pfx)
        (addresses ORAIBRIDGE_SUBNET)) (\<lambda>m. oraichain_setMinimumReceiveForSwap X m s) = Inr m"
      using oraichain_builder_built [OF m(1)] by blast
    with m(2) have "rbind (rbind (new_OraichainMsg p ''1'' receiver (addresses (p_chainId p)) memo (Some pfx)
        (addresses ORAIBRIDGE_SUBNET)) (\<lambda>m. oraichain_setMinimumReceiveForSwap X m s))
        (\<lambda>m. if from_ibc_wasm X prev then genMemoForIbcWasm X m else oraichain_genMemoAsMiddleware X m) = Inr r"
      by simp
    from oraichain.hop_receiver [OF this] show ?thesis by (auto simp: hop_contracts_def)
  next
    case osmo
    with assms have "rbind (rbind (new_OsmosisMsg p ''1'' receiver (addresses (p_chainId p)) memo)
        (\<lambda>m. osmosis_setMinimumReceiveForSwap X m s)) (osmosis_genMemoAsMiddleware X) = Inr r"
      by (simp add: buildMemoSwap_def osmosis_builder_def)
    from osmosis.hop_receiver [OF this] show ?thesis by (auto simp: hop_contracts_def)
  next
    case other
    with assms have "rbind (rbind (new_CosmosMsg p ''1'' receiver (addresses (p_chainId p)) memo)
        (\<lambda>m. cosmos_setMinimumReceiveForSwap X m s)) (cosmos_genMemoAsMiddleware X) = Inr r"
      by (simp add: buildMemoSwap_def cosmos_builder_def split: if_splits)
    from cosmos.hop_receiver [OF this] show ?thesis by auto
  qed
qed

lemma buildExecuteMsg_spends:
  assumes "buildExecuteMsg X p receiver memo addresses s = Inr eo"
  shows "\<exists>self. cm_path self = p \<and> addresses (p_chainId p) = Some (cm_currentChainAddress self) \<and>
    cm_currentChainAddress self \<noteq> [] \<and> receiver = Some (cm_receiver self) \<and> cm_memo self = memo \<and>
    spends X (self :: chain_msg) eo"
proof -
  consider (orai) "p_chainId p = ''Oraichain''" | (osmo) "p_chainId p = ''osmosis-1''" "p_chainId p \<noteq> ''Oraichain''"
    | (other) "p_chainId p \<noteq> ''osmosis-1''" "p_chainId p \<noteq> ''Oraichain''" by blast
  then show ?thesis
  proof cases
    case orai
    with assms obtain m where m: "oraichain_builder X p receiver memo addresses s = Inr m" "oraichain_genExecuteMsg X m = Inr eo"
      by (auto simp: buildExecuteMsg_def rbind_eq_Inr_iff)
    obtain pfx where "rbind (new_OraichainMsg p ''1'' receiver (addresses (p_chainId p)) memo (Some pfx)
        (addresses ORAIBRIDGE_SUBNET)) (\<lambda>m. oraichain_setMinimumReceiveForSwap X m s) = Inr m"
      using oraichain_builder_built [OF m(1)] by blast
    with m(2) have "rbind (rbind (new_OraichainMsg p ''1'' receiver (addresses (p_chainId p)) memo (Some pfx)
        (addresses ORAIBRIDGE_SUBNET)) (\<lambda>m. oraichain_setMinimumReceiveForSwap X m s)) (oraichain_genExecuteMsg X) = Inr eo"
      by simp
    from oraichain.hop_spends [OF this] show ?thesis .
  next
    case osmo
    with assms have "rbind (rbind (new_OsmosisMsg p ''1'' receiver (addresses (p_chainId p)) memo)
        (\<lambda>m. osmosis_setMinimumReceiveForSwap X m s)) (osmosis_genExecuteMsg X) = Inr eo"
      by (simp add: buildExecuteMsg_def osmosis_builder_def)
    from osmosis.hop_spends [OF this] show ?thesis .
  next
    case other
    with assms have "rbind (rbind (new_CosmosMsg p ''1'' receiver (addresses (p_chainId p)) memo)
        (\<lambda>m. cosmos_setMinimumReceiveForSwap X m s)) (cosmos_genExecuteMsg X) = Inr eo"
      by (simp add: buildExecuteMsg_def cosmos_builder_def split: if_splits)
    from cosmos.hop_spends [OF this] show ?thesis .
  qed
qed

section \<open>The route as a recursion\<close>

text \<open>\<open>nested X addresses s p qs r\<close>: memo and receiver the path \<open>p\<close> is built with when \<open>qs\<close> follow it.\<close>

fun nested :: "ext \<Rightarrow> (string \<Rightarrow> string option) \<Rightarrow> js_num \<Rightarrow> path \<Rightarrow> path list \<Rightarrow> string option \<Rightarrow>
    (string \<times> string option) res" where
  "nested X addresses s p [] receiver = Inr ([], receiver)"
| "nested X addresses s p (q # qs) receiver =
     rbind (nested X addresses s q qs receiver) (\<lambda>(memo, rc).
     rbind (buildMemoSwap X q rc memo addresses s (Some (p_chainId p))) (\<lambda>r.
     Inr (mr_memo r, Some (mr_receiver r))))"

lemma memo_loop_suffix:
  "memo_loop X (ps @ p # qs) addresses s (length ps + length qs) [] r0 =
   rbind (nested X addresses s p qs r0) (\<lambda>(memo, rc). memo_loop X (ps @ p # qs) addresses s (length ps) memo rc)"
proof (induction qs arbitrary: ps p)
  case (Cons q qs)
  have "memo_loop X ((ps @ [p]) @ q # qs) addresses s (length (ps @ [p]) + length qs) [] r0 =
      rbind (nested X addresses s q qs r0)
        (\<lambda>(memo, rc). memo_loop X ((ps @ [p]) @ q # qs) addresses s (length (ps @ [p])) memo rc)"
    by (rule Cons.IH)
  then show ?case by (simp add: nth_append rbind_assoc split_def)
qed simp

lemma memo_loop_nested:
  "memo_loop X (p # qs) addresses s (length qs) [] r0 = nested X addresses s p qs r0"
proof -
  have "rbind (nested X addresses s p qs r0) (\<lambda>(memo, rc). Inr (memo, rc)) = nested X addresses s p qs r0"
    by (cases "nested X addresses s p qs r0") auto
  then show ?thesis using memo_loop_suffix [of X "[]" p qs addresses s r0] by simp
qed

section \<open>A concrete route\<close>

definition sample_addresses :: "string \<Rightarrow> string option" where
  "sample_addresses = map_of [(''Oraichain'', ''orai1me''), (''noble-1'', ''noble1me''), (''cosmoshub-4'', ''cosmos1me''),
     (''oraibridge-subnet-2'', ''oraib1me'')]"

definition sample_route :: route where
  "sample_route = \<lparr>r_swapAmount = ''9'', r_returnAmount = ''7'', r_paths = []\<rparr>"

definition first_path :: path where
  "first_path = sample_path ''Oraichain'' ''noble-1'' [bridge_action ''orai'' ''transfer'']"

definition second_path :: path where
  "second_path = sample_path ''noble-1'' ''cosmoshub-4'' [bridge_action ''orai'' ''transfer'']"

lemma half_of_7: "minimumReceiveOf (Fin (1 / 2)) ''7'' = Inr ''3''"
  using minimumReceive_floor [of "Fin (1 / 2)" "''5''" 7] half_to_string by (simp add: js_eval)

lemmas builder_defs = buildExecuteMsg_def buildMemoSwap_def oraichain_builder_def osmosis_builder_def cosmos_builder_def
  new_OraichainMsg_def new_CosmosMsg_def new_OsmosisMsg_def new_ChainMsg_def validatePath_def validateReceiver_def
  oraichain_setMinimumReceiveForSwap_def cosmos_setMinimumReceiveForSwap_def checkSlippage_def num_leq_def num_eq_def
  oraichain_getSwapAndBridgeInfo_def cosmos_getBridgeInfo_def cosmos_genMemoAsMiddleware_def
  oraichain_genExecuteMsg_def genBridgeMsg_def getDestPrefixForBridgeToEvmOnOrai_def prefixMap_def
  ORAIBRIDGE_SUBNET_def isCosmosChain_def isEvmChain_def returnAmount_def bridge_msg_def

lemma sample_hop:
  "\<exists>t. buildExecuteMsg sample_ext first_path (Some ''noble1me'') memo sample_addresses (Fin (1 / 2)) =
    Inr \<lparr>typeUrl = TRANSFER_URL, eo_value = MsgTransfer t\<rparr>"
  by (simp add: builder_defs first_path_def sample_defs sample_addresses_def half_of_7 Let_def transfer_msg_def)

lemma sample_memo_hop:
  "\<exists>memo. buildMemoSwap sample_ext second_path (Some ''cosmos1me'') [] sample_addresses (Fin (1 / 2)) prev =
    Inr \<lparr>mr_memo = memo, mr_receiver = ''noble1me''\<rparr>"
  by (simp add: builder_defs second_path_def sample_defs sample_addresses_def half_of_7 Let_def)

lemma sample_route_built:
  "\<exists>t. generateMsgSwap sample_ext (sample_route\<lparr>r_paths := [first_path, second_path]\<rparr>) (Fin (1 / 2)) sample_addresses None =
    Inr \<lparr>typeUrl = TRANSFER_URL, eo_value = MsgTransfer t\<rparr>"
proof -
  obtain memo where m: "buildMemoSwap sample_ext second_path (Some ''cosmos1me'') [] sample_addresses (Fin (1 / 2))
      (Some (p_chainId first_path)) = Inr \<lparr>mr_memo = memo, mr_receiver = ''noble1me''\<rparr>"
    using sample_memo_hop by blast
  have "final_receiver sample_ext (sample_route\<lparr>r_paths := [first_path, second_path]\<rparr>) sample_addresses None c =
      Inr (Some ''cosmos1me'')" for c
    by (simp add: final_receiver_def second_path_def sample_path_def sample_addresses_def)
  then show ?thesis using sample_hop [of memo] m by (simp add: generateMsgSwap_def numeral_eq_Suc)
qed

section \<open>Properties\<close>

text \<open>C3. The loop of \<open>generateMsgSwap\<close> and \<open>generateMemoSwap\<close>, which counts down the paths and keeps
  one memo and one receiver, is the recursion of the design: the memo and receiver a path is built
  with are those of the path after it, which are built from the rest of the route, and the last
  path is built with an empty memo and the final receiver.\<close>

theorem route_is_nested:
  "generateMsgSwap X (route\<lparr>r_paths := p # qs\<rparr>) s addresses recipient =
     rbind (final_receiver X (route\<lparr>r_paths := p # qs\<rparr>) addresses recipient ''generateMsgSwap'') (\<lambda>r0.
     rbind (nested X addresses s p qs r0) (\<lambda>(memo, rc). buildExecuteMsg X p rc memo addresses s)) \<and>
   generateMemoSwap X (route\<lparr>r_paths := p # qs\<rparr>) s addresses recipient prev =
     rbind (final_receiver X (route\<lparr>r_paths := p # qs\<rparr>) addresses recipient ''generateMemoSwap'') (\<lambda>r0.
     rbind (nested X addresses s p qs r0) (\<lambda>(memo, rc). buildMemoSwap X p rc memo addresses s prev))"
  by (simp add: generateMsgSwap_def generateMemoSwap_def memo_loop_nested)

text \<open>C1. The executed message of a route spends exactly the first path's input amount of its input
  token, in the name of the caller's own address on the first chain: a native message carries
  that coin as its funds or transfer token, a cw20 one calls the spent token with that amount.\<close>

theorem route_spends:
  assumes "generateMsgSwap X (route\<lparr>r_paths := p # qs\<rparr>) s addresses recipient = Inr eo"
  shows "\<exists>self. cm_path self = p \<and> addresses (p_chainId p) = Some (cm_currentChainAddress self) \<and>
    cm_currentChainAddress self \<noteq> [] \<and> spends X (self :: chain_msg) eo"
proof -
  obtain rc memo where "buildExecuteMsg X p rc memo addresses s = Inr eo"
    using assms by (auto simp: generateMsgSwap_def rbind_eq_Inr_iff)
  from buildExecuteMsg_spends [OF this] show ?thesis by blast
qed

theorem route_spends_witness:
  "\<exists>t. generateMsgSwap sample_ext (sample_route\<lparr>r_paths := [first_path, second_path]\<rparr>) (Fin (1 / 2)) sample_addresses None =
      Inr \<lparr>typeUrl = TRANSFER_URL, eo_value = MsgTransfer t\<rparr> \<and>
    mt_sender t = ''orai1me'' \<and> mt_token t = \<lparr>c_denom = ''orai'', c_amount = ''9''\<rparr>"
proof -
  obtain t where t: "generateMsgSwap sample_ext (sample_route\<lparr>r_paths := [first_path, second_path]\<rparr>) (Fin (1 / 2)) sample_addresses None =
      Inr \<lparr>typeUrl = TRANSFER_URL, eo_value = MsgTransfer t\<rparr>" using sample_route_built by blast
  from route_spends [OF t] show ?thesis
    using t by (auto simp: spends_def Let_def first_path_def sample_path_def sample_addresses_def)
qed

text \<open>C2. Funds sent by IBC on the first hop of a longer route always go to the second path: the
  receiver of the transfer is the caller's own address on the second chain or one of the three
  fixed contracts (never the final recipient), and the transfer carries that path's memo.\<close>

theorem route_hands_over:
  assumes "generateMsgSwap X (route\<lparr>r_paths := p # q # qs\<rparr>) s addresses recipient = Inr eo"
    and "eo_value eo = MsgTransfer t"
  shows "(mt_receiver t \<in> hop_contracts \<or> addresses (p_chainId q) = Some (mt_receiver t)) \<and>
    (\<exists>r0 memo rc r. nested X addresses s q qs r0 = Inr (memo, rc) \<and>
       buildMemoSwap X q rc memo addresses s (Some (p_chainId p)) = Inr r \<and>
       mt_receiver t = mr_receiver r \<and> mt_memo t = mr_memo r)"
proof -
  obtain r0 memo rc r where r: "nested X addresses s q qs r0 = Inr (memo, rc)"
    "buildMemoSwap X q rc memo addresses s (Some (p_chainId p)) = Inr r"
    "buildExecuteMsg X p (Some (mr_receiver r)) (mr_memo r) addresses s = Inr eo"
    using assms(1) by (auto simp: generateMsgSwap_def rbind_eq_Inr_iff memo_loop_nested [of X p "q # qs", simplified])
  obtain self :: chain_msg where "Some (mr_receiver r) = Some (cm_receiver self)" "cm_memo self = mr_memo r" "spends X self eo"
    using buildExecuteMsg_spends [OF r(3)] by blast
  then have "mt_receiver t = mr_receiver r" "mt_memo t = mr_memo r"
    using assms(2) by (simp_all add: spends_def Let_def)
  then show ?thesis using r(1,2) buildMemoSwap_receiver [OF r(2)] by metis
qed

theorem route_hands_over_witness:
  "\<exists>t. generateMsgSwap sample_ext (sample_route\<lparr>r_paths := [first_path, second_path]\<rparr>) (Fin (1 / 2)) sample_addresses None =
      Inr \<lparr>typeUrl = TRANSFER_URL, eo_value = MsgTransfer t\<rparr> \<and>
    (mt_receiver t \<in> hop_contracts \<or> mt_receiver t = ''noble1me'')"
proof -
  obtain t where t: "generateMsgSwap sample_ext (sample_route\<lparr>r_paths := [first_path, second_path]\<rparr>) (Fin (1 / 2)) sample_addresses None =
      Inr \<lparr>typeUrl = TRANSFER_URL, eo_value = MsgTransfer t\<rparr>" using sample_route_built by blast
  from route_hands_over [OF t, of t] show ?thesis
    using t by (auto simp: second_path_def sample_path_def sample_addresses_def)
qed

end
