(* ===== verification/Tokens.thy ===== *)
theory Tokens
  imports MsgCommon NumLaws "HOL-Library.Sorting_Algorithms"
begin

text \<open>
  The token arithmetic and token lookups of \<open>packages/oraidex-common/src/helper.ts\<close>, with the constants
  they read. A \<open>TokenItemType\<close> is the record of the fields the modelled code uses. \<open>Amounts\<close> (an
  object from denoms to balances) is the list of its entries in insertion order, which is the order
  \<open>for (const denom in amounts)\<close> visits. \<open>localeCompare\<close> belongs to the run-time's collation and is a
  comparator argument.
\<close>

section \<open>Data\<close>

record fee_currency =
  coinMinimalDenom :: string
  gas_high :: "js_num option"

record token_item =
  t_name :: string
  t_denom :: string
  t_chainId :: string
  t_coinGeckoId :: string
  t_contractAddress :: "string option"
  t_decimals :: nat
  t_prefix :: "string option"
  t_cosmosBased :: bool
  t_evmDenoms :: "string list option"
  t_bridgeNetworkIdentifier :: "string option"
  t_feeCurrencies :: "fee_currency list option"
  t_gasAverage :: "js_num option"
  t_rpc :: string

datatype asset_info = AToken string | NativeToken string

type_synonym amount_details = "(string \<times> string) list"

record execute_instruction =
  ei_contractAddress :: string
  ei_msg :: json
  ei_funds :: "coin list option"

definition truncDecimals :: nat where "truncDecimals = 6"

definition atomic :: js_num where "atomic = Fin 1000000"

definition GAS_ESTIMATION_BRIDGE_DEFAULT :: js_num where "GAS_ESTIMATION_BRIDGE_DEFAULT = Fin 200000"

definition MULTIPLIER :: js_num where "MULTIPLIER = dbl (16 / 10)"

definition AVERAGE_COSMOS_GAS_PRICE :: js_num where "AVERAGE_COSMOS_GAS_PRICE = dbl (25 / 1000)"

section \<open>Amounts\<close>

text \<open>\<open>10 ** e\<close> on numbers (correctly rounded, as it is for the exponents of token decimals), and a number as an operand of \<open>BigDecimal\<close>.\<close>

definition num_pow10 :: "int \<Rightarrow> js_num" where
  "num_pow10 e = dbl (pow10 e)"

definition bd_num :: "js_num \<Rightarrow> decimal_like" where
  "bd_num n = DNum (num_to_string n)"

definition int_part_of :: "string \<Rightarrow> string" where
  "int_part_of s = hd (js_split (CHR ''.'') s)"

datatype amount_arg = ANum js_num | AStr string

fun validateNumber :: "amount_arg \<Rightarrow> js_num" where
  "validateNumber (AStr s) = (case string_to_num s of Fin x \<Rightarrow> Fin x | _ \<Rightarrow> Fin 0)"
| "validateNumber (ANum n) = (case n of Fin x \<Rightarrow> Fin x | _ \<Rightarrow> Fin 0)"

definition toAmount :: "amount_arg \<Rightarrow> nat \<Rightarrow> int res" where
  "toAmount amount decimals =
     rbind (new_BigDecimal (bd_num (validateNumber amount)) None) (\<lambda>b.
     rbind (bd_mul b (bd_num (num_pow10 (int decimals)))) (\<lambda>m.
     bigint_of_string (int_part_of (bd_toString m))))"

text \<open>The amount of \<open>toDisplay\<close> is a text or a bigint; an empty text and \<open>0n\<close> are falsy.\<close>

datatype display_arg = DisplayStr string | DisplayInt int

definition display_falsy :: "display_arg \<Rightarrow> bool" where
  "display_falsy a = (case a of DisplayStr s \<Rightarrow> s = [] | DisplayInt n \<Rightarrow> n = 0)"

definition display_bigint :: "display_arg \<Rightarrow> int res" where
  "display_bigint a = (case a of DisplayStr s \<Rightarrow> bigint_of_string s | DisplayInt n \<Rightarrow> Inr n)"

definition toDisplay :: "display_arg \<Rightarrow> nat \<Rightarrow> nat \<Rightarrow> js_num res" where
  "toDisplay amount sourceDecimals desDecimals =
     (if display_falsy amount then Inr (Fin 0)
      else rbind (display_bigint amount) (\<lambda>validatedAmount.
        let displayDecimals = min truncDecimals desDecimals in
        rbind (new_BigDecimal (DBig validatedAmount) None) (\<lambda>b.
        rbind (bd_div b (bd_num (num_pow10 (int sourceDecimals - int displayDecimals)))) (\<lambda>q.
        rbind (bigint_of_string (int_part_of (bd_toString q))) (\<lambda>returnAmount.
        Inr (num_div (dbl (of_int returnAmount))
          (if displayDecimals = truncDecimals then atomic else num_pow10 (int displayDecimals))))))))"

definition toDecimal :: "int \<Rightarrow> int \<Rightarrow> js_num res" where
  "toDecimal numerator denominator =
     (if denominator = 0 then Inr (Fin 0)
      else rbind (bigint_div (numerator * 1000000) denominator) (\<lambda>q. toDisplay (DisplayInt q) 6 6))"

definition calculateMinReceive :: "string \<Rightarrow> string \<Rightarrow> js_num \<Rightarrow> nat \<Rightarrow> string res" where
  "calculateMinReceive simulateAverage fromAmount userSlippage decimals =
     rbind (new_BigDecimal (DStr simulateAverage) None) (\<lambda>a.
     rbind (bd_mul a (DStr fromAmount)) (\<lambda>b.
     rbind (bd_mul b (bd_num (num_div (num_sub (Fin 100) userSlippage) (Fin 100)))) (\<lambda>c.
     rbind (bd_div c (DBig (10 ^ decimals))) (\<lambda>d.
     Inr (num_to_string (math_trunc (bd_toNumber d)))))))"

section \<open>Tokens\<close>

text \<open>\<open>Object.fromEntries\<close> keeps one entry for a denom listed twice, at its first place.\<close>

definition getSubAmountDetails :: "amount_details \<Rightarrow> token_item \<Rightarrow> (string \<times> string option) list" where
  "getSubAmountDetails amounts tokenInfo =
     (case t_evmDenoms tokenInfo of None \<Rightarrow> []
      | Some ds \<Rightarrow> map (\<lambda>denom. (denom, map_of amounts denom)) (rev (remdups (rev ds))))"

definition toAssetInfo :: "token_item \<Rightarrow> asset_info" where
  "toAssetInfo token =
     (if truthy (t_contractAddress token) then AToken (str_of (t_contractAddress token))
      else NativeToken (t_denom token))"

record parsed_token =
  pt_fund :: "coin option"
  pt_info :: asset_info

definition parseTokenInfo :: "token_item \<Rightarrow> string option \<Rightarrow> parsed_token" where
  "parseTokenInfo tokenInfo amount =
     (if \<not> truthy (t_contractAddress tokenInfo)
      then \<lparr>pt_fund = (if truthy amount then Some \<lparr>c_denom = t_denom tokenInfo, c_amount = str_of amount\<rparr> else None),
            pt_info = NativeToken (t_denom tokenInfo)\<rparr>
      else \<lparr>pt_fund = None, pt_info = AToken (str_of (t_contractAddress tokenInfo))\<rparr>)"

definition parseAssetInfoFromContractAddrOrDenom :: "string \<Rightarrow> token_item list \<Rightarrow> asset_info option" where
  "parseAssetInfoFromContractAddrOrDenom addressOrDenomToken cosmosTokens =
     (if addressOrDenomToken = [] then None
      else map_option (\<lambda>t. pt_info (parseTokenInfo t None))
        (find (\<lambda>t. if \<not> truthy (t_contractAddress t)
                   then to_lower (t_denom t) = to_lower addressOrDenomToken
                   else to_lower (str_of (t_contractAddress t)) = to_lower addressOrDenomToken) cosmosTokens))"

definition handleSentFunds :: "string comparator \<Rightarrow> coin option list \<Rightarrow> coin list option" where
  "handleSentFunds localeCompare funds =
     (let sent_funds = List.map_filter id funds in
      if length sent_funds = 0 then None
      else Some (Sorting_Algorithms.sort (key c_denom localeCompare) sent_funds))"

definition findToTokenOnOraiBridge :: "string \<Rightarrow> string \<Rightarrow> token_item list \<Rightarrow> token_item option" where
  "findToTokenOnOraiBridge fromCoingeckoId toNetwork cosmosTokens =
     find (\<lambda>t. t_chainId t = ''oraibridge-subnet-2'' \<and> t_coinGeckoId t = fromCoingeckoId \<and>
       truthy (t_bridgeNetworkIdentifier t) \<and> t_bridgeNetworkIdentifier t = Some toNetwork) cosmosTokens"

fun parseAssetInfo :: "asset_info \<Rightarrow> string" where
  "parseAssetInfo (NativeToken denom) = denom"
| "parseAssetInfo (AToken contract_addr) = contract_addr"

fun parseAssetInfoOnlyDenom :: "asset_info \<Rightarrow> string" where
  "parseAssetInfoOnlyDenom (NativeToken denom) = denom"
| "parseAssetInfoOnlyDenom (AToken contract_addr) = contract_addr"

definition getTokenOnSpecificChainId :: "string \<Rightarrow> string \<Rightarrow> token_item list \<Rightarrow> token_item option" where
  "getTokenOnSpecificChainId coingeckoId chainId flattenTokens =
     find (\<lambda>t. t_coinGeckoId t = coingeckoId \<and> t_chainId t = chainId) flattenTokens"

definition getTokenOnOraichain :: "string \<Rightarrow> token_item list \<Rightarrow> bool \<Rightarrow> token_item option" where
  "getTokenOnOraichain coingeckoId oraichainTokens isNative =
     (let filterOraichainToken = filter (\<lambda>o1. t_coinGeckoId o1 = coingeckoId) oraichainTokens in
      case filterOraichainToken of
        [] \<Rightarrow> None
      | [t] \<Rightarrow> Some t
      | _ \<Rightarrow> find (\<lambda>t. if isNative then \<not> truthy (t_contractAddress t) else truthy (t_contractAddress t))
               filterOraichainToken)"

definition parseTokenInfoRawDenom :: "token_item \<Rightarrow> string" where
  "parseTokenInfoRawDenom tokenInfo =
     (if truthy (t_contractAddress tokenInfo) then str_of (t_contractAddress tokenInfo) else t_denom tokenInfo)"

definition getCosmosGasPrice :: "js_num option \<Rightarrow> js_num" where
  "getCosmosGasPrice average = (case average of Some a \<Rightarrow> a | None \<Rightarrow> AVERAGE_COSMOS_GAS_PRICE)"

definition getSwapType :: "string \<Rightarrow> string \<Rightarrow> string \<Rightarrow> string \<Rightarrow> string" where
  "getSwapType fromChainId toChainId fromCoingeckoId toCoingeckoId =
     (if fromChainId = ''Oraichain'' \<and> toChainId = ''Oraichain'' then ''Swap''
      else if fromCoingeckoId = toCoingeckoId then ''Bridge''
      else ''Universal Swap'')"

section \<open>Fees and totals\<close>

definition feeEstimate :: "token_item option \<Rightarrow> js_num \<Rightarrow> js_num res" where
  "feeEstimate tokenInfo gasDefault =
     (case tokenInfo of None \<Rightarrow> Inr (Fin 0)
      | Some t \<Rightarrow>
          (case t_feeCurrencies t of
             Some (fc # _) \<Rightarrow>
               (case gas_high fc of None \<Rightarrow> Inl TypeError
                | Some high \<Rightarrow>
               rbind (new_BigDecimal (bd_num MULTIPLIER) None) (\<lambda>m.
               rbind (bd_mul m (bd_num high)) (\<lambda>a.
               rbind (bd_mul a (bd_num gasDefault)) (\<lambda>b.
               rbind (bd_div b (bd_num (num_pow10 (int (t_decimals t))))) (\<lambda>c.
               Inr (bd_toNumber c))))))
           | _ \<Rightarrow> Inl TypeError))"

definition calcMaxAmount :: "js_num \<Rightarrow> token_item option \<Rightarrow> js_num \<Rightarrow> js_num \<Rightarrow> js_num res" where
  "calcMaxAmount maxAmount token coeff gas =
     (case token of None \<Rightarrow> Inr maxAmount
      | Some t \<Rightarrow>
          (if (case t_feeCurrencies t of None \<Rightarrow> False
               | Some fs \<Rightarrow> find (\<lambda>e. coinMinimalDenom e = t_denom t) fs \<noteq> None)
           then rbind (feeEstimate token gas) (\<lambda>useFeeEstimate.
             if num_eq coeff (Fin 1)
             then if num_less maxAmount useFeeEstimate then Inr (Fin 0)
                  else rbind (new_BigDecimal (bd_num maxAmount) None) (\<lambda>a.
                       rbind (bd_sub a (bd_num useFeeEstimate)) (\<lambda>b. Inr (bd_toNumber b)))
             else rbind (new_BigDecimal (bd_num maxAmount) None) (\<lambda>a.
                  rbind (new_BigDecimal (bd_num maxAmount) None) (\<lambda>f.
                  rbind (bd_mul f (bd_num coeff)) (\<lambda>g.
                  rbind (bd_sub a (DDec g)) (\<lambda>rest.
                  Inr (if num_less (bd_toNumber rest) useFeeEstimate then Fin 0 else maxAmount))))))
           else Inr maxAmount))"

fun total_loop :: "amount_details \<Rightarrow> (string \<Rightarrow> js_num option) \<Rightarrow> (string \<Rightarrow> token_item option) \<Rightarrow> js_num \<Rightarrow> js_num res" where
  "total_loop [] prices tokenMap usd = Inr usd"
| "total_loop ((denom, balance) # rest) prices tokenMap usd =
     (case tokenMap denom of
        None \<Rightarrow> total_loop rest prices tokenMap usd
      | Some t \<Rightarrow> rbind (toDisplay (DisplayStr balance) (t_decimals t) 6) (\<lambda>amount.
          total_loop rest prices tokenMap
            (num_add usd (num_mul amount (case prices (t_coinGeckoId t) of None \<Rightarrow> Fin 0 | Some p \<Rightarrow> p)))))"

definition getTotalUsd :: "amount_details \<Rightarrow> (string \<Rightarrow> js_num option) \<Rightarrow> (string \<Rightarrow> token_item option) \<Rightarrow> js_num res" where
  "getTotalUsd amounts prices tokenMap = total_loop amounts prices tokenMap (Fin 0)"

text \<open>A denom whose balance is empty is skipped; one that is not in the token map raises.\<close>

fun sum_loop :: "(string \<times> string option) list \<Rightarrow> (string \<Rightarrow> token_item option) \<Rightarrow> js_num \<Rightarrow> js_num res" where
  "sum_loop [] tokenMap amount = Inr amount"
| "sum_loop ((denom, balance) # rest) tokenMap amount =
     (if \<not> truthy balance then sum_loop rest tokenMap amount
      else case tokenMap denom of
        None \<Rightarrow> Inl TypeError
      | Some t \<Rightarrow> rbind (toDisplay (DisplayStr (str_of balance)) (t_decimals t) 6) (\<lambda>d.
          sum_loop rest tokenMap (num_add amount d)))"

definition toSumDisplay :: "(string \<times> string option) list \<Rightarrow> (string \<Rightarrow> token_item option) \<Rightarrow> js_num res" where
  "toSumDisplay amounts tokenMap = sum_loop amounts tokenMap (Fin 0)"

definition toSubDisplay :: "amount_details \<Rightarrow> token_item \<Rightarrow> (string \<Rightarrow> token_item option) \<Rightarrow> js_num res" where
  "toSubDisplay amounts tokenInfo tokenMap = toSumDisplay (getSubAmountDetails amounts tokenInfo) tokenMap"

definition toSubAmount :: "amount_details \<Rightarrow> token_item \<Rightarrow> (string \<Rightarrow> token_item option) \<Rightarrow> int res" where
  "toSubAmount amounts tokenInfo tokenMap =
     rbind (toSubDisplay amounts tokenInfo tokenMap) (\<lambda>d. toAmount (ANum d) (t_decimals tokenInfo))"

section \<open>Messages, retries and events\<close>

definition getEncodedExecuteContractMsgs :: "ext \<Rightarrow> string \<Rightarrow> execute_instruction list \<Rightarrow> encode_object list" where
  "getEncodedExecuteContractMsgs X senderAddress msgs = map (\<lambda>i.
     \<lparr>typeUrl = EXECUTE_URL, eo_value = MsgExecuteContract
        \<lparr>me_sender = senderAddress, me_contract = ei_contractAddress i, me_msg = toUtf8 X (JSON_stringify (ei_msg i)),
         me_funds = (case ei_funds i of None \<Rightarrow> [] | Some f \<Rightarrow> f)\<rparr>\<rparr>) msgs"

text \<open>
  \<open>unshift\<close> works on the caller's array when one is given: the second component is what \<open>mainMsg\<close>
  holds afterwards. An element of \<open>preMessages\<close> is a message or an array of them.
\<close>

definition buildMultipleExecuteMessages ::
    "execute_instruction list option \<Rightarrow> execute_instruction list list \<Rightarrow>
     execute_instruction list \<times> execute_instruction list option" where
  "buildMultipleExecuteMessages mainMsg preMessages =
     (let messages = concat preMessages @ (case mainMsg of None \<Rightarrow> [] | Some m \<Rightarrow> m)
      in (messages, map_option (\<lambda>_. messages) mainMsg))"

text \<open>
  The loop of \<open>fetchRetry\<close> over the outcomes of the successive calls of \<open>fetch\<close>: the value it returns
  (\<open>Inr None\<close> for falling out of the loop) and the arguments \<open>callback\<close> was called with.
\<close>

function fetch_loop :: "rat \<Rightarrow> (nat \<Rightarrow> 'r res) \<Rightarrow> nat \<Rightarrow> rat list \<Rightarrow> ('r option res) \<times> rat list" where
  "fetch_loop retry fetch i calls =
     (if 0 < retry
      then (case fetch i of
          Inr r \<Rightarrow> (Inr (Some r), calls)
        | Inl e \<Rightarrow> (if retry - 1 = 0 then (Inl e, calls @ [retry])
                    else fetch_loop (retry - 1) fetch (Suc i) (calls @ [retry])))
      else (Inr None, calls))"
  by pat_completeness auto

termination
  by (relation "measure (\<lambda>(retry, fetch, i, calls). nat \<lceil>retry\<rceil>)") auto

declare fetch_loop.simps [simp del]

text \<open>\<open>retry\<close> is any finite number; a fraction or a number below 1 never becomes 0, so that no error is raised.\<close>

definition fetchRetry :: "rat option \<Rightarrow> (nat \<Rightarrow> 'r res) \<Rightarrow> ('r option res) \<times> rat list" where
  "fetchRetry retry fetch = fetch_loop (case retry of None \<Rightarrow> 3 | Some n \<Rightarrow> n) fetch 0 []"

record event =
  ev_type :: string
  ev_attributes :: "(string \<times> string) list"

type_synonym attrs = "(string \<times> string) list"

text \<open>\<open>attr[key] = value\<close>: an existing key keeps its place.\<close>

definition set_key :: "attrs \<Rightarrow> string \<Rightarrow> string \<Rightarrow> attrs" where
  "set_key attr k v = (if k \<in> set (map fst attr) then map (\<lambda>(k', v'). if k' = k then (k, v) else (k', v')) attr
     else attr @ [(k, v)])"

fun event_loop :: "(string \<times> string) list \<Rightarrow> attrs option list \<Rightarrow> attrs option \<Rightarrow> (attrs option list \<times> attrs option) res" where
  "event_loop [] out attr = Inr (out, attr)"
| "event_loop ((k, v) # rest) out attr =
     (let out' = (if k = ''_contract_address'' \<and> attr \<noteq> None then out @ [attr] else out);
          attr' = (if k = ''_contract_address'' then Some [] else attr)
      in case attr' of
        None \<Rightarrow> Inl TypeError
      | Some a \<Rightarrow> event_loop rest out' (Some (set_key a k v)))"

fun parse_events :: "event list \<Rightarrow> attrs option list \<Rightarrow> attrs option list res" where
  "parse_events [] out = Inr out"
| "parse_events (e # es) out =
     rbind (event_loop (ev_attributes e) out None) (\<lambda>(out', attr). parse_events es (out' @ [attr]))"

definition parseWasmEvents :: "event list \<Rightarrow> attrs option list res" where
  "parseWasmEvents events = parse_events (filter (\<lambda>e. starts_with ''wasm'' (ev_type e)) events) []"

end
