(* ===== verification/TokenLaws.thy ===== *)
theory TokenLaws
  imports Tokens MsgLaws
begin

text \<open>
  The laws of the token helpers: the conversions between display numbers and integer amounts are exact
  on every decimal, funds are sent sorted, retries are bounded, and the event parser loses nothing of a
  well-formed transaction log.
\<close>

section \<open>Powers of ten\<close>

lemma nat_str_pow10: "nat_str (10 ^ d) = CHR ''1'' # replicate d (CHR ''0'')"
proof (induction d)
  case 0
  then show ?case by (subst nat_str.simps) (simp add: digit_char_eval)
next
  case (Suc d)
  have "nat_str (10 ^ Suc d) = nat_str (10 ^ d) @ ''0''"
    by (subst nat_str.simps) (simp add: digit_char_eval)
  then show ?case using Suc by (simp add: replicate_append_same)
qed

lemma dbl_pow10: "d \<le> 22 \<Longrightarrow> dbl (10 ^ d) = Fin (10 ^ d)"
proof -
  assume d: "d \<le> 22"
  then have "(5::int) ^ d \<le> 5 ^ 22" by (intro power_increasing) simp_all
  then have "(5::int) ^ d < 2 ^ 53" by simp
  then show ?thesis using dbl_int_exact [of "5 ^ d" d] d by (simp add: power_mult_distrib [symmetric])
qed

lemma shortest_pow10:
  assumes "d \<le> 22"
  shows "shortest 17 1 (10 ^ d) (exp10 (10 ^ d)) = (1, int d + 1)"
proof -
  have "\<lfloor>10 ^ d :: rat\<rfloor> = int (10 ^ d)" by (simp add: floor_eq_iff)
  then have e: "exp10 (10 ^ d) = int d + 1" by (simp only: exp10_def nat_int nat_str_pow10) simp
  have r: "round_half_even 1 = 1" using round_half_even_int [of 1 1] by simp
  show ?thesis unfolding e using dbl_pow10 [OF assms] r by (simp add: numeral_eq_Suc pow10_def Let_def)
qed

lemma pow10_to_string:
  assumes "d \<le> 20"
  shows "num_to_string (num_pow10 (int d)) = nat_str (10 ^ d)"
proof -
  have "pos_to_string (10 ^ d) = nat_str (10 ^ d)"
    using assms nat_str_pow10 [of 0] by (simp add: pos_to_string_def shortest_pow10 format_digits_def nat_str_pow10 Let_def)
  then show ?thesis using assms by (simp add: num_pow10_def pow10_def dbl_pow10)
qed

section \<open>Amounts\<close>

text \<open>A printed decimal without a sign and without an exponent.\<close>

definition decimal_text :: "string \<Rightarrow> string \<Rightarrow> string" where
  "decimal_text i f = i @ (if f = [] then [] else CHR ''.'' # f)"

lemma digits_no_dot: "list_all is_digit s \<Longrightarrow> CHR ''.'' \<notin> set s"
  using is_digit_imp_not by (auto simp: list_all_iff)

lemma bd_of_decimal:
  assumes "list_all is_digit i" "i \<noteq> []" "list_all is_digit f"
  shows "bd_of_text (decimal_text i f) None =
    Inr \<lparr>bigInt = int (str_nat (i @ f) * 10 ^ (6 - length f)), dec = length f + (6 - length f)\<rparr>"
proof -
  have sp: "js_split (CHR ''.'') (decimal_text i f) = i # (if f = [] then [] else [f])"
    using bd_of_text_parts [OF digits_no_dot [OF assms(1)] digits_no_dot [OF assms(3)]] by (simp add: decimal_text_def)
  have dig: "bigint_of_string (i @ f @ replicate k (CHR ''0'')) = Inr (int (str_nat (i @ f) * 10 ^ k))" for k
  proof -
    have "str_nat (i @ f @ replicate k (CHR ''0'')) = str_nat (i @ f) * 10 ^ k"
      unfolding append_assoc [symmetric] by (subst str_nat_append) simp
    with assms show ?thesis by (subst bigint_of_digits) simp_all
  qed
  show ?thesis
  proof (cases "length f \<le> 6")
    case True
    then show ?thesis using bd_of_text_narrow [OF sp, of None] dig [of "6 - length f"]
      by (simp add: default_decimals_def js_pad_end_def)
  next
    case False
    then show ?thesis using bd_of_text_wide [OF sp, of None] dig [of 0] by (simp add: default_decimals_def)
  qed
qed

lemma bd_of_nat_text: "bd_of_text (nat_str n) (Some d) = Inr \<lparr>bigInt = int (n * 10 ^ d), dec = d\<rparr>"
proof -
  have sp: "js_split (CHR ''.'') (nat_str n) = nat_str n # (if [] = [] then [] else [[]])"
    by (simp add: js_split_none nat_str_no_dot)
  have "list_all is_digit (nat_str n @ replicate d (CHR ''0''))" using nat_str_digits [of n] by simp
  then have "bigint_of_string (nat_str n @ replicate d (CHR ''0'')) = Inr (int (n * 10 ^ d))"
    by (subst bigint_of_digits) (simp_all add: str_nat_append)
  then show ?thesis
    using bd_of_text_narrow [OF sp, of "Some d"] by (simp add: default_decimals_def js_pad_end_def)
qed

lemma mul_pow10:
  assumes "d \<le> 20" "0 < e"
  shows "bd_mul \<lparr>bigInt = int m, dec = e\<rparr> (bd_num (num_pow10 (int d))) = Inr \<lparr>bigInt = int (m * 10 ^ d), dec = e\<rparr>"
proof -
  have "(int m * int (10 ^ d * 10 ^ e)) sdiv 10 ^ e = int (m * 10 ^ d)"
    by (subst sdiv_pos) (simp_all add: mult.assoc [symmetric])
  then show ?thesis
    by (simp add: bd_mul_def imul_def processDecimal_def new_BigDecimal_def bigint_div_def bd_num_def
        pow10_to_string [OF assms(1)] bd_of_nat_text)
qed

lemma div_pow10:
  assumes "d \<le> 20" "0 < e"
  shows "bd_div \<lparr>bigInt = int m, dec = e\<rparr> (bd_num (num_pow10 (int d))) = Inr \<lparr>bigInt = int (m div 10 ^ d), dec = e\<rparr>"
proof -
  have "(int m * 10 ^ e) sdiv int (10 ^ d * 10 ^ e) = int (m div 10 ^ d)"
    by (subst sdiv_pos) (simp_all add: zdiv_int)
  then show ?thesis
    by (simp add: bd_div_def idiv_def processDecimal_def new_BigDecimal_def bigint_div_def bd_num_def
        pow10_to_string [OF assms(1)] bd_of_nat_text)
qed

lemma int_part_of_toString:
  "0 < e \<Longrightarrow> int_part_of (bd_toString \<lparr>bigInt = int m, dec = e\<rparr>) = nat_str (m div 10 ^ e)"
  using cut_toString [of e m] by (simp add: cut_decimals_split int_part_of_def)

section \<open>Loops\<close>

text \<open>The callback sees the attempts that are left before each failed call.\<close>

definition countdown :: "nat \<Rightarrow> nat \<Rightarrow> rat list" where
  "countdown retry j = map (\<lambda>k. of_nat (retry - k)) [0..<j]"

lemma countdown_Suc: "countdown (Suc retry) (Suc j) = of_nat (Suc retry) # countdown retry j"
  by (simp add: countdown_def upt_rec [of 0] map_Suc_upt [symmetric] del: upt_Suc of_nat_Suc)

lemma fetch_loop_nat:
  "fetch_loop 0 fetch i calls = (Inr None, calls)"
  "fetch_loop (of_nat (Suc n)) fetch i calls =
     (case fetch i of
        Inr r \<Rightarrow> (Inr (Some r), calls)
      | Inl e \<Rightarrow> (if n = 0 then (Inl e, calls @ [of_nat (Suc n)]) else fetch_loop (of_nat n) fetch (Suc i) (calls @ [of_nat (Suc n)])))"
proof -
  have n: "rat_of_nat (Suc n) - 1 = of_nat n" "0 < rat_of_nat (Suc n)" "rat_of_nat n = 0 \<longleftrightarrow> n = 0" by simp_all
  show "fetch_loop 0 fetch i calls = (Inr None, calls)" by (subst fetch_loop.simps) (simp only: less_irrefl if_False)
  show "fetch_loop (of_nat (Suc n)) fetch i calls =
     (case fetch i of
        Inr r \<Rightarrow> (Inr (Some r), calls)
      | Inl e \<Rightarrow> (if n = 0 then (Inl e, calls @ [of_nat (Suc n)]) else fetch_loop (of_nat n) fetch (Suc i) (calls @ [of_nat (Suc n)])))"
    by (subst fetch_loop.simps) (simp only: n if_True)
qed

lemma fetch_loop_success:
  "\<forall>k<j. \<exists>e. fetch (i + k) = Inl e \<Longrightarrow> fetch (i + j) = Inr r \<Longrightarrow> j < retry \<Longrightarrow>
   fetch_loop (of_nat retry) fetch i calls = (Inr (Some r), calls @ countdown retry j)"
proof (induction retry arbitrary: i calls j)
  case (Suc retry)
  show ?case
  proof (cases j)
    case 0
    with Suc show ?thesis by (simp add: fetch_loop_nat(2) countdown_def del: of_nat_Suc)
  next
    case (Suc l)
    with Suc.prems(1) obtain e where e: "fetch i = Inl e" by auto
    have "\<forall>k<l. \<exists>e. fetch (Suc i + k) = Inl e" using Suc.prems(1) Suc by auto
    with Suc.prems Suc e Suc.IH [of l "Suc i"] show ?thesis
      by (auto simp: fetch_loop_nat(2) countdown_Suc simp del: of_nat_Suc)
  qed
qed simp

lemma fetch_loop_failure:
  "\<forall>k<retry. \<exists>e. fetch (i + k) = Inl e \<Longrightarrow> 0 < retry \<Longrightarrow> fetch (i + retry - 1) = Inl e \<Longrightarrow>
   fetch_loop (of_nat retry) fetch i calls = (Inl e, calls @ countdown retry retry)"
proof (induction retry arbitrary: i calls)
  case (Suc retry)
  then obtain e' where e': "fetch i = Inl e'" by force
  show ?case
  proof (cases "retry = 0")
    case True
    with Suc.prems e' show ?thesis by (simp add: fetch_loop_nat(2) [of 0, simplified] countdown_def)
  next
    case False
    have "\<forall>k<retry. \<exists>e. fetch (Suc i + k) = Inl e" using Suc.prems(1) by auto
    with Suc.IH [of "Suc i"] Suc.prems False e' show ?thesis
      by (auto simp: fetch_loop_nat(2) countdown_Suc simp del: of_nat_Suc)
  qed
qed simp

section \<open>Amounts and display numbers\<close>

lemma decimal_text_chars: "list_all is_digit i \<Longrightarrow> list_all is_digit f \<Longrightarrow> c \<in> set (decimal_text i f) \<Longrightarrow> is_digit c \<or> c = CHR ''.''"
  by (auto simp: decimal_text_def list_all_iff split: if_splits)

lemma unsigned_decimal_text:
  assumes "list_all is_digit i" "i \<noteq> []" "list_all is_digit f"
  shows "unsigned_decimal (decimal_text i f) = Some (of_nat (str_nat (i @ f)) / 10 ^ length f)"
proof -
  let ?s = "decimal_text i f"
  have e: "\<not> is_digit (CHR ''e'')" "\<not> is_digit (CHR ''E'')" "\<not> is_digit (CHR ''.'')" by (simp_all add: is_digit_def)
  have "split_at (\<lambda>c. c = CHR ''e'' \<or> c = CHR ''E'') ?s = (?s, None)"
    using decimal_text_chars [OF assms(1,3)] e by (intro split_at_none) auto
  moreover have "split_at (\<lambda>c. c = CHR ''.'') ?s = (i, if f = [] then None else Some f)"
  proof (cases "f = []")
    case True
    then show ?thesis using digits_no_dot [OF assms(1)] by (auto simp: decimal_text_def intro!: split_at_none)
  next
    case False
    have "takeWhile (\<lambda>c. c \<noteq> CHR ''.'') (i @ CHR ''.'' # f) = i" "dropWhile (\<lambda>c. c \<noteq> CHR ''.'') (i @ CHR ''.'' # f) = CHR ''.'' # f"
      using digits_no_dot [OF assms(1)] by (auto simp: takeWhile_tail dropWhile_append3)
    then show ?thesis using False by (simp add: split_at_def decimal_text_def Let_def)
  qed
  ultimately show ?thesis using assms by (simp add: unsigned_decimal_def exponent_val_def pow10_def)
qed

lemma decimal_text_hd: "i \<noteq> [] \<Longrightarrow> decimal_text i f \<noteq> [] \<and> hd (decimal_text i f) = hd i"
  by (simp add: decimal_text_def)

lemma decimal_text_ws:
  assumes "list_all is_digit i" "list_all is_digit f" "c \<in> set (decimal_text i f)"
  shows "\<not> is_ws c"
proof -
  have "\<not> is_ws (CHR ''.'')" by (simp add: is_ws_def Let_def)
  then show ?thesis using decimal_text_chars [OF assms] is_digit_not_ws by auto
qed

lemma string_to_num_decimal:
  assumes "list_all is_digit i" "i \<noteq> []" "list_all is_digit f"
  shows "string_to_num (decimal_text i f) = dbl (of_nat (str_nat (i @ f)) / 10 ^ length f)"
proof -
  let ?s = "decimal_text i f"
  have ne: "?s \<noteq> []" and hd: "is_digit (hd ?s)" using decimal_text_hd [OF assms(2)] assms by (cases i; simp)+
  have trim: "js_trim ?s = ?s"
    by (rule js_trim_id [OF decimal_text_ws [OF assms(1,3) hd_in_set] decimal_text_ws [OF assms(1,3) last_in_set]])
  have nopre: "\<not> starts_with [CHR ''0'', x] ?s" if "\<not> is_digit x" "x \<noteq> CHR ''.''" for x
  proof
    assume "starts_with [CHR ''0'', x] ?s"
    then have "x \<in> set ?s" unfolding starts_with_def prefix_def by fastforce
    with decimal_text_chars [OF assms(1,3)] that show False by blast
  qed
  have "hd ?s \<noteq> CHR ''-''" "hd ?s \<noteq> CHR ''+''" "?s \<noteq> ''Infinity''" using hd by (auto simp: is_digit_def)
  then show ?thesis
    using ne unsigned_decimal_text [OF assms] by (simp add: string_to_num_def trim nopre is_digit_def signed_number_def)
qed

lemma string_to_num_neg_decimal:
  assumes "list_all is_digit i" "i \<noteq> []" "list_all is_digit f"
  shows "string_to_num (CHR ''-'' # decimal_text i f) = dbl (- (of_nat (str_nat (i @ f)) / 10 ^ length f))"
proof -
  let ?s = "decimal_text i f"
  have ne: "?s \<noteq> []" and hd: "is_digit (hd ?s)" using decimal_text_hd [OF assms(2)] assms by (cases i; simp)+
  have "\<not> is_ws (CHR ''-'')" by (simp add: is_ws_def Let_def)
  moreover have "\<not> is_ws (last (CHR ''-'' # ?s))" using decimal_text_ws [OF assms(1,3) last_in_set [OF ne]] ne by simp
  ultimately have "js_trim (CHR ''-'' # ?s) = CHR ''-'' # ?s" by (intro js_trim_id) simp_all
  moreover have "?s \<noteq> ''Infinity''" using hd by (auto simp: is_digit_def)
  ultimately show ?thesis
    using unsigned_decimal_text [OF assms] by (simp add: string_to_num_def starts_with_def signed_number_def)
qed

lemma dbl_nat_exact:
  assumes "0 < n" "n < 2 ^ 53"
  shows "dbl (of_nat n) = Fin (of_nat n)"
proof -
  have "int n < int (2 ^ 53)" using assms(2) by (simp only: of_nat_less_iff)
  then show ?thesis using dbl_int_exact [of "int n" 0] assms(1) by simp
qed

lemma toAmount_decimal:
  assumes "num_to_string (validateNumber a) = decimal_text i f"
    and "list_all is_digit i" "i \<noteq> []" "list_all is_digit f" "d \<le> 20"
  shows "toAmount a d = Inr (int (str_nat (i @ f) * 10 ^ d div 10 ^ length f))"
proof -
  let ?k = "6 - length f"
  have pos: "0 < length f + ?k" by simp
  have "str_nat (i @ f) * 10 ^ ?k * 10 ^ d div 10 ^ (length f + ?k) = str_nat (i @ f) * 10 ^ d div 10 ^ length f"
    using div_mult_mult2 [of "10 ^ ?k" "str_nat (i @ f) * 10 ^ d" "10 ^ length f"] by (simp add: power_add mult_ac)
  then show ?thesis
    using bd_of_decimal [OF assms(2-4)] mul_pow10 [OF assms(5) pos] int_part_of_toString [OF pos]
    by (simp add: toAmount_def bd_num_def [of "validateNumber a"] assms(1) new_BigDecimal_def del: of_nat_mult of_nat_power)
qed

lemma toDisplay_value:
  assumes "0 < n" "6 \<le> s" "s \<le> 26"
  shows "toDisplay (DisplayInt (int n)) s 6 = Inr (num_div (dbl (of_nat (n div 10 ^ (s - 6)))) (Fin 1000000))"
proof -
  have b: "new_BigDecimal (DBig (int n)) None = Inr \<lparr>bigInt = int (n * 10 ^ 6), dec = 6\<rparr>"
    by (simp add: new_BigDecimal_def default_decimals_def)
  have "int s - int 6 = int (s - 6)" using assms by simp
  moreover have "n * 10 ^ 6 div 10 ^ (s - 6) div 10 ^ 6 = n div 10 ^ (s - 6)"
    by (metis div_mult2_eq div_mult_self_is_m mult.commute zero_less_numeral zero_less_power)
  ultimately show ?thesis
    using assms b div_pow10 [of "s - 6" 6] int_part_of_toString [of 6 "n * 10 ^ 6 div 10 ^ (s - 6)"]
    by (simp add: toDisplay_def display_falsy_def display_bigint_def truncDecimals_def atomic_def del: of_nat_mult of_nat_power)
qed

section \<open>Events\<close>

text \<open>
  A well-formed transaction log: the attributes of an event are groups, one per executed contract, each
  starting with \<open>_contract_address\<close> and with no key twice.
\<close>

definition event_group :: "attrs \<Rightarrow> bool" where
  "event_group g \<longleftrightarrow> g \<noteq> [] \<and> fst (hd g) = ''_contract_address'' \<and> distinct (map fst g)"

lemma event_loop_append:
  "event_loop (as @ bs) out attr = rbind (event_loop as out attr) (\<lambda>(out', attr'). event_loop bs out' attr')"
  by (induction as arbitrary: out attr) (auto simp: Let_def split: option.splits)

lemma event_loop_rest:
  "''_contract_address'' \<notin> set (map fst kvs) \<Longrightarrow> distinct (map fst (a @ kvs)) \<Longrightarrow>
   event_loop kvs out (Some a) = Inr (out, Some (a @ kvs))"
proof (induction kvs arbitrary: a)
  case (Cons kv kvs)
  then have "event_loop kvs out (Some (a @ [kv])) = Inr (out, Some ((a @ [kv]) @ kvs))" by (intro Cons.IH) auto
  moreover have "fst kv \<notin> fst ` set a" using Cons(3) by auto
  ultimately show ?case using Cons(2) by (cases kv) (auto simp: set_key_def)
qed simp

lemma event_loop_group:
  assumes "event_group g"
  shows "event_loop g out attr = Inr (out @ (if attr = None then [] else [attr]), Some g)"
proof -
  obtain v kvs where g: "g = (''_contract_address'', v) # kvs"
    using assms by (cases g) (auto simp: event_group_def)
  then have "event_loop kvs out' (Some [(''_contract_address'', v)]) = Inr (out', Some g)" for out'
    using event_loop_rest [of kvs "[(''_contract_address'', v)]"] assms by (simp add: event_group_def)
  then show ?thesis by (simp add: g set_key_def)
qed

lemma event_loop_groups:
  assumes "list_all event_group gs" "gs \<noteq> []"
  shows "event_loop (concat gs) out attr =
    Inr (out @ (if attr = None then [] else [attr]) @ map Some (butlast gs), Some (last gs))"
  using assms
proof (induction gs arbitrary: out attr)
  case (Cons g gs)
  then show ?case by (cases "gs = []") (simp_all add: event_loop_append event_loop_group)
qed simp

lemma parse_events_groups:
  assumes "\<And>e. e \<in> set es \<Longrightarrow> list_all event_group (groups e) \<and> groups e \<noteq> [] \<and> ev_attributes e = concat (groups e)"
  shows "parse_events es out = Inr (out @ map Some (concat (map groups es)))"
  using assms
proof (induction es arbitrary: out)
  case (Cons e es)
  then have e: "list_all event_group (groups e)" "groups e \<noteq> []" "ev_attributes e = concat (groups e)" by auto
  have "parse_events es o1 = Inr (o1 @ map Some (concat (map groups es)))" for o1 using Cons by simp
  moreover have "map Some (butlast (groups e)) @ [Some (last (groups e))] = map Some (groups e)"
    using e(2) by (metis append_butlast_last_id list.simps(8,9) map_append)
  ultimately show ?case using e by (simp add: event_loop_groups)
qed simp

section \<open>Properties\<close>

text \<open>C18. \<open>toAmount\<close> is exact: when the number prints as the plain decimal \<open>i.f\<close>, the amount is the floor
  of that decimal times \<open>10^decimals\<close>, for every number of decimals up to 20; no digit is lost to the
  binary representation of the number or of \<open>10 ** decimals\<close>.\<close>

theorem toAmount_exact:
  assumes "num_to_string (validateNumber a) = decimal_text i f"
    and "list_all is_digit i" "i \<noteq> []" "list_all is_digit f" "d \<le> 20"
  shows "toAmount a d = Inr (int (str_nat (i @ f) * 10 ^ d div 10 ^ length f))"
  using assms by (rule toAmount_decimal)

theorem toAmount_exact_witness: "toAmount (ANum (Fin (1 / 2))) 18 = Inr 500000000000000000"
proof -
  have d: "dbl (1 / 2) = Fin (1 / 2)" using dbl_half_power [of 1 1] by simp
  have "num_to_string (validateNumber (ANum (Fin (1 / 2)))) = decimal_text ''0'' ''5''"
    using half_to_string d by (simp add: decimal_text_def num_sub_def)
  from toAmount_exact [OF this, of 18] show ?thesis by (simp add: js_eval)
qed

text \<open>Displaying an amount and reading the number back is lossless: a number that prints with at most
  six decimals becomes an amount of any token with 6 to 20 decimals and \<open>toDisplay\<close> gives the same number
  back, as long as it has at most 53 bits of millionths.\<close>

theorem display_roundtrip:
  assumes "num_to_string (Fin x) = decimal_text i f" "string_to_num (decimal_text i f) = Fin x"
    and "list_all is_digit i" "i \<noteq> []" "list_all is_digit f" "length f \<le> 6" "6 \<le> d" "d \<le> 20"
    and "0 < str_nat (i @ f)" "str_nat (i @ f) * 10 ^ (6 - length f) < 2 ^ 53"
  shows "rbind (toAmount (ANum (Fin x)) d) (\<lambda>n. toDisplay (DisplayInt n) d 6) = Inr (Fin x)"
proof -
  let ?m = "str_nat (i @ f)" and ?l = "length f"
  have a: "toAmount (ANum (Fin x)) d = Inr (int (?m * 10 ^ (d - ?l)))"
    using toAmount_decimal [of "ANum (Fin x)" i f d] assms by (simp add: power_diff div_mult_swap le_imp_power_dvd)
  have "?m * 10 ^ (d - ?l) = ?m * 10 ^ (6 - ?l) * 10 ^ (d - 6)" using assms(6,7) by (simp add: power_add [symmetric])
  then have q: "?m * 10 ^ (d - ?l) div 10 ^ (d - 6) = ?m * 10 ^ (6 - ?l)" by (simp only:) simp
  have "dbl (of_nat (?m * 10 ^ (6 - ?l))) = Fin (of_nat (?m * 10 ^ (6 - ?l)))"
    by (rule dbl_nat_exact) (use assms(9,10) in simp_all)
  moreover have "(of_nat (?m * 10 ^ (6 - ?l)) :: rat) / 1000000 = of_nat ?m / 10 ^ ?l"
  proof -
    have "(10::rat) ^ (6 - ?l) * 10 ^ ?l = 1000000" using assms(6) by (simp add: power_add [symmetric])
    then show ?thesis by (simp add: field_simps)
  qed
  moreover have "dbl (of_nat ?m / 10 ^ ?l) = Fin x" using string_to_num_decimal [OF assms(3-5)] assms(2) by simp
  ultimately show ?thesis
    using toDisplay_value [of "?m * 10 ^ (d - ?l)" d] assms(7-9) by (simp add: a q num_div_def)
qed

theorem display_roundtrip_witness:
  "rbind (toAmount (ANum (Fin (1 / 2))) 18) (\<lambda>n. toDisplay (DisplayInt n) 18 6) = Inr (Fin (1 / 2))"
proof (rule display_roundtrip [of _ "''0''" "''5''"])
  have d: "dbl (1 / 2) = Fin (1 / 2)" using dbl_half_power [of 1 1] by simp
  show "num_to_string (Fin (1 / 2)) = decimal_text ''0'' ''5''"
    using half_to_string d by (simp add: decimal_text_def num_sub_def)
  show "string_to_num (decimal_text ''0'' ''5'') = Fin (1 / 2)"
    using string_to_num_decimal [of "''0''" "''5''"] d by (simp add: js_eval)
qed (simp_all add: js_eval)

text \<open>C29. \<open>fetchRetry\<close> with \<open>n\<close> attempts makes at most \<open>n\<close> of them. It answers with the first call that
  succeeds; when all fail it raises the last error, and the callback has seen every failed attempt's
  countdown; with no attempt allowed it returns \<open>undefined\<close>.\<close>

theorem fetchRetry_result:
  "case fetchRetry (Some (of_nat n)) fetch of
     (Inr (Some r), calls) \<Rightarrow> \<exists>j<n. fetch j = Inr r \<and> (\<forall>k<j. \<exists>e. fetch k = Inl e) \<and> calls = countdown n j
   | (Inl e, calls) \<Rightarrow> 0 < n \<and> fetch (n - 1) = Inl e \<and> (\<forall>k<n. \<exists>e. fetch k = Inl e) \<and> calls = countdown n n
   | (Inr None, calls) \<Rightarrow> n = 0 \<and> calls = []"
proof (cases "\<exists>j<n. \<exists>r. fetch j = Inr r")
  case True
  define j where "j = (LEAST j. \<exists>r. fetch j = Inr r)"
  obtain r where r: "fetch j = Inr r" unfolding j_def using LeastI_ex [of "\<lambda>j. \<exists>r. fetch j = Inr r"] True by blast
  have least: "\<forall>k<j. \<exists>e. fetch k = Inl e"
    unfolding j_def using not_less_Least [where P = "\<lambda>j. \<exists>r. fetch j = Inr r"] by (metis old.sum.exhaust)
  have "j < n" unfolding j_def using True Least_le [where P = "\<lambda>j. \<exists>r. fetch j = Inr r"] by (meson le_less_trans)
  with fetch_loop_success [of j fetch 0 r n "[]"] r least show ?thesis by (auto simp: fetchRetry_def)
next
  case False
  then have all: "\<forall>k<n. \<exists>e. fetch k = Inl e" by (metis old.sum.exhaust)
  show ?thesis
  proof (cases "n = 0")
    case False
    then obtain e where "fetch (n - 1) = Inl e" using all by force
    with fetch_loop_failure [of n fetch 0 e "[]"] all False show ?thesis by (simp add: fetchRetry_def)
  qed (simp add: fetchRetry_def fetch_loop_nat(1))
qed

theorem fetchRetry_result_witness:
  "fetchRetry (Some 2) (\<lambda>i. if i = 0 then Inl TypeError else Inr (7 :: nat)) = (Inr (Some 7), [2])"
  using fetchRetry_result [of 2 "\<lambda>i. if i = 0 then Inl TypeError else Inr (7 :: nat)"]
  by (simp add: fetchRetry_def fetch_loop.simps)

text \<open>C30. The event parser loses nothing of a well-formed log: when the attributes of every wasm event are
  groups that start with \<open>_contract_address\<close>, the result is exactly these groups in order, whatever
  other events stand between them.\<close>

theorem wasm_events_parsed:
  assumes "\<And>e. e \<in> set events \<Longrightarrow> starts_with ''wasm'' (ev_type e) \<Longrightarrow>
      list_all event_group (groups e) \<and> groups e \<noteq> [] \<and> ev_attributes e = concat (groups e)"
  shows "parseWasmEvents events = Inr (map Some (concat (map groups (filter (\<lambda>e. starts_with ''wasm'' (ev_type e)) events))))"
  using parse_events_groups [of "filter (\<lambda>e. starts_with ''wasm'' (ev_type e)) events" groups "[]"] assms
  by (simp add: parseWasmEvents_def)

theorem wasm_events_parsed_witness:
  "parseWasmEvents [\<lparr>ev_type = ''tx'', ev_attributes = [(''fee'', ''1'')]\<rparr>,
     \<lparr>ev_type = ''wasm'', ev_attributes = [(''_contract_address'', ''a''), (''x'', ''1''), (''_contract_address'', ''b'')]\<rparr>] =
   Inr [Some [(''_contract_address'', ''a''), (''x'', ''1'')], Some [(''_contract_address'', ''b'')]]"
  by (subst wasm_events_parsed [where groups = "\<lambda>e. [[(''_contract_address'', ''a''), (''x'', ''1'')], [(''_contract_address'', ''b'')]]"])
    (auto simp: starts_with_def event_group_def)

text \<open>A wasm event whose first attribute is not \<open>_contract_address\<close> makes the parser fail on an
  undefined object, whatever the rest of the log.\<close>

theorem wasm_event_without_address:
  assumes "starts_with ''wasm'' (ev_type e)" "ev_attributes e = (k, v) # rest" "k \<noteq> ''_contract_address''"
  shows "parseWasmEvents (e # events) = Inl TypeError"
  using assms by (simp add: parseWasmEvents_def)

theorem wasm_event_without_address_witness:
  "parseWasmEvents [\<lparr>ev_type = ''wasm-swap'', ev_attributes = [(''action'', ''swap'')]\<rparr>] = Inl TypeError"
  by (rule wasm_event_without_address [where k = "''action''" and rest = "[]"]) (simp_all add: starts_with_def)

text \<open>The funds of a message are a permutation of the coins given, sorted by denom, and there are no
  funds at all exactly when no coin is given.\<close>

theorem funds_sorted:
  "case handleSentFunds localeCompare funds of
     None \<Rightarrow> \<forall>f \<in> set funds. f = None
   | Some cs \<Rightarrow> cs \<noteq> [] \<and> mset (map Some cs) = filter_mset (\<lambda>f. f \<noteq> None) (mset funds) \<and>
       Sorting_Algorithms.sorted (key c_denom localeCompare) cs"
proof -
  have m: "mset (map Some (List.map_filter id fs)) = filter_mset (\<lambda>f. f \<noteq> None) (mset fs)" for fs :: "coin option list"
    by (induction fs) (auto simp: List.map_filter_simps)
  have n: "List.map_filter id fs = [] \<longleftrightarrow> (\<forall>f \<in> set fs. f = None)" for fs :: "coin option list"
    by (induction fs) (auto simp: List.map_filter_simps split: option.splits)
  let ?s = "Sorting_Algorithms.sort (key c_denom localeCompare) (List.map_filter id funds)"
  have "mset ?s = mset (List.map_filter id funds)" by simp
  then have "mset (map Some ?s) = filter_mset (\<lambda>f. f \<noteq> None) (mset funds)" "?s = [] \<longleftrightarrow> (\<forall>f \<in> set funds. f = None)"
    using m [of funds] n [of funds] by (metis mset_map) (metis \<open>mset ?s = mset (List.map_filter id funds)\<close> mset_zero_iff n)
  then show ?thesis using n [of funds] by (simp add: handleSentFunds_def Let_def)
qed

theorem funds_sorted_witness:
  "\<exists>cs. handleSentFunds flat [None, Some \<lparr>c_denom = ''orai'', c_amount = ''1''\<rparr>] = Some cs \<and>
    mset cs = {#\<lparr>c_denom = ''orai'', c_amount = ''1''\<rparr>#}"
proof -
  have "mset cs = {#c#}" if "image_mset Some (mset cs) = {#Some c#}" for cs and c :: coin
    using that by (cases cs) auto
  with funds_sorted [where localeCompare = flat and funds = "[None, Some \<lparr>c_denom = ''orai'', c_amount = ''1''\<rparr>]"]
  show ?thesis by (auto split: option.splits)
qed

lemma handleSentFunds_none [simp]: "handleSentFunds localeCompare [None] = None"
  by (simp add: handleSentFunds_def List.map_filter_simps)

lemma handleSentFunds_single [simp]: "handleSentFunds localeCompare [Some c] = Some [c]"
proof -
  have "mset (Sorting_Algorithms.sort (key c_denom localeCompare) [c]) = {#c#}" by simp
  then show ?thesis by (simp add: handleSentFunds_def List.map_filter_simps)
qed

end
