(* ===== verification/EvmRoutes.thy ===== *)
theory EvmRoutes
  imports Tokens
begin

text \<open>
  Where a token can go: the swap routes on the EVM chains (\<open>swapEvmRoutes\<close>, \<open>getEvmSwapRoute\<close>,
  \<open>isEvmSwappable\<close>, \<open>filterNonPoolEvmTokens\<close> of \<open>packages/universal-swap/src/helper.ts\<close>), the swap
  filters of \<open>swap-filter.ts\<close>, the chain predicates and the IBC channels between the Cosmos chains
  (\<open>packages/oraidex-common/src/ibc-info.ts\<close>).
\<close>

section \<open>Contracts\<close>

definition ORAI_BSC_CONTRACT :: string where "ORAI_BSC_CONTRACT = ''0xA325Ad6D9c92B55A3Fc5aD7e412B1518F96441C0''"

definition AIRI_BSC_CONTRACT :: string where "AIRI_BSC_CONTRACT = ''0x7e2A35C746F2f7C240B664F1Da4DD100141AE71F''"

definition USDT_BSC_CONTRACT :: string where "USDT_BSC_CONTRACT = ''0x55d398326f99059fF775485246999027B3197955''"

definition WRAP_BNB_CONTRACT :: string where "WRAP_BNB_CONTRACT = ''0xbb4CdB9CBd36B01bD1cBaEBF2De08d9173bc095c''"

definition KWT_BSC_CONTRACT :: string where "KWT_BSC_CONTRACT = ''0x257a8d1E03D17B8535a182301f15290F11674b53''"

definition MILKY_BSC_CONTRACT :: string where "MILKY_BSC_CONTRACT = ''0x6fE3d0F096FC932A905accd1EB1783F6e4cEc717''"

definition USDT_TRON_CONTRACT :: string where "USDT_TRON_CONTRACT = ''0xa614f803B6FD780986A42c78Ec9c7f77e6DeD13C''"

definition ORAI_ETH_CONTRACT :: string where "ORAI_ETH_CONTRACT = ''0x4c11249814f11b9346808179Cf06e71ac328c1b5''"

definition USDC_ETH_CONTRACT :: string where "USDC_ETH_CONTRACT = ''0xA0b86991c6218b36c1d19D4a2e9Eb0cE3606eB48''"

definition WRAP_ETH_CONTRACT :: string where "WRAP_ETH_CONTRACT = ''0xC02aaA39b223FE8D0A0e5C4F27eAD9083C756Cc2''"

definition USDT_ETH_CONTRACT :: string where "USDT_ETH_CONTRACT = ''0xdAC17F958D2ee523a2206206994597C13D831ec7''"

definition KWTBSC_ORAICHAIN_DENOM :: string where "KWTBSC_ORAICHAIN_DENOM = ''ibc/4F7464EEE736CCFB6B444EB72DE60B3B43C0DD509FFA2B87E05D584467AAE8C8''"

definition MILKYBSC_ORAICHAIN_DENOM :: string where "MILKYBSC_ORAICHAIN_DENOM = ''ibc/E12A2298AC40011C79F02F26C324BD54DF20F4B2904CB9028BFDEDCFAA89B906''"

definition INJECTIVE_ORAICHAIN_DENOM :: string where "INJECTIVE_ORAICHAIN_DENOM = ''ibc/49D820DFDE9F885D7081725A58202ABA2F465CAEE4AFBC683DFB79A8E013E83E''"

definition IBC_WASM_CONTRACT_TEST :: string where "IBC_WASM_CONTRACT_TEST = ''orai1jtt8c2lz8emh8s708y0aeduh32xef2rxyg8y78lyvxn806cu7q0sjtxsnv''"

section \<open>Swaps on the EVM chains\<close>

definition caseSwapNativeAndWrapNative :: "string \<Rightarrow> string \<Rightarrow> bool" where
  "caseSwapNativeAndWrapNative fromCoingecko toCoingecko =
     (let arr = [''ethereum'', ''weth''] in fromCoingecko \<in> set arr \<and> toCoingecko \<in> set arr)"

definition isSupportedNoPoolSwapEvm :: "string \<Rightarrow> bool" where
  "isSupportedNoPoolSwapEvm coingeckoId = (coingeckoId \<in> set [''wbnb'', ''binancecoin'', ''ethereum''])"

definition isEvmNetworkNativeSwapSupported :: "string \<Rightarrow> bool" where
  "isEvmNetworkNativeSwapSupported chainId = (chainId \<in> set [''0x01'', ''0x38''])"

text \<open>A text in a template literal; \<open>undefined\<close> prints as such.\<close>

definition template :: "string option \<Rightarrow> string" where
  "template s = (case s of None \<Rightarrow> ''undefined'' | Some t \<Rightarrow> t)"

definition buildSwapRouterKey :: "string option \<Rightarrow> string option \<Rightarrow> string" where
  "buildSwapRouterKey fromContractAddr toContractAddr = template fromContractAddr @ ''-'' @ template toContractAddr"

text \<open>The table, a pair of contracts and the route between them per entry.\<close>

definition evm_pairs :: "string \<Rightarrow> (string \<times> string \<times> string list) list" where
  "evm_pairs network =
     (if network = ''0x38'' then
       [(WRAP_BNB_CONTRACT, USDT_BSC_CONTRACT, [WRAP_BNB_CONTRACT, USDT_BSC_CONTRACT]),
        (WRAP_BNB_CONTRACT, USDT_TRON_CONTRACT, [WRAP_BNB_CONTRACT, USDT_BSC_CONTRACT]),
        (WRAP_BNB_CONTRACT, ORAI_ETH_CONTRACT, [WRAP_BNB_CONTRACT, ORAI_BSC_CONTRACT]),
        (WRAP_BNB_CONTRACT, ORAI_BSC_CONTRACT, [WRAP_BNB_CONTRACT, ORAI_BSC_CONTRACT]),
        (WRAP_BNB_CONTRACT, AIRI_BSC_CONTRACT, [WRAP_BNB_CONTRACT, AIRI_BSC_CONTRACT]),
        (USDT_BSC_CONTRACT, AIRI_BSC_CONTRACT, [USDT_BSC_CONTRACT, WRAP_BNB_CONTRACT, AIRI_BSC_CONTRACT]),
        (USDT_BSC_CONTRACT, ORAI_BSC_CONTRACT, [USDT_BSC_CONTRACT, WRAP_BNB_CONTRACT, ORAI_BSC_CONTRACT]),
        (ORAI_BSC_CONTRACT, AIRI_BSC_CONTRACT, [ORAI_BSC_CONTRACT, WRAP_BNB_CONTRACT, AIRI_BSC_CONTRACT])]
      else if network = ''0x01'' then
       [(WRAP_ETH_CONTRACT, USDC_ETH_CONTRACT, [WRAP_ETH_CONTRACT, USDC_ETH_CONTRACT]),
        (WRAP_ETH_CONTRACT, ORAI_ETH_CONTRACT, [WRAP_ETH_CONTRACT, ORAI_ETH_CONTRACT]),
        (WRAP_ETH_CONTRACT, USDT_ETH_CONTRACT, [WRAP_ETH_CONTRACT, USDT_ETH_CONTRACT]),
        (WRAP_ETH_CONTRACT, WRAP_ETH_CONTRACT, [WRAP_ETH_CONTRACT, WRAP_ETH_CONTRACT]),
        (USDC_ETH_CONTRACT, USDT_ETH_CONTRACT, [USDC_ETH_CONTRACT, USDT_ETH_CONTRACT]),
        (USDC_ETH_CONTRACT, ORAI_ETH_CONTRACT, [USDC_ETH_CONTRACT, WRAP_ETH_CONTRACT, ORAI_ETH_CONTRACT]),
        (USDT_ETH_CONTRACT, ORAI_ETH_CONTRACT, [USDT_ETH_CONTRACT, WRAP_ETH_CONTRACT, ORAI_ETH_CONTRACT])]
      else [])"

definition swapEvmRoutes :: "string \<Rightarrow> (string \<times> string list) list" where
  "swapEvmRoutes network = map (\<lambda>(a, b, r). (buildSwapRouterKey (Some a) (Some b), r)) (evm_pairs network)"

text \<open>\<open>proxyContractInfo[chainId].wrapNativeAddr\<close>; the table itself is built with \<open>getAddress\<close> when the module loads.\<close>

definition wrapNativeAddr :: "ext \<Rightarrow> string \<Rightarrow> string option" where
  "wrapNativeAddr X chainId =
     (if chainId = ''0x01'' then eth_getAddress X WRAP_ETH_CONTRACT
      else if chainId = ''0x38'' then eth_getAddress X WRAP_BNB_CONTRACT else None)"

definition getEvmSwapRoute :: "ext \<Rightarrow> string \<Rightarrow> string option \<Rightarrow> string option \<Rightarrow> string list option" where
  "getEvmSwapRoute X chainId fromContractAddr toContractAddr =
     (if \<not> isEvmNetworkNativeSwapSupported chainId then None
      else if \<not> truthy fromContractAddr \<and> \<not> truthy toContractAddr then None
      else let chainRoutes = swapEvmRoutes chainId;
               fromAddr = (if truthy fromContractAddr then fromContractAddr else wrapNativeAddr X chainId);
               toAddr = (if truthy toContractAddr then toContractAddr else wrapNativeAddr X chainId)
           in case map_of chainRoutes (buildSwapRouterKey fromAddr toContractAddr) of
                Some route \<Rightarrow> Some route
              | None \<Rightarrow> map_option rev (map_of chainRoutes (buildSwapRouterKey toAddr fromContractAddr)))"

definition isEvmSwappable :: "ext \<Rightarrow> string \<Rightarrow> string \<Rightarrow> string option \<Rightarrow> string option \<Rightarrow> bool" where
  "isEvmSwappable X fromChainId toChainId fromContractAddr toContractAddr =
     (if fromChainId \<noteq> toChainId then False
      else if fromChainId \<noteq> ''0x01'' \<and> fromChainId \<noteq> ''0x38'' then False
      else getEvmSwapRoute X fromChainId fromContractAddr toContractAddr \<noteq> None)"

section \<open>Filters\<close>

definition notAllowSwapCoingeckoIds :: "string list" where "notAllowSwapCoingeckoIds = []"

definition notAllowSwapFromChainIds :: "string list" where
  "notAllowSwapFromChainIds = [''0x1ae6'', ''kawaii_6886-1'', ''oraibridge-subnet-2'', ''oraibtc-mainnet-1'', ''Neutaro-1'', ''bitcoin'']"

definition notAllowSwapToChainIds :: "string list" where
  "notAllowSwapToChainIds = [''0x1ae6'', ''kawaii_6886-1'', ''oraibridge-subnet-2'', ''oraibtc-mainnet-1'', ''Neutaro-1'', ''bitcoin'']"

definition notAllowDenom :: "string list" where
  "notAllowDenom = [KWTBSC_ORAICHAIN_DENOM, MILKYBSC_ORAICHAIN_DENOM, INJECTIVE_ORAICHAIN_DENOM]"

definition notAllowBEP20Token :: "string list" where
  "notAllowBEP20Token = [KWT_BSC_CONTRACT, MILKY_BSC_CONTRACT]"

definition getSwapFromTokens :: "token_item list \<Rightarrow> token_item list" where
  "getSwapFromTokens flattenTokens = filter (\<lambda>t. t_denom t \<notin> set notAllowDenom \<and>
     t_coinGeckoId t \<notin> set notAllowSwapCoingeckoIds \<and> t_chainId t \<notin> set notAllowSwapFromChainIds \<and>
     t_contractAddress t \<notin> Some ` set notAllowBEP20Token) flattenTokens"

definition getSwapToTokens :: "token_item list \<Rightarrow> token_item list" where
  "getSwapToTokens flattenTokens = filter (\<lambda>t. t_denom t \<notin> set notAllowDenom \<and>
     t_coinGeckoId t \<notin> set notAllowSwapCoingeckoIds \<and> t_chainId t \<notin> set notAllowSwapToChainIds \<and>
     t_contractAddress t \<notin> Some ` set notAllowBEP20Token) flattenTokens"

datatype swap_direction = From | To

text \<open>
  \<open>new Set\<close> keeps the first of several references to one object; a token list holds one object per
  token, so an object is identified with its content.
\<close>

definition to_set :: "'a list \<Rightarrow> 'a list" where
  "to_set xs = rev (remdups (rev xs))"

definition swappable_tokens :: "string \<Rightarrow> string list res" where
  "swappable_tokens chainId = (if evm_pairs chainId = [] then Inl TypeError
     else Inr (map (\<lambda>(k, _). js_split (CHR ''-'') k ! 1) (swapEvmRoutes chainId)))"

definition filterNonPoolEvmTokens :: "string \<Rightarrow> string \<Rightarrow> string \<Rightarrow> string \<Rightarrow> swap_direction \<Rightarrow> token_item list \<Rightarrow>
    token_item list \<Rightarrow> token_item list \<Rightarrow> token_item list \<Rightarrow> token_item option list res" where
  "filterNonPoolEvmTokens chainId coingeckoId denom searchTokenName direction swapFromTokens swapToTokens
       oraichainTokens flattenTokens =
     (let listTokens = (case direction of From \<Rightarrow> swapFromTokens | To \<Rightarrow> swapToTokens);
          found = filter (\<lambda>t. t_denom t \<noteq> denom \<and> str_includes (to_lower searchTokenName) (to_lower (t_name t))) listTokens;
          rest = (\<lambda>ts. Inr (map Some (
            if \<not> isEvmNetworkNativeSwapSupported chainId
            then filter (\<lambda>t. case direction of
                   To \<Rightarrow> \<not> isSupportedNoPoolSwapEvm (t_coinGeckoId t)
                 | From \<Rightarrow> isSupportedNoPoolSwapEvm (t_coinGeckoId t) \<longrightarrow>
                     getTokenOnSpecificChainId coingeckoId (t_chainId t) flattenTokens \<noteq> None) ts
            else filter (\<lambda>t. isSupportedNoPoolSwapEvm (t_coinGeckoId t) \<longrightarrow> t_chainId t = chainId) ts)))
      in if isSupportedNoPoolSwapEvm coingeckoId
         then rbind (swappable_tokens chainId) (\<lambda>swappable.
           let filtered = filter (\<lambda>t. t_contractAddress t \<in> Some ` set swappable) found in
           case direction of
             To \<Rightarrow> Inr (to_set (map Some filtered @
               map (\<lambda>t. getTokenOnOraichain (t_coinGeckoId t) oraichainTokens False) filtered))
           | From \<Rightarrow> rest filtered)
         else rest found)"

section \<open>IBC channels\<close>

record ibc_end =
  ie_source :: string
  ie_channel :: string
  ie_timeout :: int

record ibc_info = ibc_end +
  ii_testInfo :: "ibc_end option"

text \<open>\<open>CHANNELS.split(/\s+/)\<close>: the channel on the other chain, then the one on Oraichain.\<close>

definition atom2oraichain :: string where "atom2oraichain = ''channel-301''"
definition oraichain2atom :: string where "oraichain2atom = ''channel-15''"

definition neutaro2oraichain :: string where "neutaro2oraichain = ''channel-1''"
definition oraichain2neutaro :: string where "oraichain2neutaro = ''channel-189''"

definition inj2oraichain :: string where "inj2oraichain = ''channel-147''"
definition oraichain2inj :: string where "oraichain2inj = ''channel-146''"

definition osmosis2oraichain :: string where "osmosis2oraichain = ''channel-216''"
definition oraichain2osmosis :: string where "oraichain2osmosis = ''channel-13''"

definition oraib2oraichain :: string where "oraib2oraichain = ''channel-1''"
definition oraichain2oraib :: string where "oraichain2oraib = ''channel-29''"

definition noble2oraichain :: string where "noble2oraichain = ''channel-34''"
definition oraichain2noble :: string where "oraichain2noble = ''channel-147''"

definition noble2oraichainTest :: string where "noble2oraichainTest = ''channel-35''"
definition oraichain2nobleTest :: string where "oraichain2nobleTest = ''channel-148''"

definition oraib2oraichainTest :: string where "oraib2oraichainTest = ''channel-6''"
definition oraichain2oraibTest :: string where "oraichain2oraibTest = ''channel-260''"

definition oraib2oraichain_old :: string where "oraib2oraichain_old = ''channel-0''"
definition oraichain2oraib_old :: string where "oraichain2oraib_old = ''channel-20''"

definition kwt2oraichain :: string where "kwt2oraichain = ''channel-0''"
definition oraichain2kwt :: string where "oraichain2kwt = ''channel-21''"

definition transfer_end :: "string \<Rightarrow> ibc_end option \<Rightarrow> ibc_info" where
  "transfer_end channel test = \<lparr>ie_source = ''transfer'', ie_channel = channel, ie_timeout = IBC_TRANSFER_TIMEOUT, ii_testInfo = test\<rparr>"

definition wasm_end :: "string \<Rightarrow> string \<Rightarrow> ibc_info" where
  "wasm_end channel testChannel = \<lparr>ie_source = ''wasm.'' @ IBC_WASM_CONTRACT, ie_channel = channel,
     ie_timeout = IBC_TRANSFER_TIMEOUT, ii_testInfo = Some \<lparr>ie_source = ''wasm.'' @ IBC_WASM_CONTRACT_TEST,
       ie_channel = testChannel, ie_timeout = IBC_TRANSFER_TIMEOUT\<rparr>\<rparr>"

definition transfer_test :: "string \<Rightarrow> ibc_end option" where
  "transfer_test channel = Some \<lparr>ie_source = ''transfer'', ie_channel = channel, ie_timeout = IBC_TRANSFER_TIMEOUT\<rparr>"

definition ibcInfos :: "(string \<times> (string \<times> ibc_info) list) list" where
  "ibcInfos =
    [(''cosmoshub-4'', [(''Oraichain'', transfer_end atom2oraichain None)]),
     (''Neutaro-1'', [(''Oraichain'', transfer_end neutaro2oraichain None)]),
     (''injective-1'', [(''Oraichain'', transfer_end inj2oraichain None)]),
     (''osmosis-1'', [(''Oraichain'', transfer_end osmosis2oraichain None)]),
     (''kawaii_6886-1'', [(''Oraichain'', transfer_end kwt2oraichain None)]),
     (''noble-1'', [(''Oraichain'', transfer_end noble2oraichain (transfer_test noble2oraichainTest))]),
     (''Oraichain'',
       [(''cosmoshub-4'', transfer_end oraichain2atom None),
        (''Neutaro-1'', transfer_end oraichain2neutaro None),
        (''injective-1'', transfer_end oraichain2inj None),
        (''osmosis-1'', transfer_end oraichain2osmosis None),
        (''oraibridge-subnet-2'', wasm_end oraichain2oraib oraichain2oraibTest),
        (''0x01'', wasm_end oraichain2oraib oraichain2oraibTest),
        (''0x38'', wasm_end oraichain2oraib oraichain2oraibTest),
        (''0x2b6653dc'', wasm_end oraichain2oraib oraichain2oraibTest),
        (''kawaii_6886-1'', transfer_end oraichain2kwt None),
        (''noble-1'', wasm_end oraichain2noble oraichain2nobleTest)]),
     (''oraibridge-subnet-2'', [(''Oraichain'', transfer_end oraib2oraichain (transfer_test oraib2oraichainTest))])]"

definition ibcInfosOld :: "(string \<times> (string \<times> ibc_info) list) list" where
  "ibcInfosOld =
    [(''Oraichain'',
       [(''oraibridge-subnet-2'', transfer_end oraichain2oraib_old None),
        (''kawaii_6886-1'', transfer_end oraichain2kwt None),
        (''injective-1'', transfer_end oraichain2inj None)]),
     (''oraibridge-subnet-2'', [(''Oraichain'', transfer_end oraib2oraichain_old None)]),
     (''kawaii_6886-1'', [(''Oraichain'', transfer_end kwt2oraichain None)])]"

definition getIbcInfo :: "string \<Rightarrow> string \<Rightarrow> ibc_info res" where
  "getIbcInfo fromChainId toChainId =
     (case map_of ibcInfos fromChainId of
        None \<Rightarrow> generateError ''Cannot find ibc info''
      | Some infos \<Rightarrow>
          (case map_of infos toChainId of
             None \<Rightarrow> generateError (''Cannot find ibc info from '' @ fromChainId @ '' to '' @ toChainId)
           | Some info \<Rightarrow> Inr info))"

definition buildIbcWasmPairKey :: "string \<Rightarrow> string \<Rightarrow> string \<Rightarrow> string" where
  "buildIbcWasmPairKey ibcPort ibcChannel denom = ibcPort @ ''/'' @ ibcChannel @ ''/'' @ denom"

end
