(* ===== verification/BridgeRoute.thy ===== *)
theory BridgeRoute
  imports EvmRoutes MsgSwap
begin

text \<open>
  The destination of a bridge transaction, from \<open>packages/universal-swap/src/helper.ts\<close>: how it is
  chosen (\<open>getRoute\<close>), the addresses on every chain (\<open>generateAddress\<close>), the memo of a smart route
  (\<open>getRouteV2\<close>), the text \<open>channel/receiver:route\<close> put together (\<open>addOraiBridgeRoute\<close>) and taken apart
  again (\<open>unmarshalOraiBridgeRoute\<close>).
\<close>

section \<open>Taking a destination apart\<close>

definition splitOnce :: "string \<Rightarrow> char \<Rightarrow> string list" where
  "splitOnce s seperator =
     (if seperator \<notin> set s then [s]
      else [takeWhile (\<lambda>c. c \<noteq> seperator) s, tl (dropWhile (\<lambda>c. c \<noteq> seperator) s)])"

record route_data =
  oraiBridgeChannel :: string
  oraiReceiver :: string
  finalDestinationChannel :: string
  finalReceiver :: string
  tokenIdentifier :: string

definition empty_route :: route_data where
  "empty_route = \<lparr>oraiBridgeChannel = [], oraiReceiver = [], finalDestinationChannel = [], finalReceiver = [], tokenIdentifier = []\<rparr>"

definition JSON_strings :: "string list \<Rightarrow> string" where
  "JSON_strings ss = JSON_stringify (JArr (map JStr ss))"

definition unmarshal_first :: "string \<Rightarrow> string \<Rightarrow> route_data res" where
  "unmarshal_first destination first =
     (case js_split (CHR ''/'') first of
        [c, r] \<Rightarrow> Inr (empty_route\<lparr>oraiBridgeChannel := c, oraiReceiver := r\<rparr>)
      | [r] \<Rightarrow> Inr (empty_route\<lparr>oraiReceiver := r\<rparr>)
      | ps \<Rightarrow> generateError (''First destination '' @ JSON_strings ps @ '' of '' @ destination @ '' is malformed''))"

definition unmarshal_final :: "string \<Rightarrow> route_data \<Rightarrow> route_data res" where
  "unmarshal_final s d =
     (case js_split (CHR '':'') s of
        [r] \<Rightarrow> Inr (d\<lparr>finalReceiver := r\<rparr>)
      | [f, t] \<Rightarrow>
          (case js_split (CHR ''/'') f of
             [r] \<Rightarrow> Inr (d\<lparr>tokenIdentifier := t, finalReceiver := r\<rparr>)
           | [c, r] \<Rightarrow> Inr (d\<lparr>tokenIdentifier := t, finalDestinationChannel := c, finalReceiver := r\<rparr>)
           | ps \<Rightarrow> generateError (''splitted final destination data '' @ JSON_strings ps @ '' is malformed''))
      | ps \<Rightarrow> generateError (''Final destination data '' @ JSON_strings ps @ '' is malformed''))"

definition unmarshalOraiBridgeRoute :: "string \<Rightarrow> route_data res" where
  "unmarshalOraiBridgeRoute destination =
     (case splitOnce destination (CHR '':'') of
        [first] \<Rightarrow> unmarshal_first destination first
      | [first, final] \<Rightarrow> rbind (unmarshal_first destination first) (unmarshal_final final)
      | _ \<Rightarrow> generateError (''The destination data is malformed: '' @ destination))"

section \<open>Choosing a route\<close>

record swap_route =
  swapRoute :: string
  universalSwapType :: string
  isSmartRouter :: bool

definition getSourceReceiver :: "ext \<Rightarrow> string \<Rightarrow> string option \<Rightarrow> bool \<Rightarrow> cosmos_chain list \<Rightarrow> string res" where
  "getSourceReceiver X oraiAddress contractAddress isSourceReceiverTest cosmos =
     (if \<not> isValid (checkValidateAddressWithNetwork X oraiAddress ''Oraichain'' cosmos)
      then generateError ''orai Address get source receiver invalid!''
      else Inr (if contractAddress = Some KWT_BSC_CONTRACT \<or> contractAddress = Some MILKY_BSC_CONTRACT then oraiAddress
        else if isSourceReceiverTest then oraib2oraichainTest @ ''/'' @ oraiAddress
        else oraib2oraichain @ ''/'' @ oraiAddress))"

definition route_kind :: "string \<Rightarrow> bool \<Rightarrow> swap_route res" where
  "route_kind t smart = Inr \<lparr>swapRoute = [], universalSwapType = t, isSmartRouter = smart\<rparr>"

definition on_chain :: "string \<Rightarrow> token_item list \<Rightarrow> bool" where
  "on_chain chainId tokens = list_ex (\<lambda>t. t_chainId t = chainId) tokens"

definition getRoute :: "token_item list \<Rightarrow> token_item option \<Rightarrow> token_item option \<Rightarrow> string option \<Rightarrow> swap_route res" where
  "getRoute cosmosTokens fromToken toToken destReceiver =
     (case (fromToken, toToken) of
        (Some f, Some t) \<Rightarrow>
          (if \<not> truthy destReceiver then route_kind ''other-networks-to-oraichain'' False
           else if t_chainId f = ''ton'' then route_kind ''ton-to-others'' True
           else if t_chainId f = ''Oraichain'' \<and> t_chainId t = ''Oraichain''
           then route_kind ''oraichain-to-oraichain'' False
           else if t_chainId f = ''Oraichain''
           then (if t_chainId t = ''ton'' then route_kind ''oraichain-to-ton'' False
                 else if on_chain (t_chainId t) cosmosTokens then route_kind ''oraichain-to-cosmos'' False
                 else route_kind ''oraichain-to-evm'' False)
           else if t_chainId f = ''kawaii_6886-1'' \<or> t_chainId f = ''0x1ae6''
           then Inl (Thrown (''chain id '' @ t_chainId f @ '' is currently not supported in universal swap''))
           else if on_chain (t_chainId f) cosmosTokens then route_kind ''cosmos-to-others'' True
           else if t_chainId t = ''Oraichain''
           then (if t_chainId f = ''0x38'' \<and> t_coinGeckoId f \<in> set [''milky-token'', ''kawaii-islands'']
                 then route_kind ''other-networks-to-oraichain'' False
                 else if \<not> truthy (t_contractAddress f) \<and> \<not> t_cosmosBased f
                 then route_kind ''other-networks-to-oraichain'' False
                 else route_kind ''other-networks-to-oraichain'' True)
           else if t_chainId f \<in> set [''0x38'', ''0x01''] \<and> t_chainId f = t_chainId t
           then route_kind ''other-networks-to-oraichain'' False
           else route_kind ''other-networks-to-oraichain'' True)
      | _ \<Rightarrow> route_kind ''other-networks-to-oraichain'' False)"

section \<open>Addresses\<close>

definition getAddress :: "ext \<Rightarrow> string \<Rightarrow> string option \<Rightarrow> string option \<Rightarrow> nat \<Rightarrow> string res" where
  "getAddress X pfx address60 address118 coinType =
     (if coinType \<noteq> 118 \<and> coinType \<noteq> 60 then Inl (Thrown (''Unsupported coinType: '' @ nat_str coinType))
      else let a = (if coinType = 118 then address118 else address60) in
        if \<not> truthy a then Inl (Thrown (''Address for coinType '' @ nat_str coinType @ '' is not provided''))
        else rbind (fromBech32 X (str_of a)) (\<lambda>data. Inr (toBech32 X pfx data)))"

fun address_loop :: "ext \<Rightarrow> string \<Rightarrow> string option \<Rightarrow> cosmos_chain list \<Rightarrow> (string \<Rightarrow> string option) \<Rightarrow>
    (string \<Rightarrow> string option) res" where
  "address_loop X oraiAddress injAddress [] acc = Inr acc"
| "address_loop X oraiAddress injAddress (cur # cs) acc =
     (if \<not> truthy injAddress \<and> ch_coinType cur = Some 60 then address_loop X oraiAddress injAddress cs acc
      else if \<not> truthy (acc (ch_chainId cur))
      then (case ch_coinType cur of
              None \<Rightarrow> Inl TypeError
            | Some ct \<Rightarrow> rbind (getAddress X (ch_bech32PrefixAccAddr cur) injAddress (Some oraiAddress) ct) (\<lambda>a.
                address_loop X oraiAddress injAddress cs (acc(ch_chainId cur := Some a))))
      else address_loop X oraiAddress injAddress cs acc)"

definition generateAddress :: "ext \<Rightarrow> string \<Rightarrow> string option \<Rightarrow> cosmos_chain list \<Rightarrow> (string \<times> string option) list \<Rightarrow>
    (string \<Rightarrow> string option) res" where
  "generateAddress X oraiAddress injAddress cosmos evmInfo =
     rbind (address_loop X oraiAddress injAddress cosmos
         ((\<lambda>_. None)(''Oraichain'' := Some oraiAddress, ''injective-1'' := injAddress))) (\<lambda>acc.
     Inr (\<lambda>c. case map_of evmInfo c of Some a \<Rightarrow> a | None \<Rightarrow> acc c))"

section \<open>The memo of a smart route\<close>

text \<open>
  \<open>basic\<close> is spread over \<open>minimumReceive\<close>, \<open>recoveryAddr\<close>, \<open>destReceiver\<close> and \<open>remoteAddressObridge\<close>,
  \<open>userSwap\<close> over the routes and the three \<open>dest\<close> arguments. A prefix that is \<open>undefined\<close> is
  concatenated as text.
\<close>

definition getRouteV2 :: "ext \<Rightarrow> string \<Rightarrow> string \<Rightarrow> string option \<Rightarrow> string option \<Rightarrow> router_response option \<Rightarrow>
    string option \<Rightarrow> string \<Rightarrow> string \<Rightarrow> bool \<Rightarrow> string res" where
  "getRouteV2 X minimumReceive recoveryAddr destReceiver remoteAddressObridge userSwap destTokenPrefix destAsset
       destChainId ibcInfoTestMode =
     (let ibcInfoDestChain = (case map_of ibcInfos ''Oraichain'' of None \<Rightarrow> None | Some m \<Rightarrow> map_of m destChainId) in
      rbind (case ibcInfoDestChain of
               None \<Rightarrow> (if ibcInfoTestMode then Inl TypeError else Inr None)
             | Some i \<Rightarrow> Inr (Some (if ibcInfoTestMode
                 then (case ii_testInfo i of None \<Rightarrow> ibc_end.truncate i | Some t \<Rightarrow> t) else ibc_end.truncate i)))
        (\<lambda>ibcInfo.
      let receiverPrefix = (if isEthAddress X (str_of destReceiver) then template destTokenPrefix else []) in
      rbind (if \<not> truthy destReceiver then Inr ([], [], [])
             else if destChainId = ''Oraichain'' then Inr (receiverPrefix @ destAsset, receiverPrefix @ str_of destReceiver, [])
             else case ibcInfo of None \<Rightarrow> Inl TypeError
               | Some i \<Rightarrow> Inr (receiverPrefix @ destAsset, receiverPrefix @ str_of destReceiver, ie_channel i))
        (\<lambda>(dstDenom, finalDestReceiver, dstChannel).
      let destChainIdIsNoble = (destChainId = ''noble-1'');
          useIbcWasm = (isEvmChain destChainId (evmChains X) \<or> destChainIdIsNoble);
          some_end = (finalDestReceiver \<noteq> [] \<and> dstChannel \<noteq> [])
      in buildUniversalSwapMemo X minimumReceive recoveryAddr userSwap
           (if some_end \<and> useIbcWasm
            then Some \<lparr>iw_localChannelId = dstChannel,
              iw_remoteAddress = (if destChainIdIsNoble then finalDestReceiver else str_of remoteAddressObridge),
              iw_remoteDenom = dstDenom, iw_timeout = Some (timeout_ns X),
              iw_memo = Some (if destChainIdIsNoble then [] else finalDestReceiver)\<rparr>
            else None)
           None
           (if some_end \<and> \<not> useIbcWasm
            then Some \<lparr>it_sourceChannel = dstChannel,
              it_sourcePort = (case ibcInfo of None \<Rightarrow> [] | Some i \<Rightarrow> ie_source i),
              it_receiver = finalDestReceiver, it_memo = [], it_recoverAddress = recoveryAddr\<rparr>
            else None)
           (if destChainId = ''Oraichain'' then Some \<lparr>tr_toAddress = recoveryAddr\<rparr> else None))))"

section \<open>The destination of a bridge transaction\<close>

record bridge_addresses =
  sourceReceiver :: "string option"
  ba_injAddress :: "string option"
  ba_destReceiver :: "string option"
  ba_recipientAddress :: "string option"
  ba_evmAddress :: "string option"
  ba_tronAddress :: "string option"
  ba_tonAddress :: "string option"

record swap_option =
  isSourceReceiverTest :: bool
  isIbcWasm :: bool
  ibcInfoTestMode :: bool
  isAlphaIbcWasm :: bool

definition evm_info :: "bridge_addresses \<Rightarrow> token_item \<Rightarrow> (string \<times> string option) list" where
  "evm_info addresses toToken =
     (if t_cosmosBased toToken then []
      else let mapped = (if t_chainId toToken = ''0x2b6653dc'' then ba_tronAddress addresses
                         else if t_chainId toToken = ''ton'' then ba_tonAddress addresses else None)
           in [(t_chainId toToken, if truthy mapped then mapped else ba_evmAddress addresses)])"

definition ibc_wasm_route :: "ext \<Rightarrow> bridge_addresses \<Rightarrow> token_item \<Rightarrow> token_item \<Rightarrow> string \<Rightarrow>
    swap_option \<Rightarrow> router_response option \<Rightarrow> string res" where
  "ibc_wasm_route X addresses fromToken toToken minimumReceive opts alphaSmartRoute =
     (if alphaSmartRoute = None \<and> t_coinGeckoId fromToken \<noteq> t_coinGeckoId toToken then generateError ''Missing router !''
      else rbind (getAddress X ''oraib'' (ba_injAddress addresses) (sourceReceiver addresses) 118) (\<lambda>obridgeAddress.
        getRouteV2 X minimumReceive (str_of (sourceReceiver addresses)) (ba_destReceiver addresses) (Some obridgeAddress)
          alphaSmartRoute (t_prefix toToken) (parseTokenInfoRawDenom toToken) (t_chainId toToken) (ibcInfoTestMode opts)))"

text \<open>
  The branch of the alpha router runs only for a token that is not \<open>cosmosBased\<close>, so \<open>fromTokenIsEvm\<close>
  holds in it. \<open>userSlippage / 100\<close> is a number.
\<close>

definition alpha_route :: "ext \<Rightarrow> bridge_addresses \<Rightarrow> token_item \<Rightarrow> js_num \<Rightarrow> router_response \<Rightarrow> string res" where
  "alpha_route X addresses toToken userSlippage alphaSmartRoute =
     (if 1 < length (rr_routes alphaSmartRoute) then generateError ''Missing router with alpha ibc wasm max length!''
      else let alphaRoutes = rr_routes alphaSmartRoute ! 0 in
        rbind (generateAddress X (str_of (sourceReceiver addresses)) (ba_injAddress addresses) (cosmosChains X)
            (evm_info addresses toToken)) (\<lambda>receiverAddresses.
        case r_paths alphaRoutes of
          [] \<Rightarrow> Inl TypeError
        | p0 # paths \<Rightarrow>
            rbind (generateMemoSwap X (alphaRoutes\<lparr>r_paths := paths\<rparr>) (num_div userSlippage (Fin 100)) receiverAddresses
                (ba_recipientAddress addresses) (Some (p_chainId p0))) (\<lambda>m. Inr (mr_memo m))))"

definition addOraiBridgeRoute :: "ext \<Rightarrow> bridge_addresses \<Rightarrow> token_item \<Rightarrow> token_item \<Rightarrow> string \<Rightarrow> js_num \<Rightarrow>
    token_item list \<Rightarrow> swap_option option \<Rightarrow> router_response option \<Rightarrow> swap_route res" where
  "addOraiBridgeRoute X addresses fromToken toToken minimumReceive userSlippage cosmosTokens swapOption alphaSmartRoute =
     (if \<not> truthy (sourceReceiver addresses)
      then generateError ''Cannot get source if the sourceReceiver is empty!''
      else rbind (getSourceReceiver X (str_of (sourceReceiver addresses)) (t_contractAddress fromToken)
          (case swapOption of None \<Rightarrow> False | Some so \<Rightarrow> isSourceReceiverTest so) (cosmosChains X)) (\<lambda>source.
        rbind (getRoute cosmosTokens (Some fromToken) (Some toToken) (ba_destReceiver addresses)) (\<lambda>r.
        case swapOption of
          None \<Rightarrow> Inl TypeError
        | Some so \<Rightarrow>
            rbind (if isSmartRouter r \<and> isIbcWasm so \<and> \<not> isAlphaIbcWasm so
                   then ibc_wasm_route X addresses fromToken toToken minimumReceive so alphaSmartRoute
                   else Inr (swapRoute r)) (\<lambda>route1.
            rbind (case alphaSmartRoute of
                     None \<Rightarrow> Inr route1
                   | Some a \<Rightarrow>
                       if isAlphaIbcWasm so \<and> rr_routes a \<noteq> [] \<and> \<not> t_cosmosBased fromToken \<and>
                          t_chainId fromToken \<noteq> t_chainId toToken
                       then alpha_route X addresses toToken userSlippage a
                       else Inr route1) (\<lambda>route2.
            Inr \<lparr>swapRoute = (if 0 < length route2 then source @ '':'' @ route2 else source),
                 universalSwapType = universalSwapType r, isSmartRouter = isSmartRouter r\<rparr>)))))"

end
