(* ===== verification/SmartSwap.thy ===== *)
theory SmartSwap
  imports EvmRoutes MsgSwap
begin

text \<open>
  Swaps on Oraichain, from \<open>packages/universal-swap/src/helper.ts\<close>: the pairs that exist
  (\<open>packages/oraidex-common/src/pairs.ts\<close>) and the operations between two assets, the conversions
  between cw20 and bridged tokens, and the messages of a route of the smart router.
\<close>

section \<open>Tokens of Oraichain\<close>

definition AIRI_CONTRACT :: string where "AIRI_CONTRACT = ''orai10ldgzued6zjp0mkqwsv2mux3ml50l97c74x8sg''"

definition ORAIX_CONTRACT :: string where "ORAIX_CONTRACT = ''orai1lus0f0rhx8s03gdllx2n6vhkmf0536dv57wfge''"

definition USDT_CONTRACT :: string where "USDT_CONTRACT = ''orai12hzjxfh77wl572gdzct2fxv2arxcwh6gykc7qh''"

definition USDC_CONTRACT :: string where "USDC_CONTRACT = ''orai15un8msx3n5zf9ahlxmfeqd2kwa5wm0nrpxer304m9nd5q6qq0g6sku5pdd''"

definition KWT_CONTRACT :: string where "KWT_CONTRACT = ''orai1nd4r053e3kgedgld2ymen8l9yrw8xpjyaal7j5''"

definition MILKY_CONTRACT :: string where "MILKY_CONTRACT = ''orai1gzvndtzceqwfymu2kqhta2jn6gmzxvzqwdgvjw''"

definition SCORAI_CONTRACT :: string where "SCORAI_CONTRACT = ''orai1065qe48g7aemju045aeyprflytemx7kecxkf5m7u5h5mphd0qlcs47pclp''"

definition TRX_CONTRACT :: string where "TRX_CONTRACT = ''orai1c7tpjenafvgjtgm9aqwm7afnke6c56hpdms8jc6md40xs3ugd0es5encn0''"

definition SCATOM_CONTRACT :: string where "SCATOM_CONTRACT = ''orai19q4qak2g3cj2xc2y3060t0quzn3gfhzx08rjlrdd3vqxhjtat0cq668phq''"

definition INJECTIVE_CONTRACT :: string where "INJECTIVE_CONTRACT = ''orai19rtmkk6sn4tppvjmp5d5zj6gfsdykrl5rw2euu5gwur3luheuuusesqn49''"

definition WETH_CONTRACT :: string where "WETH_CONTRACT = ''orai1dqa52a7hxxuv8ghe7q5v0s36ra0cthea960q2cukznleqhk0wpnshfegez''"

definition BTC_CONTRACT :: string where "BTC_CONTRACT = ''orai10g6frpysmdgw5tdqke47als6f97aqmr8s3cljsvjce4n5enjftcqtamzsd''"

definition OCH_CONTRACT :: string where "OCH_CONTRACT = ''orai1hn8w33cqvysun2aujk5sv33tku4pgcxhhnsxmvnkfvdxagcx0p8qa4l98q''"

definition ATOM_ORAICHAIN_DENOM :: string where "ATOM_ORAICHAIN_DENOM = ''ibc/A2E2EEC9057A4A1C2C0A6A4C78B0239118DF5F278830F50B4A6BDD7A66506B78''"

definition NEUTARO_ORAICHAIN_DENOM :: string where "NEUTARO_ORAICHAIN_DENOM = ''ibc/576B1D63E401B6A9A071C78A1D1316D016EC9333D2FEB14AD503FAC4B8731CD1''"

definition OSMOSIS_ORAICHAIN_DENOM :: string where "OSMOSIS_ORAICHAIN_DENOM = ''ibc/9C4DCD21B48231D0BC2AC3D1B74A864746B37E4292694C93C617324250D002FC''"

definition MAX_ORAICHAIN_DENOM :: string where "MAX_ORAICHAIN_DENOM = ''factory/orai1wuvhex9xqs3r539mvc6mtm7n20fcj3qr2m0y9khx6n5vtlngfzes3k0rq9/oraim8c9d1nkfuQk9EzGYEUGxqL3MHQYndRw1huVo5h''"

definition ORAI :: string where "ORAI = ''orai''"

definition ORAI_INFO :: asset_info where "ORAI_INFO = NativeToken ORAI"

definition USDC_INFO :: asset_info where "USDC_INFO = AToken USDC_CONTRACT"

definition NEUTARO_INFO :: asset_info where "NEUTARO_INFO = NativeToken NEUTARO_ORAICHAIN_DENOM"

definition PAIRS :: "(asset_info \<times> asset_info) list" where
  "PAIRS =
    [(AToken AIRI_CONTRACT, NativeToken ORAI), (AToken ORAIX_CONTRACT, NativeToken ORAI),
     (AToken SCORAI_CONTRACT, NativeToken ORAI), (NativeToken ORAI, NativeToken ATOM_ORAICHAIN_DENOM),
     (NativeToken ORAI, AToken USDT_CONTRACT), (AToken KWT_CONTRACT, NativeToken ORAI),
     (NativeToken ORAI, NativeToken OSMOSIS_ORAICHAIN_DENOM), (AToken MILKY_CONTRACT, AToken USDT_CONTRACT),
     (NativeToken ORAI, AToken USDC_CONTRACT), (NativeToken ORAI, AToken TRX_CONTRACT),
     (AToken SCATOM_CONTRACT, NativeToken ATOM_ORAICHAIN_DENOM), (AToken INJECTIVE_CONTRACT, NativeToken ORAI),
     (AToken USDC_CONTRACT, AToken ORAIX_CONTRACT), (NativeToken ORAI, AToken WETH_CONTRACT),
     (NativeToken NEUTARO_ORAICHAIN_DENOM, AToken USDC_CONTRACT), (NativeToken ORAI, AToken BTC_CONTRACT),
     (AToken OCH_CONTRACT, NativeToken ORAI), (NativeToken MAX_ORAICHAIN_DENOM, AToken ORAIX_CONTRACT)]"

section \<open>Swap operations\<close>

text \<open>\<open>null\<close> where the token of a pool is not known.\<close>

datatype swap_op =
    OraiSwap "asset_info option" "asset_info option"
  | SwapV3 string string js_num js_num bool

fun op_offer :: "swap_op \<Rightarrow> asset_info option" where
  "op_offer (OraiSwap a b) = a"
| "op_offer (SwapV3 x y f t xy) = None"

fun op_ask :: "swap_op \<Rightarrow> asset_info option" where
  "op_ask (OraiSwap a b) = b"
| "op_ask (SwapV3 x y f t xy) = None"

fun middle_swaps :: "asset_info list \<Rightarrow> swap_op list" where
  "middle_swaps (a # b # rest) = OraiSwap (Some a) (Some b) # middle_swaps (b # rest)"
| "middle_swaps _ = []"

definition generateSwapRoute :: "asset_info \<Rightarrow> asset_info \<Rightarrow> asset_info list \<Rightarrow> swap_op list" where
  "generateSwapRoute offerAsset askAsset swapRoute =
     (if length swapRoute = 0 then [OraiSwap (Some offerAsset) (Some askAsset)]
      else [OraiSwap (Some offerAsset) (Some (swapRoute ! 0))] @ middle_swaps swapRoute @
           [OraiSwap (Some (swapRoute ! (length swapRoute - 1))) (Some askAsset)])"

definition pair_exists :: "asset_info \<Rightarrow> asset_info \<Rightarrow> bool" where
  "pair_exists offerInfo askInfo = list_ex (\<lambda>(a, b). a = offerInfo \<and> b = askInfo \<or> b = offerInfo \<and> a = askInfo) PAIRS"

definition generateSwapOperationMsgs :: "asset_info \<Rightarrow> asset_info \<Rightarrow> swap_op list" where
  "generateSwapOperationMsgs offerInfo askInfo =
     (if pair_exists offerInfo askInfo then generateSwapRoute offerInfo askInfo []
      else if offerInfo = NEUTARO_INFO
      then generateSwapRoute offerInfo askInfo (if askInfo = ORAI_INFO then [USDC_INFO] else [USDC_INFO, ORAI_INFO])
      else if askInfo = NEUTARO_INFO
      then generateSwapRoute offerInfo askInfo (if offerInfo = ORAI_INFO then [USDC_INFO] else [ORAI_INFO, USDC_INFO])
      else generateSwapRoute offerInfo askInfo [ORAI_INFO])"

section \<open>JSON of assets and operations\<close>

fun asset_json :: "asset_info \<Rightarrow> json" where
  "asset_json (AToken a) = JObj [(''token'', JObj [(''contract_addr'', JStr a)])]"
| "asset_json (NativeToken d) = JObj [(''native_token'', JObj [(''denom'', JStr d)])]"

definition asset_opt_json :: "asset_info option \<Rightarrow> json" where
  "asset_opt_json a = (case a of None \<Rightarrow> JNull | Some x \<Rightarrow> asset_json x)"

fun op_json :: "swap_op \<Rightarrow> json" where
  "op_json (OraiSwap a b) = JObj [(''orai_swap'', JObj
     [(''offer_asset_info'', asset_opt_json a), (''ask_asset_info'', asset_opt_json b)])]"
| "op_json (SwapV3 x y fee tick xy) = JObj [(''swap_v3'', JObj
     [(''pool_key'', JObj [(''token_x'', JStr x), (''token_y'', JStr y),
        (''fee_tier'', JObj [(''fee'', JNum fee), (''tick_spacing'', JNum tick)])]),
      (''x_to_y'', JBool xy)])]"

section \<open>Conversions\<close>

datatype convert_type =
    CONVERT_TOKEN token_item string
  | CONVERT_TOKEN_REVERSE token_item string token_item

definition send_json :: "ext \<Rightarrow> string \<Rightarrow> string \<Rightarrow> json \<Rightarrow> json" where
  "send_json X contract amount msg = JObj [(''send'', JObj
     [(''contract'', JStr contract), (''amount'', JStr amount), (''msg'', JStr (toBinary X msg))])]"

fun generateConvertMsgs :: "ext \<Rightarrow> string comparator \<Rightarrow> string \<Rightarrow> convert_type \<Rightarrow> execute_instruction" where
  "generateConvertMsgs X localeCompare converter (CONVERT_TOKEN inputToken inputAmount) =
     (let p = parseTokenInfo inputToken (Some inputAmount) in
      case pt_info p of
        NativeToken _ \<Rightarrow> \<lparr>ei_contractAddress = converter, ei_msg = JObj [(''convert'', JObj [])],
          ei_funds = handleSentFunds localeCompare [pt_fund p]\<rparr>
      | AToken a \<Rightarrow> \<lparr>ei_contractAddress = a,
          ei_msg = send_json X converter inputAmount (JObj [(''convert'', JObj [])]), ei_funds = None\<rparr>)"
| "generateConvertMsgs X localeCompare converter (CONVERT_TOKEN_REVERSE inputToken inputAmount outputToken) =
     (let p = parseTokenInfo inputToken (Some inputAmount);
          out = asset_json (pt_info (parseTokenInfo outputToken (Some ''0''))) in
      case pt_info p of
        NativeToken _ \<Rightarrow> \<lparr>ei_contractAddress = converter,
          ei_msg = JObj [(''convert_reverse'', JObj [(''from_asset'', out)])],
          ei_funds = handleSentFunds localeCompare [pt_fund p]\<rparr>
      | AToken a \<Rightarrow> \<lparr>ei_contractAddress = a,
          ei_msg = send_json X converter inputAmount (JObj [(''convert_reverse'', JObj [(''from'', out)])]),
          ei_funds = None\<rparr>)"

fun convert_erc20_loop :: "ext \<Rightarrow> string comparator \<Rightarrow> string \<Rightarrow> (string \<Rightarrow> token_item option) \<Rightarrow>
    (string \<times> string option) list \<Rightarrow> execute_instruction list res" where
  "convert_erc20_loop X localeCompare converter tokenMap [] = Inr []"
| "convert_erc20_loop X localeCompare converter tokenMap ((denom, amount) # rest) =
     rbind (bigint_of_string (case amount of None \<Rightarrow> ''0'' | Some a \<Rightarrow> a)) (\<lambda>balance.
     if 0 < balance
     then (case tokenMap denom of
             None \<Rightarrow> Inl TypeError
           | Some erc20TokenInfo \<Rightarrow>
               Inr [generateConvertMsgs X localeCompare converter (CONVERT_TOKEN erc20TokenInfo (int_str balance))])
     else convert_erc20_loop X localeCompare converter tokenMap rest)"

definition generateConvertErc20Cw20Message :: "ext \<Rightarrow> string comparator \<Rightarrow> amount_details \<Rightarrow> token_item \<Rightarrow>
    (string \<Rightarrow> token_item option) \<Rightarrow> string \<Rightarrow> execute_instruction list res" where
  "generateConvertErc20Cw20Message X localeCompare amounts tokenInfo tokenMap converter =
     (if t_evmDenoms tokenInfo = None then Inr []
      else convert_erc20_loop X localeCompare converter tokenMap (getSubAmountDetails amounts tokenInfo))"

text \<open>\<open>+amounts[denom]\<close> of a denom that has no balance is \<open>NaN\<close>, which is not at least the amount.\<close>

definition amount_number :: "amount_details \<Rightarrow> string \<Rightarrow> js_num" where
  "amount_number amounts denom = (case map_of amounts denom of None \<Rightarrow> NaN | Some a \<Rightarrow> string_to_num a)"

fun convert_cw20_loop :: "ext \<Rightarrow> string comparator \<Rightarrow> string \<Rightarrow> amount_details \<Rightarrow> token_item \<Rightarrow> coin \<Rightarrow>
    (string \<Rightarrow> token_item option) \<Rightarrow> string list \<Rightarrow> execute_instruction list res" where
  "convert_cw20_loop X localeCompare converter amounts tokenInfo sendCoin tokenMap [] = Inr []"
| "convert_cw20_loop X localeCompare converter amounts tokenInfo sendCoin tokenMap (denom # rest) =
     (if denom \<noteq> c_denom sendCoin
      then convert_cw20_loop X localeCompare converter amounts tokenInfo sendCoin tokenMap rest
      else if num_leq (string_to_num (c_amount sendCoin)) (amount_number amounts (c_denom sendCoin)) then Inr []
      else let balance = map_of amounts (t_denom tokenInfo) in
        if truthy balance
        then (case tokenMap denom of
                None \<Rightarrow> Inl TypeError
              | Some evmToken \<Rightarrow>
                  Inr [generateConvertMsgs X localeCompare converter (CONVERT_TOKEN_REVERSE tokenInfo (str_of balance)
                    (tokenInfo\<lparr>t_denom := t_denom evmToken, t_contractAddress := None, t_decimals := t_decimals evmToken\<rparr>))])
        else convert_cw20_loop X localeCompare converter amounts tokenInfo sendCoin tokenMap rest)"

definition generateConvertCw20Erc20Message :: "ext \<Rightarrow> string comparator \<Rightarrow> amount_details \<Rightarrow> token_item \<Rightarrow> coin \<Rightarrow>
    (string \<Rightarrow> token_item option) \<Rightarrow> string \<Rightarrow> execute_instruction list res" where
  "generateConvertCw20Erc20Message X localeCompare amounts tokenInfo sendCoin tokenMap converter =
     (case t_evmDenoms tokenInfo of None \<Rightarrow> Inr []
      | Some ds \<Rightarrow> convert_cw20_loop X localeCompare converter amounts tokenInfo sendCoin tokenMap ds)"

section \<open>Routes of the smart router\<close>

text \<open>\<open>{ ...action, path, chainId, isLastPath }\<close>\<close>

record flat_route = action +
  fr_path :: nat
  fr_chainId :: string
  fr_isLastPath :: bool

definition or_else :: "'a option \<Rightarrow> 'a option \<Rightarrow> 'a option" where
  "or_else a b = (case a of None \<Rightarrow> b | Some x \<Rightarrow> Some x)"

text \<open>
  \<open>{ ...actionsPath, ...objActionSwap, tokenOutAmount, swapInfo }\<close>: before the first swap
  \<open>objActionSwap\<close> holds the fields of the path, afterwards it is a whole flattened route.
\<close>

definition merge_swap :: "path \<Rightarrow> flat_route option \<Rightarrow> flat_route \<Rightarrow> flat_route res" where
  "merge_swap path objActionSwap actionsPath =
     (case a_swapInfo actionsPath of
        None \<Rightarrow> Inl TypeError
      | Some ss \<Rightarrow> Inr (case objActionSwap of
          None \<Rightarrow> actionsPath\<lparr>a_type := Swap, a_tokenIn := p_tokenIn path, a_tokenOut := p_tokenOut path,
            a_tokenInAmount := p_tokenInAmount path, a_swapInfo := Some ss\<rparr>
        | Some o1 \<Rightarrow> o1\<lparr>a_protocol := or_else (a_protocol o1) (a_protocol actionsPath),
            a_bridgeInfo := or_else (a_bridgeInfo o1) (a_bridgeInfo actionsPath),
            a_tokenOutChainId := or_else (a_tokenOutChainId o1) (a_tokenOutChainId actionsPath),
            a_tokenOutAmount := a_tokenOutAmount actionsPath,
            a_swapInfo := Some ((case a_swapInfo o1 of None \<Rightarrow> [] | Some s \<Rightarrow> s) @ ss)\<rparr>))"

fun flatten_actions :: "path \<Rightarrow> nat \<Rightarrow> bool \<Rightarrow> nat \<Rightarrow> nat \<Rightarrow> action list \<Rightarrow> flat_route option \<Rightarrow> flat_route list \<Rightarrow>
    flat_route list res" where
  "flatten_actions path i isLastPath swaps actionIndex [] objActionSwap out = Inr out"
| "flatten_actions path i isLastPath swaps actionIndex (a # as) objActionSwap out =
     (let actionsPath = action.extend a \<lparr>fr_path = i, fr_chainId = p_chainId path, fr_isLastPath = (isLastPath \<and> as = [])\<rparr> in
      if a_type a = Swap \<and> p_chainId path = ''Oraichain''
      then rbind (merge_swap path objActionSwap actionsPath) (\<lambda>m.
        flatten_actions path i isLastPath swaps (Suc actionIndex) as (Some m)
          (if 1 < swaps \<and> swaps - 1 = actionIndex \<or> swaps = 1 then out @ [m] else out))
      else flatten_actions path i isLastPath swaps (Suc actionIndex) as objActionSwap (out @ [actionsPath]))"

definition flatten_path :: "nat \<Rightarrow> bool \<Rightarrow> path \<Rightarrow> flat_route list res" where
  "flatten_path i isLastPath path =
     flatten_actions path i isLastPath
       (length (filter (\<lambda>a. a_type a = Swap \<and> p_chainId path = ''Oraichain'') (p_actions path))) 0 (p_actions path) None []"

fun flatten_paths :: "nat \<Rightarrow> path list \<Rightarrow> flat_route list res" where
  "flatten_paths i [] = Inr []"
| "flatten_paths i (p # ps) =
     rbind (flatten_path i (ps = []) p) (\<lambda>out. rbind (flatten_paths i ps) (\<lambda>rest. Inr (out @ rest)))"

fun flatten_routes :: "nat \<Rightarrow> route list \<Rightarrow> flat_route list res" where
  "flatten_routes i [] = Inr []"
| "flatten_routes i (r # rs) =
     rbind (flatten_paths i (r_paths r)) (\<lambda>out. rbind (flatten_routes (Suc i) rs) (\<lambda>rest. Inr (out @ rest)))"

definition flattenSmartRouters :: "route list \<Rightarrow> flat_route list res" where
  "flattenSmartRouters routers = flatten_routes 0 routers"

record smart_route_ops =
  so_swapAmount :: string
  so_returnAmount :: string
  so_swapOps :: "swap_op list"

definition nth_str :: "string list \<Rightarrow> nat \<Rightarrow> string option" where
  "nth_str ss n = (if n < length ss then Some (ss ! n) else None)"

fun smart_ops :: "token_item list \<Rightarrow> asset_info option \<Rightarrow> swap_info list \<Rightarrow> swap_op list" where
  "smart_ops cosmosTokens currTokenIn [] = []"
| "smart_ops cosmosTokens currTokenIn (swap # rest) =
     (let ps = js_split (CHR ''-'') (si_poolId swap);
          tokenOut = parseAssetInfoFromContractAddrOrDenom (si_tokenOut swap) cosmosTokens
      in (if truthy (nth_str ps 0) \<and> truthy (nth_str ps 1) \<and> truthy (nth_str ps 2) \<and> truthy (nth_str ps 3)
          then SwapV3 (ps ! 0) (ps ! 1) (string_to_num (ps ! 2)) (string_to_num (ps ! 3)) (ps ! 1 = si_tokenOut swap)
          else OraiSwap currTokenIn tokenOut) # smart_ops cosmosTokens tokenOut rest)"

definition generateMsgsSmartRouterV2withV3 :: "'a action_scheme list \<Rightarrow> asset_info \<Rightarrow> token_item list \<Rightarrow>
    smart_route_ops list res" where
  "generateMsgsSmartRouterV2withV3 routes offerInfo cosmosTokens = rmap (\<lambda>route.
     case a_swapInfo route of
       None \<Rightarrow> Inl TypeError
     | Some ss \<Rightarrow> Inr \<lparr>so_swapAmount = a_tokenInAmount route, so_returnAmount = a_tokenOutAmount route,
         so_swapOps = smart_ops cosmosTokens (Some offerInfo) ss\<rparr>) routes"

text \<open>\<open>Math.trunc(new BigDecimal(returnAmount).mul((100 - userSlippage) / 100).toNumber()).toString()\<close>\<close>

definition smart_minimum :: "string \<Rightarrow> js_num \<Rightarrow> string res" where
  "smart_minimum amount userSlippage =
     rbind (new_BigDecimal (DStr amount) None) (\<lambda>b.
     rbind (bd_mul b (bd_num (num_div (num_sub (Fin 100) userSlippage) (Fin 100)))) (\<lambda>m.
     Inr (num_to_string (math_trunc (bd_toNumber m)))))"

definition opt_json :: "string option \<Rightarrow> json" where
  "opt_json s = (case s of None \<Rightarrow> JUndef | Some t \<Rightarrow> JStr t)"

definition execute_swap_json :: "swap_op list \<Rightarrow> string \<Rightarrow> string option \<Rightarrow> json \<Rightarrow> json" where
  "execute_swap_json ops minimumReceive to affiliates = JObj [(''execute_swap_operations'', JObj
     [(''operations'', JArr (map op_json ops)), (''minimum_receive'', JStr minimumReceive), (''to'', opt_json to),
      (''affiliates'', affiliates)])]"

definition buildSwapMsgsFromSmartRoute :: "ext \<Rightarrow> string comparator \<Rightarrow> smart_route_ops list \<Rightarrow> token_item \<Rightarrow>
    string option \<Rightarrow> string \<Rightarrow> js_num \<Rightarrow> json \<Rightarrow> execute_instruction list res" where
  "buildSwapMsgsFromSmartRoute X localeCompare routes fromTokenOnOrai to routerContract userSlippage affiliates =
     rmap (\<lambda>route. rbind (smart_minimum (so_returnAmount route) userSlippage) (\<lambda>minimumReceive.
       let swapOps = execute_swap_json (so_swapOps route) minimumReceive to affiliates in
       Inr (if \<not> truthy (t_contractAddress fromTokenOnOrai)
         then \<lparr>ei_contractAddress = routerContract, ei_msg = swapOps,
           ei_funds = handleSentFunds localeCompare [pt_fund (parseTokenInfo fromTokenOnOrai (Some (so_swapAmount route)))]\<rparr>
         else \<lparr>ei_contractAddress = str_of (t_contractAddress fromTokenOnOrai),
           ei_msg = send_json X routerContract (so_swapAmount route) swapOps, ei_funds = Some []\<rparr>))) routes"

section \<open>Configuration of the router\<close>

record router_options =
  ro_path :: "string option"
  ro_protocols :: "string list option"
  ro_dontAllowSwapAfter :: "string list option"
  ro_maxSplits :: "js_num option"
  ro_ignoreFee :: "bool option"

record router_config =
  rc_url :: string
  rc_path :: string
  rc_protocols :: "string list"
  rc_dontAllowSwapAfter :: "string list"
  rc_maxSplits :: js_num
  rc_ignoreFee :: bool

definition default :: "'a option \<Rightarrow> 'a \<Rightarrow> 'a" where
  "default o1 d = (case o1 of None \<Rightarrow> d | Some x \<Rightarrow> x)"

definition getRouterConfig :: "router_options option \<Rightarrow> router_config" where
  "getRouterConfig options =
     (let opts = default options \<lparr>ro_path = None, ro_protocols = None, ro_dontAllowSwapAfter = None,
        ro_maxSplits = None, ro_ignoreFee = None\<rparr>
      in \<lparr>rc_url = ''https://osor.oraidex.io'', rc_path = default (ro_path opts) ''/smart-router/alpha-router'',
          rc_protocols = default (ro_protocols opts) [''Oraidex'', ''OraidexV3''],
          rc_dontAllowSwapAfter = default (ro_dontAllowSwapAfter opts) [''Oraidex'', ''OraidexV3''],
          rc_maxSplits = default (ro_maxSplits opts) (Fin 1), rc_ignoreFee = default (ro_ignoreFee opts) False\<rparr>)"

end
