(* ===== verification/SwapLaws.thy ===== *)
theory SwapLaws
  imports BridgeRoute SmartSwap MsgLaws
begin

text \<open>
  What the route helpers promise: EVM routes run between the tokens asked for and reverse with them, a
  destination reads back as it was put together, swap operations form a chain, a flattened route keeps
  its swaps, and the messages of a smart route spend what the route takes.
\<close>

section \<open>EVM routes\<close>

lemmas evm_contracts = ORAI_BSC_CONTRACT_def AIRI_BSC_CONTRACT_def USDT_BSC_CONTRACT_def WRAP_BNB_CONTRACT_def
  USDT_TRON_CONTRACT_def ORAI_ETH_CONTRACT_def USDC_ETH_CONTRACT_def WRAP_ETH_CONTRACT_def USDT_ETH_CONTRACT_def

lemma no_dash [simp]:
  "CHR ''-'' \<notin> set ORAI_BSC_CONTRACT" "CHR ''-'' \<notin> set AIRI_BSC_CONTRACT" "CHR ''-'' \<notin> set USDT_BSC_CONTRACT"
  "CHR ''-'' \<notin> set WRAP_BNB_CONTRACT" "CHR ''-'' \<notin> set USDT_TRON_CONTRACT" "CHR ''-'' \<notin> set ORAI_ETH_CONTRACT"
  "CHR ''-'' \<notin> set USDC_ETH_CONTRACT" "CHR ''-'' \<notin> set WRAP_ETH_CONTRACT" "CHR ''-'' \<notin> set USDT_ETH_CONTRACT"
  by (simp_all add: evm_contracts)

lemma evm_neq [simp]:
  "WRAP_BNB_CONTRACT \<noteq> USDT_BSC_CONTRACT" "WRAP_BNB_CONTRACT \<noteq> ORAI_BSC_CONTRACT" "WRAP_BNB_CONTRACT \<noteq> AIRI_BSC_CONTRACT"
  "WRAP_BNB_CONTRACT \<noteq> USDT_TRON_CONTRACT" "WRAP_BNB_CONTRACT \<noteq> ORAI_ETH_CONTRACT"
  "USDT_BSC_CONTRACT \<noteq> ORAI_BSC_CONTRACT" "USDT_BSC_CONTRACT \<noteq> AIRI_BSC_CONTRACT" "ORAI_BSC_CONTRACT \<noteq> AIRI_BSC_CONTRACT"
  "USDT_BSC_CONTRACT \<noteq> USDT_TRON_CONTRACT" "USDT_BSC_CONTRACT \<noteq> ORAI_ETH_CONTRACT"
  "ORAI_BSC_CONTRACT \<noteq> USDT_TRON_CONTRACT" "ORAI_BSC_CONTRACT \<noteq> ORAI_ETH_CONTRACT"
  "AIRI_BSC_CONTRACT \<noteq> USDT_TRON_CONTRACT" "AIRI_BSC_CONTRACT \<noteq> ORAI_ETH_CONTRACT"
  "USDT_TRON_CONTRACT \<noteq> ORAI_ETH_CONTRACT"
  "WRAP_ETH_CONTRACT \<noteq> USDC_ETH_CONTRACT" "WRAP_ETH_CONTRACT \<noteq> ORAI_ETH_CONTRACT" "WRAP_ETH_CONTRACT \<noteq> USDT_ETH_CONTRACT"
  "USDC_ETH_CONTRACT \<noteq> USDT_ETH_CONTRACT" "USDC_ETH_CONTRACT \<noteq> ORAI_ETH_CONTRACT" "USDT_ETH_CONTRACT \<noteq> ORAI_ETH_CONTRACT"
  by (simp_all add: evm_contracts)

lemmas evm_neq_sym [simp] = evm_neq [symmetric]

lemma one_dash_split:
  assumes "a @ CHR ''-'' # b = x @ CHR ''-'' # y" "CHR ''-'' \<notin> set x" "CHR ''-'' \<notin> set y"
  shows "a = x \<and> b = y"
proof -
  have "count_list (a @ CHR ''-'' # b) (CHR ''-'') = 1" using assms by (simp add: count_list_0_iff)
  then have "CHR ''-'' \<notin> set a" "CHR ''-'' \<notin> set b" by (auto simp: count_list_0_iff)
  then show ?thesis using assms by (metis append_Cons_eq_iff)
qed

definition evm_pair_ok :: "string \<times> string \<times> string list \<Rightarrow> bool" where
  "evm_pair_ok p = (case p of (a, b, r) \<Rightarrow> CHR ''-'' \<notin> set a \<and> CHR ''-'' \<notin> set b \<and> r \<noteq> [])"

lemma evm_pairs_ok: "list_all evm_pair_ok (evm_pairs c)"
  by (simp add: evm_pairs_def evm_pair_ok_def)

lemma evm_lookup:
  assumes "list_all evm_pair_ok ps"
  shows "map_of (map (\<lambda>(a, b, r). (buildSwapRouterKey (Some a) (Some b), r)) ps) (buildSwapRouterKey (Some f) (Some t)) =
    map_of (map (\<lambda>(a, b, r). ((a, b), r)) ps) (f, t)"
  using assms
proof (induction ps)
  case (Cons p ps)
  obtain a b r where p: "p = (a, b, r)" by (cases p)
  have "f @ CHR ''-'' # t = a @ CHR ''-'' # b \<longleftrightarrow> f = a \<and> t = b"
    using one_dash_split [of f t a b] Cons(2) by (auto simp: p evm_pair_ok_def)
  then show ?case using Cons by (auto simp: p buildSwapRouterKey_def template_def)
qed simp

definition evm_table :: "string \<Rightarrow> string \<times> string \<Rightarrow> string list option" where
  "evm_table c = map_of (map (\<lambda>(a, b, r). ((a, b), r)) (evm_pairs c))"

lemma route_lookup: "map_of (swapEvmRoutes c) (buildSwapRouterKey (Some f) (Some t)) = evm_table c (f, t)"
  unfolding swapEvmRoutes_def evm_table_def by (rule evm_lookup [OF evm_pairs_ok])

lemma route_lookup_undefined:
  "map_of (swapEvmRoutes c) (buildSwapRouterKey (Some f) None) = None"
  "map_of (swapEvmRoutes c) (buildSwapRouterKey None (Some f)) = None"
proof -
  have "evm_table c (f, ''undefined'') = None" "evm_table c (''undefined'', f) = None"
    by (simp_all add: evm_table_def evm_pairs_def evm_contracts)
  then show "map_of (swapEvmRoutes c) (buildSwapRouterKey (Some f) None) = None"
    "map_of (swapEvmRoutes c) (buildSwapRouterKey None (Some f)) = None"
    using route_lookup [of c f "''undefined''"] route_lookup [of c "''undefined''" f]
    by (simp_all add: buildSwapRouterKey_def template_def)
qed

lemma evm_table_entry: "evm_table c (f, t) = Some r \<Longrightarrow> (f, t, r) \<in> set (evm_pairs c)"
  by (auto simp: evm_table_def dest!: map_of_SomeD)

lemma evm_pairs_sym:
  "list_all (\<lambda>(a, b, r). list_all (\<lambda>(a', b', r'). a' = b \<and> b' = a \<longrightarrow> r' = rev r) (evm_pairs c)) (evm_pairs c)"
  by (simp add: evm_pairs_def)

lemma evm_pairs_ends:
  "list_all (\<lambda>(a, b, r). b \<noteq> USDT_TRON_CONTRACT \<and> (c = ''0x38'' \<longrightarrow> b \<noteq> ORAI_ETH_CONTRACT) \<longrightarrow> hd r = a \<and> last r = b) (evm_pairs c)"
  by (simp add: evm_pairs_def)

lemma evm_table_sym: "evm_table c (f, t) = Some r \<Longrightarrow> evm_table c (t, f) = Some r' \<Longrightarrow> r' = rev r"
  using evm_pairs_sym [of c] by (fastforce simp: list_all_iff dest!: evm_table_entry)

lemma evm_table_ends:
  "evm_table c (f, t) = Some r \<Longrightarrow> t \<noteq> USDT_TRON_CONTRACT \<Longrightarrow> c = ''0x38'' \<longrightarrow> t \<noteq> ORAI_ETH_CONTRACT \<Longrightarrow>
   hd r = f \<and> last r = t"
  using evm_pairs_ends [of c] by (fastforce simp: list_all_iff dest!: evm_table_entry)

lemma evm_table_not_Nil: "evm_table c (f, t) = Some r \<Longrightarrow> r \<noteq> []"
  using evm_pairs_ok [of c] by (fastforce simp: list_all_iff evm_pair_ok_def dest!: evm_table_entry)

lemma getEvmSwapRoute_table:
  assumes "f \<noteq> []" "t \<noteq> []"
  shows "getEvmSwapRoute X c (Some f) (Some t) =
    (if isEvmNetworkNativeSwapSupported c
     then (case evm_table c (f, t) of Some r \<Rightarrow> Some r | None \<Rightarrow> map_option rev (evm_table c (t, f)))
     else None)"
  using assms by (simp add: getEvmSwapRoute_def route_lookup split: option.split)

text \<open>The contract a token stands for in a route: its own, or the wrapped native token.\<close>

definition token_addr :: "string \<Rightarrow> string option \<Rightarrow> string" where
  "token_addr c a = (if truthy a then str_of a else if c = ''0x01'' then WRAP_ETH_CONTRACT else WRAP_BNB_CONTRACT)"

text \<open>Contracts of another chain that the table lists under the name of a token of this one.\<close>

definition foreign_alias :: "string \<Rightarrow> string option \<Rightarrow> bool" where
  "foreign_alias c a \<longleftrightarrow> a = Some USDT_TRON_CONTRACT \<or> c = ''0x38'' \<and> a = Some ORAI_ETH_CONTRACT"

lemma evm_table_empty: "evm_table c (f, []) = None" "evm_table c ([], f) = None"
  by (simp_all add: evm_table_def evm_pairs_def evm_contracts)

lemma native_lookup:
  "\<not> truthy a \<Longrightarrow> map_of (swapEvmRoutes c) (buildSwapRouterKey (Some f) a) = None"
  "\<not> truthy a \<Longrightarrow> map_of (swapEvmRoutes c) (buildSwapRouterKey a (Some f)) = None"
  by (cases a; simp add: route_lookup_undefined route_lookup evm_table_empty)+

section \<open>Properties of the EVM routes\<close>

text \<open>An EVM route can be travelled both ways: between two contracts the route one way is the other
  one reversed, on every chain and also when there is none.\<close>

theorem evm_route_reversed:
  assumes "f \<noteq> []" "t \<noteq> []"
  shows "getEvmSwapRoute X c (Some t) (Some f) = map_option rev (getEvmSwapRoute X c (Some f) (Some t))"
  unfolding getEvmSwapRoute_table [OF assms] getEvmSwapRoute_table [OF assms(2,1)]
  using evm_table_sym [of c f t] by (auto simp: option.map_comp comp_def split: option.split)

theorem evm_route_reversed_witness:
  "getEvmSwapRoute sample_ext ''0x38'' (Some AIRI_BSC_CONTRACT) (Some USDT_BSC_CONTRACT) =
     Some [AIRI_BSC_CONTRACT, WRAP_BNB_CONTRACT, USDT_BSC_CONTRACT]"
proof -
  have n: "USDT_BSC_CONTRACT \<noteq> []" "AIRI_BSC_CONTRACT \<noteq> []" by (simp_all add: evm_contracts)
  show ?thesis unfolding evm_route_reversed [OF n]
    by (simp add: getEvmSwapRoute_table [OF n] isEvmNetworkNativeSwapSupported_def evm_table_def evm_pairs_def)
qed

text \<open>A route starts at the token swapped from and ends at the token swapped to, where a missing
  contract stands for the wrapped native token of the chain. The two contracts of other chains that
  the table lists (USDT on TRON, ORAI on Ethereum under BSC) are excepted: their routes end in the BSC token.\<close>

theorem evm_route_ends:
  assumes "eth_getAddress X WRAP_ETH_CONTRACT = Some WRAP_ETH_CONTRACT"
    and "eth_getAddress X WRAP_BNB_CONTRACT = Some WRAP_BNB_CONTRACT"
    and "getEvmSwapRoute X c f t = Some r" "\<not> foreign_alias c f" "\<not> foreign_alias c t"
  shows "hd r = token_addr c f \<and> last r = token_addr c t"
proof -
  let ?w = "token_addr c None"
  have c: "isEvmNetworkNativeSwapSupported c" using assms(3) by (auto simp: getEvmSwapRoute_def split: if_splits)
  then have w: "wrapNativeAddr X c = Some ?w" "\<not> foreign_alias c (Some ?w)"
    using assms(1,2) by (auto simp: isEvmNetworkNativeSwapSupported_def wrapNativeAddr_def token_addr_def foreign_alias_def evm_contracts)
  have ends: "hd r' = a \<and> last r' = b" if "evm_table c (a, b) = Some r'" "\<not> foreign_alias c (Some b)" for a b r'
    using evm_table_ends [OF that(1)] that(2) by (auto simp: foreign_alias_def)
  note rev_ends = hd_rev last_rev
  consider (both) a b where "f = Some a" "t = Some b" "a \<noteq> []" "b \<noteq> []"
    | (src) a where "f = Some a" "a \<noteq> []" "\<not> truthy t" | (dst) b where "\<not> truthy f" "t = Some b" "b \<noteq> []"
    using assms(3) by (cases "truthy f"; cases "truthy t") (auto simp: getEvmSwapRoute_def truthy_iff split: if_splits)
  then show ?thesis
  proof cases
    case both
    then show ?thesis using assms(3-5) c ends [of a b] ends [of b a]
      by (auto simp: getEvmSwapRoute_table token_addr_def rev_ends split: option.splits)
  next
    case src
    then have "map_option rev (evm_table c (?w, a)) = Some r"
      using assms(3) c w by (simp add: getEvmSwapRoute_def native_lookup route_lookup)
    then show ?thesis using ends [of ?w a] assms(4) src by (auto simp: token_addr_def rev_ends)
  next
    case dst
    then have "evm_table c (?w, b) = Some r"
      using assms(3) c w by (auto simp: getEvmSwapRoute_def native_lookup route_lookup split: option.splits)
    then show ?thesis using ends [of ?w b] assms(5) dst by (auto simp: token_addr_def)
  qed
qed

theorem evm_route_ends_witness:
  "\<exists>r. getEvmSwapRoute sample_ext ''0x38'' (Some USDT_BSC_CONTRACT) None = Some r \<and> hd r = USDT_BSC_CONTRACT \<and> last r = WRAP_BNB_CONTRACT"
proof -
  have g: "getEvmSwapRoute sample_ext ''0x38'' (Some USDT_BSC_CONTRACT) None = Some [USDT_BSC_CONTRACT, WRAP_BNB_CONTRACT]"
    using route_lookup_undefined [of "''0x38''" USDT_BSC_CONTRACT]
    by (simp add: getEvmSwapRoute_def isEvmNetworkNativeSwapSupported_def wrapNativeAddr_def sample_ext_def starts_with_def
        evm_contracts) (simp add: swapEvmRoutes_def evm_pairs_def evm_contracts buildSwapRouterKey_def template_def)
  have "eth_getAddress sample_ext WRAP_ETH_CONTRACT = Some WRAP_ETH_CONTRACT" "eth_getAddress sample_ext WRAP_BNB_CONTRACT = Some WRAP_BNB_CONTRACT"
    by (simp_all add: sample_ext_def evm_contracts starts_with_def)
  from evm_route_ends [OF this g] g show ?thesis by (simp add: foreign_alias_def token_addr_def evm_contracts)
qed

section \<open>Destinations\<close>

definition plain :: "string \<Rightarrow> bool" where
  "plain s \<longleftrightarrow> CHR '':'' \<notin> set s \<and> CHR ''/'' \<notin> set s"

text \<open>The text a destination is made of.\<close>

definition marshal_first :: "route_data \<Rightarrow> string" where
  "marshal_first d = (if oraiBridgeChannel d = [] then oraiReceiver d else oraiBridgeChannel d @ ''/'' @ oraiReceiver d)"

definition marshal_last :: "route_data \<Rightarrow> string" where
  "marshal_last d = (if finalDestinationChannel d = [] then finalReceiver d else finalDestinationChannel d @ ''/'' @ finalReceiver d)"

definition marshal_final :: "route_data \<Rightarrow> string" where
  "marshal_final d = marshal_last d @ (if tokenIdentifier d = [] then [] else CHR '':'' # tokenIdentifier d)"

definition marshal_route :: "route_data \<Rightarrow> string" where
  "marshal_route d = (if marshal_final d = [] then marshal_first d else marshal_first d @ CHR '':'' # marshal_final d)"

text \<open>
  Without a token identifier the final receiver is everything after the first colon, so it may be a
  memo in base64, slashes included, and there is no final channel.
\<close>

definition route_ok :: "route_data \<Rightarrow> bool" where
  "route_ok d \<longleftrightarrow> plain (oraiBridgeChannel d) \<and> plain (oraiReceiver d) \<and> CHR '':'' \<notin> set (finalReceiver d) \<and>
     (if tokenIdentifier d = [] then finalDestinationChannel d = []
      else plain (finalDestinationChannel d) \<and> plain (finalReceiver d) \<and> CHR '':'' \<notin> set (tokenIdentifier d))"

lemma splitOnce_none: "c \<notin> set s \<Longrightarrow> splitOnce s c = [s]"
  by (simp add: splitOnce_def)

lemma splitOnce_sep: "c \<notin> set a \<Longrightarrow> splitOnce (a @ c # b) c = [a, b]"
proof -
  assume "c \<notin> set a"
  then have "takeWhile (\<lambda>x. x \<noteq> c) a = a" by (auto simp: takeWhile_eq_all_conv)
  then show ?thesis by (simp add: splitOnce_def takeWhile_tail dropWhile_append3)
qed

lemma unmarshal_first_marshal:
  assumes "plain (oraiBridgeChannel d)" "plain (oraiReceiver d)"
  shows "unmarshal_first s (marshal_first d) = Inr (empty_route\<lparr>oraiBridgeChannel := oraiBridgeChannel d, oraiReceiver := oraiReceiver d\<rparr>)"
  using assms by (simp add: unmarshal_first_def marshal_first_def plain_def js_split_none js_split_sep empty_route_def)

lemma unmarshal_final_marshal:
  assumes "route_ok d"
  shows "unmarshal_final (marshal_final d) e = Inr (e\<lparr>finalReceiver := finalReceiver d\<rparr>
    \<lparr>tokenIdentifier := if tokenIdentifier d = [] then tokenIdentifier e else tokenIdentifier d,
     finalDestinationChannel := if finalDestinationChannel d = [] then finalDestinationChannel e else finalDestinationChannel d\<rparr>)"
proof (cases "tokenIdentifier d = []")
  case True
  with assms show ?thesis by (simp add: route_ok_def marshal_final_def marshal_last_def unmarshal_final_def js_split_none)
next
  case False
  have "CHR '':'' \<notin> set (marshal_last d)" using assms False by (auto simp: route_ok_def plain_def marshal_last_def)
  then have "js_split (CHR '':'') (marshal_final d) = [marshal_last d, tokenIdentifier d]"
    using assms False js_split_sep [of "CHR '':''" "marshal_last d" "tokenIdentifier d"]
    by (simp add: marshal_final_def route_ok_def js_split_none)
  moreover have "js_split (CHR ''/'') (marshal_last d) =
      (if finalDestinationChannel d = [] then [finalReceiver d] else [finalDestinationChannel d, finalReceiver d])"
    using assms False by (simp add: route_ok_def plain_def js_split_none js_split_sep marshal_last_def)
  ultimately show ?thesis using False by (simp add: unmarshal_final_def)
qed

lemma marshal_first_no_colon: "plain (oraiBridgeChannel d) \<Longrightarrow> plain (oraiReceiver d) \<Longrightarrow> CHR '':'' \<notin> set (marshal_first d)"
  by (auto simp: marshal_first_def plain_def)

lemma destination_marshal:
  assumes "route_ok d"
  shows "unmarshalOraiBridgeRoute (marshal_route d) = Inr d"
proof -
  note f = unmarshal_first_marshal [of d] marshal_first_no_colon [of d]
  have p: "plain (oraiBridgeChannel d)" "plain (oraiReceiver d)" using assms by (simp_all add: route_ok_def)
  show ?thesis
  proof (cases "marshal_final d = []")
    case True
    then have "finalReceiver d = []" "tokenIdentifier d = []" "finalDestinationChannel d = []"
      by (auto simp: marshal_final_def marshal_last_def split: if_splits)
    with True f p show ?thesis
      by (simp add: marshal_route_def unmarshalOraiBridgeRoute_def splitOnce_none empty_route_def)
  next
    case False
    then show ?thesis using f p unmarshal_final_marshal [OF assms]
      by (simp add: marshal_route_def unmarshalOraiBridgeRoute_def splitOnce_sep empty_route_def)
  qed
qed

text \<open>C16. A destination reads back as it was written: for each of the documented formats
  \<open>[channel/]receiver[:[final-channel/]final-receiver[:token]]\<close>, taking the text apart gives the five parts
  it was put together from.\<close>

theorem destination_roundtrip:
  assumes "route_ok d"
  shows "unmarshalOraiBridgeRoute (marshal_route d) = Inr d"
  using assms by (rule destination_marshal)

theorem destination_roundtrip_witness:
  "unmarshalOraiBridgeRoute ''channel-1/orai1me:channel-15/cosmos1you:atom'' =
    Inr \<lparr>oraiBridgeChannel = ''channel-1'', oraiReceiver = ''orai1me'', finalDestinationChannel = ''channel-15'',
      finalReceiver = ''cosmos1you'', tokenIdentifier = ''atom''\<rparr>"
  using destination_roundtrip [of "\<lparr>oraiBridgeChannel = ''channel-1'', oraiReceiver = ''orai1me'',
      finalDestinationChannel = ''channel-15'', finalReceiver = ''cosmos1you'', tokenIdentifier = ''atom''\<rparr>"]
  by (simp add: route_ok_def plain_def marshal_route_def marshal_first_def marshal_final_def marshal_last_def)

lemma cosmos_regex_plain: "cosmosAddressRegex s \<Longrightarrow> plain s"
proof -
  assume "cosmosAddressRegex s"
  then obtain k where "list_all is_lower_letter (take k s)" "list_all (\<lambda>c. is_digit c \<or> is_lower_letter c) (drop k s)"
    by (auto simp: cosmosAddressRegex_def list_ex_iff)
  moreover have "set s = set (take k s) \<union> set (drop k s)" by (metis append_take_drop_id set_append)
  ultimately have "c \<in> set s \<Longrightarrow> is_digit c \<or> is_lower_letter c" for c by (auto simp: list_all_iff)
  moreover have "\<not> (is_digit c \<or> is_lower_letter c)" if "c = CHR '':'' \<or> c = CHR ''/''" for c
    using that by (auto simp: is_digit_def is_lower_letter_def Let_def)
  ultimately show ?thesis unfolding plain_def by blast
qed

lemma getSourceReceiver_parts:
  assumes "getSourceReceiver X a c t cs = Inr s"
  shows "plain a \<and> (\<exists>ch. plain ch \<and> s = (if ch = [] then a else ch @ ''/'' @ a))"
proof -
  have "isValid (validateAndIdentifyCosmosAddress X a ''Oraichain'' cs)"
    using assms by (auto simp: getSourceReceiver_def checkValidateAddressWithNetwork_def split: if_splits)
  then have "cosmosAddressRegex a" by (auto simp: validateAndIdentifyCosmosAddress_def Let_def split: if_splits)
  moreover have "plain oraib2oraichain" "plain oraib2oraichainTest" "oraib2oraichain \<noteq> []" "oraib2oraichainTest \<noteq> []"
    by (simp_all add: plain_def oraib2oraichain_def oraib2oraichainTest_def)
  moreover have "plain []" by (simp add: plain_def)
  ultimately show ?thesis using assms cosmos_regex_plain
    by (auto simp: getSourceReceiver_def split: if_splits)
qed

text \<open>What \<open>addOraiBridgeRoute\<close> writes, \<open>unmarshalOraiBridgeRoute\<close> reads: the receiver on Oraichain is
  the address the caller gave, whatever the channel, and a memo without a colon (every base64 memo)
  comes back as the final receiver.\<close>

lemma bridge_route_readable:
  assumes "addOraiBridgeRoute X a f t mr us ct so ar = Inr r"
  shows "\<exists>ch memo. swapRoute r = marshal_route \<lparr>oraiBridgeChannel = ch, oraiReceiver = str_of (sourceReceiver a),
      finalDestinationChannel = [], finalReceiver = memo, tokenIdentifier = []\<rparr> \<and>
    (CHR '':'' \<notin> set memo \<longrightarrow> unmarshalOraiBridgeRoute (swapRoute r) = Inr \<lparr>oraiBridgeChannel = ch,
      oraiReceiver = str_of (sourceReceiver a), finalDestinationChannel = [], finalReceiver = memo, tokenIdentifier = []\<rparr>)"
proof -
  obtain o1 where so: "so = Some o1" using assms by (cases so) (auto simp: addOraiBridgeRoute_def rbind_eq_Inr_iff split: if_splits)
  have tr: "truthy (sourceReceiver a)"
    using assms by (cases "truthy (sourceReceiver a)") (auto simp: addOraiBridgeRoute_def)
  have "\<exists>source memo (r0::swap_route). getSourceReceiver X (str_of (sourceReceiver a)) (t_contractAddress f) (isSourceReceiverTest o1) (cosmosChains X) = Inr source \<and>
      r = \<lparr>swapRoute = (if 0 < length memo then source @ '':'' @ memo else source), universalSwapType = universalSwapType r0,
        isSmartRouter = isSmartRouter r0\<rparr>"
    using assms unfolding addOraiBridgeRoute_def so
    by (simp only: tr not_True_eq_False if_False option.case sum.inject) (elim rbindE, intro exI conjI, assumption, erule Inr_inject [THEN sym])
  then obtain source memo where s: "getSourceReceiver X (str_of (sourceReceiver a)) (t_contractAddress f) (isSourceReceiverTest o1) (cosmosChains X) = Inr source"
    and r: "swapRoute r = (if 0 < length memo then source @ '':'' @ memo else source)" by auto
  obtain ch where ch: "plain ch" "source = (if ch = [] then str_of (sourceReceiver a) else ch @ ''/'' @ str_of (sourceReceiver a))"
    using getSourceReceiver_parts [OF s] by blast
  let ?d = "\<lparr>oraiBridgeChannel = ch, oraiReceiver = str_of (sourceReceiver a), finalDestinationChannel = [],
    finalReceiver = memo, tokenIdentifier = []\<rparr>"
  have m: "swapRoute r = marshal_route ?d"
    using r ch by (auto simp: marshal_route_def marshal_first_def marshal_final_def marshal_last_def)
  have "route_ok ?d" if "CHR '':'' \<notin> set memo" using that ch getSourceReceiver_parts [OF s] by (simp add: route_ok_def)
  then have "CHR '':'' \<notin> set memo \<longrightarrow> unmarshalOraiBridgeRoute (swapRoute r) = Inr ?d"
    unfolding m using destination_marshal by blast
  with m show ?thesis by blast
qed

definition sample_token :: "string \<Rightarrow> string option \<Rightarrow> token_item" where
  "sample_token chain contract = \<lparr>t_name = ''T'', t_denom = ''uusdc'', t_chainId = chain, t_coinGeckoId = ''usd-coin'',
     t_contractAddress = contract, t_decimals = 6, t_prefix = None, t_cosmosBased = False, t_evmDenoms = None,
     t_bridgeNetworkIdentifier = None, t_feeCurrencies = None, t_gasAverage = None, t_rpc = []\<rparr>"

definition sample_addresses :: bridge_addresses where
  "sample_addresses = \<lparr>sourceReceiver = Some ''orai1me'', ba_injAddress = None, ba_destReceiver = Some ''orai1me'',
     ba_recipientAddress = None, ba_evmAddress = None, ba_tronAddress = None, ba_tonAddress = None\<rparr>"

lemma orai1me_valid: "isValid (checkValidateAddressWithNetwork sample_ext ''orai1me'' ''Oraichain'' (cosmosChains sample_ext))"
  by (simp add: checkValidateAddressWithNetwork_def validateAndIdentifyCosmosAddress_def cosmosAddressRegex_def
      is_lower_letter_def is_digit_def sample_ext_def)

text \<open>\<open>getRoute\<close> sorts the transfers by where they start: it answers for every pair of tokens except from
  the two Kawaii chains, the types \<open>oraichain-to-*\<close> are exactly the transfers from Oraichain and never use
  the smart router, and \<open>ton-to-others\<close> and \<open>cosmos-to-others\<close> start on TON and on a Cosmos chain and always do.\<close>

theorem route_classified:
  assumes "d \<noteq> []"
  shows "case getRoute ct (Some f) (Some t) (Some d) of
      Inl e \<Rightarrow> t_chainId f = ''kawaii_6886-1'' \<or> t_chainId f = ''0x1ae6''
    | Inr r \<Rightarrow> swapRoute r = [] \<and>
        (starts_with ''oraichain-to-'' (universalSwapType r) \<longleftrightarrow> t_chainId f = ''Oraichain'') \<and>
        (t_chainId f = ''Oraichain'' \<longrightarrow> \<not> isSmartRouter r) \<and>
        (universalSwapType r = ''ton-to-others'' \<longleftrightarrow> t_chainId f = ''ton'') \<and>
        (universalSwapType r = ''cosmos-to-others'' \<longrightarrow> on_chain (t_chainId f) ct \<and> isSmartRouter r)"
  using assms by (simp add: getRoute_def route_kind_def)

theorem route_classified_witness:
  "\<exists>r. getRoute [] (Some (sample_token ''Oraichain'' None)) (Some (sample_token ''ton'' None)) (Some ''EQr'') = Inr r \<and> \<not> isSmartRouter r"
proof -
  have "getRoute [] (Some (sample_token ''Oraichain'' None)) (Some (sample_token ''ton'' None)) (Some ''EQr'') =
      Inr \<lparr>swapRoute = [], universalSwapType = ''oraichain-to-ton'', isSmartRouter = False\<rparr>"
    by (simp add: getRoute_def sample_token_def route_kind_def)
  with route_classified [where d = "''EQr''" and ct = "[]" and f = "sample_token ''Oraichain'' None" and t = "sample_token ''ton'' None"]
  show ?thesis by (simp add: sample_token_def)
qed

section \<open>Addresses\<close>

lemma address_loop_other:
  "address_loop X ad ij cs acc0 = Inr acc \<Longrightarrow> chain \<notin> ch_chainId ` set cs \<Longrightarrow> acc chain = acc0 chain"
  by (induction X ad ij cs acc0 rule: address_loop.induct) (auto simp: rbind_eq_Inr_iff split: if_splits option.splits)

definition address_derived :: "ext \<Rightarrow> string \<Rightarrow> string option \<Rightarrow> cosmos_chain \<Rightarrow> string option \<Rightarrow> bool" where
  "address_derived X ad ij c a \<longleftrightarrow>
     (if ch_coinType c = Some 60 \<and> \<not> truthy ij then a = None
      else \<exists>data. fromBech32 X (if ch_coinType c = Some 60 then str_of ij else ad) = Inr data \<and>
        a = Some (toBech32 X (ch_bech32PrefixAccAddr c) data))"

lemma address_loop_derived:
  "address_loop X ad ij cs acc0 = Inr acc \<Longrightarrow> distinct (map ch_chainId cs) \<Longrightarrow> c \<in> set cs \<Longrightarrow> acc0 (ch_chainId c) = None \<Longrightarrow>
   address_derived X ad ij c (acc (ch_chainId c))"
proof (induction X ad ij cs acc0 rule: address_loop.induct)
  case (2 X ad ij cur cs acc0)
  show ?case
  proof (cases "c = cur")
    case True
    with 2(5) have n: "ch_chainId cur \<notin> ch_chainId ` set cs" by auto
    show ?thesis
      using 2(4,7) True
      by (auto simp: rbind_eq_Inr_iff getAddress_def address_derived_def Let_def split: if_splits option.splits
          dest!: address_loop_other [OF _ n])
  next
    case False
    with 2(5,6) have "c \<in> set cs" "distinct (map ch_chainId cs)" "ch_chainId cur \<notin> ch_chainId ` set cs" by auto
    moreover from this have "ch_chainId c \<noteq> ch_chainId cur" by (metis image_eqI)
    ultimately show ?thesis using 2 by (auto simp: rbind_eq_Inr_iff fun_upd_def split: if_splits option.splits)
  qed
qed simp

text \<open>C17. \<open>generateAddress\<close> gives the user the same account on every Cosmos chain: for each listed chain the
  address is the Oraichain address (the Injective one for coin type 60) re-encoded with the chain's
  prefix; a chain of coin type 60 is left out when there is no Injective address. The entries of Oraichain and
  \<open>injective-1\<close> start as the two addresses given, and those of EVM chains are overwritten at the end: the theorem
  is about the other chains.\<close>

theorem addresses_derived:
  assumes "generateAddress X ad ij cs evm = Inr acc" "distinct (map ch_chainId cs)" "c \<in> set cs"
    and "ch_chainId c \<noteq> ''Oraichain''" "ch_chainId c \<noteq> ''injective-1''" "map_of evm (ch_chainId c) = None"
  shows "if ch_coinType c = Some 60 \<and> \<not> truthy ij then acc (ch_chainId c) = None
    else \<exists>data. fromBech32 X (if ch_coinType c = Some 60 then str_of ij else ad) = Inr data \<and>
      acc (ch_chainId c) = Some (toBech32 X (ch_bech32PrefixAccAddr c) data)"
proof -
  obtain acc1 where a: "address_loop X ad ij cs ((\<lambda>_. None)(''Oraichain'' := Some ad, ''injective-1'' := ij)) = Inr acc1"
    and acc: "acc = (\<lambda>k. case map_of evm k of Some b \<Rightarrow> b | None \<Rightarrow> acc1 k)"
    using assms(1) by (auto simp: generateAddress_def rbind_eq_Inr_iff)
  show ?thesis using address_loop_derived [OF a assms(2,3)] assms(4-6) by (simp add: acc address_derived_def)
qed

theorem addresses_derived_witness:
  "\<exists>acc. generateAddress sample_ext ''orai1me'' None (cosmosChains sample_ext) [] = Inr acc \<and> acc ''noble-1'' = Some ''noble1me''"
proof -
  have cs: "cosmosChains sample_ext = [\<lparr>ch_chainId = ''Oraichain'', ch_bech32PrefixAccAddr = ''orai'', ch_coinType = Some 118\<rparr>,
      \<lparr>ch_chainId = ''noble-1'', ch_bech32PrefixAccAddr = ''noble'', ch_coinType = Some 118\<rparr>]" by (simp add: sample_ext_def)
  have f: "fromBech32 sample_ext ''orai1me'' = Inr (utf8 ''me'')" by (simp add: sample_ext_def)
  obtain acc where a: "generateAddress sample_ext ''orai1me'' None (cosmosChains sample_ext) [] = Inr acc"
    by (simp add: generateAddress_def cs getAddress_def f)
  have "toBech32 sample_ext ''noble'' (utf8 ''me'') = ''noble1me''" by (simp add: sample_ext_def utf8_def utf8_char_def char_of_eq_iff)
  with addresses_derived [OF a _ , of "\<lparr>ch_chainId = ''noble-1'', ch_bech32PrefixAccAddr = ''noble'', ch_coinType = Some 118\<rparr>"] f a
  show ?thesis by (auto simp: cs)
qed

end
