(* ===== verification/SmartLaws.thy ===== *)
theory SmartLaws
  imports SmartSwap TokenLaws
begin

text \<open>
  What the swaps on Oraichain promise: the operations between two assets form a chain, flattening a route
  keeps its swaps, the messages spend the amounts of the route, and the minimum to receive is the exact
  floor as long as it fits a double.
\<close>

section \<open>Rounding\<close>

lemma round_half_even_error: "\<bar>of_int (round_half_even x) - x\<bar> \<le> 1 / 2"
proof -
  have "of_int \<lfloor>x\<rfloor> \<le> x" "x < of_int \<lfloor>x\<rfloor> + 1" by linarith+
  then show ?thesis by (auto simp: round_half_even_def Let_def)
qed

lemma round_half_even_ge: "of_int n \<le> x \<Longrightarrow> n \<le> round_half_even x"
proof -
  assume "of_int n \<le> x"
  then have "n \<le> \<lfloor>x\<rfloor>" by (simp add: le_floor_iff)
  then show ?thesis by (simp add: round_half_even_def Let_def)
qed

lemma dbl_of_pos: "0 < x \<Longrightarrow> dbl_pos x < pow2 1024 \<Longrightarrow> dbl x = Fin (dbl_pos x)"
  by (simp add: dbl_def Let_def)

lemma dbl_pos_scaled:
  assumes "pow2 (-20) \<le> x"
  shows "dbl_pos x = of_int (round_half_even (x / pow2 (log2_floor x - 52))) * pow2 (log2_floor x - 52)"
proof -
  have "0 < x" using assms pow2_pos [of "-20"] by linarith
  then have "pow2 (-20) < pow2 (log2_floor x + 1)" using log2_floor_bounds(2) assms by (meson le_less_trans)
  then have "-20 < log2_floor x + 1" by (simp only: pow2_less_iff)
  then have "max (log2_floor x - 52) (-1074) = log2_floor x - 52" by simp
  then show ?thesis by (simp add: dbl_pos_def Let_def)
qed

lemma dbl_pos_error:
  assumes "pow2 (-20) \<le> x"
  shows "\<bar>dbl_pos x - x\<bar> \<le> x / 2 ^ 53"
proof -
  let ?L = "log2_floor x"
  let ?u = "pow2 (?L - 52)"
  have u: "0 < ?u" by simp
  have x: "0 < x" using assms pow2_pos [of "-20"] by linarith
  have "dbl_pos x - x = (of_int (round_half_even (x / ?u)) - x / ?u) * ?u"
    using u order.strict_implies_not_eq [OF u] by (simp add: dbl_pos_scaled [OF assms] left_diff_distrib)
  then have "\<bar>dbl_pos x - x\<bar> = \<bar>of_int (round_half_even (x / ?u)) - x / ?u\<bar> * ?u"
    using u by (metis abs_mult abs_of_pos)
  also have "\<dots> \<le> 1 / 2 * ?u" by (intro mult_right_mono round_half_even_error) (simp add: less_imp_le)
  also have "\<dots> = pow2 ?L / 2 ^ 53" using pow2_diff [of ?L 52] by (simp add: pow2_def [of 52])
  also have "\<dots> \<le> x / 2 ^ 53" using log2_floor_bounds(1) [OF x] by (intro divide_right_mono) simp_all
  finally show ?thesis .
qed

text \<open>A quotient whose numerator has at most 53 bits is cut at the right integer.\<close>

lemma quotient_gap:
  assumes "0 < (D::nat)"
  shows "(of_nat N / of_nat D :: rat) + 1 / of_nat D \<le> of_nat (N div D) + 1"
proof -
  have "N mod D + 1 \<le> D" using assms by (simp add: Suc_leI)
  then have "N div D * D + (N mod D + 1) \<le> N div D * D + D" by linarith
  then have "N + 1 \<le> (N div D + 1) * D" by (metis add.assoc add_mult_distrib div_mult_mod_eq mult_1)
  then have "of_nat (N + 1) \<le> (of_nat ((N div D + 1) * D) :: rat)" by (simp only: of_nat_le_iff)
  then show ?thesis using assms by (simp add: field_simps)
qed

lemma trunc_dbl:
  assumes "N < 2 ^ 53" "0 < D" "D \<le> 2 ^ 20"
  shows "math_trunc (dbl (of_nat N / of_nat D)) = Fin (of_nat (N div D))"
proof (cases "N = 0")
  case True
  then show ?thesis by (simp add: dbl_def math_trunc_def)
next
  case False
  let ?x = "of_nat N / of_nat D :: rat" and ?f = "of_nat (N div D) :: rat"
  let ?y = "dbl_pos ?x" and ?L = "log2_floor (of_nat N / of_nat D)"
  have N: "(of_nat N :: rat) < 2 ^ 53" using assms(1) by (metis of_nat_less_iff of_nat_numeral of_nat_power)
  have D: "1 \<le> (of_nat D :: rat)" "(of_nat D :: rat) \<le> 2 ^ 20"
    using assms(2,3) by simp (metis assms(3) of_nat_le_iff of_nat_numeral of_nat_power)
  have pos: "0 < ?x" using False assms(2) by simp
  have "(1 :: rat) / 2 ^ 20 \<le> 1 / of_nat D" using D by (intro divide_left_mono) simp_all
  also have "\<dots> \<le> ?x" using False D by (intro divide_right_mono) simp_all
  finally have low: "pow2 (-20) \<le> ?x" by (simp add: pow2_def)
  have fx: "?f \<le> ?x" by (metis of_nat_div_le_of_nat)
  have "?x \<le> of_nat N" using D by (simp add: divide_le_eq mult_le_cancel_left1)
  then have "pow2 ?L < pow2 53" using log2_floor_bounds(1) [OF pos] N by (simp add: pow2_def [of 53])
  then have L: "?L \<le> 52" by (simp only: pow2_less_iff)
  have "(of_int (int (N div D) * 2 ^ nat (52 - ?L)) :: rat) = ?f / pow2 (?L - 52)"
    using L by (cases "?L = 52") (simp_all add: pow2_def)
  also have "\<dots> \<le> ?x / pow2 (?L - 52)" using fx by (intro divide_right_mono) (simp_all add: less_imp_le)
  finally have "int (N div D) * 2 ^ nat (52 - ?L) \<le> round_half_even (?x / pow2 (?L - 52))"
    by (rule round_half_even_ge)
  then have "of_int (int (N div D) * 2 ^ nat (52 - ?L)) \<le> (of_int (round_half_even (?x / pow2 (?L - 52))) :: rat)"
    by (simp only: of_int_le_iff)
  then have "?f / pow2 (?L - 52) \<le> of_int (round_half_even (?x / pow2 (?L - 52)))"
    using \<open>of_int (int (N div D) * 2 ^ nat (52 - ?L)) = ?f / pow2 (?L - 52)\<close> by simp
  then have fy: "?f \<le> ?y" by (simp add: dbl_pos_scaled [OF low] pos_divide_le_eq)
  have "?x / 2 ^ 53 < 1 / of_nat D" using N D by (simp add: field_simps)
  then have yf: "?y < ?f + 1" using dbl_pos_error [OF low] quotient_gap [OF assms(2), of N] by linarith
  have "?f \<le> of_nat N" by simp
  then have "?y < 2 ^ 53 + 1" using yf N by linarith
  also have "\<dots> \<le> pow2 1024" using pow2_le_iff [of 54 1024] by (simp add: pow2_def [of 54])
  finally have "dbl ?x = Fin ?y" by (rule dbl_of_pos [OF pos])
  moreover have "\<lfloor>?y\<rfloor> = int (N div D)" using fy yf by (simp add: floor_eq_iff)
  moreover have "0 \<le> ?y" using fy by (meson of_nat_0_le_iff order_trans)
  ultimately show ?thesis by (simp add: math_trunc_def)
qed

section \<open>Printing integers\<close>

lemma nat_str_shift: "0 < s \<Longrightarrow> nat_str (s * 10 ^ j) = nat_str s @ replicate j (CHR ''0'')"
proof (induction j)
  case (Suc j)
  then have "\<not> s * 10 ^ Suc j < 10" by (simp add: not_less)
  then have "nat_str (s * 10 ^ Suc j) = nat_str (s * 10 ^ j) @ ''0''"
    by (subst nat_str.simps) (simp add: digit_char_eval mult.left_commute [of s 10])
  then show ?case using Suc by (simp add: replicate_append_same)
qed simp

lemma dbl_pos_ge_pow:
  assumes "pow2 (-20) \<le> x"
  shows "pow2 (log2_floor x) \<le> dbl_pos x"
proof -
  have x: "0 < x" using assms pow2_pos [of "-20"] by linarith
  let ?u = "pow2 (log2_floor x - 52)"
  have "of_int (2 ^ 52) = pow2 (log2_floor x) / ?u" using pow2_diff [of "log2_floor x" "log2_floor x - 52"] by (simp add: pow2_def [of 52])
  also have "\<dots> \<le> x / ?u" using log2_floor_bounds(1) [OF x] by (intro divide_right_mono) (simp_all add: less_imp_le)
  finally have "2 ^ 52 \<le> round_half_even (x / ?u)" by (rule round_half_even_ge)
  then have "(of_int (2 ^ 52) :: rat) \<le> of_int (round_half_even (x / ?u))" by (simp only: of_int_le_iff)
  then have "of_int (2 ^ 52) * ?u \<le> of_int (round_half_even (x / ?u)) * ?u" by (intro mult_right_mono) (simp_all add: less_imp_le)
  then show ?thesis using pow2_add [of 52 "log2_floor x - 52"] by (simp add: dbl_pos_scaled [OF assms] pow2_def [of 52])
qed

text \<open>Rounding never makes a different integer into one below \<open>2^53\<close>.\<close>

lemma dbl_nat_inj:
  assumes "0 < m" "dbl (of_nat m) = Fin (of_nat n)" "n < 2 ^ 53"
  shows "m = n"
proof (cases "m < 2 ^ 53")
  case True
  then have "Fin (of_nat m) = Fin (of_nat n)" using dbl_nat_exact [OF assms(1)] assms(2) by simp
  then show ?thesis by simp
next
  case False
  let ?x = "of_nat m :: rat"
  have x: "2 ^ 53 \<le> ?x" using False by (metis not_less of_nat_le_iff of_nat_numeral of_nat_power)
  then have x20: "pow2 (-20) \<le> ?x" by (simp add: pow2_def)
  have "pow2 53 < pow2 (log2_floor ?x + 1)" using log2_floor_bounds(2) [of ?x] x by (simp add: pow2_def [of 53])
  then have "pow2 53 \<le> pow2 (log2_floor ?x)" by (simp only: pow2_less_iff pow2_le_iff)
  then have y: "2 ^ 53 \<le> dbl_pos ?x" using dbl_pos_ge_pow [OF x20] by (simp add: pow2_def [of 53])
  have "dbl ?x = PInf \<or> dbl ?x = Fin (dbl_pos ?x)" using assms(1) by (simp add: dbl_def Let_def)
  then have "dbl_pos ?x = of_nat n" using assms(2) by auto
  moreover have "(of_nat n :: rat) < 2 ^ 53" using assms(3) by (metis of_nat_less_iff of_nat_numeral of_nat_power)
  ultimately show ?thesis using y by simp
qed

lemma shortest_nat:
  fixes n :: nat
  defines "N \<equiv> length (nat_str n)"
  assumes n: "0 < n" "n < 2 ^ 53" and k: "0 < k" "k \<le> N" "N \<le> k + f"
  shows "\<exists>s j. shortest f (int k) (of_nat n) (int N) = (int s, int N) \<and> n = s * 10 ^ j"
  using k
proof (induction f arbitrary: k)
  case 0
  then have "k = N" by simp
  then have "shortest 0 (int k) (of_nat n) (int N) = (int n, int N)"
    using round_half_even_int [of "of_nat n" "int n"] by (simp add: pow10_def)
  then show ?case by (intro exI [of _ n] exI [of _ 0]) simp
next
  case (Suc f)
  let ?q = "(of_nat n :: rat) / pow10 (int N - int k)"
  define s where "s = nat (round_half_even ?q)"
  have p: "pow10 (int N - int k) = of_nat (10 ^ (N - k))" using Suc(3) by (simp add: pow10_def nat_diff_distrib flip: of_nat_diff)
  have "0 \<le> round_half_even ?q" by (rule round_half_even_ge) (simp add: p)
  then have s: "round_half_even ?q = int s" by (simp add: s_def)
  have t: "of_int (int s) * pow10 (int N - int k) = (of_nat (s * 10 ^ (N - k)) :: rat)" by (simp add: p)
  show ?case
  proof (cases "dbl (of_nat (s * 10 ^ (N - k))) = Fin (of_nat n)")
    case True
    have "0 < s" using True n by (cases "s = 0") (simp_all add: dbl_def)
    then have eq: "s * 10 ^ (N - k) = n" using dbl_nat_inj [OF _ True n(2)] by simp
    have "int s \<noteq> 10 ^ nat (int k)"
    proof
      assume "int s = 10 ^ nat (int k)"
      then have "int s = int (10 ^ k)" by simp
      then have "s = 10 ^ k" by (simp only: of_nat_eq_iff)
      then have "n = 10 ^ N" using eq Suc(3) by (simp flip: power_add)
      moreover have "n < 10 ^ N" unfolding N_def by (rule nat_str_length_upper)
      ultimately show False by simp
    qed
    then have "shortest (Suc f) (int k) (of_nat n) (int N) = (int s, int N)"
      using True s t by (simp add: Let_def del: of_nat_mult of_int_of_nat_eq)
    with eq show ?thesis by metis
  next
    case False
    have "k \<noteq> N"
    proof
      assume "k = N"
      then have "s = n" using round_half_even_int [of "of_nat n" "int n"] by (simp add: s_def pow10_def)
      then show False using False dbl_nat_exact [OF n] \<open>k = N\<close> by simp
    qed
    then have "\<exists>s j. shortest f (int (Suc k)) (of_nat n) (int N) = (int s, int N) \<and> n = s * 10 ^ j"
      using Suc by (intro Suc.IH) simp_all
    moreover have "shortest (Suc f) (int k) (of_nat n) (int N) = shortest f (int (Suc k)) (of_nat n) (int N)"
      using False s t by (simp add: Let_def add.commute del: of_nat_mult of_int_of_nat_eq)
    ultimately show ?thesis by simp
  qed
qed

lemma num_to_string_nat:
  assumes "n < 2 ^ 53"
  shows "num_to_string (Fin (of_nat n)) = nat_str n"
proof (cases "n = 0")
  case True
  then show ?thesis by (simp add: nat_str.simps [of 0] digit_char_eval)
next
  case False
  let ?N = "length (nat_str n)"
  have "10 ^ (?N - 1) \<le> n" using False nat_str_length_lower [of n] by simp
  also have "\<dots> < 10 ^ 16" using assms by simp
  finally have "?N - 1 < 16" using power_less_imp_less_exp [of 10 "?N - 1" 16] by simp
  moreover have "0 < ?N" by simp
  ultimately have N: "0 < ?N" "?N \<le> 16" by linarith+
  obtain s j where sj: "shortest 17 1 (of_nat n) (int ?N) = (int s, int ?N)" "n = s * 10 ^ j"
    using shortest_nat [of n 1 17] False assms N by auto
  then have "0 < s" using False by (cases s) auto
  then have z: "nat_str n = nat_str s @ replicate j (CHR ''0'')" by (simp add: sj(2) nat_str_shift)
  have "exp10 (of_nat n) = int ?N" using False by (simp add: exp10_def)
  then have "pos_to_string (of_nat n) = format_digits (nat_str s) (int ?N)" using sj(1) by (simp add: pos_to_string_def)
  also have "\<dots> = nat_str n" using z N by (simp add: format_digits_def Let_def)
  finally show ?thesis using False by simp
qed

section \<open>The minimum to receive\<close>

lemma bd_toNumber_val:
  assumes "0 < dec b" "0 \<le> bigInt b"
  shows "bd_toNumber b = dbl (bd_val b)"
proof -
  let ?f = "strip_zeros (frac_part b)"
  have dig: "list_all is_digit (int_part b)" "list_all is_digit ?f"
    using parts_digits [of b] strip_zeros_subset [of "frac_part b"] by (auto simp: list_all_iff)
  have "bd_toString b = decimal_text (int_part b) ?f"
    using assms by (simp add: bd_toString_eq decimal_text_def sign_part_def)
  then have "bd_toNumber b = dbl (of_nat (str_nat (int_part b @ ?f)) / 10 ^ length ?f)"
    using string_to_num_decimal [OF dig(1) _ dig(2)] by (simp add: bd_toNumber_def)
  also have "(of_nat (str_nat (int_part b @ ?f)) / 10 ^ length ?f :: rat) = bd_val b"
    using stripped_value [of b] assms(2) by (simp add: bd_val_def)
  finally show ?thesis .
qed

lemma bd_toNumber_dbl:
  assumes "0 < dec b"
  shows "bd_toNumber b = dbl (bd_val b)"
proof (cases "bigInt b < 0")
  case True
  let ?f = "strip_zeros (frac_part b)"
  have dig: "list_all is_digit (int_part b)" "list_all is_digit ?f"
    using parts_digits [of b] strip_zeros_subset [of "frac_part b"] by (auto simp: list_all_iff)
  have "bd_toString b = CHR ''-'' # decimal_text (int_part b) ?f"
    using assms True by (simp add: bd_toString_eq decimal_text_def sign_part_def)
  then have "bd_toNumber b = dbl (- (of_nat (str_nat (int_part b @ ?f)) / 10 ^ length ?f))"
    using string_to_num_neg_decimal [OF dig(1) _ dig(2)] by (simp add: bd_toNumber_def)
  also have "- (of_nat (str_nat (int_part b @ ?f)) / 10 ^ length ?f :: rat) = bd_val b"
    using stripped_value [of b] True by (simp add: bd_val_def)
  finally show ?thesis .
qed (use bd_toNumber_val assms in simp)

lemma bd_of_ratio_6:
  assumes "list_all is_digit i" "i \<noteq> []" "list_all is_digit f" "length f \<le> 6"
  shows "bd_of_text (decimal_text i f) (Some 6) = Inr \<lparr>bigInt = int (str_nat (i @ f) * 10 ^ (6 - length f)), dec = 6\<rparr>"
proof -
  have sp: "js_split (CHR ''.'') (decimal_text i f) = i # (if f = [] then [] else [f])"
    using bd_of_text_parts [OF digits_no_dot [OF assms(1)] digits_no_dot [OF assms(3)]] by (simp add: decimal_text_def)
  have "str_nat (i @ f @ replicate (6 - length f) (CHR ''0'')) = str_nat (i @ f) * 10 ^ (6 - length f)"
    unfolding append_assoc [symmetric] by (subst str_nat_append) simp
  then have "bigint_of_string (i @ f @ replicate (6 - length f) (CHR ''0'')) = Inr (int (str_nat (i @ f) * 10 ^ (6 - length f)))"
    using assms by (subst bigint_of_digits) simp_all
  then show ?thesis
    using bd_of_text_narrow [OF sp, of "Some 6"] assms(4) by (simp add: default_decimals_def js_pad_end_def)
qed

lemma bd_of_amount: "new_BigDecimal (DStr (nat_str n)) None = Inr \<lparr>bigInt = int (n * 10 ^ 6), dec = 6\<rparr>"
  using bd_of_decimal [of "nat_str n" "[]"] nat_str_digits [of n]
  by (simp add: new_BigDecimal_def decimal_text_def)

lemma mul_ratio:
  assumes "num_to_string r = decimal_text i f" "list_all is_digit i" "i \<noteq> []" "list_all is_digit f" "length f \<le> 6"
  shows "bd_mul \<lparr>bigInt = int (n * 10 ^ 6), dec = 6\<rparr> (bd_num r) =
    Inr \<lparr>bigInt = int (n * (str_nat (i @ f) * 10 ^ (6 - length f))), dec = 6\<rparr>"
proof -
  have "(int (n * 10 ^ 6) * int m) sdiv 10 ^ 6 = int (n * m)" for m
    by (subst sdiv_pos) (simp_all add: mult.assoc [symmetric])
  then show ?thesis
    using bd_of_ratio_6 [OF assms(2-5)]
    by (simp add: bd_mul_def imul_def processDecimal_def new_BigDecimal_def bigint_div_def bd_num_def assms(1)
        del: of_nat_mult of_nat_power)
qed

lemma smart_minimum_text:
  assumes "num_to_string (num_div (num_sub (Fin 100) userSlippage) (Fin 100)) = decimal_text i f"
    and "list_all is_digit i" "i \<noteq> []" "list_all is_digit f" "length f \<le> 6" "n * str_nat (i @ f) < 2 ^ 53"
  shows "smart_minimum (nat_str n) userSlippage =
    Inr (nat_str (n * str_nat (i @ f) div 10 ^ length f))"
proof -
  let ?N = "n * str_nat (i @ f)" and ?k = "6 - length f"
  let ?b = "\<lparr>bigInt = int (n * (str_nat (i @ f) * 10 ^ ?k)), dec = 6\<rparr>"
  have "(10::nat) ^ length f \<le> 10 ^ 6" using assms(5) by (intro power_increasing) simp_all
  then have D: "(10::nat) ^ length f \<le> 2 ^ 20" by simp
  have e: "(10::rat) ^ 6 = 10 ^ ?k * 10 ^ length f" using assms(5) by (simp flip: power_add)
  have "bd_val ?b = of_nat ?N * 10 ^ ?k / (10 ^ ?k * 10 ^ length f)" unfolding bd_val_def e [symmetric] by simp
  then have v: "bd_val ?b = of_nat ?N / of_nat (10 ^ length f)" by simp
  have "bd_toNumber ?b = dbl (of_nat ?N / of_nat (10 ^ length f))" unfolding v [symmetric] by (rule bd_toNumber_val) simp_all
  then have "math_trunc (bd_toNumber ?b) = Fin (of_nat (?N div 10 ^ length f))"
    using trunc_dbl [OF assms(6) _ D] by simp
  moreover have "?N div 10 ^ length f < 2 ^ 53" using assms(6) by (rule le_less_trans [OF div_le_dividend])
  ultimately show ?thesis using mul_ratio [OF assms(1-5), of n] num_to_string_nat [of "?N div 10 ^ length f"]
    by (simp add: smart_minimum_def bd_of_amount del: of_nat_mult of_nat_power)
qed

lemma half_minimum_text:
  "num_to_string (num_div (num_sub (Fin 100) (Fin 50)) (Fin 100)) = decimal_text ''0'' ''5''"
proof -
  have "dbl (1 / 2) = Fin (1 / 2)" "dbl 50 = Fin 50" using dbl_half_power [of 1 1] dbl_nat_exact [of 50] by simp_all
  then show ?thesis using half_to_string by (simp add: num_sub_def num_div_def decimal_text_def)
qed

text \<open>The minimum a smart swap asks for is the exact floor of the returned amount times the printed
  \<open>(100 - slippage) / 100\<close>, although it goes through a double: as long as the product, in units of the last
  printed decimal, has at most 53 bits, the rounding to a double never reaches the next integer.\<close>

theorem smart_minimum_floor:
  assumes "num_to_string (num_div (num_sub (Fin 100) userSlippage) (Fin 100)) = decimal_text i f"
    and "list_all is_digit i" "i \<noteq> []" "list_all is_digit f" "length f \<le> 6" "n * str_nat (i @ f) < 2 ^ 53"
  shows "smart_minimum (nat_str n) userSlippage =
    Inr (nat_str (n * str_nat (i @ f) div 10 ^ length f))"
  by (rule smart_minimum_text [OF assms])

theorem smart_minimum_floor_witness: "smart_minimum ''7'' (Fin 50) = Inr ''3''"
  using smart_minimum_floor [OF half_minimum_text, of 7] by (simp add: js_eval)

lemma zero_slippage_text:
  "num_to_string (num_div (num_sub (Fin 100) (Fin 0)) (Fin 100)) = decimal_text ''1'' []"
proof -
  have "dbl 100 = Fin 100" "dbl 1 = Fin 1" using dbl_pow10 [of 2] dbl_pow10 [of 0] by simp_all
  then show ?thesis
    using pow10_to_string [of 0] nat_str_pow10 [of 0] by (simp add: num_sub_def num_div_def num_pow10_def pow10_def decimal_text_def)
qed

text \<open>From \<open>10^21\<close> base units on (a thousand tokens of 18 decimals) the minimum is no longer an integer
  numeral: \<open>Number.prototype.toString\<close> writes it with an exponent, which a contract's \<open>Uint128\<close> does not read.\<close>

theorem smart_minimum_exponent:
  "smart_minimum (nat_str (10 ^ 21)) (Fin 0) = Inr ''1e+21''"
proof -
  let ?b = "\<lparr>bigInt = int (10 ^ 21 * (1 * 10 ^ 6)), dec = 6\<rparr>"
  have "bd_val ?b = 10 ^ 21" by (simp add: bd_val_def)
  moreover have "bd_toNumber ?b = dbl (bd_val ?b)" by (rule bd_toNumber_val) simp_all
  ultimately have "bd_toNumber ?b = Fin (10 ^ 21)" using dbl_pow10 [of 21] by simp
  moreover have "\<lfloor>10 ^ 21 :: rat\<rfloor> = 10 ^ 21" by (simp add: floor_eq_iff)
  ultimately have t: "math_trunc (bd_toNumber ?b) = Fin (10 ^ 21)" by (simp add: math_trunc_def)
  have "pos_to_string (10 ^ 21) = ''1e+21''"
    using shortest_pow10 [of 21] nat_str_pow10 [of 0]
    by (simp only: pos_to_string_def) (simp add: format_digits_def Let_def nat_str.simps [of 21] nat_str.simps [of 2] digit_char_eval)
  then have "num_to_string (Fin (10 ^ 21)) = ''1e+21''" by simp
  moreover have "str_nat ''1'' = 1" by (simp add: js_eval)
  ultimately show ?thesis using mul_ratio [OF zero_slippage_text, of "10 ^ 21"] t
    by (simp add: smart_minimum_def bd_of_amount is_digit_def del: of_nat_mult of_nat_power power_numeral)
qed

section \<open>The minimum of a direct swap\<close>

lemma div_base_units:
  assumes "0 < e"
  shows "bd_div \<lparr>bigInt = int m, dec = e\<rparr> (DBig (10 ^ d)) = Inr \<lparr>bigInt = int (m div 10 ^ d), dec = e\<rparr>"
proof -
  have "(int m * 10 ^ e) sdiv (10 ^ d * 10 ^ e) = int (m div 10 ^ d)"
    by (subst sdiv_pos) (simp_all add: zdiv_int)
  then show ?thesis
    using assms by (simp add: bd_div_def idiv_def processDecimal_def new_BigDecimal_def bigint_div_def default_decimals_def)
qed

lemma mul_text_amount:
  "bd_mul \<lparr>bigInt = int p, dec = 6\<rparr> (DStr (nat_str n)) = Inr \<lparr>bigInt = int (p * n), dec = 6\<rparr>"
proof -
  have "(int p * int (n * 10 ^ 6)) sdiv 10 ^ 6 = int (p * n)"
    by (subst sdiv_pos) simp_all
  then show ?thesis
    by (simp add: bd_mul_def imul_def processDecimal_def new_BigDecimal_def bigint_div_def bd_of_nat_text)
qed

lemma mul_ratio_floor:
  assumes "num_to_string r = decimal_text i f" "list_all is_digit i" "i \<noteq> []" "list_all is_digit f" "length f \<le> 6"
  shows "bd_mul \<lparr>bigInt = int m, dec = 6\<rparr> (bd_num r) = Inr \<lparr>bigInt = int (m * str_nat (i @ f) div 10 ^ length f), dec = 6\<rparr>"
proof -
  let ?k = "6 - length f"
  have e: "(10::nat) ^ 6 = 10 ^ ?k * 10 ^ length f" using assms(5) by (simp flip: power_add)
  have "m * (str_nat (i @ f) * 10 ^ ?k) = 10 ^ ?k * (m * str_nat (i @ f))" by simp
  then have "m * (str_nat (i @ f) * 10 ^ ?k) div 10 ^ 6 = m * str_nat (i @ f) div 10 ^ length f"
    unfolding e by (simp only: div_mult_mult1 [of "10 ^ ?k :: nat"] power_not_zero zero_neq_numeral not_False_eq_True)
  moreover have "(int m * int (str_nat (i @ f) * 10 ^ ?k)) sdiv 10 ^ 6 = int (m * (str_nat (i @ f) * 10 ^ ?k) div 10 ^ 6)"
    by (subst sdiv_pos) (simp_all add: zdiv_int)
  ultimately show ?thesis
    using bd_of_ratio_6 [OF assms(2-5)]
    by (simp add: bd_mul_def imul_def processDecimal_def new_BigDecimal_def bigint_div_def bd_num_def assms(1)
        del: of_nat_mult of_nat_power)
qed

lemma six_text:
  assumes "n < 2 ^ 53"
  shows "num_to_string (math_trunc (bd_toNumber \<lparr>bigInt = int n, dec = 6\<rparr>)) = nat_str (n div 10 ^ 6)"
proof -
  have v: "bd_val \<lparr>bigInt = int n, dec = 6\<rparr> = of_nat n / of_nat (10 ^ 6)" by (simp add: bd_val_def)
  have "bd_toNumber \<lparr>bigInt = int n, dec = 6\<rparr> = dbl (of_nat n / of_nat (10 ^ 6))"
    unfolding v [symmetric] by (rule bd_toNumber_dbl) simp
  then have "math_trunc (bd_toNumber \<lparr>bigInt = int n, dec = 6\<rparr>) = Fin (of_nat (n div 10 ^ 6))"
    using trunc_dbl [OF assms, of "10 ^ 6"] by simp
  moreover have "n div 10 ^ 6 < 2 ^ 53" using assms by (rule le_less_trans [OF div_le_dividend])
  ultimately show ?thesis using num_to_string_nat by simp
qed

lemma min_receive_text:
  assumes "list_all is_digit pw" "pw \<noteq> []" "list_all is_digit pf" "length pf \<le> 6"
    and "num_to_string (num_div (num_sub (Fin 100) s) (Fin 100)) = decimal_text i f"
    and "list_all is_digit i" "i \<noteq> []" "list_all is_digit f" "length f \<le> 6"
    and "str_nat (pw @ pf) * n * str_nat (i @ f) * 10 ^ 6 div 10 ^ (length pf + length f + d) < 2 ^ 53"
  shows "calculateMinReceive (decimal_text pw pf) (nat_str n) s d =
    Inr (nat_str (str_nat (pw @ pf) * n * str_nat (i @ f) div 10 ^ (length pf + length f + d)))"
proof -
  let ?p = "str_nat (pw @ pf)" and ?r = "str_nat (i @ f)" and ?j = "6 - length pf"
  let ?m = "?p * 10 ^ ?j * n"
  let ?c = "?m * ?r div 10 ^ length f" and ?N = "?m * ?r div 10 ^ length f div 10 ^ d"
  have e: "(10::nat) ^ 6 = 10 ^ ?j * 10 ^ length pf" using assms(4) by (simp flip: power_add)
  have p: "new_BigDecimal (DStr (decimal_text pw pf)) None = Inr \<lparr>bigInt = int (?p * 10 ^ ?j), dec = 6\<rparr>"
    using bd_of_decimal [OF assms(1-3)] assms(4) by (simp add: new_BigDecimal_def)
  have N: "?N = ?p * n * ?r * 10 ^ ?j div 10 ^ (length f + d)" by (simp add: div_mult2_eq [symmetric] power_add mult_ac)
  have g: "A * 10 ^ ?j div 10 ^ (length f + d) div 10 ^ k = A * 10 ^ ?j div 10 ^ (length f + d + k)" for A k :: nat
    by (simp add: div_mult2_eq [symmetric] power_add mult_ac)
  have t: "A * 10 ^ ?j div (10 ^ ?j * B) = A div B" for A B :: nat by (simp add: mult.commute)
  have six: "A * 10 ^ 6 div 10 ^ (length pf + length f + d) = A * 10 ^ ?j div 10 ^ (length f + d)" for A :: nat
  proof -
    have "A * 10 ^ 6 = 10 ^ length pf * (A * 10 ^ ?j)" unfolding e by simp
    moreover have "(10::nat) ^ (length pf + length f + d) = 10 ^ length pf * 10 ^ (length f + d)" by (simp add: power_add)
    ultimately show ?thesis by (simp only: div_mult_mult1 [of "10 ^ length pf :: nat"] power_not_zero zero_neq_numeral not_False_eq_True)
  qed
  have small: "?N < 2 ^ 53" using assms(10) unfolding N six by simp
  have "?N div 10 ^ 6 = ?p * n * ?r * 10 ^ ?j div 10 ^ (length f + d + 6)" unfolding N g ..
  also have "(10::nat) ^ (length f + d + 6) = 10 ^ ?j * 10 ^ (length pf + length f + d)"
    using assms(4) by (simp flip: power_add)
  finally have fl: "?N div 10 ^ 6 = ?p * n * ?r div 10 ^ (length pf + length f + d)" unfolding t .
  have "calculateMinReceive (decimal_text pw pf) (nat_str n) s d =
      Inr (num_to_string (math_trunc (bd_toNumber \<lparr>bigInt = int ?N, dec = 6\<rparr>)))"
    by (simp add: calculateMinReceive_def p mul_text_amount mul_ratio_floor [OF assms(5-9)] div_base_units
        del: of_nat_mult of_nat_power)
  then show ?thesis unfolding six_text [OF small] fl .
qed

text \<open>The minimum a direct swap asks for is the exact floor of price times amount times the printed
  \<open>(100 - slippage) / 100\<close> in whole units of the token, over the three roundings of the decimals and the double,
  as long as it is below \<open>2^53\<close> millionths.\<close>

lemma direct_minimum_floor:
  assumes "list_all is_digit pw" "pw \<noteq> []" "list_all is_digit pf" "length pf \<le> 6"
    and "num_to_string (num_div (num_sub (Fin 100) s) (Fin 100)) = decimal_text i f"
    and "list_all is_digit i" "i \<noteq> []" "list_all is_digit f" "length f \<le> 6"
    and "str_nat (pw @ pf) * n * str_nat (i @ f) * 10 ^ 6 div 10 ^ (length pf + length f + d) < 2 ^ 53"
  shows "calculateMinReceive (decimal_text pw pf) (nat_str n) s d =
    Inr (nat_str (str_nat (pw @ pf) * n * str_nat (i @ f) div 10 ^ (length pf + length f + d)))"
  by (rule min_receive_text [OF assms])

lemma direct_minimum_floor_example: "calculateMinReceive ''2.5'' (nat_str 3000000) (Fin 50) 6 = Inr ''3''"
  using direct_minimum_floor [of "''2''" "''5''" "Fin 50" "''0''" "''5''" 3000000 6] half_minimum_text
  by (simp add: js_eval decimal_text_def is_digit_def)

section \<open>Operations between two assets\<close>

text \<open>A chain of swaps from one asset to another.\<close>

fun ops_path :: "asset_info \<Rightarrow> swap_op list \<Rightarrow> asset_info \<Rightarrow> bool" where
  "ops_path a [] b = (a = b)"
| "ops_path a (OraiSwap (Some x) (Some y) # ops) b = (x = a \<and> ops_path y ops b)"
| "ops_path a (_ # ops) b = False"

fun op_flip :: "swap_op \<Rightarrow> swap_op" where
  "op_flip (OraiSwap a b) = OraiSwap b a"
| "op_flip (SwapV3 x y f t xy) = SwapV3 x y f t (\<not> xy)"

lemma pair_exists_sym: "pair_exists a b = pair_exists b a"
  by (auto simp: pair_exists_def list_ex_iff)

text \<open>C31. The operations of a swap lead from the asset offered to the asset asked for, each one starting with
  what the one before gave, in at most three steps; swapping back takes the same steps in reverse.\<close>

theorem swap_operations_path:
  assumes "a \<noteq> b"
  shows "ops_path a (generateSwapOperationMsgs a b) b \<and> length (generateSwapOperationMsgs a b) \<le> 3 \<and>
    generateSwapOperationMsgs b a = rev (map op_flip (generateSwapOperationMsgs a b))"
  using assms pair_exists_sym [of a b]
  by (auto simp: generateSwapOperationMsgs_def generateSwapRoute_def)

theorem swap_operations_path_witness:
  "generateSwapOperationMsgs NEUTARO_INFO (AToken AIRI_CONTRACT) =
     [OraiSwap (Some NEUTARO_INFO) (Some USDC_INFO), OraiSwap (Some USDC_INFO) (Some ORAI_INFO),
      OraiSwap (Some ORAI_INFO) (Some (AToken AIRI_CONTRACT))] \<and>
   ops_path (AToken AIRI_CONTRACT) (generateSwapOperationMsgs (AToken AIRI_CONTRACT) NEUTARO_INFO) NEUTARO_INFO"
proof
  show "generateSwapOperationMsgs NEUTARO_INFO (AToken AIRI_CONTRACT) =
     [OraiSwap (Some NEUTARO_INFO) (Some USDC_INFO), OraiSwap (Some USDC_INFO) (Some ORAI_INFO),
      OraiSwap (Some ORAI_INFO) (Some (AToken AIRI_CONTRACT))]"
    by (simp add: generateSwapOperationMsgs_def pair_exists_def PAIRS_def generateSwapRoute_def NEUTARO_INFO_def USDC_INFO_def
        ORAI_INFO_def NEUTARO_ORAICHAIN_DENOM_def ORAI_def MAX_ORAICHAIN_DENOM_def
        ATOM_ORAICHAIN_DENOM_def USDC_CONTRACT_def AIRI_CONTRACT_def)
qed (rule swap_operations_path [THEN conjunct1], simp add: NEUTARO_INFO_def)

section \<open>Flattened routes\<close>

definition swap_actions :: "action list \<Rightarrow> bool" where
  "swap_actions ss \<longleftrightarrow> (\<forall>a \<in> set ss. a_type a = Swap \<and> a_swapInfo a \<noteq> None)"

definition infos :: "action list \<Rightarrow> swap_info list" where
  "infos ss = concat (map (\<lambda>a. the (a_swapInfo a)) ss)"

text \<open>The one entry the swaps of a path on Oraichain are merged into.\<close>

definition merged_swaps :: "path \<Rightarrow> action list \<Rightarrow> flat_route \<Rightarrow> bool" where
  "merged_swaps p ss m \<longleftrightarrow> a_type m = Swap \<and> a_tokenIn m = p_tokenIn p \<and> a_tokenOut m = p_tokenOut p \<and>
     a_tokenInAmount m = p_tokenInAmount p \<and> a_tokenOutAmount m = a_tokenOutAmount (last ss) \<and> a_swapInfo m = Some (infos ss)"

definition merged_so_far :: "path \<Rightarrow> action list \<Rightarrow> flat_route option \<Rightarrow> bool" where
  "merged_so_far p done m \<longleftrightarrow> (case m of None \<Rightarrow> done = [] | Some x \<Rightarrow> done \<noteq> [] \<and> merged_swaps p done x)"

lemma merge_swap_step:
  assumes "merged_so_far p ss m" "a_swapInfo b = Some si" "a_tokenOutAmount b = a_tokenOutAmount a" "a_swapInfo a = Some si"
  shows "\<exists>x. merge_swap p m b = Inr x \<and> merged_swaps p (ss @ [a]) x"
  using assms by (auto simp: merge_swap_def merged_so_far_def merged_swaps_def infos_def split: option.splits)

lemma flatten_swaps:
  assumes "p_chainId p = ''Oraichain''" "swap_actions ss" "ss \<noteq> []" "merged_so_far p pre m" "length pre = k"
  shows "\<exists>x. merged_swaps p (pre @ ss) x \<and>
    flatten_actions p i l (k + length ss) k (ss @ os) m out = flatten_actions p i l (k + length ss) (k + length ss) os (Some x) (out @ [x])"
  using assms
proof (induction ss arbitrary: pre m k)
  case (Cons a ss)
  then obtain si where a: "a_type a = Swap" "a_swapInfo a = Some si" by (auto simp: swap_actions_def)
  let ?b = "action.extend a \<lparr>fr_path = i, fr_chainId = p_chainId p, fr_isLastPath = (l \<and> ss @ os = [])\<rparr>"
  have "a_swapInfo ?b = Some si" "a_tokenOutAmount ?b = a_tokenOutAmount a" using a by (simp_all add: action.extend_def)
  then obtain x where x: "merge_swap p m ?b = Inr x" "merged_swaps p (pre @ [a]) x"
    using merge_swap_step [OF Cons(5)] a by blast
  show ?case
  proof (cases "ss = []")
    case True
    with Cons x a show ?thesis by (auto simp: Let_def)
  next
    case False
    have "merged_so_far p (pre @ [a]) (Some x)" using x by (simp add: merged_so_far_def)
    moreover have "swap_actions ss" using Cons(3) by (simp add: swap_actions_def)
    ultimately obtain y where y: "merged_swaps p ((pre @ [a]) @ ss) y"
      "flatten_actions p i l (Suc k + length ss) (Suc k) (ss @ os) (Some x) out =
       flatten_actions p i l (Suc k + length ss) (Suc k + length ss) os (Some y) (out @ [y])"
      using Cons.IH [of "pre @ [a]" "Some x" "Suc k"] Cons(2,6) False by auto
    have "k + length (a # ss) = Suc k + length ss" by simp
    moreover have "0 < length ss" using False by simp
    ultimately show ?thesis using x(1) y a Cons(2) by (intro exI [of _ y]) (simp add: Let_def)
  qed
qed simp

lemma flatten_others:
  assumes "\<forall>a \<in> set os. a_type a \<noteq> Swap"
  shows "\<exists>ys. flatten_actions p i l n k os m out = Inr (out @ ys) \<and> map action.truncate ys = os"
  using assms
proof (induction os arbitrary: k out)
  case (Cons a os)
  let ?b = "action.extend a \<lparr>fr_path = i, fr_chainId = p_chainId p, fr_isLastPath = (l \<and> os = [])\<rparr>"
  obtain ys where "flatten_actions p i l n (Suc k) os m (out @ [?b]) = Inr ((out @ [?b]) @ ys)" "map action.truncate ys = os"
    using Cons.IH [of "Suc k" "out @ [?b]"] Cons(2) by auto
  moreover have "action.truncate ?b = a" by (simp add: action.truncate_def action.extend_def)
  ultimately show ?case using Cons(2) by (intro exI [of _ "?b # ys"]) (simp add: Let_def)
qed simp

text \<open>C15. Flattening a path of Oraichain whose swaps come first keeps everything: one entry for all the swaps,
  with every pool in order, the tokens and input amount of the path and the output amount of the last
  swap, then the other actions unchanged.\<close>

theorem flatten_keeps_swaps:
  assumes "p_chainId p = ''Oraichain''" "p_actions p = ss @ os" "swap_actions ss" "ss \<noteq> []" "\<forall>a \<in> set os. a_type a \<noteq> Swap"
  shows "\<exists>m ys. flatten_path i l p = Inr (m # ys) \<and> merged_swaps p ss m \<and> map action.truncate ys = os"
proof -
  have "filter (\<lambda>a. a_type a = Swap \<and> p_chainId p = ''Oraichain'') (ss @ os) = ss"
    using assms(1,3,5) by (simp add: swap_actions_def filter_True filter_False)
  then have n: "length (filter (\<lambda>a. a_type a = Swap \<and> p_chainId p = ''Oraichain'') (p_actions p)) = 0 + length ss"
    using assms(2) by simp
  obtain x where "merged_swaps p ss x" "flatten_actions p i l (0 + length ss) 0 (ss @ os) None [] =
      flatten_actions p i l (0 + length ss) (0 + length ss) os (Some x) [x]"
    using flatten_swaps [of p ss "[]" None 0 i l os "[]", OF assms(1,3,4)] by (auto simp: merged_so_far_def)
  moreover obtain ys where "flatten_actions p i l (0 + length ss) (0 + length ss) os (Some x) [x] = Inr ([x] @ ys)" "map action.truncate ys = os"
    using flatten_others [OF assms(5)] by blast
  ultimately show ?thesis unfolding flatten_path_def n unfolding assms(2) by auto
qed

definition sample_swap :: "string \<Rightarrow> action" where
  "sample_swap pid = swap_action ''orai'' [\<lparr>si_poolId = pid, si_tokenOut = ''uusdc''\<rparr>]"

definition sample_convert :: action where
  "sample_convert = (swap_action ''orai'' [])\<lparr>a_type := Convert\<rparr>"

theorem flatten_keeps_swaps_witness:
  "\<exists>m ys. flatten_path 0 True (sample_path ''Oraichain'' ''Oraichain'' [sample_swap ''p1'', sample_swap ''p2'', sample_convert]) = Inr (m # ys) \<and>
    a_swapInfo m = Some [\<lparr>si_poolId = ''p1'', si_tokenOut = ''uusdc''\<rparr>, \<lparr>si_poolId = ''p2'', si_tokenOut = ''uusdc''\<rparr>] \<and>
    map action.truncate ys = [sample_convert]"
proof -
  let ?p = "sample_path ''Oraichain'' ''Oraichain'' [sample_swap ''p1'', sample_swap ''p2'', sample_convert]"
  have "p_chainId ?p = ''Oraichain''" "p_actions ?p = [sample_swap ''p1'', sample_swap ''p2''] @ [sample_convert]"
    "swap_actions [sample_swap ''p1'', sample_swap ''p2'']" "\<forall>a \<in> set [sample_convert]. a_type a \<noteq> Swap"
    by (simp_all add: sample_path_def swap_actions_def sample_swap_def sample_convert_def swap_action_def action_types)
  from flatten_keeps_swaps [OF this(1-3) _ this(4), of 0 True] show ?thesis
    by (auto simp: merged_swaps_def infos_def sample_swap_def swap_action_def)
qed

text \<open>When another action comes before the swaps, swaps are lost: with two swaps, the merged entry is pushed
  at action index 1 only, so after one other action the second swap is missing, and with the other action
  in between neither swap appears.\<close>

theorem flatten_loses_swaps:
  assumes "p_chainId p = ''Oraichain''" "a_type c \<noteq> Swap" "a_type s1 = Swap" "a_swapInfo s1 = Some i1"
    and "a_type s2 = Swap" "a_swapInfo s2 = Some i2"
  shows "(\<exists>c' m. flatten_path i l (p\<lparr>p_actions := [c, s1, s2]\<rparr>) = Inr [c', m] \<and> action.truncate c' = c \<and> a_swapInfo m = Some i1) \<and>
    (\<exists>c'. flatten_path i l (p\<lparr>p_actions := [s1, c, s2]\<rparr>) = Inr [c'] \<and> action.truncate c' = c)"
  using assms by (auto simp: flatten_path_def merge_swap_def action.extend_def action.truncate_def Let_def)

theorem flatten_loses_swaps_witness:
  "\<exists>c'. flatten_path 0 True (sample_path ''Oraichain'' ''Oraichain'' [sample_swap ''p1'', sample_convert, sample_swap ''p2'']) = Inr [c'] \<and>
    action.truncate c' = sample_convert"
proof -
  have "sample_path ''Oraichain'' ''Oraichain'' [sample_swap ''p1'', sample_convert, sample_swap ''p2''] =
      (sample_path ''Oraichain'' ''Oraichain'' [])\<lparr>p_actions := [sample_swap ''p1'', sample_convert, sample_swap ''p2'']\<rparr>"
    by (simp add: sample_path_def)
  then show ?thesis
    using flatten_loses_swaps [of "sample_path ''Oraichain'' ''Oraichain'' []" sample_convert "sample_swap ''p1''"
        "[\<lparr>si_poolId = ''p1'', si_tokenOut = ''uusdc''\<rparr>]" "sample_swap ''p2''" "[\<lparr>si_poolId = ''p2'', si_tokenOut = ''uusdc''\<rparr>]" 0 True]
    by (simp add: sample_path_def sample_swap_def sample_convert_def swap_action_def action_types)
qed

section \<open>The messages of a smart route\<close>

definition pays_router :: "ext \<Rightarrow> token_item \<Rightarrow> string \<Rightarrow> string \<Rightarrow> execute_instruction \<Rightarrow> bool" where
  "pays_router X t router amount ei \<longleftrightarrow>
     (if truthy (t_contractAddress t)
      then ei_contractAddress ei = str_of (t_contractAddress t) \<and> (\<exists>m. ei_msg ei = send_json X router amount m) \<and> ei_funds ei = Some []
      else ei_contractAddress ei = router \<and> 
        ei_funds ei = (if amount = [] then None else Some [\<lparr>c_denom = t_denom t, c_amount = amount\<rparr>]))"

text \<open>C6. The messages built from a smart route pay the router once per route, in order, and each pays exactly
  the input amount of its route: as a cw20 send of the token's own contract, or as the native coin of the
  token sent along (no coin when the amount is the empty text).\<close>

theorem smart_messages_spend:
  assumes "generateMsgsSmartRouterV2withV3 rs offer tokens = Inr ops"
    and "buildSwapMsgsFromSmartRoute X localeCompare ops t to router slip aff = Inr eis"
  shows "list_all2 (\<lambda>r. pays_router X t router (a_tokenInAmount r)) rs eis"
proof -
  have "list_all2 (\<lambda>r so. so_swapAmount so = a_tokenInAmount r) rs ops"
    using assms(1) unfolding generateMsgsSmartRouterV2withV3_def
    by (auto elim!: list_all2_mono dest!: rmap_all2 split: option.splits)
  moreover have "list_all2 (\<lambda>so. pays_router X t router (so_swapAmount so)) ops eis"
    using assms(2) unfolding buildSwapMsgsFromSmartRoute_def
    by (auto elim!: list_all2_mono rbindE dest!: rmap_all2 intro!: exI simp: pays_router_def Let_def parseTokenInfo_def)
  ultimately show ?thesis by (rule list_all2_trans [rotated]) simp
qed

definition smart_token :: "string option \<Rightarrow> token_item" where
  "smart_token contract = \<lparr>t_name = ''T'', t_denom = ''uusdc'', t_chainId = ''Oraichain'', t_coinGeckoId = ''usd-coin'',
     t_contractAddress = contract, t_decimals = 6, t_prefix = None, t_cosmosBased = False, t_evmDenoms = None,
     t_bridgeNetworkIdentifier = None, t_feeCurrencies = None, t_gasAverage = None, t_rpc = []\<rparr>"

theorem smart_messages_spend_witness:
  "\<exists>ei. buildSwapMsgsFromSmartRoute sample_ext flat
      [\<lparr>so_swapAmount = ''9'', so_returnAmount = ''7'', so_swapOps = []\<rparr>] (smart_token None) None ''orai1router'' (Fin 50) JUndef = Inr [ei] \<and>
    ei_contractAddress ei = ''orai1router'' \<and> ei_funds ei = Some [\<lparr>c_denom = ''uusdc'', c_amount = ''9''\<rparr>]"
proof -
  let ?r = "(swap_action ''orai'' [])\<lparr>a_tokenInAmount := ''9'', a_tokenOutAmount := ''7''\<rparr>"
  let ?so = "\<lparr>so_swapAmount = ''9'', so_returnAmount = ''7'', so_swapOps = []\<rparr>"
  have g: "generateMsgsSmartRouterV2withV3 [?r] ORAI_INFO [] = Inr [?so]"
    by (simp add: generateMsgsSmartRouterV2withV3_def swap_action_def)
  have "smart_minimum ''7'' (Fin 50) = Inr ''3''" using smart_minimum_text [OF half_minimum_text, of 7] by (simp add: js_eval)
  then obtain ei where b: "buildSwapMsgsFromSmartRoute sample_ext flat [?so] (smart_token None) None ''orai1router'' (Fin 50) JUndef = Inr [ei]"
    by (simp add: buildSwapMsgsFromSmartRoute_def Let_def)
  with smart_messages_spend [OF g b] show ?thesis
    by (simp add: pays_router_def smart_token_def swap_action_def)
qed

end
