(* ===== verification/Simulate.thy ===== *)
theory Simulate
  imports BridgeRoute SmartSwap
begin

text \<open>
  Simulation of a swap and the checks before one (\<open>packages/universal-swap/src/helper.ts\<close>,
  \<open>querySmartRoute\<close> to \<open>checkBalanceIBCOraichain\<close>). The answers of the smart-router service, of the EVM
  router contract and of the contracts and the bank on Oraichain are the record \<open>queries\<close>: a query
  answers or is rejected. A logged value has no effect.
\<close>

section \<open>Queries\<close>

record route_request =
  rq_sourceAsset :: string
  rq_sourceChainId :: string
  rq_destAsset :: string
  rq_destChainId :: string
  rq_offerAmount :: string
  rq_protocols :: "string list"
  rq_maxSplits :: js_num
  rq_dontAllowSwapAfter :: "string list"
  rq_ignoreFee :: bool

datatype channel_amount = NativeAmount string | Cw20Amount string

record pair_mapping =
  is_mint_burn :: bool
  remote_decimals :: nat

record queries =
  q_smartRoute :: "string \<Rightarrow> string \<Rightarrow> route_request \<Rightarrow> router_response res"
  q_amountsOut :: "string \<Rightarrow> string \<Rightarrow> string \<Rightarrow> string list option \<Rightarrow> string list res"
  q_channelWithKey :: "string \<Rightarrow> string \<Rightarrow> string \<Rightarrow> channel_amount res"
  q_pairMapping :: "string \<Rightarrow> string \<Rightarrow> pair_mapping option res"
  q_cw20Balance :: "string \<Rightarrow> string \<Rightarrow> string res"
  q_bankBalance :: "string \<Rightarrow> string \<Rightarrow> string res"

text \<open>\<open>JSON.stringify\<close> of what was caught: the object of \<open>generateError\<close>, or an \<open>Error\<close>, which has no own properties.\<close>

fun error_json :: "js_error \<Rightarrow> string" where
  "error_json (Thrown m) = JSON_stringify (JObj [(''ex'', JObj [(''message'', JStr m)])])"
| "error_json (Rejected t) = t"
| "error_json _ = ''{}''"

section \<open>Smart routes\<close>

record smart_response = router_response +
  sm_error :: "js_error option"

definition querySmartRoute :: "queries \<Rightarrow> asset_info \<Rightarrow> string \<Rightarrow> asset_info \<Rightarrow> string \<Rightarrow> string \<Rightarrow> router_config \<Rightarrow>
    router_response res" where
  "querySmartRoute Q offerInfo offerChainId askInfo askChainId offerAmount routerConfig =
     q_smartRoute Q (rc_url routerConfig) (rc_path routerConfig)
       \<lparr>rq_sourceAsset = parseAssetInfo offerInfo, rq_sourceChainId = offerChainId,
        rq_destAsset = parseAssetInfo askInfo, rq_destChainId = askChainId, rq_offerAmount = offerAmount,
        rq_protocols = rc_protocols routerConfig, rq_maxSplits = rc_maxSplits routerConfig,
        rq_dontAllowSwapAfter = rc_dontAllowSwapAfter routerConfig, rq_ignoreFee = rc_ignoreFee routerConfig\<rparr>"

definition generateSmartRouteForSwap :: "queries \<Rightarrow> asset_info \<Rightarrow> string \<Rightarrow> asset_info \<Rightarrow> string \<Rightarrow> string \<Rightarrow> router_config \<Rightarrow>
    router_response res" where
  "generateSmartRouteForSwap Q offerInfo offerChainId askInfo askChainId offerAmount routerConfig =
     rbind (querySmartRoute Q offerInfo offerChainId askInfo askChainId offerAmount routerConfig) (\<lambda>r.
     Inr (r\<lparr>rr_swapAmount := offerAmount\<rparr>))"

definition simulateSwapUsingSmartRoute :: "queries \<Rightarrow> token_item \<Rightarrow> token_item \<Rightarrow> string \<Rightarrow> router_config \<Rightarrow> smart_response" where
  "simulateSwapUsingSmartRoute Q fromInfo toInfo amount routerConfig =
     (if t_chainId fromInfo = t_chainId toInfo \<and> t_coinGeckoId fromInfo \<noteq> [] \<and> t_coinGeckoId fromInfo = t_coinGeckoId toInfo
      then \<lparr>rr_swapAmount = amount, rr_returnAmount = amount, rr_routes = [], sm_error = None\<rparr>
      else case generateSmartRouteForSwap Q (pt_info (parseTokenInfo fromInfo (Some amount))) (t_chainId fromInfo)
          (pt_info (parseTokenInfo toInfo None)) (t_chainId toInfo) amount routerConfig of
        Inr r \<Rightarrow> router_response.extend r \<lparr>sm_error = None\<rparr>
      | Inl error \<Rightarrow> \<lparr>rr_swapAmount = ''0'', rr_returnAmount = ''0'', rr_routes = [], sm_error = Some error\<rparr>)"

section \<open>EVM routers\<close>

text \<open>\<open>proxyContractInfo[chainId].routerAddr\<close>\<close>

definition routerAddr :: "ext \<Rightarrow> string \<Rightarrow> string option" where
  "routerAddr X chainId =
     (if chainId = ''0x01'' then eth_getAddress X ''0x7a250d5630B4cF539739dF2C5dAcb4c659F2488D''
      else if chainId = ''0x38'' then eth_getAddress X ''0x10ED43C718714eb63d5aA57B78B54704E256024E'' else None)"

text \<open>
  The body of the \<open>try\<close> block; \<open>outs\<close> are the numbers the contract returns, as decimal texts. What it
  raises is logged, and the function then returns \<open>undefined\<close>.
\<close>

definition simulate_on_evm :: "ext \<Rightarrow> queries \<Rightarrow> token_item \<Rightarrow> token_item \<Rightarrow> string \<Rightarrow> token_item list \<Rightarrow> (string \<times> js_num) res" where
  "simulate_on_evm X Q fromInfo toInfo amount flattenTokens =
     (case getTokenOnSpecificChainId (t_coinGeckoId toInfo) (t_chainId fromInfo) flattenTokens of
        None \<Rightarrow> Inl TypeError
      | Some to1 \<Rightarrow>
          (case routerAddr X (t_chainId fromInfo) of
             None \<Rightarrow> Inl TypeError
           | Some router \<Rightarrow>
               rbind (q_amountsOut Q (t_rpc fromInfo) router amount
                   (getEvmSwapRoute X (t_chainId fromInfo) (t_contractAddress fromInfo) (t_contractAddress to1))) (\<lambda>outs.
               if length outs = 0 then Inl (Thrown ''There is no output amounts after simulating evm swap'')
               else rbind (toDisplay (DisplayStr (last outs)) (t_decimals to1) 6) (\<lambda>d. Inr (last outs, d)))))"

definition simulateSwapEvm :: "ext \<Rightarrow> queries \<Rightarrow> token_item \<Rightarrow> token_item \<Rightarrow> string \<Rightarrow> token_item list \<Rightarrow>
    (string \<times> js_num) option res" where
  "simulateSwapEvm X Q fromInfo toInfo amount flattenTokens =
     (if t_coinGeckoId fromInfo = t_coinGeckoId toInfo \<or>
         caseSwapNativeAndWrapNative (t_coinGeckoId fromInfo) (t_coinGeckoId toInfo)
      then rbind (new_BigDecimal (DStr amount) None) (\<lambda>b.
           rbind (bd_mul b (DBig (10 ^ t_decimals toInfo))) (\<lambda>m.
           rbind (bd_div m (DBig (10 ^ t_decimals fromInfo))) (\<lambda>q.
           rbind (toDisplay (DisplayStr amount) (t_decimals fromInfo) 6) (\<lambda>d. Inr (Some (bd_toString q, d))))))
      else case simulate_on_evm X Q fromInfo toInfo amount flattenTokens of
        Inr r \<Rightarrow> Inr (Some r)
      | Inl ex \<Rightarrow> Inr None)"

section \<open>Simulation\<close>

record simulate_response =
  sr_amount :: string
  sr_displayAmount :: js_num
  sr_routes :: "smart_response option"

record router_option =
  useIbcWasm :: bool
  useAlphaIbcWasm :: bool

text \<open>The \<open>url\<close> of the caller's \<open>routerConfig\<close> is not read: \<open>getRouterConfig\<close> writes its own.\<close>

definition simulate_evm_swap :: "ext \<Rightarrow> queries \<Rightarrow> token_item list \<Rightarrow> token_item \<Rightarrow> token_item option \<Rightarrow> js_num \<Rightarrow>
    simulate_response res" where
  "simulate_evm_swap X Q flattenTokens originalFromInfo originalToInfo originalAmount =
     rbind (toAmount (ANum originalAmount) (t_decimals originalFromInfo)) (\<lambda>a.
     case originalToInfo of
       None \<Rightarrow> Inl TypeError
     | Some toInfo \<Rightarrow>
         rbind (simulateSwapEvm X Q originalFromInfo toInfo (int_str a) flattenTokens) (\<lambda>r.
         case r of
           None \<Rightarrow> Inl TypeError
         | Some (amount, displayAmount) \<Rightarrow>
             Inr \<lparr>sr_amount = amount, sr_displayAmount = displayAmount, sr_routes = None\<rparr>))"

definition simulate_smart_swap :: "queries \<Rightarrow> token_item option \<Rightarrow> token_item option \<Rightarrow> js_num \<Rightarrow> router_config \<Rightarrow>
    simulate_response res" where
  "simulate_smart_swap Q fromInfo toInfo originalAmount config =
     (case (fromInfo, toInfo) of
        (Some f, Some t) \<Rightarrow>
          rbind (toAmount (ANum originalAmount) (t_decimals f)) (\<lambda>a.
          let simulateRes = simulateSwapUsingSmartRoute Q f t (int_str a) config in
          rbind (toDisplay (DisplayStr (rr_returnAmount simulateRes)) (t_decimals t) 6) (\<lambda>d.
          Inr \<lparr>sr_amount = rr_returnAmount simulateRes, sr_displayAmount = d, sr_routes = Some simulateRes\<rparr>))
      | _ \<Rightarrow> Inl TypeError)"

text \<open>
  \<open>throw new Error(...)\<close> for a token that is missing on Oraichain first reads \<open>coinGeckoId\<close> of both
  tokens, one of which is \<open>undefined\<close>.
\<close>

definition handleSimulateSwap :: "ext \<Rightarrow> queries \<Rightarrow> token_item list \<Rightarrow> token_item list \<Rightarrow> token_item \<Rightarrow> token_item option \<Rightarrow>
    js_num \<Rightarrow> router_option option \<Rightarrow> router_options option \<Rightarrow> simulate_response res" where
  "handleSimulateSwap X Q flattenTokens oraichainTokens originalFromInfo originalToInfo originalAmount routerOption routerConfig =
     (if isSupportedNoPoolSwapEvm (t_coinGeckoId originalFromInfo)
      then simulate_evm_swap X Q flattenTokens originalFromInfo originalToInfo originalAmount
      else case originalToInfo of
        None \<Rightarrow> Inl TypeError
      | Some to1 \<Rightarrow>
          if isEvmSwappable X (t_chainId originalFromInfo) (t_chainId to1) (t_contractAddress originalFromInfo) (t_contractAddress to1)
          then simulate_evm_swap X Q flattenTokens originalFromInfo originalToInfo originalAmount
          else let wasm = (case routerOption of None \<Rightarrow> False | Some ro \<Rightarrow> useIbcWasm ro \<and> \<not> useAlphaIbcWasm ro)
            in simulate_smart_swap Q
              (if wasm then getTokenOnOraichain (t_coinGeckoId originalFromInfo) oraichainTokens False else Some originalFromInfo)
              (if wasm then getTokenOnOraichain (t_coinGeckoId to1) oraichainTokens False else Some to1)
              originalAmount (getRouterConfig routerConfig))"

section \<open>The relayer fee\<close>

text \<open>\<open>parseInt\<close> in its default radix: white space, a sign, then hexadecimal digits after \<open>0x\<close> or decimal ones; \<open>None\<close> is \<open>NaN\<close>.\<close>

definition parse_int :: "string \<Rightarrow> int option" where
  "parse_int s =
     (let t = dropWhile is_ws s;
          neg = (t \<noteq> [] \<and> hd t = CHR ''-'');
          u = (if t \<noteq> [] \<and> (hd t = CHR ''-'' \<or> hd t = CHR ''+'') then tl t else t);
          hex = (take 2 u = ''0x'' \<or> take 2 u = ''0X'');
          ds = (if hex then takeWhile (\<lambda>c. hex_val c \<noteq> None) (drop 2 u) else takeWhile is_digit u)
      in if ds = [] then None
         else map_option (\<lambda>n. if neg then - int n else int n) (radix_val (if hex then 16 else 10) ds 0))"

record relayer_fee =
  relayerAmount :: string
  relayerDecimals :: nat

definition checkFeeRelayerNotOrai :: "ext \<Rightarrow> queries \<Rightarrow> token_item list \<Rightarrow> token_item option \<Rightarrow> js_num \<Rightarrow> string \<Rightarrow> bool res" where
  "checkFeeRelayerNotOrai X Q oraichainTokens fromTokenInOrai fromAmount relayerAmt =
     (case fromTokenInOrai of
        None \<Rightarrow> Inr True
      | Some f \<Rightarrow>
          if t_chainId f \<noteq> ''Oraichain''
          then generateError ''From token on Oraichain is not on Oraichain. The developers have made a mistake. Please notify them!''
          else rbind (handleSimulateSwap X Q [] oraichainTokens f (getTokenOnOraichain ''oraichain-token'' oraichainTokens False)
                 fromAmount None None) (\<lambda>r.
               rbind (toDisplay (DisplayStr (sr_amount r)) (t_decimals f) 6) (\<lambda>amountDisplay.
               rbind (toDisplay (DisplayStr relayerAmt) 6 6) (\<lambda>relayerAmountDisplay.
               Inr (\<not> num_less amountDisplay relayerAmountDisplay)))))"

definition checkFeeRelayer :: "ext \<Rightarrow> queries \<Rightarrow> token_item list \<Rightarrow> token_item \<Rightarrow> relayer_fee option \<Rightarrow> js_num \<Rightarrow> bool res" where
  "checkFeeRelayer X Q oraichainTokens originalFromToken relayerFee fromAmount =
     (case relayerFee of
        None \<Rightarrow> Inr True
      | Some fee \<Rightarrow>
          if parse_int (relayerAmount fee) = None \<or> parse_int (relayerAmount fee) = Some 0 then Inr True
          else rbind (toDisplay (DisplayStr (relayerAmount fee)) (relayerDecimals fee) 6) (\<lambda>relayerDisplay.
            if t_coinGeckoId originalFromToken = ''oraichain-token''
            then Inr (\<not> num_leq fromAmount relayerDisplay)
            else checkFeeRelayerNotOrai X Q oraichainTokens
              (getTokenOnOraichain (t_coinGeckoId originalFromToken) oraichainTokens False) fromAmount (relayerAmount fee)))"

section \<open>Balances of the bridge\<close>

text \<open>\<open>network.converter\<close> and the other contracts of the configuration the code reads\<close>

record network_config =
  net_converter :: string
  net_mixer_router :: string
  net_denom :: string
  net_gasPrice :: string
  net_rpc :: string
  net_chainId :: string

definition pair_key :: "ibc_end \<Rightarrow> token_item \<Rightarrow> string" where
  "pair_key ibcInfo toToken =
     (if truthy (t_prefix toToken) \<and> truthy (t_contractAddress toToken)
      then buildIbcWasmPairKey (ie_source ibcInfo) (ie_channel ibcInfo) (str_of (t_prefix toToken) @ str_of (t_contractAddress toToken))
      else buildIbcWasmPairKey (ie_source ibcInfo) (ie_channel ibcInfo) (t_denom toToken))"

text \<open>What the channel has to hold, in units of the token swapped from when the tokens differ.\<close>

definition wanted_amount :: "ext \<Rightarrow> queries \<Rightarrow> token_item \<Rightarrow> token_item \<Rightarrow> string \<Rightarrow> token_item list \<Rightarrow> js_num res" where
  "wanted_amount X Q fromToken toToken toSimulateAmount oraichainTokens =
     rbind (toDisplay (DisplayStr toSimulateAmount) (t_decimals toToken) 6) (\<lambda>amount.
     if t_coinGeckoId fromToken = t_coinGeckoId toToken then Inr amount
     else case (getTokenOnOraichain (t_coinGeckoId fromToken) oraichainTokens False,
                getTokenOnOraichain (t_coinGeckoId toToken) oraichainTokens False) of
       (Some fromTokenInfo, Some toTokenInfo) \<Rightarrow>
         rbind (handleSimulateSwap X Q [] oraichainTokens fromTokenInfo (Some toTokenInfo) amount None None) (\<lambda>r.
         toDisplay (DisplayStr (sr_amount r)) (t_decimals fromTokenInfo) 6)
     | _ \<Rightarrow> generateError (''Error in checking balance channel ibc: cannot simulate from: '' @ t_coinGeckoId fromToken @
              '' to: '' @ t_coinGeckoId toToken))"

definition channel_check :: "ext \<Rightarrow> queries \<Rightarrow> ibc_end \<Rightarrow> token_item \<Rightarrow> token_item \<Rightarrow> string \<Rightarrow> string \<Rightarrow> token_item list \<Rightarrow>
    unit res" where
  "channel_check X Q ibcInfo fromToken toToken toSimulateAmount ibcWasmContract oraichainTokens =
     (case q_channelWithKey Q ibcWasmContract (ie_channel ibcInfo) (pair_key ibcInfo toToken) of
        Inl error \<Rightarrow> Inr ()
      | Inr (Cw20Amount a) \<Rightarrow> Inr ()
      | Inr (NativeAmount amount) \<Rightarrow>
          rbind (q_pairMapping Q ibcWasmContract (pair_key ibcInfo toToken)) (\<lambda>mapping.
          case mapping of
            None \<Rightarrow> Inl TypeError
          | Some pm \<Rightarrow>
              if is_mint_burn pm then Inr ()
              else rbind (toDisplay (DisplayStr amount) (remote_decimals pm) 6) (\<lambda>trueBalance.
                rbind (wanted_amount X Q fromToken toToken toSimulateAmount oraichainTokens) (\<lambda>wanted.
                if num_less trueBalance wanted then generateError ''pair key is not enough balance!'' else Inr ()))))"

definition checkBalanceChannelIbc :: "ext \<Rightarrow> queries \<Rightarrow> ibc_end \<Rightarrow> token_item \<Rightarrow> token_item \<Rightarrow> string \<Rightarrow> string \<Rightarrow>
    token_item list \<Rightarrow> unit res" where
  "checkBalanceChannelIbc X Q ibcInfo fromToken toToken toSimulateAmount ibcWasmContract oraichainTokens =
     (case channel_check X Q ibcInfo fromToken toToken toSimulateAmount ibcWasmContract oraichainTokens of
        Inr u \<Rightarrow> Inr u
      | Inl error \<Rightarrow> generateError (''Error in checking balance channel ibc: '' @ error_json error))"

definition getBalanceIBCOraichain :: "queries \<Rightarrow> token_item option \<Rightarrow> string \<Rightarrow> js_num res" where
  "getBalanceIBCOraichain Q token ibcWasmContract =
     (case token of
        None \<Rightarrow> Inr (Fin 0)
      | Some t \<Rightarrow>
          rbind (if truthy (t_contractAddress t) then q_cw20Balance Q (str_of (t_contractAddress t)) ibcWasmContract
                 else q_bankBalance Q ibcWasmContract (t_denom t)) (\<lambda>balance.
          toDisplay (DisplayStr balance) (t_decimals t) 6))"

definition minted_denom :: string where
  "minted_denom = ''factory/orai1wuvhex9xqs3r539mvc6mtm7n20fcj3qr2m0y9khx6n5vtlngfzes3k0rq9''"

definition checkBalanceIBCOraichain :: "ext \<Rightarrow> queries \<Rightarrow> token_item \<Rightarrow> token_item \<Rightarrow> js_num \<Rightarrow> string \<Rightarrow> string \<Rightarrow>
    network_config \<Rightarrow> token_item list \<Rightarrow> unit res" where
  "checkBalanceIBCOraichain X Q toToken fromToken fromAmount toSimulateAmount ibcWasmContract network oraichainTokens =
     (if t_chainId fromToken = ''Oraichain'' \<and> t_chainId toToken = t_chainId fromToken then Inr ()
      else case getTokenOnOraichain (t_coinGeckoId fromToken) oraichainTokens False of
        None \<Rightarrow> Inr ()
      | Some token \<Rightarrow>
          if t_denom token \<noteq> [] \<and> str_includes minted_denom (t_denom token) then Inr ()
          else let addr = (if t_coinGeckoId fromToken \<in> {''kawaii-islands'', ''milky-token''} \<and> t_chainId fromToken = ''0x38''
                           then net_converter network else ibcWasmContract) in
            rbind (getBalanceIBCOraichain Q (Some token) addr) (\<lambda>balance.
            if num_less balance fromAmount
            then generateError (''The bridge contract does not have enough balance to process this bridge transaction. Wanted '' @
              num_to_string fromAmount @ '', have '' @ num_to_string balance)
            else if t_chainId toToken \<in> {''0x01'', ''0x38'', ''0x2b6653dc''}
            then rbind (getIbcInfo ''Oraichain'' (t_chainId toToken)) (\<lambda>ibcInfo.
              checkBalanceChannelIbc X Q (ibc_end.truncate ibcInfo) fromToken toToken toSimulateAmount ibcWasmContract oraichainTokens)
            else Inr ()))"

end
