(* ===== verification/Wallet.thy ===== *)
theory Wallet
  imports Simulate
begin

text \<open>
  TRON addresses (\<open>packages/oraidex-common/src/helper.ts\<close>) and the EVM side of the wallets
  (\<open>packages/oraidex-common/src/wallet.ts\<close>). The base58 and SHA-256 codecs of ethers are in the
  record \<open>codecs\<close>, what a concrete wallet implements is the record \<open>evm_wallet\<close>. A transaction that is submitted is a value:
  a model of a method returns the transactions it submits, in their order.
\<close>

section \<open>TRON addresses\<close>

text \<open>
  \<open>ethers.utils.base58.decode\<close>, \<open>ethers.utils.base58.encode\<close> and \<open>ethers.utils.sha256\<close> on texts \<open>0x...\<close> of
  hexadecimal digits, \<open>coin\<close> of cosmjs, \<open>toNano\<close> of TON, and the text of an error: \<open>String(error)\<close> and
  the \<open>message\<close> of an error the run-time raises; \<open>JSON.stringify\<close> of a token and of the error of
  \<open>ethers.utils.getAddress\<close>; the TON bridge handler for an RPC endpoint and its timeout.
\<close>

record codecs =
  base58_decode :: "string \<Rightarrow> byte list res"
  base58_encode :: "string \<Rightarrow> string res"
  sha256 :: "string \<Rightarrow> string res"
  make_coin :: "string \<Rightarrow> string \<Rightarrow> coin res"
  toNano :: "js_num \<Rightarrow> int res"
  error_text :: "js_error \<Rightarrow> string"
  error_message :: "js_error \<Rightarrow> string"
  token_json :: "token_item \<Rightarrow> string"
  invalid_address :: "string option \<Rightarrow> string"
  tonBridgeSender :: "string \<Rightarrow> string res"
  tonTimeout :: "int \<Rightarrow> int"

definition hex_byte :: "byte \<Rightarrow> string" where
  "hex_byte b = [hex_digit (unat b div 16), hex_digit (unat b mod 16)]"

definition tronToEthAddress :: "codecs \<Rightarrow> string \<Rightarrow> string res" where
  "tronToEthAddress K base58 = rbind (base58_decode K base58) (\<lambda>bytes.
     Inr (''0x'' @ concat (map hex_byte (js_slice bytes 1 (- 4)))))"

definition ethToTronAddress :: "codecs \<Rightarrow> string \<Rightarrow> string res" where
  "ethToTronAddress K address =
     (let evmAddress = ''0x41'' @ drop 2 address in
      rbind (sha256 K evmAddress) (\<lambda>h. rbind (sha256 K h) (\<lambda>hash.
      base58_encode K (evmAddress @ take 8 (drop 2 hash)))))"

section \<open>Transactions on EVM chains\<close>

text \<open>\<open>allowance\<close> asks the token contract at an RPC endpoint and \<open>swapRouter\<close> the bridge contract; the second \<open>option\<close> of \<open>tronWeb\<close> is its default address.\<close>

record evm_wallet =
  allowance :: "string \<Rightarrow> string \<Rightarrow> string \<Rightarrow> string \<Rightarrow> int res"
  tronWeb :: "string option option"
  checkTron :: bool
  checkEthereum :: bool
  getEthAddress :: "string option res"
  switchNetwork :: "string \<Rightarrow> unit res"
  swapRouter :: "string \<Rightarrow> string res"

datatype tron_value = TText string | TBig int | TUndefined

record tron_param =
  tp_type :: string
  tp_value :: tron_value

text \<open>
  What the SDK submits on an EVM chain or on TRON. \<open>TriggerTron\<close> has the contract, the selector, the fee
  limit, the parameters and the issuer.
\<close>

datatype evm_tx =
    Approve string string string string
  | TriggerTron string string js_num "tron_param list" string
  | SendToCosmos string "string option" string int string
  | BridgeFromETH string string int string string
  | BridgeFromERC20 string string string string int string
  | SwapExactTokensForETH string string int "string list option" string int
  | SwapExactTokensForTokens string string int "string list option" string int

text \<open>\<open>EVM_CHAIN_IDS_DECIMAL.tron\<close> of @oraichain/common, the chain id \<open>0x2b6653dc\<close>\<close>

definition isTron :: "string \<Rightarrow> bool" where
  "isTron chainId = num_eq (string_to_num chainId) (Fin 728126428)"

definition getFinalEvmAddress :: "string \<Rightarrow> string option \<Rightarrow> string option \<Rightarrow> string option" where
  "getFinalEvmAddress chainId metamaskAddress tronAddress = (if isTron chainId then tronAddress else metamaskAddress)"

text \<open>
  \<open>findIndex\<close> answers -1 when there is no such parameter; the assignment then writes a property the array
  does not have as an element. The index 0 is falsy.
\<close>

definition uint256Index :: "tron_param list \<Rightarrow> int" where
  "uint256Index parameters =
     (let i = length (takeWhile (\<lambda>p. tp_type p \<noteq> ''uint256'') parameters)
      in if i < length parameters then int i else - 1)"

definition print_uint256 :: "tron_param list \<Rightarrow> tron_param list" where
  "print_uint256 parameters =
     (let i = uint256Index parameters in
      if i \<noteq> 0 \<and> i < int (length parameters) \<and> 0 \<le> i
      then parameters[nat i := (parameters ! nat i)\<lparr>tp_value :=
        (case tp_value (parameters ! nat i) of TBig n \<Rightarrow> TText (int_str n) | v \<Rightarrow> v)\<rparr>]
      else parameters)"

definition submitTronSmartContract :: "codecs \<Rightarrow> evm_wallet \<Rightarrow> string \<Rightarrow> string \<Rightarrow> js_num option \<Rightarrow> tron_param list \<Rightarrow> string \<Rightarrow>
    evm_tx list res" where
  "submitTronSmartContract K W address functionSelector feeLimit parameters issuerAddress =
     (if tronWeb W = None
      then Inl (Thrown ''You need to initialize tron web before calling submitTronSmartContract.'')
      else case ethToTronAddress K issuerAddress of
        Inl error \<Rightarrow> Inl (Thrown (error_text K error))
      | Inr issuer \<Rightarrow> Inr [TriggerTron address functionSelector (case feeLimit of None \<Rightarrow> Fin 40000000 | Some l \<Rightarrow> l)
          (print_uint256 parameters) issuer])"

text \<open>\<open>!!currentAllowance.toString()\<close> holds for every allowance: the text \<open>0\<close> is not empty.\<close>

definition checkOrIncreaseAllowance :: "codecs \<Rightarrow> evm_wallet \<Rightarrow> token_item \<Rightarrow> string option \<Rightarrow> string \<Rightarrow> string \<Rightarrow> evm_tx list res" where
  "checkOrIncreaseAllowance K W token owner spender amount =
     (if \<not> truthy (t_contractAddress token) then Inr []
      else let contract = str_of (t_contractAddress token) in
        rbind (if isTron (t_chainId token) then tronToEthAddress K (str_of owner) else Inr (str_of owner)) (\<lambda>ownerHex.
        rbind (allowance W (t_rpc token) contract ownerHex spender) (\<lambda>currentAllowance.
        rbind (bigint_of_string amount) (\<lambda>n.
        if n \<le> currentAllowance then Inr []
        else if isTron (t_chainId token)
        then if checkTron W
          then rbind (ethToTronAddress K contract) (\<lambda>tronContract.
            submitTronSmartContract K W tronContract ''approve(address,uint256)'' None
              [\<lparr>tp_type = ''address'', tp_value = TText spender\<rparr>, \<lparr>tp_type = ''uint256'', tp_value = TText amount\<rparr>] ownerHex)
          else Inr []
        else if checkEthereum W
        then Inr ((if t_chainId token = ''0x01'' \<and> t_coinGeckoId token = ''tether''
                   then [Approve contract spender ''0'' ownerHex] else []) @ [Approve contract spender amount ownerHex])
        else Inr []))))"

end
