(* ===== verification/Handler.thy ===== *)
theory Handler
  imports Wallet
begin

text \<open>
  The messages of \<open>UniversalSwapHandler\<close> (\<open>packages/universal-swap/src/handler.ts\<close>): the swap on
  Oraichain, the transfers out of it and the memo for the EVM bridge. The record \<open>env\<close> joins what lies
  outside the repository; \<open>swap_handler\<close> is the object with its data, options, wallets and the
  \<open>OraidexCommon\<close> it was constructed with (the chain lists are in \<open>e_ext\<close>).
\<close>

section \<open>State\<close>

record env =
  e_ext :: ext
  e_queries :: queries
  e_codecs :: codecs
  e_localeCompare :: "string comparator"

record affiliate =
  af_address :: string
  af_basis_points_fee :: string

record swap_sender =
  s_cosmos :: string
  s_evm :: "string option"
  s_tron :: "string option"
  s_ton :: "string option"

record swap_data =
  sd_sender :: swap_sender
  originalFromToken :: token_item
  originalToToken :: token_item
  fromAmount :: js_num
  simulateAmount :: string
  userSlippage :: "js_num option"
  simulatePrice :: "string option"
  relayerFee :: "relayer_fee option"
  sd_amounts :: "amount_details option"
  recipientAddress :: "string option"
  alphaSmartRoutes :: "router_response option"
  bridgeFee :: "js_num option"
  affiliates :: "affiliate list option"

record swap_options = swap_option +
  skipBalanceIbcCheck :: bool
  skipRelayerFeeCheck :: bool

text \<open>\<open>connect\<close> is \<open>getCosmWasmClient\<close> for a chain, its RPC endpoint and the gas price.\<close>

record cosmos_wallet =
  getKeplrAddr :: "string \<Rightarrow> string option res"
  connect :: "string \<Rightarrow> string \<Rightarrow> string option \<Rightarrow> unit res"

record swap_handler =
  h_data :: swap_data
  h_options :: "swap_options option"
  h_cosmosWallet :: "cosmos_wallet option"
  h_evmWallet :: "evm_wallet option"
  h_tonWallet :: "string option"
  flattenTokens :: "token_item list"
  oraichainTokens :: "token_item list"
  cosmosTokens :: "token_item list"
  tokenMap :: "string \<Rightarrow> token_item option"
  h_network :: network_config
  currentTimestamp :: int

definition option_set :: "(swap_options \<Rightarrow> bool) \<Rightarrow> swap_handler \<Rightarrow> bool" where
  "option_set f h = (case h_options h of None \<Rightarrow> False | Some o1 \<Rightarrow> f o1)"

section \<open>Lookups\<close>

definition h_getTokenOnOraichain :: "swap_handler \<Rightarrow> string \<Rightarrow> bool \<Rightarrow> token_item res" where
  "h_getTokenOnOraichain h coinGeckoId isNative =
     (case getTokenOnOraichain coinGeckoId (oraichainTokens h) isNative of
        None \<Rightarrow> generateError (''Could not find token '' @ coinGeckoId @ '' on Oraichain. Could not swap'')
      | Some t \<Rightarrow> Inr t)"

definition getCwIcs20ContractAddr :: "swap_handler \<Rightarrow> string" where
  "getCwIcs20ContractAddr h = (if option_set ibcInfoTestMode h then IBC_WASM_CONTRACT_TEST else IBC_WASM_CONTRACT)"

definition h_getIbcInfo :: "swap_handler \<Rightarrow> string \<Rightarrow> string \<Rightarrow> ibc_end res" where
  "h_getIbcInfo h fromChainId toChainId =
     rbind (getIbcInfo fromChainId toChainId) (\<lambda>ibcInfo.
     Inr (case ii_testInfo ibcInfo of
        Some t \<Rightarrow> (if option_set ibcInfoTestMode h then t else ibc_end.truncate ibcInfo)
      | None \<Rightarrow> ibc_end.truncate ibcInfo))"

definition swapFromTokens :: "swap_handler \<Rightarrow> token_item list" where
  "swapFromTokens h = filter (\<lambda>token. t_denom token \<notin> set notAllowDenom \<and>
     t_coinGeckoId token \<notin> set notAllowSwapCoingeckoIds \<and> t_chainId token \<notin> set notAllowSwapFromChainIds \<and>
     t_contractAddress token \<notin> Some ` set notAllowBEP20Token) (flattenTokens h)"

definition swapToTokens :: "swap_handler \<Rightarrow> token_item list" where
  "swapToTokens h = filter (\<lambda>token. t_denom token \<notin> set notAllowDenom \<and>
     t_coinGeckoId token \<notin> set notAllowSwapCoingeckoIds \<and> t_chainId token \<notin> set notAllowSwapToChainIds \<and>
     t_contractAddress token \<notin> Some ` set notAllowBEP20Token) (flattenTokens h)"

definition keplrAddr :: "swap_handler \<Rightarrow> string \<Rightarrow> string option res" where
  "keplrAddr h chainId = (case h_cosmosWallet h of None \<Rightarrow> Inl TypeError | Some w \<Rightarrow> getKeplrAddr w chainId)"

definition tron_to_eth :: "env \<Rightarrow> string option \<Rightarrow> string res" where
  "tron_to_eth E tron = (case tron of None \<Rightarrow> Inl TypeError | Some a \<Rightarrow> tronToEthAddress (e_codecs E) a)"

definition getUniversalSwapToAddress :: "env \<Rightarrow> swap_handler \<Rightarrow> string \<Rightarrow> string option \<Rightarrow> string option \<Rightarrow> string option \<Rightarrow>
    string option res" where
  "getUniversalSwapToAddress E h toChainId metamaskAddress tronAddress tonAddress =
     (if toChainId = ''0x01'' \<or> toChainId = ''0x1ae6'' \<or> toChainId = ''0x38''
      then (case metamaskAddress of
              Some a \<Rightarrow> Inr (Some a)
            | None \<Rightarrow> (case h_evmWallet h of None \<Rightarrow> Inl TypeError | Some w \<Rightarrow> getEthAddress w))
      else if toChainId = ''ton''
      then (case tonAddress of
              Some a \<Rightarrow> Inr (Some a)
            | None \<Rightarrow> (case h_tonWallet h of None \<Rightarrow> Inl TypeError | Some a \<Rightarrow> Inr (Some a)))
      else if toChainId = ''0x2b6653dc''
      then (if truthy tronAddress then rbind (tron_to_eth E tronAddress) (\<lambda>a. Inr (Some a))
            else case h_evmWallet h of
              None \<Rightarrow> Inl TypeError
            | Some w \<Rightarrow>
                (case tronWeb w of
                   Some base58 \<Rightarrow>
                     (if truthy base58 then rbind (tron_to_eth E base58) (\<lambda>a. Inr (Some a))
                      else generateError ''Cannot find tron web to nor tron address to send to Tron network'')
                 | None \<Rightarrow> generateError ''Cannot find tron web to nor tron address to send to Tron network''))
      else if isCosmosChain toChainId (cosmosChains (e_ext E)) then keplrAddr h toChainId
      else generateError (''Cannot not get address for chain: '' @ toChainId))"

section \<open>Conversions\<close>

text \<open>
  The conversions read \<open>amounts\<close> only for a token that has \<open>evmDenoms\<close>; reading a denom of an absent
  \<open>amounts\<close> raises.
\<close>

definition convert_from_denoms :: "env \<Rightarrow> swap_handler \<Rightarrow> token_item \<Rightarrow> execute_instruction list res" where
  "convert_from_denoms E h token =
     (case sd_amounts (h_data h) of
        Some amounts \<Rightarrow> generateConvertErc20Cw20Message (e_ext E) (e_localeCompare E) amounts token (tokenMap h)
          (net_converter (h_network h))
      | None \<Rightarrow> (case t_evmDenoms token of Some (d # ds) \<Rightarrow> Inl TypeError | _ \<Rightarrow> Inr []))"

definition convert_to_denom :: "env \<Rightarrow> swap_handler \<Rightarrow> token_item \<Rightarrow> coin \<Rightarrow> execute_instruction list res" where
  "convert_to_denom E h token sendCoin =
     (case sd_amounts (h_data h) of
        Some amounts \<Rightarrow> generateConvertCw20Erc20Message (e_ext E) (e_localeCompare E) amounts token sendCoin (tokenMap h)
          (net_converter (h_network h))
      | None \<Rightarrow> (case t_evmDenoms token of
            Some ds \<Rightarrow> (if c_denom sendCoin \<in> set ds then Inl TypeError else Inr [])
          | None \<Rightarrow> Inr []))"

section \<open>The swap on Oraichain\<close>

definition affiliates_json :: "affiliate list option \<Rightarrow> json" where
  "affiliates_json affs = (case affs of None \<Rightarrow> JUndef
     | Some as \<Rightarrow> JArr (map (\<lambda>a. JObj [(''address'', JStr (af_address a)), (''basis_points_fee'', JStr (af_basis_points_fee a))]) as))"

text \<open>\<open>userSlippage || userSlippage === 0\<close>, and an absent slippage as a number\<close>

definition isValidSlippage :: "js_num option \<Rightarrow> bool" where
  "isValidSlippage s = (case s of None \<Rightarrow> False | Some n \<Rightarrow> n \<noteq> NaN)"

definition slippage_num :: "js_num option \<Rightarrow> js_num" where
  "slippage_num s = (case s of None \<Rightarrow> NaN | Some n \<Rightarrow> n)"

definition no_price :: string where
  "no_price = ''Could not calculate the minimum receive value because there is no simulate price or user slippage''"

definition generateMsgsSmartRouterSwap :: "env \<Rightarrow> swap_handler \<Rightarrow> 'a action_scheme \<Rightarrow> bool \<Rightarrow> execute_instruction list res" where
  "generateMsgsSmartRouterSwap E h route isLastRoute =
     (let d = h_data h in
      rbind (h_getTokenOnOraichain h (t_coinGeckoId (originalFromToken d)) False) (\<lambda>fromTokenOnOrai.
      rbind (toAmount (ANum (fromAmount d)) (t_decimals fromTokenOnOrai)) (\<lambda>amount.
      if \<not> truthy (simulatePrice d) \<or> \<not> isValidSlippage (userSlippage d) then generateError no_price
      else rbind (convert_from_denoms E h fromTokenOnOrai) (\<lambda>msgConvertsFrom.
        rbind (generateMsgsSmartRouterV2withV3 [route] (pt_info (parseTokenInfo fromTokenOnOrai (Some (int_str amount)))) (cosmosTokens h)) (\<lambda>routes.
        rbind (buildSwapMsgsFromSmartRoute (e_ext E) (e_localeCompare E) routes fromTokenOnOrai
            (if isLastRoute then recipientAddress d else None) (net_mixer_router (h_network h))
            (slippage_num (userSlippage d)) (affiliates_json (affiliates d))) (\<lambda>msgs.
        Inr (fst (buildMultipleExecuteMessages (Some msgs) (map (\<lambda>m. [m]) msgConvertsFrom)))))))))"

text \<open>The recipient of a swap that ends on Oraichain\<close>

definition swap_recipient :: "env \<Rightarrow> swap_handler \<Rightarrow> string option res" where
  "swap_recipient E h =
     (let d = h_data h; toChain = t_chainId (originalToToken d) in
      if truthy (recipientAddress d) \<and> toChain = ''Oraichain''
      then if isValid (checkValidateAddressWithNetwork (e_ext E) (str_of (recipientAddress d)) toChain (cosmosChains (e_ext E)))
        then Inr (recipientAddress d) else generateError ''Recipient address invalid!''
      else Inr None)"

text \<open>The messages of the smart routes: the two texts are thrown as they are.\<close>

definition smart_route_msgs :: "env \<Rightarrow> swap_handler \<Rightarrow> token_item \<Rightarrow> asset_info \<Rightarrow> string option \<Rightarrow> execute_instruction list res" where
  "smart_route_msgs E h fromTokenOnOrai offerInfo to1 =
     (let d = h_data h;
          routes = (case alphaSmartRoutes d of None \<Rightarrow> [] | Some r \<Rightarrow> rr_routes r) in
      if routes = [] then Inl (Thrown ''Route not found'')
      else if list_ex (\<lambda>r. list_ex (\<lambda>p. p_chainId p \<noteq> ''Oraichain'') (r_paths r)) routes
      then Inl (Thrown ''Only support routes in Oraichain!'')
      else rbind (flattenSmartRouters routes) (\<lambda>routesFlatten.
        rbind (generateMsgsSmartRouterV2withV3 routesFlatten offerInfo (cosmosTokens h)) (\<lambda>generatedRoutes.
        buildSwapMsgsFromSmartRoute (e_ext E) (e_localeCompare E) generatedRoutes fromTokenOnOrai to1
          (net_mixer_router (h_network h)) (slippage_num (userSlippage d)) (affiliates_json (affiliates d)))))"

definition direct_swap_msg :: "env \<Rightarrow> swap_handler \<Rightarrow> token_item \<Rightarrow> string \<Rightarrow> asset_info \<Rightarrow> asset_info \<Rightarrow> coin list option \<Rightarrow>
    string option \<Rightarrow> execute_instruction res" where
  "direct_swap_msg E h fromTokenOnOrai amount offerInfo askInfo funds to1 =
     (let d = h_data h; router = net_mixer_router (h_network h) in
      rbind (calculateMinReceive (str_of (simulatePrice d)) amount (slippage_num (userSlippage d)) (t_decimals fromTokenOnOrai)) (\<lambda>minimumReceive.
      let inputTemp = execute_swap_json (generateSwapOperationMsgs offerInfo askInfo) minimumReceive to1 (affiliates_json (affiliates d)) in
      Inr (if \<not> truthy (t_contractAddress fromTokenOnOrai)
        then \<lparr>ei_contractAddress = router, ei_msg = inputTemp, ei_funds = funds\<rparr>
        else \<lparr>ei_contractAddress = str_of (t_contractAddress fromTokenOnOrai),
              ei_msg = send_json (e_ext E) router amount inputTemp, ei_funds = funds\<rparr>)))"

definition swap_msgs :: "env \<Rightarrow> swap_handler \<Rightarrow> token_item \<Rightarrow> token_item \<Rightarrow> execute_instruction list res" where
  "swap_msgs E h fromTokenOnOrai toTokenInOrai =
     (let d = h_data h in
      rbind (toAmount (ANum (fromAmount d)) (t_decimals fromTokenOnOrai)) (\<lambda>amount.
      rbind (convert_from_denoms E h fromTokenOnOrai) (\<lambda>msgConvertsFrom.
      rbind (convert_from_denoms E h toTokenInOrai) (\<lambda>msgConvertTo.
      if \<not> truthy (simulatePrice d) \<or> \<not> isValidSlippage (userSlippage d) then generateError no_price
      else let offer = parseTokenInfo fromTokenOnOrai (Some (int_str amount));
               ask = parseTokenInfo toTokenInOrai None in
        rbind (swap_recipient E h) (\<lambda>to1.
        rbind (if option_set isIbcWasm h then smart_route_msgs E h fromTokenOnOrai (pt_info offer) to1
               else rbind (direct_swap_msg E h fromTokenOnOrai (int_str amount) (pt_info offer) (pt_info ask)
                   (handleSentFunds (e_localeCompare E) [pt_fund offer, pt_fund ask]) to1) (\<lambda>m. Inr [m])) (\<lambda>msgs.
        Inr (fst (buildMultipleExecuteMessages (Some msgs) (map (\<lambda>m. [m]) (msgConvertsFrom @ msgConvertTo))))))))))"

text \<open>
  \<open>JSON.stringify(error.message)\<close>: what the block throws itself is an object \<open>{ ex: { message } }\<close> or a
  text, neither of which has a \<open>message\<close>.
\<close>

definition caught_message :: "env \<Rightarrow> js_error \<Rightarrow> json" where
  "caught_message E e = (case e of Thrown m \<Rightarrow> JUndef | _ \<Rightarrow> JStr (error_message (e_codecs E) e))"

definition generateMsgsSwap :: "env \<Rightarrow> swap_handler \<Rightarrow> execute_instruction list res" where
  "generateMsgsSwap E h =
     rbind (h_getTokenOnOraichain h (t_coinGeckoId (originalFromToken (h_data h))) False) (\<lambda>fromTokenOnOrai.
     rbind (h_getTokenOnOraichain h (t_coinGeckoId (originalToToken (h_data h))) False) (\<lambda>toTokenInOrai.
     case swap_msgs E h fromTokenOnOrai toTokenInOrai of
       Inr msgs \<Rightarrow> Inr msgs
     | Inl error \<Rightarrow> generateError (''Error generateMsgsSwap: '' @ JSON_stringify (caught_message E error))))"

section \<open>Transfers\<close>

text \<open>An encoded message, or an \<open>MsgTransfer\<close> with its timeout as a bigint\<close>

record ibc_transfer =
  x_sourcePort :: string
  x_sourceChannel :: string
  x_token :: coin
  x_sender :: string
  x_receiver :: string
  x_memo :: string
  x_timeoutTimestamp :: int

datatype tx_msg = TxEncoded encode_object | TxTransfer ibc_transfer

definition encode_msgs :: "env \<Rightarrow> string \<Rightarrow> execute_instruction list \<Rightarrow> tx_msg list" where
  "encode_msgs E sender msgs = map TxEncoded (getEncodedExecuteContractMsgs (e_ext E) sender msgs)"

text \<open>What this block throws is logged, and the method returns \<open>undefined\<close>.\<close>

definition generateMsgsIbcWasm :: "swap_handler \<Rightarrow> env \<Rightarrow> ibc_end \<Rightarrow> string \<Rightarrow> string \<Rightarrow> string \<Rightarrow>
    execute_instruction list option res" where
  "generateMsgsIbcWasm h E ibcInfo ibcReceiveAddr remoteDenom ibcMemo =
     rbind (h_getTokenOnOraichain h (t_coinGeckoId (originalToToken (h_data h))) False) (\<lambda>toTokenInOrai.
     let ibcWasmContractAddress = nth_str (js_split (CHR ''.'') (ie_source ibcInfo)) 1;
         amount = simulateAmount (h_data h);
         msg = JObj [(''local_channel_id'', JStr (ie_channel ibcInfo)), (''remote_address'', JStr ibcReceiveAddr),
           (''remote_denom'', JStr remoteDenom),
           (''timeout'', JNum (string_to_num (calculateTimeoutTimestamp (ie_timeout ibcInfo) (currentTimestamp h)))),
           (''memo'', JStr ibcMemo)]
     in if \<not> truthy ibcWasmContractAddress then Inr None
        else Inr (Some [case pt_info (parseTokenInfo toTokenInOrai None) of
          NativeToken denom \<Rightarrow> \<lparr>ei_contractAddress = str_of ibcWasmContractAddress, ei_msg = JObj [(''transfer_to_remote'', msg)],
            ei_funds = Some [\<lparr>c_denom = denom, c_amount = amount\<rparr>]\<rparr>
        | AToken addr \<Rightarrow> \<lparr>ei_contractAddress = addr,
            ei_msg = send_json (e_ext E) (str_of ibcWasmContractAddress) amount msg, ei_funds = Some []\<rparr>]))"

definition ibc_wasm_msgs :: "env \<Rightarrow> swap_handler \<Rightarrow> ibc_end \<Rightarrow> string \<Rightarrow> string \<Rightarrow> string \<Rightarrow> tx_msg list res" where
  "ibc_wasm_msgs E h ibcInfo ibcReceiveAddr remoteDenom ibcMemo =
     rbind (generateMsgsIbcWasm h E ibcInfo ibcReceiveAddr remoteDenom ibcMemo) (\<lambda>r.
     case r of None \<Rightarrow> Inl TypeError | Some msgs \<Rightarrow> Inr (encode_msgs E (s_cosmos (sd_sender (h_data h))) msgs))"

text \<open>\<open>parseFloat\<close>: the number of the longest prefix that is a decimal literal.\<close>

definition float_literal :: "string \<Rightarrow> bool" where
  "float_literal s \<longleftrightarrow> string_to_num s \<noteq> NaN \<and> list_all (\<lambda>c. c \<notin> {CHR ''x'', CHR ''X'', CHR ''o'', CHR ''O'', CHR ''b'', CHR ''B''}) s"

definition parseFloat :: "string \<Rightarrow> js_num" where
  "parseFloat s = (let t = dropWhile is_ws s in
     case find (\<lambda>k. float_literal (take k t)) (rev [1..<Suc (length t)]) of
       None \<Rightarrow> NaN | Some k \<Rightarrow> string_to_num (take k t))"

definition AFFILIATE_DECIMAL :: js_num where "AFFILIATE_DECIMAL = Fin 10000"

text \<open>The amount to transfer: what the swap is expected to give without the share of the affiliates\<close>

definition transfer_amount :: "swap_handler \<Rightarrow> string res" where
  "transfer_amount h =
     (let tokenAmount = simulateAmount (h_data h) in
      case affiliates (h_data h) of
        Some (a # as) \<Rightarrow>
          (let totalBasisPoints = foldl (\<lambda>acc cur. num_add acc (parseFloat (af_basis_points_fee cur))) (Fin 0) (a # as);
               amountAffilate = num_div totalBasisPoints AFFILIATE_DECIMAL in
           rbind (new_BigDecimal (DStr tokenAmount) None) (\<lambda>b.
           rbind (bd_sub b (bd_num (num_mul (parseFloat tokenAmount) amountAffilate))) (\<lambda>r.
           Inr (num_to_string (math_trunc (bd_toNumber r))))))
      | _ \<Rightarrow> Inr tokenAmount)"

definition ibc_transfer_msg :: "env \<Rightarrow> swap_handler \<Rightarrow> ibc_end \<Rightarrow> coin \<Rightarrow> string \<Rightarrow> string \<Rightarrow> string \<Rightarrow> tx_msg res" where
  "ibc_transfer_msg E h ibcInfo token receiver memo timeoutTimestamp =
     rbind (bigint_of_string timeoutTimestamp) (\<lambda>timeout.
     Inr (TxTransfer \<lparr>x_sourcePort = ie_source ibcInfo, x_sourceChannel = ie_channel ibcInfo, x_token = token,
       x_sender = s_cosmos (sd_sender (h_data h)), x_receiver = receiver, x_memo = memo, x_timeoutTimestamp = timeout\<rparr>))"

definition receive_address :: "env \<Rightarrow> swap_handler \<Rightarrow> string \<Rightarrow> string res" where
  "receive_address E h toChainId =
     rbind (if truthy (recipientAddress (h_data h))
            then if isValid (checkValidateAddressWithNetwork (e_ext E) (str_of (recipientAddress (h_data h))) toChainId (cosmosChains (e_ext E)))
              then Inr (recipientAddress (h_data h)) else generateError ''Recipient address invalid!''
            else keplrAddr h toChainId) (\<lambda>addr.
     if truthy addr then Inr (str_of addr) else generateError ''Please login cosmos wallet!'')"

text \<open>The amount the user typed as a coin of a bridged denom, and its conversion from the cw20 token\<close>

definition evm_amount :: "env \<Rightarrow> swap_handler \<Rightarrow> token_item \<Rightarrow> coin res" where
  "evm_amount E h toTokenInOrai =
     (case tokenMap h (t_denom toTokenInOrai) of
        None \<Rightarrow> Inl TypeError
      | Some evmToken \<Rightarrow> rbind (toAmount (ANum (fromAmount (h_data h))) (t_decimals evmToken)) (\<lambda>a.
          make_coin (e_codecs E) (int_str a) (t_denom evmToken)))"

definition convert_reverse_msgs :: "env \<Rightarrow> swap_handler \<Rightarrow> coin \<Rightarrow> tx_msg list res" where
  "convert_reverse_msgs E h evmAmount =
     rbind (h_getTokenOnOraichain h (t_coinGeckoId (originalToToken (h_data h))) False) (\<lambda>token.
     rbind (convert_to_denom E h token evmAmount) (\<lambda>msgs.
     Inr (encode_msgs E (s_cosmos (sd_sender (h_data h))) (fst (buildMultipleExecuteMessages None (map (\<lambda>m. [m]) msgs))))))"

definition encoded_swap :: "env \<Rightarrow> swap_handler \<Rightarrow> tx_msg list res" where
  "encoded_swap E h = rbind (generateMsgsSwap E h) (\<lambda>msgSwap. Inr (encode_msgs E (s_cosmos (sd_sender (h_data h))) msgSwap))"

definition combineSwapMsgOraichain :: "env \<Rightarrow> swap_handler \<Rightarrow> string option \<Rightarrow> tx_msg list res" where
  "combineSwapMsgOraichain E h timeoutTimestamp =
     (let d = h_data h; toChainId = t_chainId (originalToToken d); toCoinGeckoId = t_coinGeckoId (originalToToken d) in
      if toChainId = ''Oraichain'' then encoded_swap E h
      else rbind (h_getIbcInfo h ''Oraichain'' toChainId) (\<lambda>ibcInfo.
        rbind (receive_address E h toChainId) (\<lambda>ibcReceiveAddr.
        let isSpecialChain = (toChainId = ''kawaii_6886-1'' \<or> toChainId = ''injective-1'');
            isSpecialCoingecko = (toCoinGeckoId \<in> {''kawaii-islands'', ''milky-token'', ''injective-protocol''}) in
        rbind (h_getTokenOnOraichain h toCoinGeckoId False) (\<lambda>token.
        rbind (if isSpecialChain \<and> isSpecialCoingecko then h_getTokenOnOraichain h toCoinGeckoId True else Inr token) (\<lambda>toTokenInOrai.
        rbind (if str_includes ''wasm'' (ie_source ibcInfo)
               then ibc_wasm_msgs E h ibcInfo ibcReceiveAddr (t_denom (originalToToken d)) []
               else rbind (transfer_amount h) (\<lambda>tokenAmount.
                 rbind (make_coin (e_codecs E) tokenAmount (t_denom toTokenInOrai)) (\<lambda>c.
                 rbind (ibc_transfer_msg E h ibcInfo c ibcReceiveAddr []
                   (case timeoutTimestamp of Some t \<Rightarrow> t
                    | None \<Rightarrow> calculateTimeoutTimestamp (ie_timeout ibcInfo) (Date_now (e_ext E)))) (\<lambda>m. Inr [m])))) (\<lambda>msgTransfer.
        rbind (if isSpecialChain \<and> isSpecialCoingecko
               then rbind (evm_amount E h toTokenInOrai) (convert_reverse_msgs E h) else Inr []) (\<lambda>converts.
        rbind (if t_coinGeckoId (originalFromToken d) \<noteq> toCoinGeckoId then encoded_swap E h else Inr []) (\<lambda>swaps.
        Inr (swaps @ converts @ msgTransfer)))))))))"

section \<open>The EVM bridge\<close>

definition getTranferAddress :: "env \<Rightarrow> swap_handler \<Rightarrow> string option \<Rightarrow> string option \<Rightarrow> string \<Rightarrow> string option res" where
  "getTranferAddress E h metamaskAddress tronAddress channel =
     rbind (if t_prefix (originalToToken (h_data h)) = Some ORAI_BRIDGE_EVM_TRON_DENOM_PREFIX
            then rbind (tron_to_eth E tronAddress) (\<lambda>a. Inr (Some a)) else Inr metamaskAddress) (\<lambda>transferAddress.
     rbind (h_getTokenOnOraichain h (t_coinGeckoId (originalToToken (h_data h))) False) (\<lambda>toTokenInOrai.
     if \<not> truthy transferAddress \<and> (t_evmDenoms toTokenInOrai \<noteq> None \<or> channel = oraichain2oraib)
     then generateError ''Please login metamask / tronlink!'' else Inr transferAddress))"

text \<open>\<open>toToken.prefix + transferAddress\<close>: two absent operands add to \<open>NaN\<close>.\<close>

definition prefixed :: "string option \<Rightarrow> string option \<Rightarrow> string" where
  "prefixed pfx address = (if pfx = None \<and> address = None then ''NaN'' else template pfx @ template address)"

definition getIbcMemo :: "env \<Rightarrow> swap_handler \<Rightarrow> string option \<Rightarrow> string option \<Rightarrow> string \<Rightarrow> string \<Rightarrow> string option \<Rightarrow> string \<Rightarrow>
    string option \<Rightarrow> string res" where
  "getIbcMemo E h metamaskAddress tronAddress channel chainId pfx originalChainId recipient =
     rbind (if truthy recipient
            then if isValid (checkValidateAddressWithNetwork (e_ext E) (str_of (recipientAddress (h_data h))) originalChainId (cosmosChains (e_ext E)))
              then if originalChainId = ''0x2b6653dc'' then rbind (tron_to_eth E recipient) (\<lambda>a. Inr (Some a)) else Inr recipient
              else generateError ''Recipient address invalid!''
            else getTranferAddress E h metamaskAddress tronAddress channel) (\<lambda>transferAddress.
     Inr (if chainId = ''oraibridge-subnet-2'' then prefixed pfx transferAddress else []))"

text \<open>KWT and MILKY leave through the old channel.\<close>

definition old_ibc_info :: "string \<Rightarrow> string \<Rightarrow> ibc_end res" where
  "old_ibc_info fromChainId toChainId =
     (case map_of ibcInfosOld fromChainId of
        None \<Rightarrow> Inl TypeError
      | Some infos \<Rightarrow> (case map_of infos toChainId of None \<Rightarrow> Inl TypeError | Some i \<Rightarrow> Inr (ibc_end.truncate i)))"

definition old_channel_msgs :: "env \<Rightarrow> swap_handler \<Rightarrow> string \<Rightarrow> string \<Rightarrow> string \<Rightarrow> tx_msg list res" where
  "old_channel_msgs E h toChainId toAddress ibcMemo =
     rbind (h_getTokenOnOraichain h (t_coinGeckoId (originalToToken (h_data h))) True) (\<lambda>toTokenInOrai.
     rbind (evm_amount E h toTokenInOrai) (\<lambda>evmAmount.
     rbind (convert_reverse_msgs E h evmAmount) (\<lambda>converts.
     rbind (old_ibc_info (t_chainId (originalFromToken (h_data h))) toChainId) (\<lambda>ibcInfos1.
     rbind (ibc_transfer_msg E h ibcInfos1 evmAmount toAddress ibcMemo
         (calculateTimeoutTimestamp (ie_timeout ibcInfos1) (currentTimestamp h))) (\<lambda>msgTransfer.
     Inr (converts @ [msgTransfer]))))))"

definition evm_bridge_msgs :: "env \<Rightarrow> swap_handler \<Rightarrow> string option \<Rightarrow> string option \<Rightarrow> token_item \<Rightarrow> tx_msg list res" where
  "evm_bridge_msgs E h metamaskAddress tronAddress newToToken =
     (let d = h_data h; to1 = originalToToken d in
      rbind (keplrAddr h (t_chainId newToToken)) (\<lambda>toAddress.
      if \<not> truthy toAddress then generateError ''Please login cosmos wallet!''
      else rbind (h_getIbcInfo h (t_chainId (originalFromToken d)) (t_chainId newToToken)) (\<lambda>ibcInfo.
        rbind (getIbcMemo E h metamaskAddress tronAddress (ie_channel ibcInfo) (t_chainId newToToken) (t_prefix newToToken)
            (t_chainId to1) (recipientAddress d)) (\<lambda>ibcMemo.
        if t_coinGeckoId to1 \<in> {''kawaii-islands'', ''milky-token''}
        then old_channel_msgs E h (t_chainId newToToken) (str_of toAddress) ibcMemo
        else ibc_wasm_msgs E h ibcInfo (str_of toAddress) (t_denom newToToken) ibcMemo))))"

definition combineMsgEvm :: "env \<Rightarrow> swap_handler \<Rightarrow> string option \<Rightarrow> string option \<Rightarrow> tx_msg list res" where
  "combineMsgEvm E h metamaskAddress tronAddress =
     (let from1 = originalFromToken (h_data h); to1 = originalToToken (h_data h) in
      rbind (if t_coinGeckoId from1 \<noteq> t_coinGeckoId to1 then encoded_swap E h else Inr []) (\<lambda>msgExecuteSwap.
      case findToTokenOnOraiBridge (t_coinGeckoId to1) (t_chainId to1) (cosmosTokens h) of
        None \<Rightarrow> Inl TypeError
      | Some newToToken \<Rightarrow>
          rbind (evm_bridge_msgs E h metamaskAddress tronAddress newToToken) (\<lambda>msgs. Inr (msgExecuteSwap @ msgs))))"

end
