(* ===== verification/Dispatch.thy ===== *)
theory Dispatch
  imports Handler MsgSwap
begin

text \<open>
  The entry points of \<open>UniversalSwapHandler\<close> (\<open>packages/universal-swap/src/handler.ts\<close>): from
  \<open>processUniversalSwap\<close> to what is given to a wallet to sign. A \<open>submission\<close> is that last step, with the
  signer and the messages; the fee, which is passed on unread, and the result of the transaction are left out.
\<close>

section \<open>Submissions\<close>

datatype submission =
    ExecuteMultiple string "execute_instruction list"
  | SignAndBroadcast string string "tx_msg list"
  | EvmTransactions "evm_tx list"
  | TonTransfer string int string int string

definition connect_client :: "swap_handler \<Rightarrow> string \<Rightarrow> string \<Rightarrow> string option \<Rightarrow> unit res" where
  "connect_client h chainId rpc gasPrice =
     (case h_cosmosWallet h of None \<Rightarrow> Inl TypeError | Some w \<Rightarrow> connect w chainId rpc gasPrice)"

definition network_gas_price :: "swap_handler \<Rightarrow> string" where
  "network_gas_price h = net_gasPrice (h_network h) @ net_denom (h_network h)"

definition getGasPriceFromToken :: "env \<Rightarrow> swap_handler \<Rightarrow> string res" where
  "getGasPriceFromToken E h =
     (let token = originalFromToken (h_data h) in
      case t_feeCurrencies token of
        None \<Rightarrow> generateError (''This token '' @ token_json (e_codecs E) token @
          '' does not have fee currencies. getGasPriceFromToken is not called correctly'')
      | Some [] \<Rightarrow> generateError (''This token '' @ token_json (e_codecs E) token @
          '' does not have any fee currencies. Something is wrong'')
      | Some (fc # _) \<Rightarrow> Inr (num_to_string (getCosmosGasPrice (t_gasAverage token)) @ coinMinimalDenom fc))"

definition swap :: "env \<Rightarrow> swap_handler \<Rightarrow> submission res" where
  "swap E h =
     rbind (generateMsgsSwap E h) (\<lambda>messages.
     rbind (connect_client h ''Oraichain'' (net_rpc (h_network h)) (Some (network_gas_price h))) (\<lambda>_.
     Inr (ExecuteMultiple (s_cosmos (sd_sender (h_data h))) messages)))"

section \<open>EVM chains\<close>

definition GRAVITY_EVM_CONTRACT :: string where "GRAVITY_EVM_CONTRACT = ''0x9a0A02B296240D2620E339cCDE386Ff612f07Be5''"

definition GRAVITY_TRON_CONTRACT :: string where "GRAVITY_TRON_CONTRACT = ''0x73Ddc880916021EFC4754Cb42B53db6EAB1f9D64''"

definition UNISWAP_ROUTER_DEADLINE :: int where "UNISWAP_ROUTER_DEADLINE = 15000"

definition gravityContracts :: "string \<Rightarrow> string option" where
  "gravityContracts chainId =
     map_of [(''0x38'', GRAVITY_EVM_CONTRACT), (''0x01'', GRAVITY_EVM_CONTRACT), (''0x2b6653dc'', GRAVITY_TRON_CONTRACT)] chainId"

definition checksum_address :: "env \<Rightarrow> string option \<Rightarrow> string res" where
  "checksum_address E address =
     (case (case address of None \<Rightarrow> None | Some a \<Rightarrow> eth_getAddress (e_ext E) a) of
        None \<Rightarrow> Inl (Rejected (invalid_address (e_codecs E) address))
      | Some c \<Rightarrow> Inr c)"

text \<open>A missing simulated price is not \<open>DecimalLike\<close>.\<close>

definition evm_minimum :: "swap_handler \<Rightarrow> token_item \<Rightarrow> string \<Rightarrow> int res" where
  "evm_minimum h fromToken finalFromAmount =
     (case simulatePrice (h_data h) of
        None \<Rightarrow> Inl (Thrown ''value is not `DecimalLike`'')
      | Some price \<Rightarrow> rbind (calculateMinReceive price finalFromAmount (slippage_num (userSlippage (h_data h))) (t_decimals fromToken))
          bigint_of_string)"

definition evm_swap_call :: "env \<Rightarrow> token_item \<Rightarrow> string option \<Rightarrow> string \<Rightarrow> string \<Rightarrow> string \<Rightarrow> int \<Rightarrow> string \<Rightarrow> string \<Rightarrow>
    evm_tx res" where
  "evm_swap_call E fromToken toTokenContractAddr destination gravity router minimumReceive amount recipient =
     (let deadline = Date_now (e_ext E) + UNISWAP_ROUTER_DEADLINE in
      if \<not> truthy (t_contractAddress fromToken)
      then rbind (checksum_address E toTokenContractAddr) (\<lambda>token.
        Inr (BridgeFromETH gravity token minimumReceive destination amount))
      else if \<not> truthy toTokenContractAddr
      then Inr (SwapExactTokensForETH router amount minimumReceive
        (getEvmSwapRoute (e_ext E) (t_chainId fromToken) (t_contractAddress fromToken) None) recipient deadline)
      else if destination = []
      then Inr (SwapExactTokensForTokens router amount minimumReceive
        (getEvmSwapRoute (e_ext E) (t_chainId fromToken) (t_contractAddress fromToken) toTokenContractAddr) recipient deadline)
      else rbind (checksum_address E (t_contractAddress fromToken)) (\<lambda>f.
        rbind (checksum_address E toTokenContractAddr) (\<lambda>t.
        Inr (BridgeFromERC20 gravity f t amount minimumReceive destination))))"

definition evmSwap :: "env \<Rightarrow> swap_handler \<Rightarrow> token_item \<Rightarrow> string option \<Rightarrow> string option \<Rightarrow> string option \<Rightarrow> string \<Rightarrow>
    evm_tx list res" where
  "evmSwap E h fromToken toTokenContractAddr metamaskAddress tronAddress destination =
     (case h_evmWallet h of
        None \<Rightarrow> Inl TypeError
      | Some w \<Rightarrow>
          rbind (toAmount (ANum (fromAmount (h_data h))) (t_decimals fromToken)) (\<lambda>a.
          let finalFromAmount = int_str a in
          rbind (checksum_address E (gravityContracts (t_chainId fromToken))) (\<lambda>gravity.
          rbind (checksum_address E (getFinalEvmAddress (t_chainId fromToken) metamaskAddress tronAddress)) (\<lambda>owner.
          rbind (if truthy (recipientAddress (h_data h)) then checksum_address E (recipientAddress (h_data h)) else Inr owner) (\<lambda>recipient.
          rbind (swapRouter w gravity) (\<lambda>router.
          rbind (evm_minimum h fromToken finalFromAmount) (\<lambda>minimumReceive.
          rbind (checkOrIncreaseAllowance (e_codecs E) w fromToken (Some owner)
              (if \<not> truthy toTokenContractAddr then router else gravity) finalFromAmount) (\<lambda>approvals.
          rbind (evm_swap_call E fromToken toTokenContractAddr destination gravity router minimumReceive finalFromAmount recipient) (\<lambda>call.
          Inr (approvals @ [call]))))))))))"

definition transferToGravity :: "env \<Rightarrow> swap_handler \<Rightarrow> string \<Rightarrow> evm_tx list res" where
  "transferToGravity E h to1 =
     (let token = originalFromToken (h_data h); sender = sd_sender (h_data h);
          gravity = gravityContracts (t_chainId token) in
      rbind (toAmount (ANum (fromAmount (h_data h))) (t_decimals token)) (\<lambda>amountVal.
      case h_evmWallet h of
        None \<Rightarrow> Inl TypeError
      | Some w \<Rightarrow>
          if isTron (t_chainId token)
          then if \<not> truthy (s_tron sender) then generateError ''Tron address is not specified. Cannot transfer!''
            else if checkTron w
            then (case gravity of
                None \<Rightarrow> Inl TypeError
              | Some g \<Rightarrow>
                  rbind (ethToTronAddress (e_codecs E) g) (\<lambda>address.
                  rbind (tron_to_eth E (s_tron sender)) (\<lambda>issuer.
                  submitTronSmartContract (e_codecs E) w address ''sendToCosmos(address,string,uint256)'' None
                    [\<lparr>tp_type = ''address'', tp_value = (case t_contractAddress token of None \<Rightarrow> TUndefined | Some c \<Rightarrow> TText c)\<rparr>,
                     \<lparr>tp_type = ''string'', tp_value = TText to1\<rparr>, \<lparr>tp_type = ''uint256'', tp_value = TBig amountVal\<rparr>] issuer)))
            else Inr []
          else if checkEthereum w
          then if \<not> truthy gravity \<or> \<not> truthy (s_evm sender) \<or> to1 = []
            then generateError ''OraiBridge contract addr or from or to is not specified. Cannot transfer!''
            else Inr [SendToCosmos (str_of gravity) (t_contractAddress token) to1 amountVal (str_of (s_evm sender))]
          else Inr []))"

definition transferEvmToIBC :: "env \<Rightarrow> swap_handler \<Rightarrow> string \<Rightarrow> evm_tx list res" where
  "transferEvmToIBC E h swapRoute1 =
     (let from1 = originalFromToken (h_data h); sender = sd_sender (h_data h) in
      case h_evmWallet h of
        None \<Rightarrow> Inl TypeError
      | Some w \<Rightarrow>
          (case gravityContracts (t_chainId from1) of
             None \<Rightarrow> generateError ''No gravity contract addr or no from token''
           | Some gravity \<Rightarrow>
               rbind (toAmount (ANum (fromAmount (h_data h))) (t_decimals from1)) (\<lambda>a.
               rbind (checkOrIncreaseAllowance (e_codecs E) w from1
                   (getFinalEvmAddress (t_chainId from1) (s_evm sender) (s_tron sender)) gravity (int_str a)) (\<lambda>approvals.
               rbind (transferToGravity E h swapRoute1) (\<lambda>txs. Inr (approvals @ txs))))))"

section \<open>Checks before a transfer\<close>

definition relayer_check :: "env \<Rightarrow> swap_handler \<Rightarrow> unit res" where
  "relayer_check E h =
     (let d = h_data h in
      if option_set skipRelayerFeeCheck h then Inr ()
      else rbind (checkFeeRelayer (e_ext E) (e_queries E) (oraichainTokens h) (originalFromToken d) (relayerFee d) (fromAmount d)) (\<lambda>isSufficient.
        if isSufficient then Inr ()
        else generateError (''Your swap amount '' @ num_to_string (fromAmount d) @
          '' cannot cover the fees for this transaction. Please try again with a higher swap amount'')))"

definition channel_balance_check :: "env \<Rightarrow> swap_handler \<Rightarrow> unit res" where
  "channel_balance_check E h =
     (let d = h_data h in
      rbind (h_getIbcInfo h ''Oraichain'' (t_chainId (originalToToken d))) (\<lambda>ibcInfo.
      checkBalanceChannelIbc (e_ext E) (e_queries E) ibcInfo (originalFromToken d) (originalToToken d) (simulateAmount d)
        (getCwIcs20ContractAddr h) (oraichainTokens h)))"

definition bridge_balance_check :: "env \<Rightarrow> swap_handler \<Rightarrow> unit res" where
  "bridge_balance_check E h =
     (let d = h_data h in
      if option_set skipBalanceIbcCheck h then Inr ()
      else checkBalanceIBCOraichain (e_ext E) (e_queries E) (originalToToken d) (originalFromToken d) (fromAmount d) (simulateAmount d)
        (getCwIcs20ContractAddr h) (h_network h) (oraichainTokens h))"

section \<open>From Oraichain to another chain\<close>

definition swapAndTransferToOtherNetworks :: "env \<Rightarrow> swap_handler \<Rightarrow> string \<Rightarrow> submission res" where
  "swapAndTransferToOtherNetworks E h swapType =
     (let sender = sd_sender (h_data h); network = h_network h in
      if h_cosmosWallet h = None then generateError ''Cannot transfer and swap if the cosmos wallet is not initialized''
      else rbind (getGasPriceFromToken E h) (\<lambda>gas.
        rbind (connect_client h (net_chainId network) (net_rpc network) (Some gas)) (\<lambda>_.
        rbind (keplrAddr h ''Oraichain'') (\<lambda>oraiAddress.
        if oraiAddress \<noteq> Some (s_cosmos sender)
        then generateError (''There is a mismatch between the sender '' @ s_cosmos sender @ '' versus the Oraichain address '' @
          template oraiAddress @ ''. Should not swap!'')
        else rbind (if swapType = ''oraichain-to-cosmos'' then combineSwapMsgOraichain E h None
                    else if swapType = ''oraichain-to-evm''
                    then rbind (relayer_check E h) (\<lambda>_. combineMsgEvm E h (s_evm sender) (s_tron sender))
                    else generateError (''Universal swap type '' @ swapType @ '' is wrong. Should not call this function!'')) (\<lambda>encodedObjects.
          rbind (if option_set skipBalanceIbcCheck h then Inr () else channel_balance_check E h) (\<lambda>_.
          Inr (SignAndBroadcast (net_chainId network) (s_cosmos sender) encodedObjects)))))))"

section \<open>From an EVM chain or TON\<close>

definition transferAndSwap :: "env \<Rightarrow> swap_handler \<Rightarrow> string \<Rightarrow> evm_tx list res" where
  "transferAndSwap E h swapRoute1 =
     (let d = h_data h; sender = sd_sender d; from1 = originalFromToken d; to1 = originalToToken d; network = h_network h in
      if \<not> truthy (s_evm sender) \<and> \<not> truthy (s_tron sender) then generateError ''Cannot call evm swap if the evm address is empty''
      else if h_cosmosWallet h = None then generateError ''Cannot transfer and swap if cosmos wallet is not initialized''
      else rbind (connect_client h (net_chainId network) (net_rpc network) None) (\<lambda>_.
        case h_evmWallet h of
          None \<Rightarrow> Inl TypeError
        | Some w \<Rightarrow>
            rbind (if isTron (t_chainId from1) then Inr () else switchNetwork w (t_chainId from1)) (\<lambda>_.
            if isEvmSwappable (e_ext E) (t_chainId from1) (t_chainId to1) (t_contractAddress from1) (t_contractAddress to1)
            then evmSwap E h from1 (t_contractAddress to1) (s_evm sender) (s_tron sender) []
            else let same = getTokenOnSpecificChainId (t_coinGeckoId to1) (t_chainId from1) (flattenTokens h);
                toChainId = (case same of None \<Rightarrow> t_chainId to1 | Some t \<Rightarrow> t_chainId t);
                toContractAddr = (case same of None \<Rightarrow> t_contractAddress to1 | Some t \<Rightarrow> t_contractAddress t);
                destination = (case same of None \<Rightarrow> [] | Some t \<Rightarrow> if t_chainId t = t_chainId to1 then [] else swapRoute1)
              in if isEvmSwappable (e_ext E) (t_chainId from1) toChainId (t_contractAddress from1) toContractAddr \<and>
                    isSupportedNoPoolSwapEvm (t_coinGeckoId from1)
              then evmSwap E h from1 toContractAddr (s_evm sender) (s_tron sender) destination
              else rbind (bridge_balance_check E h) (\<lambda>_. rbind (relayer_check E h) (\<lambda>_. transferEvmToIBC E h swapRoute1)))))"

definition transferAndSwapTon :: "env \<Rightarrow> swap_handler \<Rightarrow> string \<Rightarrow> submission res" where
  "transferAndSwapTon E h swapRoute1 =
     (let d = h_data h; network = h_network h in
      if \<not> truthy (s_ton (sd_sender d)) then generateError ''Cannot call ton swap if the ton address is empty''
      else if h_cosmosWallet h = None then generateError ''Cannot transfer and swap if cosmos wallet is not initialized''
      else rbind (connect_client h (net_chainId network) (net_rpc network) None) (\<lambda>_.
        rbind (bridge_balance_check E h) (\<lambda>_.
        rbind (relayer_check E h) (\<lambda>_.
        rbind (tonBridgeSender (e_codecs E) (t_rpc (originalToToken d))) (\<lambda>receiver.
        rbind (toNano (e_codecs E) (fromAmount d)) (\<lambda>amount.
        Inr (TonTransfer receiver amount (t_denom (originalFromToken d)) (tonTimeout (e_codecs E) 3600)
          (str_of (nth_str (js_split (CHR '':'') swapRoute1) 1)))))))))"

section \<open>The minimum to receive\<close>

definition math_max0 :: "js_num \<Rightarrow> js_num" where
  "math_max0 n = (if n = NaN then NaN else if num_less (Fin 0) n then n else Fin 0)"

text \<open>
  \<open>toLocaleString("fullwide", { useGrouping: false })\<close> of an integer that is not negative: the digits of
  the number, without exponent. Nothing else reaches it but \<open>NaN\<close>.
\<close>

definition fullwide :: "js_num \<Rightarrow> string" where
  "fullwide n = (case n of
     Fin x \<Rightarrow> (if x = 0 then ''0'' else let (s, k) = shortest 17 1 x (exp10 x); ds = nat_str (nat s)
                in ds @ replicate (nat (k - int (length ds))) (CHR ''0''))
   | _ \<Rightarrow> num_to_string n)"

definition relayer_fee_in_token :: "env \<Rightarrow> swap_handler \<Rightarrow> string res" where
  "relayer_fee_in_token E h =
     (let d = h_data h;
          fee = (case relayerFee d of None \<Rightarrow> ''0'' | Some f \<Rightarrow> if relayerAmount f = [] then ''0'' else relayerAmount f) in
      if t_coinGeckoId (originalToToken d) = ''oraichain-token'' then Inr fee
      else rbind (connect_client h (net_chainId (h_network h)) (net_rpc (h_network h)) (Some (network_gas_price h))) (\<lambda>_.
        rbind (h_getTokenOnOraichain h ''oraichain-token'' False) (\<lambda>orai.
        rbind (h_getTokenOnOraichain h (t_coinGeckoId (originalToToken d)) False) (\<lambda>to1.
        rbind (toDisplay (DisplayStr fee) 6 6) (\<lambda>amount.
        rbind (handleSimulateSwap (e_ext E) (e_queries E) (flattenTokens h) (oraichainTokens h) orai (Some to1) amount
            (Some \<lparr>useIbcWasm = True, useAlphaIbcWasm = False\<rparr>)
            (Some \<lparr>ro_path = Some ''/smart-router/alpha-router'', ro_protocols = Some [''Oraidex'', ''OraidexV3''],
              ro_dontAllowSwapAfter = Some [''Oraidex'', ''OraidexV3''], ro_maxSplits = None, ro_ignoreFee = None\<rparr>)) (\<lambda>r.
        Inr (if sr_amount r \<noteq> [] then sr_amount r else fee)))))))"

definition calculateMinimumReceive :: "env \<Rightarrow> swap_handler \<Rightarrow> string res" where
  "calculateMinimumReceive E h =
     (let d = h_data h; simulated = string_to_num (simulateAmount d);
          percent = (\<lambda>p. bd_num (num_div (num_mul p simulated) (Fin 100))) in
      rbind (relayer_fee_in_token E h) (\<lambda>subRelayerFee.
      rbind (new_BigDecimal (DStr (simulateAmount d)) None) (\<lambda>b.
      rbind (bd_sub b (percent (case bridgeFee d of None \<Rightarrow> Fin 1 | Some f \<Rightarrow> f))) (\<lambda>b1.
      rbind (bd_sub b1 (percent (case userSlippage d of None \<Rightarrow> Fin 0 | Some s \<Rightarrow> s))) (\<lambda>b2.
      rbind (bd_sub b2 (DStr subRelayerFee)) (\<lambda>b3.
      Inr (fullwide (math_max0 (math_floor (string_to_num (bd_toString b3)))))))))))"

section \<open>From a Cosmos chain\<close>

definition hook_memo :: "swap_handler \<Rightarrow> string \<Rightarrow> string \<Rightarrow> string" where
  "hook_memo h oraiAddress args = JSON_stringify (JObj [(''wasm'', JObj
     [(''contract'', JStr (getCwIcs20ContractAddr h)),
      (''msg'', JObj [(''ibc_hooks_receive'', JObj
        [(''func'', JStr ''universal_swap''), (''orai_receiver'', JStr oraiAddress), (''args'', JStr args)])])])])"

text \<open>Noble takes the receiver on Oraichain and the memo as they are.\<close>

definition noble_receiver :: "env \<Rightarrow> swap_handler \<Rightarrow> string \<Rightarrow> string res" where
  "noble_receiver E h oraiAddress =
     (let r = recipientAddress (h_data h) in
      if truthy r
      then let c = checkValidateAddressWithNetwork (e_ext E) (str_of r) ''Oraichain'' (cosmosChains (e_ext E)) in
        if \<not> isValid c \<or> ac_network c \<noteq> Some ''Oraichain''
        then generateError ''Recipient address invalid! Only support bridge to Oraichain'' else Inr (str_of r)
      else Inr oraiAddress)"

definition swapCosmosToOtherNetwork :: "env \<Rightarrow> swap_handler \<Rightarrow> string option \<Rightarrow> submission res" where
  "swapCosmosToOtherNetwork E h destinationReceiver =
     (let d = h_data h; from1 = originalFromToken d in
      if h_cosmosWallet h = None then Inl TypeError
      else rbind (getGasPriceFromToken E h) (\<lambda>gas.
        rbind (connect_client h (t_chainId from1) (t_rpc from1) (Some gas)) (\<lambda>_.
        rbind (toAmount (ANum (fromAmount d)) (t_decimals from1)) (\<lambda>amount.
        rbind (h_getIbcInfo h (t_chainId from1) ''Oraichain'') (\<lambda>ibcInfo.
        rbind (keplrAddr h ''Oraichain'') (\<lambda>oraiAddress.
        rbind (if option_set isIbcWasm h then calculateMinimumReceive E h else Inr (simulateAmount d)) (\<lambda>minimumReceive.
        rbind (addOraiBridgeRoute (e_ext E)
            \<lparr>sourceReceiver = oraiAddress, ba_injAddress = None, ba_destReceiver = destinationReceiver, ba_recipientAddress = None,
             ba_evmAddress = None, ba_tronAddress = None, ba_tonAddress = None\<rparr>
            from1 (originalToToken d) minimumReceive (slippage_num (userSlippage d)) (cosmosTokens h)
            (map_option swap_option.truncate (h_options h)) (alphaSmartRoutes d)) (\<lambda>r.
        let args = str_of (nth_str (js_split (CHR '':'') (swapRoute r)) 1); noble = (t_chainId from1 = ''noble-1'') in
        rbind (make_coin (e_codecs E) (int_str amount) (t_denom from1)) (\<lambda>token.
        rbind (if noble then noble_receiver E h (str_of oraiAddress) else Inr (getCwIcs20ContractAddr h)) (\<lambda>receiver.
        rbind (ibc_transfer_msg E h ibcInfo token receiver (if noble then args else hook_memo h (str_of oraiAddress) args)
            (calculateTimeoutTimestamp (ie_timeout ibcInfo) (Date_now (e_ext E)))) (\<lambda>m.
        Inr (SignAndBroadcast (t_chainId from1) (s_cosmos (sd_sender d)) [m]))))))))))))"

section \<open>Smart routes\<close>

definition types_from_cosmos :: "string list" where
  "types_from_cosmos = [''oraichain-to-oraichain'', ''oraichain-to-cosmos'', ''oraichain-to-evm'', ''oraichain-to-ton'', ''cosmos-to-others'']"

definition alphaSmartRouterSwapNewMsg :: "env \<Rightarrow> swap_handler \<Rightarrow> string \<Rightarrow> string \<Rightarrow> (string \<Rightarrow> string option) \<Rightarrow> submission res" where
  "alphaSmartRouterSwapNewMsg E h swapRoute1 swapType receiverAddresses =
     (let d = h_data h; from1 = originalFromToken d;
          client = rbind (if h_cosmosWallet h = None then Inl TypeError else getGasPriceFromToken E h) (\<lambda>gas.
            connect_client h (t_chainId from1) (t_rpc from1) (Some gas)) in
      if swapType \<in> set types_from_cosmos
      then (case alphaSmartRoutes d of
              None \<Rightarrow> Inl TypeError
            | Some a \<Rightarrow>
                if rr_routes a = [] then generateError (''Missing router universalSwapTypeFromCosmos: '' @ swapType @ ''!'')
                else rbind (if \<not> option_set skipBalanceIbcCheck h \<and> swapType \<in> {''oraichain-to-evm'', ''oraichain-to-cosmos''}
                            then rbind client (\<lambda>_. channel_balance_check E h) else Inr ()) (\<lambda>_.
                  rbind (rmap (\<lambda>r. generateMsgSwap (e_ext E) r (num_div (slippage_num (userSlippage d)) (Fin 100)) receiverAddresses
                      (recipientAddress d)) (rr_routes a)) (\<lambda>msgs.
                  rbind client (\<lambda>_.
                  Inr (SignAndBroadcast (t_chainId from1) (s_cosmos (sd_sender d)) (map TxEncoded msgs))))))
      else if swapType = ''ton-to-others'' then transferAndSwapTon E h swapRoute1
      else rbind (transferAndSwap E h swapRoute1) (\<lambda>txs. Inr (EvmTransactions txs)))"

section \<open>The entry point\<close>

definition getToAddressUniversalSwap :: "env \<Rightarrow> swap_handler \<Rightarrow> string option res" where
  "getToAddressUniversalSwap E h =
     (let d = h_data h; toChainId = t_chainId (originalToToken d); sender = sd_sender d in
      if truthy (recipientAddress d)
      then if isValid (checkValidateAddressWithNetwork (e_ext E) (str_of (recipientAddress d)) toChainId (cosmosChains (e_ext E)))
        then if toChainId = ''0x2b6653dc'' then rbind (tron_to_eth E (recipientAddress d)) (\<lambda>a. Inr (Some a))
          else Inr (recipientAddress d)
        else generateError ''Recipient address invalid!''
      else getUniversalSwapToAddress E h toChainId (s_evm sender) (s_tron sender) (s_ton sender))"

definition routes_use :: "string \<Rightarrow> flat_route list \<Rightarrow> bool" where
  "routes_use chain rs = list_ex (\<lambda>r. fr_chainId r = chain \<or> a_tokenOutChainId r = Some chain) rs"

text \<open>The addresses on Injective and TRON, asked for only when a route goes there\<close>

definition route_addresses :: "env \<Rightarrow> swap_handler \<Rightarrow> (string option \<times> string option) res" where
  "route_addresses E h =
     (let d = h_data h; routes = (case alphaSmartRoutes d of None \<Rightarrow> [] | Some a \<Rightarrow> rr_routes a) in
      if option_set isAlphaIbcWasm h \<and> routes \<noteq> []
      then rbind (flattenSmartRouters routes) (\<lambda>routesFlatten.
        rbind (if routes_use ''injective-1'' routesFlatten then keplrAddr h ''injective-1'' else Inr None) (\<lambda>injAddress.
        rbind (if routes_use ''0x2b6653dc'' routesFlatten then rbind (tron_to_eth E (s_tron (sd_sender d))) (\<lambda>a. Inr (Some a))
               else Inr None) (\<lambda>tronAddress.
        Inr (injAddress, tronAddress))))
      else Inr (None, None))"

definition submit_swap :: "env \<Rightarrow> swap_handler \<Rightarrow> string option \<Rightarrow> string \<Rightarrow> string option \<Rightarrow> string option \<Rightarrow> swap_route \<Rightarrow>
    submission res" where
  "submit_swap E h toAddress oraiAddress injAddress tronAddress r =
     (let sender = sd_sender (h_data h) in
      if option_set isAlphaIbcWasm h
      then rbind (generateAddress (e_ext E) oraiAddress injAddress (cosmosChains (e_ext E))
          ([(''ton'', s_ton sender), (''0x01'', s_evm sender), (''0x38'', s_evm sender)] @
           (case tronAddress of None \<Rightarrow> [] | Some a \<Rightarrow> [(''0x2b6653dc'', Some a)]))) (\<lambda>receiverAddresses.
        alphaSmartRouterSwapNewMsg E h (swapRoute r) (universalSwapType r) receiverAddresses)
      else if universalSwapType r = ''oraichain-to-oraichain'' then swap E h
      else if universalSwapType r = ''oraichain-to-cosmos'' \<or> universalSwapType r = ''oraichain-to-evm''
      then swapAndTransferToOtherNetworks E h (universalSwapType r)
      else if universalSwapType r = ''cosmos-to-others'' then swapCosmosToOtherNetwork E h toAddress
      else rbind (transferAndSwap E h (swapRoute r)) (\<lambda>txs. Inr (EvmTransactions txs)))"

definition processUniversalSwap :: "env \<Rightarrow> swap_handler \<Rightarrow> submission res" where
  "processUniversalSwap E h =
     (let d = h_data h in
      rbind (getToAddressUniversalSwap E h) (\<lambda>toAddress.
      rbind (keplrAddr h ''Oraichain'') (\<lambda>oraiAddress.
      if \<not> truthy oraiAddress then generateError ''orai address and obridge address invalid!''
      else if \<not> isValid (checkValidateAddressWithNetwork (e_ext E) (str_of oraiAddress) ''Oraichain'' (cosmosChains (e_ext E)))
      then generateError ''orai get address invalid!''
      else rbind (if option_set isIbcWasm h then calculateMinimumReceive E h else Inr (simulateAmount d)) (\<lambda>minimumReceive.
        rbind (route_addresses E h) (\<lambda>(injAddress, tronAddress).
        rbind (addOraiBridgeRoute (e_ext E)
            \<lparr>sourceReceiver = oraiAddress, ba_injAddress = injAddress, ba_destReceiver = toAddress,
             ba_recipientAddress = recipientAddress d, ba_evmAddress = s_evm (sd_sender d), ba_tronAddress = tronAddress,
             ba_tonAddress = s_ton (sd_sender d)\<rparr>
            (originalFromToken d) (originalToToken d) minimumReceive (slippage_num (userSlippage d)) (cosmosTokens h)
            (map_option swap_option.truncate (h_options h)) (alphaSmartRoutes d))
          (submit_swap E h toAddress (str_of oraiAddress) injAddress tronAddress))))))"

end
