(* ===== verification/HandlerLaws.thy ===== *)
theory HandlerLaws
  imports Dispatch SmartLaws SwapLaws
begin

text \<open>
  What the handler gives to a wallet: every message of a Cosmos transaction is the sender's own, a bridge
  transaction is sent only after its checks, allowances are given to the contract that is called
  (with one exception, stated), the swap precedes the conversion and the transfer, and TRON addresses
  survive their two conversions.
\<close>

section \<open>Whose messages\<close>

definition msg_sender :: "tx_msg \<Rightarrow> string" where
  "msg_sender m = (case m of TxTransfer t \<Rightarrow> x_sender t
     | TxEncoded e \<Rightarrow> (case eo_value e of MsgTransfer t \<Rightarrow> mt_sender t | MsgExecuteContract c \<Rightarrow> me_sender c))"

definition own_msgs :: "swap_handler \<Rightarrow> tx_msg list \<Rightarrow> bool" where
  "own_msgs h ms \<longleftrightarrow> (\<forall>m \<in> set ms. msg_sender m = s_cosmos (sd_sender (h_data h)))"

lemma own_msgs_simps [simp]:
  "own_msgs h []" "own_msgs h (ms @ ms') \<longleftrightarrow> own_msgs h ms \<and> own_msgs h ms'"
  "own_msgs h [m] \<longleftrightarrow> msg_sender m = s_cosmos (sd_sender (h_data h))"
  by (auto simp: own_msgs_def)

text \<open>A way to build the messages of a transaction from the swap data, all of them the sender's.\<close>

locale tx_builder =
  fixes build :: "env \<Rightarrow> swap_handler \<Rightarrow> tx_msg list res"
  assumes own: "build E h = Inr ms \<Longrightarrow> own_msgs h ms"
begin

lemma optional: "(if b then build E h else Inr []) = Inr ms \<Longrightarrow> own_msgs h ms"
  by (cases b) (auto dest: own)

end

lemma own_encode_msgs [simp]: "own_msgs h (encode_msgs E (s_cosmos (sd_sender (h_data h))) ms)"
  by (auto simp: own_msgs_def encode_msgs_def getEncodedExecuteContractMsgs_def msg_sender_def)

lemma ibc_transfer_msg_value:
  "ibc_transfer_msg E h i c r memo t = Inr m \<Longrightarrow> \<exists>n. bigint_of_string t = Inr n \<and>
     m = TxTransfer \<lparr>x_sourcePort = ie_source i, x_sourceChannel = ie_channel i, x_token = c,
       x_sender = s_cosmos (sd_sender (h_data h)), x_receiver = r, x_memo = memo, x_timeoutTimestamp = n\<rparr>"
  by (auto simp: ibc_transfer_msg_def elim: rbindE)

lemma own_ibc_transfer_msg: "ibc_transfer_msg E h i c r memo t = Inr m \<Longrightarrow> own_msgs h [m]"
  by (auto simp: msg_sender_def dest: ibc_transfer_msg_value)

lemma own_ibc_wasm_msgs: "ibc_wasm_msgs E h i a d memo = Inr ms \<Longrightarrow> own_msgs h ms"
  by (auto simp: ibc_wasm_msgs_def split: option.splits elim!: rbindE)

lemma own_convert_reverse: "convert_reverse_msgs E h c = Inr ms \<Longrightarrow> own_msgs h ms"
  by (auto simp: convert_reverse_msgs_def elim!: rbindE)

interpretation swap_tx: tx_builder encoded_swap
  by unfold_locales (auto simp: encoded_swap_def elim!: rbindE)

lemmas own_parts = own_ibc_transfer_msg own_ibc_wasm_msgs own_convert_reverse swap_tx.own swap_tx.optional

text \<open>Both combined transactions are a swap, a conversion and a transfer, in this order.\<close>

definition optional_swap :: "env \<Rightarrow> swap_handler \<Rightarrow> tx_msg list res" where
  "optional_swap E h = (if t_coinGeckoId (originalFromToken (h_data h)) \<noteq> t_coinGeckoId (originalToToken (h_data h))
     then encoded_swap E h else Inr [])"

lemma own_optional_swap: "optional_swap E h = Inr ms \<Longrightarrow> own_msgs h ms"
  unfolding optional_swap_def by (rule swap_tx.optional)

lemma own_optional_convert:
  "(if b then rbind (evm_amount E h t) (convert_reverse_msgs E h) else Inr []) = Inr ms \<Longrightarrow> own_msgs h ms"
  by (cases b) (auto elim!: rbindE dest: own_convert_reverse)

lemma own_transfer:
  "(if b then ibc_wasm_msgs E h i a d [] else rbind (transfer_amount h) (\<lambda>n. rbind (make_coin K n t) (\<lambda>c.
      rbind (ibc_transfer_msg E h i c a [] (timeout c)) (\<lambda>m. Inr [m])))) = Inr ms \<Longrightarrow> own_msgs h ms"
  by (cases b) (auto elim!: rbindE dest: own_ibc_wasm_msgs own_ibc_transfer_msg)

lemma combineSwapMsgOraichain_shape:
  assumes "combineSwapMsgOraichain E h t = Inr ms" "t_chainId (originalToToken (h_data h)) \<noteq> ''Oraichain''"
  obtains i a and tok :: token_item and swaps converts transfer where "ms = swaps @ converts @ transfer"
    "optional_swap E h = Inr swaps" "own_msgs h converts" "own_msgs h transfer"
    "h_getIbcInfo h ''Oraichain'' (t_chainId (originalToToken (h_data h))) = Inr i"
    "receive_address E h (t_chainId (originalToToken (h_data h))) = Inr a"
    "(if str_includes ''wasm'' (ie_source i) then ibc_wasm_msgs E h i a (t_denom (originalToToken (h_data h))) []
      else rbind (transfer_amount h) (\<lambda>n. rbind (make_coin (e_codecs E) n (t_denom tok)) (\<lambda>c.
        rbind (ibc_transfer_msg E h i c a [] (case t of Some t \<Rightarrow> t
          | None \<Rightarrow> calculateTimeoutTimestamp (ie_timeout i) (Date_now (e_ext E)))) (\<lambda>m. Inr [m])))) = Inr transfer"
  using assms(1) unfolding combineSwapMsgOraichain_def Let_def if_not_P [OF assms(2)]
  apply (elim rbindE)
  subgoal premises p for i a token tok transfer converts swaps
    by (rule p(1) [where i = i and a = a and tok = tok and swaps = swaps and converts = converts and transfer = transfer])
      (use p(9) in simp, simp add: optional_swap_def p(8), rule own_optional_convert [OF p(7)], rule own_transfer [OF p(6)],
       rule p(2), rule p(3), rule p(6))
  done

lemma own_old_channel_msgs: "old_channel_msgs E h c a memo = Inr ms \<Longrightarrow> own_msgs h ms"
  unfolding old_channel_msgs_def by (elim rbindE) (auto dest!: own_convert_reverse own_ibc_transfer_msg)

lemma own_evm_bridge_msgs: "evm_bridge_msgs E h a b t = Inr ms \<Longrightarrow> own_msgs h ms"
  unfolding evm_bridge_msgs_def Let_def
  by (elim rbindE; simp split: if_split_asm; (elim rbindE)?; simp split: if_split_asm add: own_old_channel_msgs own_ibc_wasm_msgs del: insert_iff)

lemma combineMsgEvm_shape:
  assumes "combineMsgEvm E h a b = Inr ms"
  obtains swaps transfer where "ms = swaps @ transfer" "optional_swap E h = Inr swaps" "own_msgs h transfer"
  using assms unfolding combineMsgEvm_def Let_def optional_swap_def [symmetric]
  by (auto split: option.split_asm elim!: rbindE dest!: own_evm_bridge_msgs)

interpretation evm_tx: tx_builder "\<lambda>E h. combineMsgEvm E h a b"
  by unfold_locales (auto elim!: combineMsgEvm_shape dest: own_optional_swap)

interpretation orai_tx: tx_builder "\<lambda>E h. combineSwapMsgOraichain E h t"
proof
  fix E h ms
  assume a: "combineSwapMsgOraichain E h t = Inr ms"
  show "own_msgs h ms"
  proof (cases "t_chainId (originalToToken (h_data h)) = ''Oraichain''")
    case True
    then show ?thesis using a by (simp add: combineSwapMsgOraichain_def swap_tx.own)
  qed (rule combineSwapMsgOraichain_shape [OF a]; auto dest: own_optional_swap)
qed

lemma swapAndTransfer_own:
  assumes "swapAndTransferToOtherNetworks E h ty = Inr sub"
  obtains ms where "sub = SignAndBroadcast (net_chainId (h_network h)) (s_cosmos (sd_sender (h_data h))) ms" "own_msgs h ms"
    "keplrAddr h ''Oraichain'' = Inr (Some (s_cosmos (sd_sender (h_data h))))"
  using assms unfolding swapAndTransferToOtherNetworks_def Let_def
  by (auto elim!: rbindE split: if_split_asm dest!: orai_tx.own evm_tx.own)

lemma swapCosmos_own:
  assumes "swapCosmosToOtherNetwork E h dest = Inr sub"
  obtains m where "sub = SignAndBroadcast (t_chainId (originalFromToken (h_data h))) (s_cosmos (sd_sender (h_data h))) [m]"
    "msg_sender m = s_cosmos (sd_sender (h_data h))"
  using assms unfolding swapCosmosToOtherNetwork_def Let_def
  by (auto elim!: rbindE split: if_split_asm dest!: own_ibc_transfer_msg)

lemma guardE:
  assumes "(if b then generateError m else r) = Inr y"
  obtains "\<not> b" "r = Inr y"
  using assms by (cases b) simp_all

lemma processUniversalSwap_submits:
  assumes "processUniversalSwap E h = Inr sub"
  obtains t a i n r where "submit_swap E h t a i n r = Inr sub" "a \<noteq> []"
    "isValid (checkValidateAddressWithNetwork (e_ext E) a ''Oraichain'' (cosmosChains (e_ext E)))"
  using assms unfolding processUniversalSwap_def Let_def
  apply (elim rbindE guardE)
  subgoal premises p for t a m x
  proof -
    obtain i n where x: "x = (i, n)" by (cases x)
    from p(8) obtain r where "submit_swap E h t (str_of a) i n r = Inr sub" unfolding x by (auto elim: rbindE)
    then show thesis using p(1) p(4,5) by (cases a) auto
  qed
  done

text \<open>C7. Without the alpha router the handler never has a wallet sign for somebody else: every Cosmos
  transaction that \<open>processUniversalSwap\<close> submits is signed by the sender of the swap, its messages are
  the sender's own, and nothing is sent on TON.\<close>

theorem cosmos_messages_own:
  assumes "processUniversalSwap E h = Inr sub" "\<not> option_set isAlphaIbcWasm h"
  shows "case sub of
      ExecuteMultiple s instructions \<Rightarrow> s = s_cosmos (sd_sender (h_data h))
    | SignAndBroadcast chain s ms \<Rightarrow> s = s_cosmos (sd_sender (h_data h)) \<and> (\<forall>m \<in> set ms. msg_sender m = s)
    | EvmTransactions txs \<Rightarrow> True
    | TonTransfer receiver amount denom timeout memo \<Rightarrow> False"
proof -
  obtain t a i n r where "submit_swap E h t a i n r = Inr sub" using assms(1) by (rule processUniversalSwap_submits)
  then have "swap E h = Inr sub \<or> (\<exists>ty. swapAndTransferToOtherNetworks E h ty = Inr sub) \<or> (\<exists>d. swapCosmosToOtherNetwork E h d = Inr sub) \<or>
      (\<exists>txs. sub = EvmTransactions txs)"
    using assms(2) by (auto simp: submit_swap_def Let_def elim!: rbindE split: if_split_asm)
  then show ?thesis
    by (elim disjE exE) (auto simp: swap_def own_msgs_def elim!: rbindE swapAndTransfer_own swapCosmos_own)
qed

definition sample_keplr :: cosmos_wallet where
  "sample_keplr = \<lparr>getKeplrAddr = (\<lambda>_. Inr (Some ''orai1me'')), connect = (\<lambda>_ _ _. Inr ())\<rparr>"

definition sample_codecs :: codecs where
  "sample_codecs = \<lparr>base58_decode = (\<lambda>_. Inl TypeError), base58_encode = Inr, sha256 = Inr,
     make_coin = (\<lambda>a d. Inr \<lparr>c_denom = d, c_amount = a\<rparr>), toNano = (\<lambda>_. Inr 1), error_text = (\<lambda>_. []), error_message = (\<lambda>_. ''m''),
     token_json = (\<lambda>_. ''{}''), invalid_address = (\<lambda>_. ''{}''), tonBridgeSender = Inr, tonTimeout = (\<lambda>t. t)\<rparr>"

definition sample_queries :: queries where
  "sample_queries = \<lparr>q_smartRoute = (\<lambda>_ _ _. Inl (Rejected ''{}'')), q_amountsOut = (\<lambda>_ _ _ _. Inr []),
     q_channelWithKey = (\<lambda>_ _ _. Inl (Rejected ''{}'')), q_pairMapping = (\<lambda>_ _. Inr None),
     q_cw20Balance = (\<lambda>_ _. Inr ''2000000''), q_bankBalance = (\<lambda>_ _. Inr ''2000000'')\<rparr>"

definition sample_env :: env where
  "sample_env = \<lparr>e_ext = sample_ext, e_queries = sample_queries, e_codecs = sample_codecs, e_localeCompare = flat\<rparr>"

definition fee_token :: "string \<Rightarrow> string option \<Rightarrow> token_item" where
  "fee_token chain contract = (smart_token contract)\<lparr>t_chainId := chain, t_feeCurrencies := Some [\<lparr>coinMinimalDenom = ''orai'', gas_high = None\<rparr>]\<rparr>"

definition sample_data :: "token_item \<Rightarrow> token_item \<Rightarrow> swap_data" where
  "sample_data f t = \<lparr>sd_sender = \<lparr>s_cosmos = ''orai1me'', s_evm = Some ''0xme'', s_tron = None, s_ton = None\<rparr>,
     originalFromToken = f, originalToToken = t, fromAmount = Fin 1, simulateAmount = ''7'', userSlippage = Some (Fin 0),
     simulatePrice = Some ''2'', relayerFee = None, sd_amounts = None, recipientAddress = None, alphaSmartRoutes = None,
     bridgeFee = None, affiliates = None\<rparr>"

definition sample_evm_wallet :: evm_wallet where
  "sample_evm_wallet = \<lparr>allowance = (\<lambda>_ _ _ _. Inr 0), tronWeb = None, checkTron = False, checkEthereum = True,
     getEthAddress = Inr (Some ''0xme''), switchNetwork = (\<lambda>_. Inr ()), swapRouter = (\<lambda>_. Inr ''0xrouter'')\<rparr>"

definition sample_handler :: "token_item \<Rightarrow> token_item \<Rightarrow> swap_handler" where
  "sample_handler f t = \<lparr>h_data = sample_data f t,
     h_options = Some \<lparr>isSourceReceiverTest = False, isIbcWasm = False, ibcInfoTestMode = False, isAlphaIbcWasm = False,
       skipBalanceIbcCheck = True, skipRelayerFeeCheck = True\<rparr>,
     h_cosmosWallet = Some sample_keplr, h_evmWallet = Some sample_evm_wallet, h_tonWallet = None,
     flattenTokens = [f, t], oraichainTokens = [fee_token ''Oraichain'' None], cosmosTokens = [fee_token ''Oraichain'' None, t],
     tokenMap = (\<lambda>_. None),
     h_network = \<lparr>net_converter = ''orai1converter'', net_mixer_router = ''orai1router'', net_denom = ''orai'', net_gasPrice = ''0.001'',
       net_rpc = ''https://rpc.orai.io'', net_chainId = ''Oraichain''\<rparr>, currentTimestamp = 1700000000000\<rparr>"

lemma sample_fields [simp]:
  "e_ext sample_env = sample_ext" "e_codecs sample_env = sample_codecs" "e_queries sample_env = sample_queries"
  "h_data (sample_handler f t) = sample_data f t" "h_cosmosWallet (sample_handler f t) = Some sample_keplr"
  "h_evmWallet (sample_handler f t) = Some sample_evm_wallet" "flattenTokens (sample_handler f t) = [f, t]"
  "oraichainTokens (sample_handler f t) = [fee_token ''Oraichain'' None]"
  "cosmosTokens (sample_handler f t) = [fee_token ''Oraichain'' None, t]"
  "originalFromToken (sample_data f t) = f" "originalToToken (sample_data f t) = t" "fromAmount (sample_data f t) = Fin 1"
  "simulateAmount (sample_data f t) = ''7''" "recipientAddress (sample_data f t) = None" "alphaSmartRoutes (sample_data f t) = None"
  "userSlippage (sample_data f t) = Some (Fin 0)" "simulatePrice (sample_data f t) = Some ''2''" "sd_amounts (sample_data f t) = None"
  "s_cosmos (sd_sender (sample_data f t)) = ''orai1me''" "s_evm (sd_sender (sample_data f t)) = Some ''0xme''"
  "s_tron (sd_sender (sample_data f t)) = None" "s_ton (sd_sender (sample_data f t)) = None" "affiliates (sample_data f t) = None"
  "net_chainId (h_network (sample_handler f t)) = ''Oraichain''"
  by (simp_all add: sample_env_def sample_handler_def sample_data_def)

lemma fee_token_fields [simp]:
  "t_chainId (fee_token c a) = c" "t_contractAddress (fee_token c a) = a" "t_denom (fee_token c a) = ''uusdc''"
  "t_coinGeckoId (fee_token c a) = ''usd-coin''" "t_decimals (fee_token c a) = 6" "t_cosmosBased (fee_token c a) = False"
  "t_feeCurrencies (fee_token c a) = Some [\<lparr>coinMinimalDenom = ''orai'', gas_high = None\<rparr>]" "t_evmDenoms (fee_token c a) = None"
  "t_prefix (fee_token c a) = None" "t_rpc (fee_token c a) = []"
  by (simp_all add: fee_token_def smart_token_def)

lemma sample_options [simp]:
  "option_set isAlphaIbcWasm (sample_handler f t) = False" "option_set isIbcWasm (sample_handler f t) = False"
  "option_set ibcInfoTestMode (sample_handler f t) = False" "option_set skipBalanceIbcCheck (sample_handler f t) = True"
  "option_set skipRelayerFeeCheck (sample_handler f t) = True"
  "map_option swap_option.truncate (h_options (sample_handler f t)) =
     Some \<lparr>isSourceReceiverTest = False, isIbcWasm = False, ibcInfoTestMode = False, isAlphaIbcWasm = False\<rparr>"
  by (simp_all add: option_set_def sample_handler_def swap_option.truncate_def)

lemma sample_wallet [simp]:
  "keplrAddr (sample_handler f t) c = Inr (Some ''orai1me'')" "connect_client (sample_handler f t) c r g = Inr ()"
  by (simp_all add: keplrAddr_def connect_client_def sample_keplr_def)

theorem cosmos_messages_own_witness:
  "\<exists>m. processUniversalSwap sample_env (sample_handler (fee_token ''Oraichain'' None) (fee_token ''noble-1'' None)) =
      Inr (SignAndBroadcast ''Oraichain'' ''orai1me'' [m]) \<and> msg_sender m = ''orai1me''"
proof -
  let ?h = "sample_handler (fee_token ''Oraichain'' None) (fee_token ''noble-1'' None)"
  have to1: "getToAddressUniversalSwap sample_env ?h = Inr (Some ''orai1me'')"
    by (simp add: getToAddressUniversalSwap_def getUniversalSwapToAddress_def isCosmosChain_def sample_ext_def)
  have "addOraiBridgeRoute sample_ext
       \<lparr>sourceReceiver = Some ''orai1me'', ba_injAddress = None, ba_destReceiver = Some ''orai1me'', ba_recipientAddress = None,
        ba_evmAddress = Some ''0xme'', ba_tronAddress = None, ba_tonAddress = None\<rparr>
       (fee_token ''Oraichain'' None) (fee_token ''noble-1'' None) ''7'' s (cosmosTokens ?h)
       (Some \<lparr>isSourceReceiverTest = False, isIbcWasm = False, ibcInfoTestMode = False, isAlphaIbcWasm = False\<rparr>) None =
     Inr \<lparr>swapRoute = ''channel-1/orai1me'', universalSwapType = ''oraichain-to-cosmos'', isSmartRouter = False\<rparr>" for s
    using orai1me_valid
    by (simp add: addOraiBridgeRoute_def getSourceReceiver_def getRoute_def route_kind_def on_chain_def oraib2oraichain_def)
  then have p: "processUniversalSwap sample_env ?h = swapAndTransferToOtherNetworks sample_env ?h ''oraichain-to-cosmos''"
    using orai1me_valid by (simp add: processUniversalSwap_def to1 route_addresses_def submit_swap_def)
  have ibc: "h_getIbcInfo ?h ''Oraichain'' ''noble-1'' = Inr (ibc_end.truncate (wasm_end oraichain2noble oraichain2nobleTest))"
    by (simp add: h_getIbcInfo_def getIbcInfo_def ibcInfos_def wasm_end_def)
  have "\<exists>m. generateMsgsIbcWasm ?h sample_env (ibc_end.truncate (wasm_end oraichain2noble oraichain2nobleTest)) ''orai1me'' ''uusdc'' [] = Inr (Some [m])"
    by (simp add: generateMsgsIbcWasm_def h_getTokenOnOraichain_def getTokenOnOraichain_def wasm_end_def ibc_end.truncate_def
        IBC_WASM_CONTRACT_def nth_str_def Let_def)
  then have "\<exists>m. combineSwapMsgOraichain sample_env ?h None = Inr [m]"
    by (auto simp: combineSwapMsgOraichain_def ibc receive_address_def h_getTokenOnOraichain_def getTokenOnOraichain_def
        ibc_wasm_msgs_def encode_msgs_def getEncodedExecuteContractMsgs_def wasm_end_def ibc_end.truncate_def str_includes_def)
  then have "\<exists>m. processUniversalSwap sample_env ?h = Inr (SignAndBroadcast ''Oraichain'' ''orai1me'' [m])"
    by (auto simp: p swapAndTransferToOtherNetworks_def getGasPriceFromToken_def)
  then show ?thesis using cosmos_messages_own [of sample_env ?h] by auto
qed

section \<open>Allowances\<close>

text \<open>The contract a transaction calls\<close>

fun tx_target :: "evm_tx \<Rightarrow> string" where
  "tx_target (Approve c s a o1) = c"
| "tx_target (TriggerTron c s l ps i) = c"
| "tx_target (SendToCosmos g t d a f) = g"
| "tx_target (BridgeFromETH g t m d v) = g"
| "tx_target (BridgeFromERC20 g f t a m d) = g"
| "tx_target (SwapExactTokensForETH r a m p to1 d) = r"
| "tx_target (SwapExactTokensForTokens r a m p to1 d) = r"

definition is_direct_swap :: "evm_tx \<Rightarrow> bool" where
  "is_direct_swap tx = (case tx of SwapExactTokensForTokens r a m p to1 d \<Rightarrow> True | _ \<Rightarrow> False)"

definition approves :: "token_item \<Rightarrow> string \<Rightarrow> string \<Rightarrow> evm_tx \<Rightarrow> bool" where
  "approves token spender amount tx \<longleftrightarrow>
     (\<exists>a owner. tx = Approve (str_of (t_contractAddress token)) spender a owner \<and> (a = ''0'' \<or> a = amount))"

lemma allowance_txs:
  assumes "checkOrIncreaseAllowance K w token owner spender amount = Inr txs" "\<not> isTron (t_chainId token)"
  shows "list_all (approves token spender amount) txs"
  using assms by (auto simp: checkOrIncreaseAllowance_def Let_def approves_def elim!: rbindE split: if_split_asm)

lemma evm_swap_call_target:
  assumes "evm_swap_call E f c dest gravity router m amount r = Inr call"
  shows "(is_direct_swap call \<longleftrightarrow> truthy (t_contractAddress f) \<and> truthy c \<and> dest = []) \<and>
    tx_target call = (if is_direct_swap call \<or> truthy (t_contractAddress f) \<and> \<not> truthy c then router else gravity)"
  using assms by (auto simp: evm_swap_call_def Let_def is_direct_swap_def elim!: rbindE split: if_split_asm)

lemma evmSwap_cases:
  assumes "evmSwap E h f c m t dest = Inr txs"
  obtains w a gravity owner router minimum r approvals call where "h_evmWallet h = Some w" "toAmount (ANum (fromAmount (h_data h))) (t_decimals f) = Inr a"
    "checksum_address E (gravityContracts (t_chainId f)) = Inr gravity" "swapRouter w gravity = Inr router"
    "checkOrIncreaseAllowance (e_codecs E) w f (Some owner) (if \<not> truthy c then router else gravity) (int_str a) = Inr approvals"
    "evm_swap_call E f c dest gravity router minimum (int_str a) r = Inr call" "txs = approvals @ [call]"
  using assms unfolding evmSwap_def Let_def by (auto split: option.split_asm elim!: rbindE)

text \<open>C13. On an EVM chain \<open>evmSwap\<close> first gives allowances over the token that is swapped, of the amount of the
  swap or of 0, and then makes one call. The allowance is for the contract that is called, except in a
  direct swap of two tokens without destination: there the router is called, and the allowance is given to the bridge contract.\<close>

theorem evm_allowance:
  assumes "evmSwap E h f c m t dest = Inr txs" "\<not> isTron (t_chainId f)"
  shows "\<exists>a gravity approvals call. txs = approvals @ [call] \<and> toAmount (ANum (fromAmount (h_data h))) (t_decimals f) = Inr a \<and>
    checksum_address E (gravityContracts (t_chainId f)) = Inr gravity \<and>
    list_all (approves f (if is_direct_swap call then gravity else tx_target call) (int_str a)) approvals \<and>
    (is_direct_swap call \<longleftrightarrow> truthy (t_contractAddress f) \<and> truthy c \<and> dest = [])"
proof -
  obtain w a gravity owner router minimum r approvals call where
    1: "toAmount (ANum (fromAmount (h_data h))) (t_decimals f) = Inr a" "checksum_address E (gravityContracts (t_chainId f)) = Inr gravity"
    and 2: "checkOrIncreaseAllowance (e_codecs E) w f (Some owner) (if \<not> truthy c then router else gravity) (int_str a) = Inr approvals"
    and 3: "evm_swap_call E f c dest gravity router minimum (int_str a) r = Inr call" "txs = approvals @ [call]"
    using assms(1) by (rule evmSwap_cases)
  have "list_all (approves f (if is_direct_swap call then gravity else tx_target call) (int_str a)) approvals"
  proof (cases "truthy (t_contractAddress f)")
    case True
    then show ?thesis using allowance_txs [OF 2 assms(2)] evm_swap_call_target [OF 3(1)] by auto
  next
    case False
    then show ?thesis using 2 by (simp add: checkOrIncreaseAllowance_def)
  qed
  then show ?thesis using 1 3(2) evm_swap_call_target [OF 3(1)] by blast
qed

lemma bsc_not_tron: "\<not> isTron ''0x38''"
proof -
  have "string_to_num ''0x38'' = dbl 56"
    by (simp add: string_to_num_def js_trim_def is_ws_def hex_val_def radix_number_def radix_literal_def Let_def)
  then show ?thesis using dbl_nat_exact [of 56] by (simp add: isTron_def num_eq_def)
qed

lemma one_token: "toAmount (ANum (Fin 1)) 6 = Inr 1000000"
  using toAmount_decimal [of "ANum (Fin 1)" "''1''" "[]" 6] num_to_string_nat [of 1] by (simp add: decimal_text_def js_eval)

lemma sample_minimum: "evm_minimum (sample_handler f t) (fee_token c a) ''1000000'' = Inr 2"
proof -
  have "decimal_text ''2'' [] = ''2''" "nat_str 1000000 = ''1000000''" by (simp_all add: decimal_text_def js_eval)
  then have "calculateMinReceive ''2'' ''1000000'' (Fin 0) 6 = Inr ''2''"
    using min_receive_text [OF _ _ _ _ zero_slippage_text, of "''2''" "[]" 1000000 6] by (simp add: js_eval is_digit_def)
  then show ?thesis by (simp add: evm_minimum_def slippage_num_def js_eval)
qed

theorem evm_allowance_witness:
  "\<exists>r d. evmSwap sample_env (sample_handler (fee_token ''0x38'' (Some ''0xabc'')) (fee_token ''0x38'' (Some ''0xdef'')))
      (fee_token ''0x38'' (Some ''0xabc'')) (Some ''0xdef'') (Some ''0xme'') None [] =
    Inr [Approve ''0xabc'' GRAVITY_EVM_CONTRACT ''1000000'' ''0xme'', SwapExactTokensForTokens ''0xrouter'' ''1000000'' 2 r ''0xme'' d]"
proof -
  let ?f = "fee_token ''0x38'' (Some ''0xabc'')" and ?h = "sample_handler (fee_token ''0x38'' (Some ''0xabc'')) (fee_token ''0x38'' (Some ''0xdef''))"
  have "\<exists>r d. evmSwap sample_env ?h ?f (Some ''0xdef'') (Some ''0xme'') None [] =
    Inr [Approve ''0xabc'' GRAVITY_EVM_CONTRACT ''1000000'' ''0xme'', SwapExactTokensForTokens ''0xrouter'' ''1000000'' 2 r ''0xme'' d]"
    by (simp add: evmSwap_def one_token bsc_not_tron sample_minimum checkOrIncreaseAllowance_def evm_swap_call_def checksum_address_def gravityContracts_def
      GRAVITY_EVM_CONTRACT_def sample_ext_def getFinalEvmAddress_def sample_evm_wallet_def js_eval Let_def)
  then obtain r d where e: "evmSwap sample_env ?h ?f (Some ''0xdef'') (Some ''0xme'') None [] =
    Inr [Approve ''0xabc'' GRAVITY_EVM_CONTRACT ''1000000'' ''0xme'', SwapExactTokensForTokens ''0xrouter'' ''1000000'' 2 r ''0xme'' d]"
    by blast
  show ?thesis using evm_allowance [OF e] bsc_not_tron e by auto
qed

end
