(* ===== verification/TransferLaws.thy ===== *)
theory TransferLaws
  imports HandlerLaws
begin

text \<open>
  What leaves an EVM chain: a deposit into the bridge is made only after its checks, and TRON addresses survive their
  two conversions. An error while a swap is built is reported without its reason.
\<close>

section \<open>Deposits into the bridge\<close>

text \<open>The bridge on Oraichain holds what is about to be sent, unless the token is minted there or unknown.\<close>

definition bridge_holder :: "swap_handler \<Rightarrow> string" where
  "bridge_holder h = (if t_coinGeckoId (originalFromToken (h_data h)) \<in> {''kawaii-islands'', ''milky-token''} \<and>
     t_chainId (originalFromToken (h_data h)) = ''0x38'' then net_converter (h_network h) else getCwIcs20ContractAddr h)"

definition bridge_covers :: "env \<Rightarrow> swap_handler \<Rightarrow> bool" where
  "bridge_covers E h \<longleftrightarrow> (\<forall>token. getTokenOnOraichain (t_coinGeckoId (originalFromToken (h_data h))) (oraichainTokens h) False = Some token \<longrightarrow>
     t_chainId (originalFromToken (h_data h)) \<noteq> ''Oraichain'' \<longrightarrow> \<not> str_includes minted_denom (t_denom token) \<longrightarrow>
     (\<exists>balance. getBalanceIBCOraichain (e_queries E) (Some token) (bridge_holder h) = Inr balance \<and> \<not> num_less balance (fromAmount (h_data h))))"

lemma bridge_balance_covers:
  assumes "bridge_balance_check E h = Inr ()" "\<not> option_set skipBalanceIbcCheck h"
  shows "bridge_covers E h"
  unfolding bridge_covers_def
proof (intro allI impI)
  fix token
  assume "getTokenOnOraichain (t_coinGeckoId (originalFromToken (h_data h))) (oraichainTokens h) False = Some token"
    "t_chainId (originalFromToken (h_data h)) \<noteq> ''Oraichain''" "\<not> str_includes minted_denom (t_denom token)"
  then have "checkBalanceIBCOraichain (e_ext E) (e_queries E) (originalToToken (h_data h)) (originalFromToken (h_data h)) (fromAmount (h_data h))
      (simulateAmount (h_data h)) (getCwIcs20ContractAddr h) (h_network h) (oraichainTokens h) = Inr () \<Longrightarrow>
      \<exists>balance. getBalanceIBCOraichain (e_queries E) (Some token) (bridge_holder h) = Inr balance \<and> \<not> num_less balance (fromAmount (h_data h))"
    unfolding checkBalanceIBCOraichain_def bridge_holder_def [symmetric] Let_def by (simp only: option.case simp_thms if_False) (elim rbindE guardE, blast)
  then show "\<exists>balance. getBalanceIBCOraichain (e_queries E) (Some token) (bridge_holder h) = Inr balance \<and> \<not> num_less balance (fromAmount (h_data h))"
    using assms by (simp add: bridge_balance_check_def Let_def)
qed

lemma allowance_not_deposit:
  "checkOrIncreaseAllowance K w token owner spender amount = Inr txs \<Longrightarrow> SendToCosmos g t d a f \<notin> set txs"
  by (auto simp: checkOrIncreaseAllowance_def submitTronSmartContract_def Let_def elim!: rbindE split: if_split_asm sum.split_asm)

lemma evmSwap_not_deposit: "evmSwap E h ft c m tr dest = Inr txs \<Longrightarrow> SendToCosmos g t d a f \<notin> set txs"
  by (elim evmSwap_cases) (auto simp: evm_swap_call_def Let_def dest: allowance_not_deposit elim!: rbindE split: if_split_asm)

lemma deposit_cases:
  assumes "transferEvmToIBC E h r = Inr txs" "SendToCosmos g t d a f \<in> set txs"
  shows "\<exists>approvals. txs = approvals @ [SendToCosmos g t d a f] \<and> d = r \<and>
    gravityContracts (t_chainId (originalFromToken (h_data h))) = Some g \<and>
    toAmount (ANum (fromAmount (h_data h))) (t_decimals (originalFromToken (h_data h))) = Inr a \<and>
    t = t_contractAddress (originalFromToken (h_data h)) \<and>
    list_all (approves (originalFromToken (h_data h)) g (int_str a)) approvals"
proof -
  let ?token = "originalFromToken (h_data h)"
  obtain w g' a' owner approvals rest where w: "h_evmWallet h = Some w" and g': "gravityContracts (t_chainId ?token) = Some g'"
    and a': "toAmount (ANum (fromAmount (h_data h))) (t_decimals ?token) = Inr a'"
    and ap: "checkOrIncreaseAllowance (e_codecs E) w ?token owner g' (int_str a') = Inr approvals"
    and rest: "transferToGravity E h r = Inr rest" "txs = approvals @ rest"
    using assms(1) unfolding transferEvmToIBC_def Let_def by (auto elim!: rbindE split: option.split_asm)
  have "SendToCosmos g t d a f \<in> set rest" using assms(2) rest(2) allowance_not_deposit [OF ap] by auto
  moreover from this rest(1) have "\<not> isTron (t_chainId ?token)"
    by (auto simp: transferToGravity_def w g' a' submitTronSmartContract_def Let_def elim!: rbindE split: if_split_asm sum.split_asm)
  ultimately show ?thesis
    using rest allowance_txs [OF ap] w g' a' by (auto simp: transferToGravity_def Let_def split: if_split_asm)
qed

lemma transfer_deposit:
  assumes "transferAndSwap E h r = Inr txs" "SendToCosmos g t d a f \<in> set txs"
  shows "relayer_check E h = Inr () \<and> bridge_balance_check E h = Inr () \<and> transferEvmToIBC E h r = Inr txs"
  using assms unfolding transferAndSwap_def Let_def
  by (auto elim!: rbindE split: if_split_asm option.split_asm dest: evmSwap_not_deposit)

text \<open>C8. A deposit into the bridge is the last transaction, of exactly the swapped amount, into the bridge contract of
  the chain and with the route as destination, after approvals of that amount for that contract. It is made only
  when the relayer fee is covered and the bridge on Oraichain holds the amount, each unless its check is switched off
  (\<open>skipRelayerFeeCheck\<close>, which \<open>relayer_check\<close> looks at, and \<open>skipBalanceIbcCheck\<close>).\<close>

theorem bridge_transfer_checked:
  assumes "transferAndSwap E h r = Inr txs" "SendToCosmos g t d a f \<in> set txs"
  shows "relayer_check E h = Inr () \<and> (option_set skipBalanceIbcCheck h \<or> bridge_covers E h) \<and> d = r \<and>
    gravityContracts (t_chainId (originalFromToken (h_data h))) = Some g \<and>
    toAmount (ANum (fromAmount (h_data h))) (t_decimals (originalFromToken (h_data h))) = Inr a \<and>
    (\<exists>approvals. txs = approvals @ [SendToCosmos g t d a f] \<and> list_all (approves (originalFromToken (h_data h)) g (int_str a)) approvals)"
  using transfer_deposit [OF assms] deposit_cases [OF _ assms(2)] bridge_balance_covers by blast

lemma sample_deposit:
  "transferAndSwap sample_env (sample_handler (fee_token ''0x38'' (Some ''0xabc'')) (fee_token ''noble-1'' None)) ''channel-1/orai1me'' =
    Inr [Approve ''0xabc'' GRAVITY_EVM_CONTRACT ''1000000'' ''0xme'', SendToCosmos GRAVITY_EVM_CONTRACT (Some ''0xabc'') ''channel-1/orai1me'' 1000000 ''0xme'']"
proof -
  have no: "\<not> isEvmSwappable sample_ext ''0x38'' ''noble-1'' (Some ''0xabc'') None"
    by (simp add: isEvmSwappable_def)
  show ?thesis
    by (simp add: transferAndSwap_def no bsc_not_tron sample_evm_wallet_def isSupportedNoPoolSwapEvm_def bridge_balance_check_def relayer_check_def
        transferEvmToIBC_def gravityContracts_def one_token checkOrIncreaseAllowance_def getFinalEvmAddress_def transferToGravity_def js_eval Let_def
        GRAVITY_EVM_CONTRACT_def)
qed

theorem bridge_transfer_checked_witness:
  "transferAndSwap sample_env (sample_handler (fee_token ''0x38'' (Some ''0xabc'')) (fee_token ''noble-1'' None)) ''channel-1/orai1me'' =
    Inr [Approve ''0xabc'' GRAVITY_EVM_CONTRACT ''1000000'' ''0xme'', SendToCosmos GRAVITY_EVM_CONTRACT (Some ''0xabc'') ''channel-1/orai1me'' 1000000 ''0xme''] \<and>
   relayer_check sample_env (sample_handler (fee_token ''0x38'' (Some ''0xabc'')) (fee_token ''noble-1'' None)) = Inr ()"
  using bridge_transfer_checked [OF sample_deposit] sample_deposit by simp

section \<open>TRON addresses\<close>

definition hex_text :: "byte list \<Rightarrow> string" where
  "hex_text bs = ''0x'' @ concat (map hex_byte bs)"

text \<open>What ethers documents: base58 decodes what it encodes, and SHA-256 answers 32 bytes.\<close>

definition tron_laws :: "codecs \<Rightarrow> bool" where
  "tron_laws K \<longleftrightarrow> (\<forall>bs t. base58_encode K (hex_text bs) = Inr t \<longrightarrow> base58_decode K t = Inr bs) \<and>
     (\<forall>s h. sha256 K s = Inr h \<longrightarrow> (\<exists>bs. length bs = 32 \<and> h = hex_text bs))"

lemma hex_prefix: "take (2 * n) (concat (map hex_byte bs)) = concat (map hex_byte (take n bs))"
proof (induction bs arbitrary: n)
  case (Cons b bs)
  then show ?case by (cases n) (simp_all add: hex_byte_def)
qed simp

text \<open>C34. An EVM address survives TRON: the text \<open>ethToTronAddress\<close> makes of the 20 bytes of an address is read back by
  \<open>tronToEthAddress\<close> as the same address in lower case.\<close>

theorem tron_roundtrip:
  assumes "tron_laws K" "length bs = 20" "ethToTronAddress K (hex_text bs) = Inr t"
  shows "tronToEthAddress K t = Inr (hex_text bs)"
proof -
  obtain h hash where hash: "sha256 K h = Inr hash" and t: "base58_encode K (''0x41'' @ concat (map hex_byte bs) @ take 8 (drop 2 hash)) = Inr t"
    using assms(3) by (auto simp: ethToTronAddress_def hex_text_def Let_def elim!: rbindE)
  obtain cs where cs: "length cs = 32" "hash = hex_text cs" using assms(1) hash unfolding tron_laws_def by blast
  have "take 8 (drop 2 hash) = concat (map hex_byte (take 4 cs))" using hex_prefix [of 4 cs] by (simp add: cs hex_text_def)
  moreover have "hex_byte 0x41 = ''41''" by code_simp
  ultimately have "base58_encode K (hex_text (0x41 # bs @ take 4 cs)) = Inr t" using t by (simp add: hex_text_def)
  then have "base58_decode K t = Inr (0x41 # bs @ take 4 cs)" using assms(1) unfolding tron_laws_def by blast
  moreover have "js_slice (0x41 # bs @ take 4 cs) 1 (- 4) = bs" using assms(2) cs(1) by (simp add: js_slice_def js_index_def Let_def)
  ultimately show ?thesis by (simp add: tronToEthAddress_def hex_text_def)
qed

fun hex_bytes :: "string \<Rightarrow> byte list" where
  "hex_bytes (a # b # cs) = of_nat (16 * the (hex_val a) + the (hex_val b)) # hex_bytes cs"
| "hex_bytes _ = []"

definition tron_codecs :: codecs where
  "tron_codecs = sample_codecs\<lparr>base58_decode := (\<lambda>t. Inr (hex_bytes (drop 2 t))), base58_encode := Inr,
     sha256 := (\<lambda>s. Inr (hex_text (replicate 32 0)))\<rparr>"

lemma hex_val_digit: "n < 16 \<Longrightarrow> hex_val (hex_digit n) = Some n"
  by (auto simp: hex_val_def hex_digit_def Let_def of_char_of)

lemma hex_bytes_text: "hex_bytes (concat (map hex_byte bs)) = bs"
proof (induction bs)
  case (Cons b bs)
  have "unat b < 256" using unsigned_less [of b] by simp
  then have "unat b div 16 < 16" by simp
  then show ?case using Cons by (simp add: hex_byte_def hex_val_digit)
qed simp

lemma tron_codecs_laws: "tron_laws tron_codecs"
  unfolding tron_laws_def by (auto simp: tron_codecs_def hex_text_def hex_bytes_text intro: exI [of _ "replicate 32 0"])

theorem tron_roundtrip_witness:
  "\<exists>t. ethToTronAddress tron_codecs (hex_text (replicate 20 0xab)) = Inr t \<and> tronToEthAddress tron_codecs t = Inr (hex_text (replicate 20 0xab))"
proof -
  obtain t where t: "ethToTronAddress tron_codecs (hex_text (replicate 20 0xab)) = Inr t"
    by (simp add: ethToTronAddress_def tron_codecs_def Let_def)
  then show ?thesis using tron_roundtrip [OF tron_codecs_laws _ t] by simp
qed

section \<open>Errors of a swap\<close>

lemma swap_error_hidden:
  assumes "h_getTokenOnOraichain h (t_coinGeckoId (originalFromToken (h_data h))) False = Inr f"
    and "h_getTokenOnOraichain h (t_coinGeckoId (originalToToken (h_data h))) False = Inr t" "swap_msgs E h f t = Inl (Thrown m)"
  shows "generateMsgsSwap E h = generateError (''Error generateMsgsSwap: '' @ JSON_stringify JUndef)"
  using assms by (simp add: generateMsgsSwap_def caught_message_def)

end
