(* ===== verification/PoolMath.thy ===== *)
theory PoolMath
  imports SmartSwap
begin

text \<open>
  The concentrated-liquidity helpers of \<open>packages/oraiswap-v3/src/helpers.ts\<close>: keys of pools, volumes, the
  amounts a position holds, liquidity per range, swap operations and price impact. The functions compiled
  to WebAssembly (\<open>wasm/oraiswap_v3_wasm\<close>) are the record \<open>v3_wasm\<close>; each may raise. Prices and liquidity are
  bigints; contracts answer them as decimal texts.
\<close>

section \<open>Data\<close>

text \<open>A token of a parsed key is absent when the text has too few parts.\<close>

record fee_tier =
  ft_fee :: js_num
  ft_tick_spacing :: js_num

record pool_key =
  pk_token_x :: "string option"
  pk_token_y :: "string option"
  pk_fee_tier :: fee_tier

record v3_pool =
  po_liquidity :: string
  po_sqrt_price :: string
  po_tick :: int
  po_fee_growth_x :: string
  po_fee_growth_y :: string
  po_fee_x :: string
  po_fee_y :: string

record pool_with_key =
  pw_key :: pool_key
  pw_pool :: v3_pool

record position =
  ps_key :: pool_key
  ps_liquidity :: string
  ps_lower :: int
  ps_upper :: int
  ps_token_id :: "int option"

record liquidity_tick =
  lt_index :: int
  lt_change :: int
  lt_sign :: bool

record virtual_range =
  vr_lower :: int
  vr_upper :: int

record liquid_info =
  li_lower :: int
  li_upper :: int
  li_liquidity :: int

type_synonym tickmap = "(int \<times> int) list"

text \<open>The pool a swap is simulated on, its numbers read as bigints, and what the simulation answers.\<close>

record sim_pool =
  sp_liquidity :: int
  sp_sqrt_price :: int
  sp_tick :: int
  sp_fee_growth_x :: int
  sp_fee_growth_y :: int
  sp_fee_x :: int
  sp_fee_y :: int

record swap_result =
  sw_amount_in :: int
  sw_amount_out :: int
  sw_fee :: int
  sw_start_sqrt_price :: int
  sw_target_sqrt_price :: int

record v3_wasm =
  LIQUIDITY_DENOMINATOR :: int
  PRICE_DENOMINATOR :: int
  CHUNK_SIZE :: nat
  LIQUIDITY_TICKS_LIMIT :: nat
  calculateSqrtPrice :: "int \<Rightarrow> int res"
  calculateAmountDelta :: "int \<Rightarrow> int \<Rightarrow> int \<Rightarrow> bool \<Rightarrow> int \<Rightarrow> int \<Rightarrow> (int \<times> int) res"
  getLiquidityByX :: "int \<Rightarrow> int \<Rightarrow> int \<Rightarrow> int \<Rightarrow> bool \<Rightarrow> (int \<times> int) res"
  getLiquidityByY :: "int \<Rightarrow> int \<Rightarrow> int \<Rightarrow> int \<Rightarrow> bool \<Rightarrow> (int \<times> int) res"
  getMinTick :: "js_num \<Rightarrow> int res"
  getMaxTick :: "js_num \<Rightarrow> int res"
  getMinSqrtPrice :: "js_num \<Rightarrow> int res"
  getMaxSqrtPrice :: "js_num \<Rightarrow> int res"
  getTickAtSqrtPrice :: "int \<Rightarrow> js_num \<Rightarrow> int res"
  positionToTick :: "int \<Rightarrow> nat \<Rightarrow> js_num \<Rightarrow> int res"
  simulateSwap :: "tickmap \<Rightarrow> fee_tier \<Rightarrow> sim_pool \<Rightarrow> liquidity_tick list \<Rightarrow> bool \<Rightarrow> int \<Rightarrow> bool \<Rightarrow> int \<Rightarrow> swap_result res"

definition DENOMINATOR :: int where "DENOMINATOR = 10 ^ 12"

section \<open>Keys\<close>

definition extractAddress :: "token_item \<Rightarrow> string" where
  "extractAddress tokenInfo = (if truthy (t_contractAddress tokenInfo) then str_of (t_contractAddress tokenInfo) else t_denom tokenInfo)"

definition poolKeyToString :: "pool_key \<Rightarrow> string" where
  "poolKeyToString k = template (pk_token_x k) @ ''-'' @ template (pk_token_y k) @ ''-'' @
     num_to_string (ft_fee (pk_fee_tier k)) @ ''-'' @ num_to_string (ft_tick_spacing (pk_fee_tier k))"

text \<open>\<open>Number(undefined)\<close> is \<open>NaN\<close>.\<close>

definition opt_number :: "string option \<Rightarrow> js_num" where
  "opt_number s = (case s of None \<Rightarrow> NaN | Some t \<Rightarrow> string_to_num t)"

definition parsePoolKey :: "string \<Rightarrow> pool_key" where
  "parsePoolKey poolKeyStr =
     (let ps = js_split (CHR ''-'') poolKeyStr in
      \<lparr>pk_token_x = nth_str ps 0, pk_token_y = nth_str ps 1,
       pk_fee_tier = \<lparr>ft_fee = opt_number (nth_str ps 2), ft_tick_spacing = opt_number (nth_str ps 3)\<rparr>\<rparr>)"

definition parseAsset :: "token_item \<Rightarrow> string \<Rightarrow> string \<times> asset_info" where
  "parseAsset token amount =
     (amount, if truthy (t_contractAddress token) then AToken (str_of (t_contractAddress token)) else NativeToken (t_denom token))"

section \<open>Volumes and fees\<close>

definition getVolume :: "pool_with_key \<Rightarrow> js_num \<Rightarrow> (int \<times> int) res" where
  "getVolume pl protocolFee =
     rbind (bigint_of_num protocolFee) (\<lambda>p.
     rbind (bigint_of_num (ft_fee (pk_fee_tier (pw_key pl)))) (\<lambda>f.
     rbind (bigint_div (p * f) DENOMINATOR) (\<lambda>feeDenominator.
     rbind (bigint_of_string (po_fee_x (pw_pool pl))) (\<lambda>fx.
     rbind (bigint_div (fx * DENOMINATOR) feeDenominator) (\<lambda>volumeX.
     rbind (bigint_of_string (po_fee_y (pw_pool pl))) (\<lambda>fy.
     rbind (bigint_div (fy * DENOMINATOR) feeDenominator) (\<lambda>volumeY.
     Inr (volumeX, volumeY))))))))"

definition getGlobalFee :: "pool_with_key \<Rightarrow> js_num \<Rightarrow> (int \<times> int) res" where
  "getGlobalFee pl protocolFee =
     rbind (bigint_of_string (po_fee_x (pw_pool pl))) (\<lambda>fx.
     rbind (bigint_of_num protocolFee) (\<lambda>p.
     rbind (bigint_div (fx * DENOMINATOR) p) (\<lambda>feeX.
     rbind (bigint_of_string (po_fee_y (pw_pool pl))) (\<lambda>fy.
     rbind (bigint_div (fy * DENOMINATOR) p) (\<lambda>feeY.
     Inr (feeX, feeY))))))"

section \<open>Liquidity of ranges\<close>

text \<open>An array written at an index beyond its end has holes in between, which \<open>map\<close> keeps.\<close>

definition set_at :: "nat \<Rightarrow> 'a \<Rightarrow> 'a option list \<Rightarrow> 'a option list" where
  "set_at i v xs = (if i < length xs then xs[i := Some v] else xs @ replicate (i - length xs) None @ [Some v])"

definition signed_change :: "liquidity_tick \<Rightarrow> int" where
  "signed_change change = (if lt_sign change then lt_change change else - lt_change change)"

definition in_range :: "virtual_range \<Rightarrow> liquidity_tick \<Rightarrow> bool" where
  "in_range r change = (vr_lower r \<le> lt_index change \<and> lt_index change < vr_upper r)"

fun mark_ranges :: "liquidity_tick \<Rightarrow> int \<Rightarrow> nat \<Rightarrow> virtual_range list \<Rightarrow> int option list \<Rightarrow> int option list" where
  "mark_ranges change current i [] out = out"
| "mark_ranges change current i (r # rs) out =
     mark_ranges change current (Suc i) rs (if in_range r change then set_at i current out else out)"

fun range_loop :: "virtual_range list \<Rightarrow> int \<Rightarrow> int option list \<Rightarrow> liquidity_tick list \<Rightarrow> int option list" where
  "range_loop tickRanges current out [] = out"
| "range_loop tickRanges current out (change # cs) =
     (let current' = current + signed_change change
      in range_loop tickRanges current' (mark_ranges change current' 0 tickRanges out) cs)"

definition calculateLiquidityForRanges :: "liquidity_tick list \<Rightarrow> virtual_range list \<Rightarrow> liquid_info option list" where
  "calculateLiquidityForRanges liquidityChanges tickRanges =
     (let rangeLiquidity = range_loop tickRanges 0 [] liquidityChanges
      in map (\<lambda>i. map_option (\<lambda>l. \<lparr>li_lower = vr_lower (tickRanges ! i), li_upper = vr_upper (tickRanges ! i), li_liquidity = l\<rparr>)
           (rangeLiquidity ! i)) [0..<length rangeLiquidity])"

section \<open>Reading numbers\<close>

datatype parsed = PValue json | PBig int | PList "parsed list" | PObject "(string \<times> parsed) list"

fun parse_v3 :: "json \<Rightarrow> parsed" where
  "parse_v3 (JArr vs) = PList (map parse_v3 vs)"
| "parse_v3 (JObj kvs) = PObject (map (\<lambda>(k, v). (k, parse_v3 v)) kvs)"
| "parse_v3 (JStr s) = (case bigint_of_string s of Inl e \<Rightarrow> PValue (JStr s) | Inr n \<Rightarrow> PBig n)"
| "parse_v3 v = PValue v"

section \<open>The amounts of a position\<close>

definition getX :: "v3_wasm \<Rightarrow> int \<Rightarrow> int \<Rightarrow> int \<Rightarrow> int \<Rightarrow> int res" where
  "getX W liquidity upperSqrtPrice currentSqrtPrice lowerSqrtPrice =
     (if upperSqrtPrice \<le> 0 \<or> currentSqrtPrice \<le> 0 \<or> lowerSqrtPrice \<le> 0 then Inl (Thrown ''Price cannot be lower or equal 0'')
      else if upperSqrtPrice \<le> currentSqrtPrice then Inr 0
      else let (product, nominator) = (if currentSqrtPrice < lowerSqrtPrice
               then (lowerSqrtPrice * upperSqrtPrice, upperSqrtPrice - lowerSqrtPrice)
               else (upperSqrtPrice * currentSqrtPrice, upperSqrtPrice - currentSqrtPrice))
        in rbind (bigint_div product (PRICE_DENOMINATOR W)) (\<lambda>denominator.
           rbind (bigint_div (liquidity * nominator) denominator) (\<lambda>q.
           bigint_div q (LIQUIDITY_DENOMINATOR W))))"

definition getY :: "v3_wasm \<Rightarrow> int \<Rightarrow> int \<Rightarrow> int \<Rightarrow> int \<Rightarrow> int res" where
  "getY W liquidity upperSqrtPrice currentSqrtPrice lowerSqrtPrice =
     (if lowerSqrtPrice \<le> 0 \<or> currentSqrtPrice \<le> 0 \<or> upperSqrtPrice \<le> 0 then Inl (Thrown ''Price cannot be 0'')
      else if currentSqrtPrice \<le> lowerSqrtPrice then Inr 0
      else let difference = (if upperSqrtPrice \<le> currentSqrtPrice then upperSqrtPrice - lowerSqrtPrice
               else currentSqrtPrice - lowerSqrtPrice)
        in rbind (bigint_div (liquidity * difference) (PRICE_DENOMINATOR W)) (\<lambda>q.
           bigint_div q (LIQUIDITY_DENOMINATOR W)))"

definition or_zero :: "int res \<Rightarrow> int" where
  "or_zero r = (case r of Inl e \<Rightarrow> 0 | Inr n \<Rightarrow> n)"

text \<open>One step of \<open>calculateLiquidityForPair\<close>; whatever is raised counts as nothing.\<close>

definition pair_step :: "v3_wasm \<Rightarrow> int \<Rightarrow> liquid_info \<Rightarrow> int \<times> int \<Rightarrow> int \<times> int" where
  "pair_step W sqrt_price p acc =
     (let amount = (\<lambda>get. or_zero (rbind (calculateSqrtPrice W (li_upper p)) (\<lambda>u.
            rbind (calculateSqrtPrice W (li_lower p)) (\<lambda>l. get (li_liquidity p) u sqrt_price l))))
      in (fst acc + amount (getX W), snd acc + amount (getY W)))"

definition calculateLiquidityForPair :: "v3_wasm \<Rightarrow> liquid_info list \<Rightarrow> int \<Rightarrow> int \<times> int" where
  "calculateLiquidityForPair W positions sqrt_price = foldl (\<lambda>acc p. pair_step W sqrt_price p acc) (0, 0) positions"

definition calculateTokenAmounts_sign :: "v3_wasm \<Rightarrow> v3_pool \<Rightarrow> position \<Rightarrow> bool \<Rightarrow> (int \<times> int) res" where
  "calculateTokenAmounts_sign W pl p sign =
     rbind (bigint_of_string (po_sqrt_price pl)) (\<lambda>sp.
     rbind (bigint_of_string (ps_liquidity p)) (\<lambda>l.
     calculateAmountDelta W (po_tick pl) sp l sign (ps_upper p) (ps_lower p)))"

definition calculateTokenAmounts :: "v3_wasm \<Rightarrow> v3_pool \<Rightarrow> position \<Rightarrow> (int \<times> int) res" where
  "calculateTokenAmounts W pl p = calculateTokenAmounts_sign W pl p False"

definition calculateRewardAmounts :: "v3_wasm \<Rightarrow> pool_with_key \<Rightarrow> position \<Rightarrow> js_num \<Rightarrow> (int \<times> int) res" where
  "calculateRewardAmounts W pl p zapFee =
     rbind (calculateTokenAmounts W (pw_pool pl) p) (\<lambda>(x, y).
     rbind (bigint_of_num (num_sub (Fin 100) (num_mul zapFee (Fin 100)))) (\<lambda>share.
     Inr (x * share sdiv 100, y * share sdiv 100)))"

section \<open>Snapshots\<close>

definition onlySnaps :: "(string \<times> 'a list) list \<Rightarrow> (string \<times> 'a list) list" where
  "onlySnaps = map (\<lambda>(address, snapshots). (address, js_slice_from snapshots (- 31)))"

text \<open>\<open>arr.splice(start, n)\<close> with a start that may count from the end\<close>

definition js_splice :: "'a list \<Rightarrow> int \<Rightarrow> nat \<Rightarrow> 'a list" where
  "js_splice xs start n = (let s = js_index (length xs) start in take s xs @ drop (s + n) xs)"

definition sliceSnaps :: "(string \<times> 'a list) list \<Rightarrow> int \<Rightarrow> int \<Rightarrow> (string \<times> 'a list) list" where
  "sliceSnaps snaps limit skip = map (\<lambda>(address, snapshots).
     let arr = js_slice_from snapshots (- limit + skip)
     in (address, js_splice arr (int (length arr) - skip) (nat skip))) snaps"

section \<open>Decimals\<close>

text \<open>\<open>slice(0, -decimals) || "0"\<close>: an empty integer part is written as \<open>0\<close>.\<close>

definition shiftDecimal :: "int \<Rightarrow> nat \<Rightarrow> bigdec res" where
  "shiftDecimal value decimals =
     (let valueStr = js_pad_start (decimals + 1) (CHR ''0'') (int_str value);
          i = js_slice valueStr 0 (- int decimals);
          intStr = (if i = [] then ''0'' else i);
          decStr = js_slice_from valueStr (- int decimals)
      in new_BigDecimal (DStr (intStr @ ''.'' @ decStr)) (Some decimals))"

section \<open>Swap operations\<close>

record zap_route =
  zr_offer_amount :: string
  zr_operations :: "swap_op list"
  zr_token_in :: string
  zr_minimum_receive :: string

definition route_operations :: "token_item list \<Rightarrow> route \<Rightarrow> swap_op list res" where
  "route_operations tokens r = rbind (rmap (\<lambda>p. rbind (rmap (\<lambda>a.
       case a_swapInfo a of
         None \<Rightarrow> Inl TypeError
       | Some ss \<Rightarrow> Inr (smart_ops tokens (parseAssetInfoFromContractAddrOrDenom (a_tokenIn a) tokens) ss)) (p_actions p))
     (\<lambda>opss. Inr (concat opss))) (r_paths r)) (\<lambda>opss. Inr (concat opss))"

definition route_minimum :: "string \<Rightarrow> js_num \<Rightarrow> string" where
  "route_minimum retAmount slippage =
     num_to_string (math_round (num_div (num_mul (string_to_num retAmount) (num_sub (Fin 100) slippage)) (Fin 100)))"

definition zap_route_of :: "token_item list \<Rightarrow> js_num \<Rightarrow> route \<Rightarrow> zap_route res" where
  "zap_route_of tokens slippage r =
     rbind (route_operations tokens r) (\<lambda>operations.
     case r_paths r of
       [] \<Rightarrow> Inl TypeError
     | p # ps \<Rightarrow> Inr \<lparr>zr_offer_amount = r_swapAmount r, zr_operations = operations, zr_token_in = p_tokenIn p,
         zr_minimum_receive = route_minimum (r_returnAmount r) slippage\<rparr>)"

definition generateMessageSwapOperation :: "router_response list \<Rightarrow> js_num \<Rightarrow> token_item list \<Rightarrow> zap_route list res" where
  "generateMessageSwapOperation responses slippage cosmosTokens =
     rmap (zap_route_of cosmosTokens slippage) (concat (map rr_routes responses))"

fun getFeeRate :: "swap_op \<Rightarrow> js_num" where
  "getFeeRate (OraiSwap a b) = dbl (3 / 1000)"
| "getFeeRate (SwapV3 x y fee ts xy) = num_div fee (num_pow10 12)"

definition calculateSwapFee :: "zap_route list \<Rightarrow> js_num" where
  "calculateSwapFee routes = foldl (\<lambda>acc op. num_add acc (getFeeRate op)) (Fin 0) (concat (map zr_operations routes))"

definition calculatePriceImpact :: "int \<Rightarrow> int \<Rightarrow> int res" where
  "calculatePriceImpact startingSqrtPrice endingSqrtPrice =
     (let startingPrice = startingSqrtPrice * startingSqrtPrice; endingPrice = endingSqrtPrice * endingSqrtPrice in
      rbind (if startingPrice \<le> endingPrice then bigint_div (DENOMINATOR * startingPrice) endingPrice
             else bigint_div (DENOMINATOR * endingPrice) startingPrice) (\<lambda>priceQuotient.
      Inr (DENOMINATOR - priceQuotient)))"

definition extractOraidexV3Actions :: "route list \<Rightarrow> action list" where
  "extractOraidexV3Actions routes =
     filter (\<lambda>a. a_protocol a = Some ''OraidexV3'') (concat (map (\<lambda>r. concat (map p_actions (r_paths r))) routes))"

end
