(* ===== verification/PoolQueries.thy ===== *)
theory PoolQueries
  imports PoolMath
begin

text \<open>
  \<open>OraiswapV3Handler\<close> (\<open>packages/oraiswap-v3/src/handler.ts\<close>): the queries that read a list page by page, and
  what is computed from their answers. The generated query clients of the pool contract and of the multicall
  contract are the record \<open>v3_client\<close>; all queries of one call see the same state of the chain. A loop that
  the code does not bound is a \<open>partial_function\<close>: \<open>None\<close> when it never returns.
\<close>

section \<open>Queries\<close>

record position_tick =
  pt_index :: int
  pt_fee_growth_x :: string
  pt_fee_growth_y :: string

record approval =
  ap_spender :: string

text \<open>A tick as the contract answers it, with its liquidity as a text\<close>

record tick_answer =
  ta_index :: int
  ta_change :: string
  ta_sign :: bool

record v3_client =
  q_positions :: "string \<Rightarrow> nat \<Rightarrow> nat \<Rightarrow> position list res"
  q_pool :: "fee_tier \<Rightarrow> string option \<Rightarrow> string option \<Rightarrow> v3_pool res"
  q_pools :: "nat \<Rightarrow> pool_key option \<Rightarrow> pool_with_key list res"
  q_userPositionAmount :: "string \<Rightarrow> nat res"
  q_positionTicks :: "string \<Rightarrow> nat \<Rightarrow> position_tick list res"
  q_tickMap :: "pool_key \<Rightarrow> int \<Rightarrow> int \<Rightarrow> bool \<Rightarrow> (int \<times> int) list res"
  q_liquidityTicks :: "pool_key \<Rightarrow> int list \<Rightarrow> tick_answer list res"
  q_approvedForAll :: "string \<Rightarrow> bool \<Rightarrow> nat \<Rightarrow> string option \<Rightarrow> approval list res"
  q_tokens :: "string \<Rightarrow> nat \<Rightarrow> nat \<Rightarrow> int list res"
  q_allTokens :: "int option \<Rightarrow> nat \<Rightarrow> int list res"
  q_numTokens :: "nat res"
  q_nftInfos :: "int list \<Rightarrow> position list res"

definition CHUNK_QUERY :: nat where "CHUNK_QUERY = 100"

definition POSITION_TICKS_LIMIT :: nat where "POSITION_TICKS_LIMIT = 372"

section \<open>Pages until a short one\<close>

text \<open>\<open>while (true)\<close>: a page is asked for with what has been read so far; one below the limit is the last.\<close>

partial_function (option) collect_pages :: "('a list \<Rightarrow> 'a list res) \<Rightarrow> 'a list \<Rightarrow> 'a list res option" where
  "collect_pages query acc =
     (case query acc of
        Inl e \<Rightarrow> Some (Inl e)
      | Inr res \<Rightarrow> if length res < CHUNK_QUERY then Some (Inr (acc @ res)) else collect_pages query (acc @ res))"

definition getPositions :: "v3_client \<Rightarrow> string \<Rightarrow> position list res option" where
  "getPositions C owner = collect_pages (\<lambda>positions. q_positions C owner CHUNK_QUERY (length positions)) []"

definition getPools :: "v3_client \<Rightarrow> pool_with_key list res option" where
  "getPools C = collect_pages (\<lambda>pools. q_pools C CHUNK_QUERY (if length pools = 0 then None else Some (pw_key (last pools)))) []"

definition approveForAll :: "v3_client \<Rightarrow> string \<Rightarrow> bool \<Rightarrow> approval list res option" where
  "approveForAll C owner includeExpired = collect_pages (\<lambda>approvals. q_approvedForAll C owner includeExpired CHUNK_QUERY
     (if length approvals = 0 then None else Some (ap_spender (last approvals)))) []"

section \<open>Pages up to a count\<close>

text \<open>The values of \<open>i\<close> in \<open>for (let i = 0; i < n; i += step)\<close>\<close>

definition steps :: "nat \<Rightarrow> nat \<Rightarrow> nat list" where
  "steps n step = map (\<lambda>k. k * step) [0..<(n + step - 1) div step]"

definition getPositionTicks :: "v3_client \<Rightarrow> string \<Rightarrow> position_tick list res" where
  "getPositionTicks C owner =
     rbind (q_userPositionAmount C owner) (\<lambda>positonsLength.
     rbind (rmap (\<lambda>i. q_positionTicks C owner i) (steps positonsLength POSITION_TICKS_LIMIT)) (\<lambda>pages.
     Inr (concat pages)))"

definition v3_tokens :: "v3_client \<Rightarrow> string \<Rightarrow> int list res" where
  "v3_tokens C owner =
     rbind (q_numTokens C) (\<lambda>numTokens.
     rbind (rmap (\<lambda>i. q_tokens C owner i CHUNK_QUERY) (steps numTokens CHUNK_QUERY)) (\<lambda>pages.
     Inr (concat pages)))"

text \<open>\<open>while (tokens.length < numTokens)\<close>\<close>

partial_function (option) token_loop :: "(int option \<Rightarrow> int list res) \<Rightarrow> nat \<Rightarrow> int list \<Rightarrow> int list res option" where
  "token_loop query numTokens acc =
     (if length acc < numTokens
      then (case query (if length acc = 0 then None else Some (last acc)) of
              Inl e \<Rightarrow> Some (Inl e)
            | Inr res \<Rightarrow> token_loop query numTokens (acc @ res))
      else Some (Inr acc))"

definition allTokens :: "v3_client \<Rightarrow> int list res option" where
  "allTokens C =
     (case q_numTokens C of
        Inl e \<Rightarrow> Some (Inl e)
      | Inr numTokens \<Rightarrow> token_loop (\<lambda>startAfter. q_allTokens C startAfter CHUNK_QUERY) numTokens [])"

section \<open>Batches\<close>

text \<open>\<open>tickIndexes.splice(0, limit)\<close> also takes the indexes out of the caller's array.\<close>

partial_function (option) tick_batches :: "(int list \<Rightarrow> 'a list res) \<Rightarrow> nat \<Rightarrow> 'a list \<Rightarrow> int list \<Rightarrow> 'a list res option" where
  "tick_batches query limit acc tickIndexes =
     (if tickIndexes = [] then Some (Inr acc)
      else (case query (take limit tickIndexes) of
              Inl e \<Rightarrow> Some (Inl e)
            | Inr res \<Rightarrow> tick_batches query limit (acc @ res) (drop limit tickIndexes)))"

definition liquidityTicks :: "v3_wasm \<Rightarrow> v3_client \<Rightarrow> pool_key \<Rightarrow> int list \<Rightarrow> tick_answer list res option" where
  "liquidityTicks W C poolKey tickIndexes =
     tick_batches (q_liquidityTicks C poolKey) (LIQUIDITY_TICKS_LIMIT W) [] tickIndexes"

text \<open>The loop of \<open>allPositions\<close> asks once even when there is no token; a missing answer raises.\<close>

function position_batches :: "(int list \<Rightarrow> position list res) \<Rightarrow> position list \<Rightarrow> int list \<Rightarrow> position list res" where
  "position_batches query acc tokens =
     rbind (query (take 40 tokens)) (\<lambda>res.
     if length res < length (take 40 tokens) then Inl TypeError
     else if drop 40 tokens = [] then Inr (acc @ take (length (take 40 tokens)) res)
     else position_batches query (acc @ take (length (take 40 tokens)) res) (drop 40 tokens))"
  by pat_completeness auto
termination by (relation "measure (\<lambda>(query, acc, tokens). length tokens)") auto

declare position_batches.simps [simp del]

definition allPositions :: "v3_client \<Rightarrow> position list res option" where
  "allPositions C =
     abind (allTokens C) (\<lambda>tokens. Some (position_batches (q_nftInfos C) [] tokens))"

section \<open>Pools\<close>

definition getPool :: "v3_client \<Rightarrow> pool_key \<Rightarrow> pool_with_key res" where
  "getPool C poolKey =
     rbind (q_pool C (pk_fee_tier poolKey) (pk_token_x poolKey) (pk_token_y poolKey)) (\<lambda>p.
     Inr \<lparr>pw_key = poolKey, pw_pool = p\<rparr>)"

definition getPoolByPoolKeyStr :: "v3_client \<Rightarrow> string \<Rightarrow> pool_with_key res" where
  "getPoolByPoolKeyStr C poolKeyStr = getPool C (parsePoolKey poolKeyStr)"

definition getPoolByPoolKeyListStr :: "v3_client \<Rightarrow> string list \<Rightarrow> pool_with_key list res" where
  "getPoolByPoolKeyListStr C poolKeyList = rmap (getPoolByPoolKeyStr C) poolKeyList"

definition pair_values :: "v3_wasm \<Rightarrow> pool_with_key \<Rightarrow> position list \<Rightarrow> (int \<times> int) res" where
  "pair_values W pw positions =
     rbind (rmap (calculateTokenAmounts W (pw_pool pw))
       (filter (\<lambda>pos. poolKeyToString (ps_key pos) = poolKeyToString (pw_key pw)) positions)) (\<lambda>amounts.
     Inr (sum_list (map fst amounts), sum_list (map snd amounts)))"

definition getPairLiquidityValues :: "v3_wasm \<Rightarrow> v3_client \<Rightarrow> pool_with_key \<Rightarrow> position list option \<Rightarrow> (int \<times> int) res option" where
  "getPairLiquidityValues W C pw positionList =
     (case positionList of
        Some positions \<Rightarrow> Some (pair_values W pw positions)
      | None \<Rightarrow> abind (allPositions C) (\<lambda>positions. Some (pair_values W pw positions)))"

section \<open>Tick maps\<close>

text \<open>The bits that are set in a chunk, from the lowest\<close>

definition chunk_bits :: "nat \<Rightarrow> int \<Rightarrow> nat list" where
  "chunk_bits n chunk = filter (\<lambda>b. bit chunk b) [0..<n]"

definition map_ticks :: "v3_wasm \<Rightarrow> js_num \<Rightarrow> tickmap \<Rightarrow> int list res" where
  "map_ticks W tick_spacing tm =
     rbind (rmap (\<lambda>(chunkIndex, chunk). rmap (\<lambda>b. positionToTick W chunkIndex b tick_spacing) (chunk_bits (CHUNK_SIZE W) chunk)) tm)
       (\<lambda>ticks. Inr (concat ticks))"

definition getAllLiquidityTicks :: "v3_wasm \<Rightarrow> v3_client \<Rightarrow> pool_key \<Rightarrow> tickmap \<Rightarrow> tick_answer list res option" where
  "getAllLiquidityTicks W C poolKey tm =
     abind (Some (map_ticks W (ft_tick_spacing (pk_fee_tier poolKey)) tm)) (liquidityTicks W C poolKey)"

text \<open>\<open>Map.set\<close> keeps the place of a key that is there.\<close>

definition map_set :: "(int \<times> int) list \<Rightarrow> int \<times> int \<Rightarrow> (int \<times> int) list" where
  "map_set m kv = (if fst kv \<in> set (map fst m) then map (\<lambda>e. if fst e = fst kv then kv else e) m else m @ [kv])"

definition getFullTickmap :: "v3_wasm \<Rightarrow> v3_client \<Rightarrow> pool_key \<Rightarrow> tickmap res" where
  "getFullTickmap W C poolKey =
     (let ts = ft_tick_spacing (pk_fee_tier poolKey) in
      rbind (getMinTick W ts) (\<lambda>minTick.
      rbind (getMaxTick W ts) (\<lambda>maxTick.
      rbind (q_tickMap C poolKey minTick maxTick True) (\<lambda>tickmap.
      Inr (foldl map_set [] tickmap)))))"

end
