(* ===== verification/Zap.thy ===== *)
theory Zap
  imports PoolQueries
begin

text \<open>
  \<open>ZapConsumer\<close> (\<open>packages/oraiswap-v3/src/zap-consumer.ts\<close>): liquidity is provided from one token, or taken out
  into one token, through routes of the smart router. \<open>z_fetch\<close> is the HTTP call: it answers with a status
  and the parsed body, or is rejected; logging has no effect. The pool that is passed around is changed in
  place; a definition that changes it returns it. Calls of \<open>Promise.all\<close> are made in their order.
\<close>

section \<open>Data\<close>

record zap_env =
  z_wasm :: v3_wasm
  z_client :: v3_client
  z_fetch :: "string \<Rightarrow> string \<Rightarrow> (int \<times> router_response res) res"
  z_router :: string
  z_swapOptions :: json
  z_deviation :: js_num
  z_cosmosTokens :: "token_item list"
  z_oraichainTokens :: "token_item list"

datatype zap_in_result =
    InRangeNoRouteThroughSelf
  | InRangeHasRouteThroughSelf
  | InRangeHasRouteThroughSelfMayBecomeOutRange
  | OutRangeNoRouteThroughSelf
  | OutRangeHasRouteThroughSelf
  | OutRangeHasRouteThroughSelfMayBecomeInRange

record zap_message =
  zm_status :: "zap_in_result option"
  zm_poolKey :: pool_key
  zm_amountX :: string
  zm_amountY :: string
  zm_swapFee :: js_num
  zm_routes :: "zap_route list"
  zm_lower :: int
  zm_upper :: int
  zm_minimumLiquidity :: int
  zm_currentTick :: "int option"
  zm_currentSqrtPrice :: int

record zap_out =
  zo_minimumReceiveX :: string
  zo_minimumReceiveY :: string
  zo_positionIndex :: nat
  zo_routes :: "zap_route list"
  zo_swapFee :: js_num
  zo_amountToX :: int
  zo_amountToY :: int

text \<open>What the user asks for: \<open>slippage\<close> is 1 where the caller gives none.\<close>

record zap_in =
  zi_poolKey :: pool_key
  zi_tokenIn :: token_item
  zi_amountIn :: string
  zi_lower :: int
  zi_upper :: int
  zi_tokenX :: token_item
  zi_tokenY :: token_item
  zi_slippage :: js_num

section \<open>Routes\<close>

definition SpamTooManyRequestsError :: js_error where "SpamTooManyRequestsError = Thrown ''Too many requests''"

definition RouteNoLiquidity :: js_error where "RouteNoLiquidity = Thrown ''Route has no liquidity''"

definition RouteNotFoundError :: "string \<Rightarrow> js_error" where
  "RouteNotFoundError r = Thrown (''Route not found: '' @ r)"

definition route_body :: "zap_env \<Rightarrow> token_item \<Rightarrow> token_item \<Rightarrow> int \<Rightarrow> string" where
  "route_body Z sourceAsset destAsset amount = JSON_stringify (JObj
     [(''sourceAsset'', JStr (extractAddress sourceAsset)), (''sourceChainId'', JStr (t_chainId sourceAsset)),
      (''destAsset'', JStr (extractAddress destAsset)), (''destChainId'', JStr (t_chainId destAsset)),
      (''offerAmount'', JStr (int_str amount)), (''swapOptions'', z_swapOptions Z)])"

text \<open>One call of \<open>findRoute\<close>; \<open>no_liquidity\<close> is what it does with an answer of 0.\<close>

definition find_once :: "zap_env \<Rightarrow> token_item \<Rightarrow> token_item \<Rightarrow> int \<Rightarrow> router_response res \<Rightarrow> router_response res" where
  "find_once Z sourceAsset destAsset amount no_liquidity =
     (if t_name sourceAsset = t_name destAsset
      then Inr \<lparr>rr_swapAmount = int_str amount, rr_returnAmount = int_str amount, rr_routes = []\<rparr>
      else if amount = 0 then Inr \<lparr>rr_swapAmount = ''0'', rr_returnAmount = ''0'', rr_routes = []\<rparr>
      else case rbind (z_fetch Z (z_router Z) (route_body Z sourceAsset destAsset amount)) (\<lambda>(status, body).
             if status \<noteq> 200 then Inl SpamTooManyRequestsError
             else rbind body (\<lambda>response.
               if rr_returnAmount response = ''0'' then no_liquidity else Inr response)) of
          Inr r \<Rightarrow> Inr r
        | Inl e \<Rightarrow> if e = SpamTooManyRequestsError \<or> e = RouteNoLiquidity then Inl e
            else Inl (RouteNotFoundError (t_name sourceAsset @ '' -> '' @ t_name destAsset)))"

definition findRoute :: "zap_env \<Rightarrow> bool \<Rightarrow> token_item \<Rightarrow> token_item \<Rightarrow> int \<Rightarrow> router_response res" where
  "findRoute Z isGetPrice sourceAsset destAsset amount =
     find_once Z sourceAsset destAsset amount
       (if isGetPrice then find_once Z sourceAsset destAsset (amount * 10000) (Inl RouteNoLiquidity) else Inl RouteNoLiquidity)"

definition findZapRoutes :: "zap_env \<Rightarrow> bool \<Rightarrow> token_item \<times> token_item \<times> int \<Rightarrow> token_item \<times> token_item \<times> int \<Rightarrow>
    (router_response \<times> router_response) res" where
  "findZapRoutes Z isGetPrice p q =
     (case (p, q) of ((s1, d1, a1), (s2, d2, a2)) \<Rightarrow>
        rbind (findRoute Z isGetPrice s1 d1 a1) (\<lambda>r1. rbind (findRoute Z isGetPrice s2 d2 a2) (\<lambda>r2. Inr (r1, r2))))"

section \<open>Simulation of the pool\<close>

definition sim_pool_of :: "v3_pool \<Rightarrow> sim_pool res" where
  "sim_pool_of p =
     rbind (bigint_of_string (po_liquidity p)) (\<lambda>liquidity. rbind (bigint_of_string (po_sqrt_price p)) (\<lambda>sqrt_price.
     rbind (bigint_of_string (po_fee_growth_x p)) (\<lambda>gx. rbind (bigint_of_string (po_fee_growth_y p)) (\<lambda>gy.
     rbind (bigint_of_string (po_fee_x p)) (\<lambda>fx. rbind (bigint_of_string (po_fee_y p)) (\<lambda>fy.
     Inr \<lparr>sp_liquidity = liquidity, sp_sqrt_price = sqrt_price, sp_tick = po_tick p, sp_fee_growth_x = gx,
       sp_fee_growth_y = gy, sp_fee_x = fx, sp_fee_y = fy\<rparr>))))))"

definition tick_of_answer :: "tick_answer \<Rightarrow> liquidity_tick res" where
  "tick_of_answer t = rbind (bigint_of_string (ta_change t)) (\<lambda>n.
     Inr \<lparr>lt_index = ta_index t, lt_change = n, lt_sign = ta_sign t\<rparr>)"

definition price_limit :: "v3_wasm \<Rightarrow> fee_tier \<Rightarrow> bool \<Rightarrow> int res" where
  "price_limit W ft isXToY = (if isXToY then getMinSqrtPrice W (ft_tick_spacing ft) else getMaxSqrtPrice W (ft_tick_spacing ft))"

definition simulateSwapOffChain :: "zap_env \<Rightarrow> pool_key \<Rightarrow> v3_pool \<Rightarrow> action \<Rightarrow> swap_result res option" where
  "simulateSwapOffChain Z poolKey p a =
     (let W = z_wasm Z; isXToY = (Some (a_tokenOut a) \<noteq> pk_token_x poolKey) in
      abind (Some (getFullTickmap W (z_client Z) poolKey)) (\<lambda>tickMap.
      abind (getAllLiquidityTicks W (z_client Z) poolKey tickMap) (\<lambda>ticks.
      Some (rbind (rmap tick_of_answer ticks) (\<lambda>liquidityChanges.
        rbind (sim_pool_of p) (\<lambda>poolInfo.
        rbind (bigint_of_string (a_tokenOutAmount a)) (\<lambda>amount.
        rbind (price_limit W (pk_fee_tier poolKey) isXToY) (\<lambda>limit.
        simulateSwap W tickMap (pk_fee_tier poolKey) poolInfo liquidityChanges isXToY amount False limit))))))))"

text \<open>Only the first action that goes through the pool is simulated; the price of the pool becomes the mean of before and after.\<close>

definition move_price :: "zap_env \<Rightarrow> pool_key \<Rightarrow> v3_pool \<Rightarrow> swap_result \<Rightarrow> v3_pool res" where
  "move_price Z poolKey p r =
     rbind (bigint_of_string (po_sqrt_price p)) (\<lambda>s.
     let price = (s + sw_target_sqrt_price r) sdiv 2 in
     rbind (getTickAtSqrtPrice (z_wasm Z) price (ft_tick_spacing (pk_fee_tier poolKey))) (\<lambda>tick.
     Inr (p\<lparr>po_sqrt_price := int_str price, po_tick := tick\<rparr>)))"

fun simulateSwapOffChainForRoute :: "zap_env \<Rightarrow> action list \<Rightarrow> pool_key \<Rightarrow> v3_pool \<Rightarrow> v3_pool res option" where
  "simulateSwapOffChainForRoute Z [] poolKey p = Some (Inr p)"
| "simulateSwapOffChainForRoute Z (a # as) poolKey p =
     (case a_swapInfo a of
        None \<Rightarrow> Some (Inl TypeError)
      | Some infos \<Rightarrow>
          if list_ex (\<lambda>swap. si_poolId swap = poolKeyToString poolKey) infos
          then abind (simulateSwapOffChain Z poolKey p a) (\<lambda>r. Some (move_price Z poolKey p r))
          else simulateSwapOffChainForRoute Z as poolKey p)"

section \<open>The message to provide liquidity\<close>

definition percent_of :: "int \<Rightarrow> js_num \<Rightarrow> int res" where
  "percent_of l slippage = rbind (bigint_of_num (num_sub (Fin 100) slippage)) (\<lambda>p. Inr (l * p sdiv 100))"

text \<open>\<open>single\<close> is the option object of a position on one side, with its \<open>isTokenX\<close>.\<close>

definition calculateMinimumLiquidity :: "v3_wasm \<Rightarrow> router_response \<Rightarrow> router_response \<Rightarrow> int \<Rightarrow> int \<Rightarrow> int \<Rightarrow> js_num \<Rightarrow>
    bool option \<Rightarrow> int res" where
  "calculateMinimumLiquidity W rx ry lowerTick upperTick sqrtPrice slippage single =
     (let by_x = rbind (bigint_of_string (rr_returnAmount rx)) (\<lambda>n. getLiquidityByX W n lowerTick upperTick sqrtPrice True);
          by_y = rbind (bigint_of_string (rr_returnAmount ry)) (\<lambda>n. getLiquidityByY W n lowerTick upperTick sqrtPrice True) in
      case single of
        Some isTokenX \<Rightarrow>
          rbind (if isTokenX then by_x else by_y) (\<lambda>(l, amount).
          rbind (bigint_of_num (math_floor (num_mul (num_sub (Fin 100) slippage) (Fin 1000)))) (\<lambda>slippageMultiplier.
          Inr (if l = 0 then 0 else l * slippageMultiplier sdiv 100000)))
      | None \<Rightarrow>
          rbind by_x (\<lambda>(l1, amount1). rbind by_y (\<lambda>(l2, amount2).
          if l2 < l1 then percent_of l2 slippage else percent_of l1 slippage)))"

definition populateMessageZapIn :: "zap_env \<Rightarrow> zap_in_result option \<Rightarrow> router_response \<Rightarrow> router_response \<Rightarrow> int \<Rightarrow> pool_key \<Rightarrow>
    int \<Rightarrow> int \<Rightarrow> js_num \<Rightarrow> bool option \<Rightarrow> zap_message res" where
  "populateMessageZapIn Z status rx ry sqrtPrice poolKey lowerTick upperTick slippage single =
     rbind (generateMessageSwapOperation (if single = None then [rx, ry] else [rx]) slippage (z_cosmosTokens Z)) (\<lambda>routes.
     rbind (calculateMinimumLiquidity (z_wasm Z) rx ry lowerTick upperTick sqrtPrice slippage single) (\<lambda>minimumLiquidity.
     Inr \<lparr>zm_status = status, zm_poolKey = poolKey,
       zm_amountX = (if single = Some False then ''0'' else rr_returnAmount rx),
       zm_amountY = (if single = Some True then ''0'' else rr_returnAmount ry),
       zm_swapFee = calculateSwapFee routes, zm_routes = routes, zm_lower = lowerTick, zm_upper = upperTick,
       zm_minimumLiquidity = minimumLiquidity, zm_currentTick = None, zm_currentSqrtPrice = sqrtPrice\<rparr>))"

definition processZapInWithSingleSide :: "zap_env \<Rightarrow> zap_in \<Rightarrow> pool_key \<Rightarrow> v3_pool \<Rightarrow> int \<Rightarrow> (zap_message \<times> v3_pool) res option" where
  "processZapInWithSingleSide Z q poolKey p sqrtPrice =
     (let isTokenX = (\<not> zi_upper q < po_tick p); tokenNeed = (if isTokenX then zi_tokenX q else zi_tokenY q) in
      abind (Some (rbind (bigint_of_string (zi_amountIn q)) (findRoute Z False (zi_tokenIn q) tokenNeed))) (\<lambda>actualReceive.
      abind (simulateSwapOffChainForRoute Z (extractOraidexV3Actions (rr_routes actualReceive)) poolKey p) (\<lambda>p'.
      Some (rbind (bigint_of_string (po_sqrt_price p')) (\<lambda>price.
        rbind (populateMessageZapIn Z None actualReceive actualReceive price poolKey (zi_lower q) (zi_upper q) (zi_slippage q)
          (Some isTokenX)) (\<lambda>m.
        Inr (if sqrtPrice = price then m\<lparr>zm_status := Some OutRangeNoRouteThroughSelf\<rparr>
          else if po_tick p' < zi_upper q \<and> zi_lower q \<le> po_tick p'
          then m\<lparr>zm_status := Some OutRangeHasRouteThroughSelfMayBecomeInRange, zm_currentTick := Some (po_tick p'),
                 zm_currentSqrtPrice := price\<rparr>
          else m\<lparr>zm_status := Some OutRangeHasRouteThroughSelf\<rparr>, p')))))))"

section \<open>The split of the amount\<close>

text \<open>
  The amounts of X and Y as numbers, the parts of the input that buy them, and the two \<open>BigDecimal\<close> objects
  that the multiplications may have rescaled in place.
\<close>

record zap_split =
  sl_amountX :: js_num
  sl_amountY :: js_num
  sl_toX :: int
  sl_toY :: int
  sl_yPerX :: bigdec
  sl_xPrice :: bigdec

definition split_amounts :: "string \<Rightarrow> bigdec \<Rightarrow> bigdec \<Rightarrow> bigdec \<Rightarrow> zap_split res" where
  "split_amounts amountIn xPrice yPrice yPerX =
     rbind (new_BigDecimal (DStr amountIn) None) (\<lambda>a.
     rbind (imul yPrice (DDec yPerX)) (\<lambda>(m, yPerX1).
     rbind (bd_add xPrice (DDec m)) (\<lambda>s.
     rbind (bd_div a (DDec s)) (\<lambda>xResult.
     rbind (imul xResult (DDec yPerX1)) (\<lambda>(yResult, yPerX2).
     rbind (imul xResult (DDec xPrice)) (\<lambda>(xp, xPrice1).
     rbind (bigint_of_num (math_round (bd_toNumber xp))) (\<lambda>toX.
     rbind (bigint_of_string amountIn) (\<lambda>n.
     Inr \<lparr>sl_amountX = math_round (bd_toNumber xResult), sl_amountY = math_round (bd_toNumber yResult), sl_toX = toX,
       sl_toY = n - toX, sl_yPerX = yPerX2, sl_xPrice = xPrice1\<rparr>))))))))"

text \<open>Digits beyond those of one token, when the router was asked for more of it\<close>

definition extend_decimal :: "router_response \<Rightarrow> nat \<Rightarrow> nat" where
  "extend_decimal r decimals =
     (if decimals < length (rr_swapAmount r) - 1 then length (rr_swapAmount r) - 1 - decimals else 0)"

definition route_price :: "router_response \<Rightarrow> nat \<Rightarrow> bigdec res" where
  "route_price r decimals = rbind (bigint_of_string (rr_returnAmount r)) (\<lambda>n. shiftDecimal n (decimals + extend_decimal r decimals))"

definition token_prices :: "zap_env \<Rightarrow> zap_in \<Rightarrow> pool_key \<Rightarrow> (bigdec \<times> bigdec) res" where
  "token_prices Z q poolKey =
     (let tokenIn = zi_tokenIn q; one = new_BigDecimal (DNum ''1'') None; address = Some (extractAddress tokenIn) in
      rbind (findZapRoutes Z True (zi_tokenX q, tokenIn, 10 ^ t_decimals (zi_tokenX q))
        (zi_tokenY q, tokenIn, 10 ^ t_decimals (zi_tokenY q))) (\<lambda>(rx, ry).
      rbind (if address = pk_token_x poolKey then one
             else route_price rx (t_decimals tokenIn)) (\<lambda>xPrice.
      rbind (if address = pk_token_y poolKey \<and> address \<noteq> pk_token_x poolKey then one
             else route_price ry (t_decimals tokenIn)) (\<lambda>yPrice.
      Inr (xPrice, yPrice)))))"

definition y_per_x :: "zap_env \<Rightarrow> zap_in \<Rightarrow> v3_pool \<Rightarrow> bigdec res" where
  "y_per_x Z q p =
     rbind (bigint_of_string (po_sqrt_price p)) (\<lambda>sp.
     rbind (getLiquidityByX (z_wasm Z) (10 ^ t_decimals (zi_tokenX q)) (zi_lower q) (zi_upper q) sp True) (\<lambda>(l, amount).
     shiftDecimal amount (t_decimals (zi_tokenY q))))"

text \<open>The relative difference between what the router returns and the amount that was aimed at\<close>

fun num_abs :: "js_num \<Rightarrow> js_num" where
  "num_abs (Fin x) = Fin \<bar>x\<bar>"
| "num_abs NaN = NaN"
| "num_abs y = PInf"

definition deviates :: "zap_env \<Rightarrow> router_response \<Rightarrow> js_num \<Rightarrow> bool" where
  "deviates Z r amount =
     num_less (z_deviation Z) (num_div (num_abs (num_sub (string_to_num (rr_returnAmount r)) amount)) amount)"

definition rebalance :: "zap_env \<Rightarrow> zap_in \<Rightarrow> router_response \<Rightarrow> router_response \<Rightarrow> zap_split \<Rightarrow> int res" where
  "rebalance Z q rx ry s =
     rbind (new_BigDecimal (DStr (rr_returnAmount rx)) None) (\<lambda>xAmount.
     rbind (new_BigDecimal (DStr (rr_returnAmount ry)) None) (\<lambda>yAmount.
     rbind (findRoute Z True (zi_tokenX q) (zi_tokenY q) (10 ^ t_decimals (zi_tokenX q))) (\<lambda>r.
     rbind (route_price r (t_decimals (zi_tokenY q))) (\<lambda>xPriceByY.
     rbind (bd_mul (sl_yPerX s) (DDec xAmount)) (\<lambda>m.
     rbind (bd_sub yAmount (DDec m)) (\<lambda>d.
     rbind (bd_add (sl_yPerX s) (DDec xPriceByY)) (\<lambda>e.
     rbind (bd_div d (DDec e)) (\<lambda>deltaX.
     rbind (bd_mul deltaX (DDec (sl_xPrice s))) (\<lambda>v.
     rbind (bigint_of_num (math_round (bd_toNumber v))) (\<lambda>n.
     Inr (sl_toX s + n)))))))))))"

section \<open>Providing liquidity\<close>

text \<open>The last routes, for the final split, and the message\<close>

definition final_message :: "zap_env \<Rightarrow> zap_in \<Rightarrow> pool_key \<Rightarrow> v3_pool \<Rightarrow> zap_in_result \<Rightarrow> int \<Rightarrow> zap_message res" where
  "final_message Z q poolKey p status toX =
     rbind (bigint_of_string (zi_amountIn q)) (\<lambda>n.
     rbind (findZapRoutes Z False (zi_tokenIn q, zi_tokenX q, toX) (zi_tokenIn q, zi_tokenY q, n - toX)) (\<lambda>(xRouteInfo, yRouteInfo).
     rbind (bigint_of_string (po_sqrt_price p)) (\<lambda>price.
     populateMessageZapIn Z (Some status) xRouteInfo yRouteInfo price poolKey (zi_lower q) (zi_upper q) (zi_slippage q) None)))"

text \<open>After the simulation: the first split is kept, or recomputed at the new price, and rebalanced when it is off.\<close>

definition finish_zap_in :: "zap_env \<Rightarrow> zap_in \<Rightarrow> pool_key \<Rightarrow> bigdec \<Rightarrow> bigdec \<Rightarrow> int \<Rightarrow> zap_split \<Rightarrow> router_response \<Rightarrow>
    router_response \<Rightarrow> v3_pool \<Rightarrow> zap_message res" where
  "finish_zap_in Z q poolKey xPrice yPrice startSqrtPrice s rx ry p =
     rbind (bigint_of_string (po_sqrt_price p)) (\<lambda>price.
     let moved = (startSqrtPrice \<noteq> price) in
     if moved \<and> (zi_upper q \<le> po_tick p \<or> po_tick p < zi_lower q)
     then populateMessageZapIn Z (Some InRangeHasRouteThroughSelfMayBecomeOutRange) rx ry price poolKey (zi_lower q) (zi_upper q)
       (zi_slippage q) None
     else rbind (if moved then rbind (y_per_x Z q p) (\<lambda>y. split_amounts (zi_amountIn q) (sl_xPrice s) yPrice y) else Inr s) (\<lambda>s'.
       rbind (if deviates Z rx (sl_amountX s') \<or> deviates Z ry (sl_amountY s') then rebalance Z q rx ry s'
              else Inr (sl_toX s')) (\<lambda>toX.
       final_message Z q poolKey p (if moved then InRangeHasRouteThroughSelf else InRangeNoRouteThroughSelf) toX)))"

definition zap_in_range :: "zap_env \<Rightarrow> zap_in \<Rightarrow> pool_key \<Rightarrow> v3_pool \<Rightarrow> zap_message res option" where
  "zap_in_range Z q poolKey p =
     abind (Some (rbind (bigint_of_string (po_sqrt_price p)) (\<lambda>start.
       rbind (y_per_x Z q p) (\<lambda>y.
       rbind (token_prices Z q poolKey) (\<lambda>(xPrice, yPrice).
       rbind (split_amounts (zi_amountIn q) xPrice yPrice y) (\<lambda>s.
       rbind (findZapRoutes Z False (zi_tokenIn q, zi_tokenX q, sl_toX s) (zi_tokenIn q, zi_tokenY q, sl_toY s)) (\<lambda>(rx, ry).
       Inr (start, xPrice, yPrice, s, rx, ry)))))))) (\<lambda>(start, xPrice, yPrice, s, rx, ry).
     abind (simulateSwapOffChainForRoute Z (extractOraidexV3Actions (rr_routes rx @ rr_routes ry)) poolKey p) (\<lambda>p'.
     Some (finish_zap_in Z q poolKey xPrice yPrice start s rx ry p')))"

definition processZapInPositionLiquidity :: "zap_env \<Rightarrow> zap_in \<Rightarrow> zap_message res option" where
  "processZapInPositionLiquidity Z q =
     abind (Some (getPool (z_client Z) (zi_poolKey q))) (\<lambda>pw.
     let p = pw_pool pw; poolKey = pw_key pw in
     if po_tick p < zi_lower q \<or> zi_upper q \<le> po_tick p
     then abind (Some (bigint_of_string (po_sqrt_price p))) (\<lambda>sqrtPrice.
       abind (processZapInWithSingleSide Z q poolKey p sqrtPrice) (\<lambda>(m, p').
       if zm_status m \<noteq> Some OutRangeHasRouteThroughSelfMayBecomeInRange then Some (Inr m)
       else zap_in_range Z q poolKey (p'\<lparr>po_tick := (case zm_currentTick m of None \<Rightarrow> po_tick p' | Some t \<Rightarrow> t),
              po_sqrt_price := int_str (zm_currentSqrtPrice m)\<rparr>)))
     else zap_in_range Z q poolKey p)"

section \<open>Taking liquidity out\<close>

definition buildZapOutMessage :: "zap_env \<Rightarrow> nat \<Rightarrow> router_response \<Rightarrow> router_response \<Rightarrow> js_num \<Rightarrow> zap_out res" where
  "buildZapOutMessage Z positionIndex rx ry slippage =
     rbind (smart_minimum (rr_returnAmount rx) slippage) (\<lambda>minimumReceiveX.
     rbind (smart_minimum (rr_returnAmount ry) slippage) (\<lambda>minimumReceiveY.
     rbind (generateMessageSwapOperation [rx, ry] slippage (z_cosmosTokens Z)) (\<lambda>routes.
     rbind (bigint_of_string (rr_returnAmount rx)) (\<lambda>amountToX.
     rbind (bigint_of_string (rr_returnAmount ry)) (\<lambda>amountToY.
     Inr \<lparr>zo_minimumReceiveX = minimumReceiveX, zo_minimumReceiveY = minimumReceiveY, zo_positionIndex = positionIndex,
       zo_routes = routes, zo_swapFee = calculateSwapFee routes, zo_amountToX = amountToX, zo_amountToY = amountToY\<rparr>)))))"

definition find_token :: "zap_env \<Rightarrow> string option \<Rightarrow> token_item option" where
  "find_token Z address = find (\<lambda>t. Some (extractAddress t) = address) (z_oraichainTokens Z)"

definition zap_out_of :: "zap_env \<Rightarrow> position list \<Rightarrow> int \<Rightarrow> token_item \<Rightarrow> js_num \<Rightarrow> js_num \<Rightarrow> zap_out res" where
  "zap_out_of Z positions tokenId tokenOut zapFee slippage =
     (let index = length (takeWhile (\<lambda>p. ps_token_id p \<noteq> Some tokenId) positions) in
      if length positions \<le> index then Inl TypeError
      else let position = positions ! index in
        rbind (getPool (z_client Z) (ps_key position)) (\<lambda>pw.
        rbind (calculateRewardAmounts (z_wasm Z) pw position zapFee) (\<lambda>(amountX, amountY).
        case (find_token Z (pk_token_x (pw_key pw)), find_token Z (pk_token_y (pw_key pw))) of
          (Some tokenX, Some tokenY) \<Rightarrow>
            rbind (findZapRoutes Z False (tokenX, tokenOut, amountX) (tokenY, tokenOut, amountY)) (\<lambda>(rx, ry).
            buildZapOutMessage Z index rx ry slippage)
        | _ \<Rightarrow> Inl (Thrown ''Token X or Token Y not found in oraichainTokens.''))))"

definition processZapOutPositionLiquidity :: "zap_env \<Rightarrow> int \<Rightarrow> string \<Rightarrow> token_item \<Rightarrow> js_num \<Rightarrow> js_num \<Rightarrow> zap_out res option" where
  "processZapOutPositionLiquidity Z tokenId owner tokenOut zapFee slippage =
     abind (getPositions (z_client Z) owner) (\<lambda>positions. Some (zap_out_of Z positions tokenId tokenOut zapFee slippage))"

section \<open>Price impact of a route\<close>

text \<open>
  \<open>getPriceImpactAfterSwap\<close> (\<open>helpers.ts\<close>) asks a \<open>CalculateSwapResult\<close> for \<open>sqrtPrice\<close> and \<open>amountOut\<close>. A property that an
  object does not have is \<open>undefined\<close>; \<open>undefined * undefined\<close> is \<open>NaN\<close>, and a bigint times \<open>NaN\<close> raises. A pool
  without entry in one of the three maps raises too.
\<close>

text \<open>The properties of a result that are bigints, by the names that \<open>types.ts\<close> declares.\<close>

definition swap_result_props :: "swap_result \<Rightarrow> (string \<times> int) list" where
  "swap_result_props r =
     [(''amount_in'', sw_amount_in r), (''amount_out'', sw_amount_out r), (''fee'', sw_fee r),
      (''start_sqrt_price'', sw_start_sqrt_price r), (''target_sqrt_price'', sw_target_sqrt_price r)]"

definition result_property :: "swap_result \<Rightarrow> string \<Rightarrow> int option" where
  "result_property r name = map_of (swap_result_props r) name"

definition impact_step :: "v3_wasm \<Rightarrow> (string \<Rightarrow> pool_with_key option) \<Rightarrow> (string \<Rightarrow> tickmap option) \<Rightarrow>
    (string \<Rightarrow> liquidity_tick list option) \<Rightarrow> int \<times> int option \<Rightarrow> swap_op \<Rightarrow> (int \<times> int option) res" where
  "impact_step W allPools allTickMaps allTicks acc operation =
     (case operation of
        OraiSwap a b \<Rightarrow> Inl TypeError
      | SwapV3 x y fee ts xToY \<Rightarrow>
          let k = poolKeyToString \<lparr>pk_token_x = Some x, pk_token_y = Some y, pk_fee_tier = \<lparr>ft_fee = fee, ft_tick_spacing = ts\<rparr>\<rparr> in
          (case (allPools k, allTickMaps k, allTicks k, snd acc) of
             (Some pw, Some tickmap, Some ticks, Some amountIn) \<Rightarrow>
               rbind (sim_pool_of (pw_pool pw)) (\<lambda>convertPool.
               rbind (price_limit W \<lparr>ft_fee = fee, ft_tick_spacing = ts\<rparr> xToY) (\<lambda>limit.
               rbind (simulateSwap W tickmap (pk_fee_tier (pw_key pw)) convertPool ticks xToY amountIn True limit) (\<lambda>r.
               case result_property r ''sqrtPrice'' of
                 None \<Rightarrow> Inl TypeError
               | Some e \<Rightarrow> rbind (calculatePriceImpact (sp_sqrt_price convertPool) e) (\<lambda>impact.
                   Inr (fst acc + impact, result_property r ''amountOut'')))))
           | _ \<Rightarrow> Inl TypeError))"

fun impact_loop :: "((int \<times> int option) \<Rightarrow> swap_op \<Rightarrow> (int \<times> int option) res) \<Rightarrow> int \<times> int option \<Rightarrow> swap_op list \<Rightarrow>
    (int \<times> int option) res" where
  "impact_loop f acc [] = Inr acc"
| "impact_loop f acc (x # xs) = rbind (f acc x) (\<lambda>acc'. impact_loop f acc' xs)"

definition getPriceImpactAfterSwap :: "v3_wasm \<Rightarrow> zap_route \<Rightarrow> (string \<Rightarrow> pool_with_key option) \<Rightarrow> (string \<Rightarrow> tickmap option) \<Rightarrow>
    (string \<Rightarrow> liquidity_tick list option) \<Rightarrow> js_num res" where
  "getPriceImpactAfterSwap W r allPools allTickMaps allTicks =
     rbind (bigint_of_string (zr_offer_amount r)) (\<lambda>amountIn.
     rbind (impact_loop (impact_step W allPools allTickMaps allTicks) (0, Some amountIn) (zr_operations r)) (\<lambda>(total, amount).
     rbind (bigint_div total (int (length (zr_operations r)))) (\<lambda>mean.
     Inr (num_div (dbl (of_int mean)) (num_pow10 12)))))"

end
