(* ===== verification/PoolLaws.thy ===== *)
theory PoolLaws
  imports Zap SmartLaws
begin

text \<open>
  Properties of \<open>oraiswap-v3\<close>: reading pages ends with the whole list, keys of pools survive their text, the
  amounts of a position follow the price, the liquidity of a range is the running sum at its last tick,
  and a zap spends exactly its input.
\<close>

section \<open>Pages\<close>

text \<open>A query that serves a finite list in pages: with the first elements read, it answers with the next ones.\<close>

locale page_source =
  fixes query :: "'a list \<Rightarrow> 'a list res" and all :: "'a list"
  assumes page: "prefix acc all \<Longrightarrow> query acc = Inr (take CHUNK_QUERY (drop (length acc) all))"
begin

lemma collect: "prefix acc all \<Longrightarrow> collect_pages query acc = Some (Inr all)"
proof (induction "length all - length acc" arbitrary: acc rule: less_induct)
  case less
  obtain rest where all: "all = acc @ rest" using less.prems by (rule prefixE)
  have q: "query acc = Inr (take CHUNK_QUERY rest)" using page [OF less.prems] all by simp
  show ?case
  proof (cases "length rest < CHUNK_QUERY")
    case True
    then show ?thesis using q all by (subst collect_pages.simps) simp
  next
    case False
    have p: "prefix (acc @ take CHUNK_QUERY rest) all" using all by (simp add: take_is_prefix)
    have "0 < CHUNK_QUERY" by (simp add: CHUNK_QUERY_def)
    then have "length all - length (acc @ take CHUNK_QUERY rest) < length all - length acc" using all False by simp
    then have "collect_pages query (acc @ take CHUNK_QUERY rest) = Some (Inr all)" using p by (rule less.hyps)
    then show ?thesis using q False by (subst collect_pages.simps) simp
  qed
qed

lemma from_start: "collect_pages query [] = Some (Inr all)"
  by (rule collect) simp

end

text \<open>The two ways the contracts serve pages: from an offset, and after a key.\<close>

definition serve_offset :: "'a list \<Rightarrow> nat \<Rightarrow> nat \<Rightarrow> 'a list" where
  "serve_offset xs limit offset = take limit (drop offset xs)"

definition serve_after :: "('a \<Rightarrow> 'k) \<Rightarrow> 'a list \<Rightarrow> nat \<Rightarrow> 'k option \<Rightarrow> 'a list" where
  "serve_after f xs limit after =
     take limit (case after of None \<Rightarrow> xs | Some k \<Rightarrow> tl (dropWhile (\<lambda>x. f x \<noteq> k) xs))"

interpretation offset_pages: page_source "\<lambda>acc. Inr (serve_offset xs CHUNK_QUERY (length acc))" xs
  by unfold_locales (simp add: serve_offset_def)

lemma dropWhile_key:
  assumes "distinct (map f (acc @ rest))" "acc \<noteq> []"
  shows "tl (dropWhile (\<lambda>x. f x \<noteq> f (last acc)) (acc @ rest)) = rest"
proof -
  obtain ys y where acc: "acc = ys @ [y]" using assms(2) by (cases acc rule: rev_cases) auto
  have "f y \<notin> f ` set ys" using assms(1) by (simp add: acc)
  then have "\<forall>x \<in> set ys. f x \<noteq> f y" by (metis imageI)
  then have "dropWhile (\<lambda>x. f x \<noteq> f y) (ys @ [y] @ rest) = [y] @ rest" by (subst dropWhile_append2) auto
  then show ?thesis using acc by simp
qed

lemma after_source:
  assumes "distinct (map f xs)"
  shows "page_source (\<lambda>acc. Inr (serve_after f xs CHUNK_QUERY (if length acc = 0 then None else Some (f (last acc))))) xs"
proof
  fix acc
  assume "prefix acc xs"
  then obtain rest where "xs = acc @ rest" by (rule prefixE)
  then have "serve_after f xs CHUNK_QUERY (if length acc = 0 then None else Some (f (last acc))) = take CHUNK_QUERY (drop (length acc) xs)"
    using dropWhile_key [of f acc rest] assms by (auto simp: serve_after_def)
  then show "Inr (serve_after f xs CHUNK_QUERY (if length acc = 0 then None else Some (f (last acc)))) =
      Inr (take CHUNK_QUERY (drop (length acc) xs))" by simp
qed

lemma positions_complete:
  assumes "\<And>limit offset. q_positions C owner limit offset = Inr (serve_offset all limit offset)"
  shows "getPositions C owner = Some (Inr all)"
  unfolding getPositions_def assms by (rule offset_pages.from_start)

text \<open>C19. Reading the pools ends, with every pool: when the contract keeps finitely many pools with different
  keys and serves those after a given key, \<open>getPools\<close> returns all of them, in their order.\<close>

theorem pools_complete:
  assumes "\<And>limit after. q_pools C limit after = Inr (serve_after pw_key all limit after)" "distinct (map pw_key all)"
  shows "getPools C = Some (Inr all)"
  unfolding getPools_def assms(1) by (rule page_source.from_start [OF after_source [OF assms(2)]])

definition sample_key :: pool_key where
  "sample_key = \<lparr>pk_token_x = Some ''orai'', pk_token_y = Some ''uusdc'', pk_fee_tier = \<lparr>ft_fee = Fin 3000000000, ft_tick_spacing = Fin 100\<rparr>\<rparr>"

definition sample_pool :: v3_pool where
  "sample_pool = \<lparr>po_liquidity = ''1'', po_sqrt_price = ''1'', po_tick = 0, po_fee_growth_x = ''0'', po_fee_growth_y = ''0'',
     po_fee_x = ''0'', po_fee_y = ''0''\<rparr>"

definition sample_pools :: "pool_with_key list" where
  "sample_pools = [\<lparr>pw_key = sample_key, pw_pool = sample_pool\<rparr>]"

definition sample_client :: v3_client where
  "sample_client = \<lparr>q_positions = (\<lambda>owner limit offset. Inr []), q_pool = (\<lambda>f x y. Inr sample_pool),
     q_pools = (\<lambda>limit after. Inr (serve_after pw_key sample_pools limit after)), q_userPositionAmount = (\<lambda>owner. Inr 0),
     q_positionTicks = (\<lambda>owner offset. Inr []), q_tickMap = (\<lambda>k a b x. Inr []), q_liquidityTicks = (\<lambda>k is. Inr []),
     q_approvedForAll = (\<lambda>owner e l a. Inr []), q_tokens = (\<lambda>owner a l. Inr []), q_allTokens = (\<lambda>a l. Inr []), q_numTokens = Inr 0,
     q_nftInfos = (\<lambda>is. Inr [])\<rparr>"

theorem pools_complete_witness: "getPools sample_client = Some (Inr sample_pools)"
  by (rule pools_complete) (simp_all add: sample_client_def sample_pools_def)

text \<open>The tokens of an owner are asked for after the token whose id is the number of tokens read so far, not
  after the last of them: with tokens 3 and 205 of 205, the second page serves the tokens after id 100 again.\<close>

lemma tokens_repeated:
  assumes "q_numTokens C = Inr 205" "\<And>a l. q_tokens C owner a l = Inr (take l (filter (\<lambda>t. int a < t) [3, 205]))"
  shows "v3_tokens C owner = Inr [3, 205, 205, 205]"
  by (simp add: v3_tokens_def assms steps_def CHUNK_QUERY_def upt_conv_Cons)

section \<open>Keys\<close>

lemma number_text: "n < 2 ^ 53 \<Longrightarrow> string_to_num (num_to_string (Fin (of_nat n))) = Fin (of_nat n)"
  unfolding num_to_string_nat string_to_num_nat_str using dbl_nat_exact [of n] by (cases "n = 0") (simp_all add: dbl_def [of 0])

text \<open>A pool key survives its text: with tokens without a dash and numbers that are exact, parsing the
  printed key gives the key back.\<close>

lemma pool_key_roundtrip:
  assumes "CHR ''-'' \<notin> set x" "CHR ''-'' \<notin> set y" "f < 2 ^ 53" "t < 2 ^ 53"
    and "k = \<lparr>pk_token_x = Some x, pk_token_y = Some y, pk_fee_tier = \<lparr>ft_fee = Fin (of_nat f), ft_tick_spacing = Fin (of_nat t)\<rparr>\<rparr>"
  shows "parsePoolKey (poolKeyToString k) = k"
proof -
  have "poolKeyToString k = js_join (CHR ''-'') [x, y, nat_str f, nat_str t]"
    using assms(3-5) num_to_string_nat by (simp add: poolKeyToString_def template_def del: num_to_string.simps)
  moreover have "js_split (CHR ''-'') (js_join (CHR ''-'') [x, y, nat_str f, nat_str t]) = [x, y, nat_str f, nat_str t]"
    by (rule js_split_join) (use assms(1,2) nat_str_no_minus in auto)
  ultimately show ?thesis
    using number_text [OF assms(3)] number_text [OF assms(4)] num_to_string_nat assms(3-5)
    by (simp add: parsePoolKey_def nth_str_def opt_number_def Let_def del: num_to_string.simps)
qed

lemma pool_key_roundtrip_example: "parsePoolKey (poolKeyToString sample_key) = sample_key"
  by (rule pool_key_roundtrip [of "''orai''" "''uusdc''" 3000000000 100]) (simp_all add: sample_key_def)

lemma denom_with_dash:
  "pk_token_x (parsePoolKey (poolKeyToString (sample_key\<lparr>pk_token_x := Some ''factory/a-b''\<rparr>))) = Some ''factory/a''"
  by (simp add: poolKeyToString_def template_def parsePoolKey_def nth_str_def sample_key_def Let_def del: num_to_string.simps)

section \<open>Decimals\<close>

lemma padded_digits: "list_all is_digit (js_pad_start n (CHR ''0'') (nat_str v))"
  using nat_str_digits [of v] by (simp add: js_pad_start_def)

lemma padded_value: "str_nat (js_pad_start n (CHR ''0'') (nat_str v)) = v"
  by (simp add: js_pad_start_def str_nat_append)

text \<open>\<open>shiftDecimal\<close> reads an amount of base units as a decimal without any rounding: the mantissa is the
  amount and the scale the number of decimals, for every positive number of decimals.\<close>

lemma shift_exact:
  assumes "0 < d"
  shows "shiftDecimal (int v) d = Inr \<lparr>bigInt = int v, dec = d\<rparr>"
proof -
  let ?s = "js_pad_start (d + 1) (CHR ''0'') (nat_str v)"
  let ?i = "take (length ?s - d) ?s" and ?f = "drop (length ?s - d) ?s"
  have len: "d < length ?s" by (simp add: js_pad_start_def)
  have dig: "list_all is_digit ?i" "list_all is_digit ?f" using padded_digits [of "d + 1" v] by (auto simp: list_all_iff dest: in_set_takeD in_set_dropD)
  have ne: "?i \<noteq> []" "?f \<noteq> []" "length ?f = d" using len assms by auto
  have "js_split (CHR ''.'') (?i @ CHR ''.'' # ?f) = ?i # (if ?f = [] then [] else [?f])"
    using bd_of_text_parts [OF digits_no_dot [OF dig(1)] digits_no_dot [OF dig(2)]] ne by simp
  then have "bd_of_text (?i @ CHR ''.'' # ?f) (Some d) = rbind (bigint_of_string (?i @ ?f)) (\<lambda>n. Inr \<lparr>bigInt = n, dec = d\<rparr>)"
    using bd_of_text_narrow [of "?i @ CHR ''.'' # ?f" ?i ?f "Some d"] ne by (simp add: default_decimals_def js_pad_end_def)
  also have "bigint_of_string (?i @ ?f) = Inr (int v)"
    using bigint_of_digits [OF _ padded_digits [of "d + 1" v]] padded_value [of "d + 1" v] len by (cases ?s) simp_all
  finally have "bd_of_text (?i @ CHR ''.'' # ?f) (Some d) = Inr \<lparr>bigInt = int v, dec = d\<rparr>" by simp
  moreover have "js_slice ?s 0 (- int d) = ?i" "js_slice_from ?s (- int d) = ?f"
    using len assms by (simp_all add: js_slice_def js_slice_from_def js_index_def Let_def nat_diff_distrib)
  ultimately show ?thesis using ne(1) by (simp add: shiftDecimal_def new_BigDecimal_def int_str_def)
qed

lemma shift_exact_witness: "shiftDecimal (int 1500000) 6 = Inr \<lparr>bigInt = 1500000, dec = 6\<rparr>"
  using shift_exact [of 6 1500000] by simp

lemma shift_no_decimals: "shiftDecimal 5 0 = Inr \<lparr>bigInt = 5, dec = 1\<rparr>"
  by (simp add: shiftDecimal_def int_str_def js_pad_start_def js_slice_def js_slice_from_def js_index_def new_BigDecimal_def
      bd_of_text_def default_decimals_def js_eval bigint_of_string_def js_trim_def is_ws_def decimal_literal_def is_digit_def Let_def)

section \<open>The amounts of a position\<close>

text \<open>Both functions depend on the price only where it lies in the range.\<close>

definition x_amount :: "v3_wasm \<Rightarrow> int \<Rightarrow> int \<Rightarrow> int \<Rightarrow> int" where
  "x_amount W L u m = L * (u - m) div (u * m div PRICE_DENOMINATOR W) div LIQUIDITY_DENOMINATOR W"

definition sound_wasm :: "v3_wasm \<Rightarrow> bool" where
  "sound_wasm W \<longleftrightarrow> 0 < PRICE_DENOMINATOR W \<and> 0 < LIQUIDITY_DENOMINATOR W"

lemma getX_value:
  assumes "sound_wasm W" "0 \<le> L" "0 < l" "l < u" "getX W L u c l = Inr x"
  shows "0 < c \<and> (u \<le> c \<and> x = 0 \<or> c < u \<and> 0 < u * max c l div PRICE_DENOMINATOR W \<and> x = x_amount W L u (max c l))"
proof -
  have c: "0 < c" using assms(3-5) by (auto simp: getX_def split: if_splits)
  show ?thesis
  proof (cases "u \<le> c")
    case True
    then show ?thesis using assms c by (simp add: getX_def)
  next
    case False
    let ?m = "max c l" and ?P = "PRICE_DENOMINATOR W" and ?D = "LIQUIDITY_DENOMINATOR W"
    have pos: "0 < ?P" "0 < ?D" "0 \<le> u * ?m" "0 \<le> L * (u - ?m)"
      using assms False c by (auto simp: sound_wasm_def)
    have "getX W L u c l = rbind (bigint_div (u * ?m) ?P) (\<lambda>d. rbind (bigint_div (L * (u - ?m)) d) (\<lambda>q. bigint_div q ?D))"
      using assms(3,4) c False by (auto simp: getX_def Let_def max_def mult.commute)
    also have "bigint_div (u * ?m) ?P = Inr (u * ?m div ?P)" using pos by (simp add: bigint_div_def sdiv_pos)
    finally have *: "rbind (bigint_div (L * (u - ?m)) (u * ?m div ?P)) (\<lambda>q. bigint_div q ?D) = Inr x" using assms(5) by simp
    moreover have "0 \<le> u * ?m div ?P" using pos by (simp add: pos_imp_zdiv_nonneg_iff)
    ultimately have d: "0 < u * ?m div ?P" by (cases "u * ?m div ?P = 0") (auto simp: bigint_div_def)
    then have "bigint_div (L * (u - ?m)) (u * ?m div ?P) = Inr (L * (u - ?m) div (u * ?m div ?P))"
      using pos by (simp add: bigint_div_def sdiv_pos)
    moreover have "0 \<le> L * (u - ?m) div (u * ?m div ?P)" using pos d by (simp add: pos_imp_zdiv_nonneg_iff)
    ultimately show ?thesis using * d c False pos by (simp add: bigint_div_def sdiv_pos x_amount_def)
  qed
qed

lemma x_amount_antimono:
  assumes "sound_wasm W" "0 \<le> L" "0 < u" "m \<le> m'" "m' \<le> u" "0 < u * m div PRICE_DENOMINATOR W"
  shows "x_amount W L u m' \<le> x_amount W L u m"
proof -
  let ?d = "u * m div PRICE_DENOMINATOR W" and ?d' = "u * m' div PRICE_DENOMINATOR W"
  have dd: "?d \<le> ?d'" using assms by (intro zdiv_mono1) (auto simp: sound_wasm_def)
  have "L * (u - m') div ?d' \<le> L * (u - m') div ?d" using assms dd by (intro zdiv_mono2) auto
  also have "\<dots> \<le> L * (u - m) div ?d" using assms by (intro zdiv_mono1 mult_left_mono) auto
  finally show ?thesis using assms(1) unfolding x_amount_def by (intro zdiv_mono1) (auto simp: sound_wasm_def)
qed

lemma x_amount_nonneg: "sound_wasm W \<Longrightarrow> 0 \<le> L \<Longrightarrow> m \<le> u \<Longrightarrow> 0 < u * m div PRICE_DENOMINATOR W \<Longrightarrow> 0 \<le> x_amount W L u m"
  by (simp add: x_amount_def sound_wasm_def pos_imp_zdiv_nonneg_iff)

lemma getY_value:
  assumes "sound_wasm W" "0 \<le> L" "0 < l" "l < u" "0 < c"
  shows "getY W L u c l = Inr (L * (max l (min c u) - l) div PRICE_DENOMINATOR W div LIQUIDITY_DENOMINATOR W)"
proof -
  have "0 \<le> L * (max l (min c u) - l)" using assms by simp
  then show ?thesis
    using assms by (auto simp: getY_def sound_wasm_def bigint_div_def sdiv_pos pos_imp_zdiv_nonneg_iff Let_def max_def min_def)
qed

lemma getY_pos: "getY W L u c l = Inr y \<Longrightarrow> 0 < c"
  by (auto simp: getY_def split: if_splits)

text \<open>C20. A position sells X for Y as the price rises: at a higher price it holds no more of X and no less of Y,
  and neither amount is ever negative. Outside its range the position does not change.\<close>

theorem price_moves_amounts:
  assumes "sound_wasm W" "0 \<le> L" "0 < l" "l < u" "c \<le> c'"
    and "getX W L u c l = Inr x" "getX W L u c' l = Inr x'" "getY W L u c l = Inr y" "getY W L u c' l = Inr y'"
  shows "0 \<le> x' \<and> x' \<le> x \<and> 0 \<le> y \<and> y \<le> y' \<and> (u \<le> c \<longrightarrow> x = 0 \<and> y = y') \<and> (c' \<le> l \<longrightarrow> x = x' \<and> y' = 0)"
proof -
  note X = getX_value [OF assms(1-4) assms(6)] getX_value [OF assms(1-4) assms(7)]
  have Y: "y = L * (max l (min c u) - l) div PRICE_DENOMINATOR W div LIQUIDITY_DENOMINATOR W"
      "y' = L * (max l (min c' u) - l) div PRICE_DENOMINATOR W div LIQUIDITY_DENOMINATOR W"
    using getY_value [OF assms(1-4) getY_pos [OF assms(8)]] getY_value [OF assms(1-4) getY_pos [OF assms(9)]] assms(8,9) by simp_all
  have "0 \<le> x" "0 \<le> x'" using X assms(1,2,4) by (auto intro!: x_amount_nonneg)
  moreover have "x' \<le> x"
  proof (cases "u \<le> c'")
    case False
    then show ?thesis using X assms(1,2,3,4,5) by (auto intro!: x_amount_antimono)
  qed (use X \<open>0 \<le> x\<close> in auto)
  moreover have "0 \<le> y \<and> y \<le> y'"
    unfolding Y using assms(1,2,4,5)
    by (intro conjI zdiv_mono1 mult_left_mono) (auto simp: sound_wasm_def pos_imp_zdiv_nonneg_iff)
  moreover have "u \<le> c \<longrightarrow> x = 0 \<and> y = y'" using X(1) Y assms(4,5) by auto
  moreover have "c' \<le> l \<longrightarrow> x = x' \<and> y' = 0" using X Y assms(4,5) by (auto simp: max_def)
  ultimately show ?thesis by blast
qed

definition sample_wasm :: v3_wasm where
  "sample_wasm = \<lparr>LIQUIDITY_DENOMINATOR = 1, PRICE_DENOMINATOR = 10, CHUNK_SIZE = 64, LIQUIDITY_TICKS_LIMIT = 100,
     calculateSqrtPrice = (\<lambda>t. Inr (10 + t)), calculateAmountDelta = (\<lambda>t s l b u d. Inr (l, l)),
     getLiquidityByX = (\<lambda>n l u s b. Inr (n, 1000000)), getLiquidityByY = (\<lambda>n l u s b. Inr (2 * n, 1000000)),
     getMinTick = (\<lambda>t. Inr (- 100)), getMaxTick = (\<lambda>t. Inr 100), getMinSqrtPrice = (\<lambda>t. Inr 1), getMaxSqrtPrice = (\<lambda>t. Inr 1000),
     getTickAtSqrtPrice = (\<lambda>s t. Inr s), positionToTick = (\<lambda>c b t. Inr (64 * c + int b)),
     simulateSwap = (\<lambda>m f p ts x a b l. Inr \<lparr>sw_amount_in = a, sw_amount_out = a, sw_fee = 0, sw_start_sqrt_price = 1, sw_target_sqrt_price = 3\<rparr>)\<rparr>"

theorem price_moves_amounts_witness:
  "getX sample_wasm 1000 40 20 10 = Inr 250 \<and> getX sample_wasm 1000 40 30 10 = Inr 83 \<and> (83 :: int) \<le> 250 \<and>
   getY sample_wasm 1000 40 20 10 = Inr 1000 \<and> getY sample_wasm 1000 40 30 10 = Inr 2000"
proof -
  have v: "getX sample_wasm 1000 40 20 10 = Inr 250" "getX sample_wasm 1000 40 30 10 = Inr 83"
    "getY sample_wasm 1000 40 20 10 = Inr 1000" "getY sample_wasm 1000 40 30 10 = Inr 2000"
    by (simp_all add: getX_def getY_def sample_wasm_def bigint_div_def sdiv_pos)
  have "sound_wasm sample_wasm" by (simp add: sound_wasm_def sample_wasm_def)
  from price_moves_amounts [OF this _ _ _ _ v] show ?thesis using v by simp
qed

section \<open>Liquidity of ranges\<close>

fun last_sum :: "virtual_range \<Rightarrow> int \<Rightarrow> int option \<Rightarrow> liquidity_tick list \<Rightarrow> int option" where
  "last_sum r cur o1 [] = o1"
| "last_sum r cur o1 (c # cs) =
     (let cur' = cur + signed_change c in last_sum r cur' (if in_range r c then Some cur' else o1) cs)"

definition slot :: "'a option list \<Rightarrow> nat \<Rightarrow> 'a option" where
  "slot xs i = (if i < length xs then xs ! i else None)"

lemma slot_set_at: "slot (set_at j v xs) i = (if i = j then Some v else slot xs i)"
  by (auto simp: slot_def set_at_def nth_append)

lemma slot_mark_ranges:
  "slot (mark_ranges c cur j rs out) i = (if j \<le> i \<and> i < j + length rs \<and> in_range (rs ! (i - j)) c then Some cur else slot out i)"
proof (induction rs arbitrary: j out)
  case (Cons r rs)
  then show ?case by (auto simp: slot_set_at nth_Cons' Suc_le_eq)
qed auto

lemma slot_range_loop:
  "i < length rs \<Longrightarrow> slot (range_loop rs cur out cs) i = last_sum (rs ! i) cur (slot out i) cs"
  by (induction cs arbitrary: cur out) (auto simp: slot_mark_ranges Let_def)

lemma last_sum_none: "\<forall>c \<in> set cs. \<not> in_range r c \<Longrightarrow> last_sum r cur o1 cs = o1"
  by (induction cs arbitrary: cur) (auto simp: Let_def)

lemma last_sum_split:
  "in_range r c \<Longrightarrow> \<forall>b \<in> set bs. \<not> in_range r b \<Longrightarrow>
    last_sum r cur o1 (as @ c # bs) = Some (cur + sum_list (map signed_change as) + signed_change c)"
  by (induction as arbitrary: cur o1) (auto simp: last_sum_none Let_def)

text \<open>C32. The liquidity of a range is the sum of the signed changes up to the last tick inside the range, and a
  range without a tick has none, whatever the other ranges are.\<close>

theorem range_liquidity:
  assumes "i < length rs"
  shows "map_option li_liquidity (slot (calculateLiquidityForRanges cs rs) i) = last_sum (rs ! i) 0 None cs \<and>
    (\<forall>as c bs. cs = as @ c # bs \<longrightarrow> in_range (rs ! i) c \<longrightarrow> (\<forall>b \<in> set bs. \<not> in_range (rs ! i) b) \<longrightarrow>
       last_sum (rs ! i) 0 None cs = Some (sum_list (map signed_change (as @ [c]))))"
proof -
  have "map_option li_liquidity (slot (calculateLiquidityForRanges cs rs) i) = slot (range_loop rs 0 [] cs) i"
    by (cases "slot (range_loop rs 0 [] cs) i")
      (auto simp: calculateLiquidityForRanges_def Let_def slot_def option.map_comp comp_def split: if_splits)
  then have "map_option li_liquidity (slot (calculateLiquidityForRanges cs rs) i) = last_sum (rs ! i) 0 None cs"
    using slot_range_loop [OF assms, of 0 "[]" cs] by (simp add: slot_def)
  then show ?thesis by (auto simp: last_sum_split)
qed

theorem range_liquidity_witness:
  "map_option li_liquidity (slot (calculateLiquidityForRanges
      [\<lparr>lt_index = 0, lt_change = 5, lt_sign = True\<rparr>, \<lparr>lt_index = 7, lt_change = 2, lt_sign = False\<rparr>]
      [\<lparr>vr_lower = 0, vr_upper = 5\<rparr>, \<lparr>vr_lower = 5, vr_upper = 9\<rparr>]) 1) = Some 3"
  by (subst range_liquidity [THEN conjunct1]) (simp_all add: in_range_def signed_change_def)

section \<open>Prices\<close>

text \<open>The price impact of a route is never computed: \<open>getPriceImpactAfterSwap\<close> reads two properties that
  the result of the simulation does not have, and a route without operations divides by zero.\<close>

lemma price_impact_never:
  "\<not> is_ok (getPriceImpactAfterSwap W r allPools allTickMaps allTicks)"
proof -
  have step: "\<not> is_ok (impact_step W allPools allTickMaps allTicks acc op)" for acc op
    by (auto simp: impact_step_def is_ok_iff result_property_def swap_result_props_def rbind_eq_Inr_iff Let_def split: swap_op.splits option.splits)
  show ?thesis
  proof (cases "zr_operations r")
    case Nil
    then show ?thesis by (auto simp: getPriceImpactAfterSwap_def is_ok_iff rbind_eq_Inr_iff bigint_div_def)
  next
    case (Cons op ops)
    then show ?thesis using step by (fastforce simp: getPriceImpactAfterSwap_def is_ok_iff rbind_eq_Inr_iff)
  qed
qed

lemma price_impact_bounds:
  assumes "0 < s" "0 < e" "calculatePriceImpact s e = Inr i"
  shows "0 \<le> i \<and> i \<le> DENOMINATOR"
proof -
  have D: "0 < DENOMINATOR" by (simp add: DENOMINATOR_def)
  have q: "0 \<le> DENOMINATOR * a div b \<and> DENOMINATOR * a div b \<le> DENOMINATOR" if "0 < a" "a \<le> b" for a b :: int
  proof
    show "0 \<le> DENOMINATOR * a div b" using that D by (simp add: pos_imp_zdiv_nonneg_iff)
    have "DENOMINATOR * a div b \<le> DENOMINATOR * b div b" using that D by (intro zdiv_mono1 mult_left_mono) auto
    then show "DENOMINATOR * a div b \<le> DENOMINATOR" using that by simp
  qed
  show ?thesis using assms D q [of "s * s" "e * e"] q [of "e * e" "s * s"]
    by (auto simp: calculatePriceImpact_def Let_def bigint_div_def sdiv_pos split: if_splits)
qed

section \<open>Minimum liquidity\<close>

lemma hundred_minus: "s \<le> 100 \<Longrightarrow> num_sub (Fin 100) (Fin (of_nat s)) = Fin (of_nat (100 - s))"
  using dbl_nat_exact [of "100 - s"] by (cases "s = 100") (auto simp: num_sub_def dbl_def [of 0] of_nat_diff)

text \<open>C33. The minimum liquidity asked for is the exact floor of \<open>(100 - slippage)\<close> percent of the smaller of the two
  liquidities that the amounts of X and of Y give, for a whole number of percent.\<close>

theorem minimum_liquidity:
  assumes "rbind (bigint_of_string (rr_returnAmount rx)) (\<lambda>n. getLiquidityByX W n lo up sp True) = Inr (l1, a1)"
    and "rbind (bigint_of_string (rr_returnAmount ry)) (\<lambda>n. getLiquidityByY W n lo up sp True) = Inr (l2, a2)"
    and "0 \<le> l1" "0 \<le> l2" "s \<le> 100"
  shows "calculateMinimumLiquidity W rx ry lo up sp (Fin (of_nat s)) None = Inr (min l1 l2 * int (100 - s) div 100)"
proof -
  have "percent_of l (Fin (of_nat s)) = Inr (l * int (100 - s) div 100)" if "0 \<le> l" for l
    using that by (simp add: percent_of_def hundred_minus [OF assms(5)] sdiv_pos del: of_nat_diff)
  then show ?thesis using assms(3,4) by (simp add: calculateMinimumLiquidity_def assms(1,2) min_def)
qed

definition whole_response :: "string \<Rightarrow> router_response" where
  "whole_response n = \<lparr>rr_swapAmount = n, rr_returnAmount = n, rr_routes = []\<rparr>"

lemma bigint_numeral: "bigint_of_string ''1'' = Inr 1" "bigint_of_string ''2'' = Inr 2"
  by (simp_all add: bigint_of_string_def js_trim_def is_ws_def decimal_literal_def is_digit_def str_nat_def digit_val_def Let_def)

theorem minimum_liquidity_witness:
  "calculateMinimumLiquidity sample_wasm (whole_response ''1'') (whole_response ''2'') 0 9 5 (Fin (of_nat 0)) None = Inr 1"
  using minimum_liquidity [of "whole_response ''1''" sample_wasm 0 9 5 1 1000000 "whole_response ''2''" 4 1000000 0]
  by (simp add: whole_response_def sample_wasm_def bigint_numeral)

text \<open>A slippage that is not a whole number of percent makes every zap into a range fail: \<open>BigInt(100 - slippage)\<close>
  raises, although the same slippage is accepted for a position on one side.\<close>

theorem fractional_slippage:
  "\<not> is_ok (calculateMinimumLiquidity W rx ry lo up sp (Fin (1 / 2)) None)"
proof -
  have "dbl (of_int (199 * 2 ^ 0) / 2 ^ 1) = Fin (of_int (199 * 2 ^ 0) / 2 ^ 1)"
    using dbl_half_power [of 199 1] by simp
  then have "num_sub (Fin 100) (Fin (1 / 2)) = Fin (199 / 2)" by (simp add: num_sub_def)
  moreover have "\<lfloor>199 / 2 :: rat\<rfloor> = 99" by (simp add: floor_eq_iff)
  ultimately show ?thesis
    by (auto simp: calculateMinimumLiquidity_def percent_of_def is_ok_iff rbind_eq_Inr_iff split: if_splits)
qed

section \<open>Zaps\<close>

text \<open>The whole input goes into two routes, one to each token, and the message is built from these.\<close>

definition two_routes :: "zap_env \<Rightarrow> zap_in \<Rightarrow> zap_message \<Rightarrow> bool" where
  "two_routes Z q m \<longleftrightarrow> (\<exists>n toX rx ry. bigint_of_string (zi_amountIn q) = Inr n \<and>
     findRoute Z False (zi_tokenIn q) (zi_tokenX q) toX = Inr rx \<and> findRoute Z False (zi_tokenIn q) (zi_tokenY q) (n - toX) = Inr ry \<and>
     generateMessageSwapOperation [rx, ry] (zi_slippage q) (z_cosmosTokens Z) = Inr (zm_routes m) \<and>
     zm_amountX m = rr_returnAmount rx \<and> zm_amountY m = rr_returnAmount ry)"

definition one_route :: "zap_env \<Rightarrow> zap_in \<Rightarrow> zap_message \<Rightarrow> bool" where
  "one_route Z q m \<longleftrightarrow> (\<exists>n token r. bigint_of_string (zi_amountIn q) = Inr n \<and> (token = zi_tokenX q \<or> token = zi_tokenY q) \<and>
     findRoute Z False (zi_tokenIn q) token n = Inr r \<and>
     generateMessageSwapOperation [r] (zi_slippage q) (z_cosmosTokens Z) = Inr (zm_routes m))"

lemma populate_routes:
  assumes "populateMessageZapIn Z status rx ry price poolKey lo up slippage single = Inr m"
  shows "generateMessageSwapOperation (if single = None then [rx, ry] else [rx]) slippage (z_cosmosTokens Z) = Inr (zm_routes m) \<and>
    zm_status m = status \<and> (single = None \<longrightarrow> zm_amountX m = rr_returnAmount rx \<and> zm_amountY m = rr_returnAmount ry)"
  using assms by (auto simp: populateMessageZapIn_def elim!: rbindE)

lemma findZapRoutesE:
  assumes "findZapRoutes Z g (s1, d1, a1) (s2, d2, a2) = Inr r"
  obtains r1 r2 where "r = (r1, r2)" "findRoute Z g s1 d1 a1 = Inr r1" "findRoute Z g s2 d2 a2 = Inr r2"
  using assms by (auto simp: findZapRoutes_def elim!: rbindE)

lemma split_rest:
  assumes "split_amounts amountIn xPrice yPrice yPerX = Inr s"
  shows "\<exists>n. bigint_of_string amountIn = Inr n \<and> sl_toY s = n - sl_toX s"
  using assms unfolding split_amounts_def by (auto elim!: rbindE split: prod.split_asm)

lemma two_routesI:
  assumes "bigint_of_string (zi_amountIn q) = Inr n" "findRoute Z False (zi_tokenIn q) (zi_tokenX q) toX = Inr rx"
    "findRoute Z False (zi_tokenIn q) (zi_tokenY q) (n - toX) = Inr ry"
    "populateMessageZapIn Z status rx ry price poolKey lo up (zi_slippage q) None = Inr m"
  shows "two_routes Z q m \<and> zm_status m = status"
  using assms(1-3) populate_routes [OF assms(4)] unfolding two_routes_def by auto

lemma final_message_routes:
  assumes "final_message Z q poolKey p status toX = Inr m"
  shows "two_routes Z q m \<and> zm_status m = Some status"
  using assms unfolding final_message_def by (elim rbindE) (auto elim!: rbindE findZapRoutesE dest: two_routesI)

lemma finish_routes:
  assumes "finish_zap_in Z q poolKey xPrice yPrice start s rx ry p = Inr m"
    and "bigint_of_string (zi_amountIn q) = Inr n" "findRoute Z False (zi_tokenIn q) (zi_tokenX q) (sl_toX s) = Inr rx"
    and "findRoute Z False (zi_tokenIn q) (zi_tokenY q) (n - sl_toX s) = Inr ry"
  shows "two_routes Z q m \<and>
    zm_status m \<in> Some ` {InRangeNoRouteThroughSelf, InRangeHasRouteThroughSelf, InRangeHasRouteThroughSelfMayBecomeOutRange}"
  using assms(1) unfolding finish_zap_in_def Let_def
  by (auto elim!: rbindE split: if_split_asm dest!: final_message_routes two_routesI [OF assms(2-4)])

lemma zap_in_range_routes:
  assumes "zap_in_range Z q poolKey p = Some (Inr m)"
  shows "two_routes Z q m \<and>
    zm_status m \<in> Some ` {InRangeNoRouteThroughSelf, InRangeHasRouteThroughSelf, InRangeHasRouteThroughSelfMayBecomeOutRange}"
  using assms unfolding zap_in_range_def
  apply (elim abindE)
  subgoal premises h for x
  proof -
    obtain start xPrice yPrice s rx ry where x: "x = (start, xPrice, yPrice, s, rx, ry)" by (cases x) auto
    from h(1) obtain y where sp: "split_amounts (zi_amountIn q) xPrice yPrice y = Inr s"
      and f: "findZapRoutes Z False (zi_tokenIn q, zi_tokenX q, sl_toX s) (zi_tokenIn q, zi_tokenY q, sl_toY s) = Inr (rx, ry)"
      unfolding x by (auto elim!: rbindE split: prod.split_asm)
    obtain n where "bigint_of_string (zi_amountIn q) = Inr n" "sl_toY s = n - sl_toX s" using split_rest [OF sp] by blast
    then show ?thesis using h(2) f unfolding x by (auto elim!: abindE findZapRoutesE dest!: finish_routes)
  qed
  done

lemma single_side_route:
  assumes "processZapInWithSingleSide Z q poolKey p sqrtPrice = Some (Inr (m, p'))"
  shows "one_route Z q m \<and> zm_status m \<in> Some ` {OutRangeNoRouteThroughSelf, OutRangeHasRouteThroughSelf,
    OutRangeHasRouteThroughSelfMayBecomeInRange}"
  using assms unfolding processZapInWithSingleSide_def Let_def
  apply (elim abindE)
  subgoal premises h for r p1
    using h unfolding one_route_def
    by (elim rbindE sum.inject(2) [THEN iffD1, elim_format] option.inject [THEN iffD1, elim_format])
      (auto elim!: rbindE dest!: populate_routes split: if_split_asm)
  done

text \<open>C12. A zap spends its input and nothing else: the message for a position out of range comes from one route
  with the whole amount, any other message from two routes whose amounts add up to it, after however many
  corrections of the split. The status \<open>OutRangeHasRouteThroughSelfMayBecomeInRange\<close> is never reported: what
  follows it overwrites it.\<close>

theorem zap_spends_input:
  assumes "processZapInPositionLiquidity Z q = Some (Inr m)"
  shows "zm_status m \<in> Some ` {OutRangeNoRouteThroughSelf, OutRangeHasRouteThroughSelf} \<and> one_route Z q m \<or>
    zm_status m \<in> Some ` {InRangeNoRouteThroughSelf, InRangeHasRouteThroughSelf, InRangeHasRouteThroughSelfMayBecomeOutRange} \<and>
      two_routes Z q m"
  using assms unfolding processZapInPositionLiquidity_def Let_def
  by (auto elim!: abindE split: if_split_asm prod.split_asm dest!: zap_in_range_routes single_side_route)

definition sample_zap_env :: zap_env where
  "sample_zap_env = \<lparr>z_wasm = sample_wasm, z_client = sample_client, z_fetch = (\<lambda>url body. Inl (Rejected ''{}'')), z_router = ''https://router'',
     z_swapOptions = JUndef, z_deviation = Fin 0, z_cosmosTokens = [], z_oraichainTokens = []\<rparr>"

definition sample_zap :: zap_in where
  "sample_zap = \<lparr>zi_poolKey = sample_key, zi_tokenIn = smart_token None, zi_amountIn = ''2'', zi_lower = - 10, zi_upper = 10,
     zi_tokenX = smart_token None, zi_tokenY = smart_token None, zi_slippage = Fin 1\<rparr>"

lemma sample_route: "findRoute sample_zap_env g (smart_token None) (smart_token None) n = Inr (whole_response (int_str n))"
  by (simp add: findRoute_def find_once_def whole_response_def)

lemma no_routes: "rr_routes (whole_response n) = []" "extractOraidexV3Actions [] = []"
  by (simp_all add: whole_response_def extractOraidexV3Actions_def)

lemma sample_price: "route_price (whole_response (int_str 1000000)) 6 = Inr \<lparr>bigInt = 1000000, dec = 6\<rparr>"
  using shift_exact [of 6 1000000] bigint_of_int_str [of 1000000]
  by (simp add: route_price_def whole_response_def extend_decimal_def int_str_def js_eval)

lemma sample_one: "math_round (bd_toNumber \<lparr>bigInt = 1000000, dec = 6\<rparr>) = Fin 1"
  using bd_toNumber_dbl [of "\<lparr>bigInt = 1000000, dec = 6\<rparr>"] dbl_nat_exact [of 1]
  by (simp add: bd_val_def math_round_def floor_eq_iff)

lemma sample_decimal: "new_BigDecimal (DStr ''2'') None = Inr \<lparr>bigInt = 2000000, dec = 6\<rparr>"
    "new_BigDecimal (DNum ''1'') None = Inr \<lparr>bigInt = 1000000, dec = 6\<rparr>"
  using bd_of_decimal [of "''2''" "[]"] bd_of_decimal [of "''1''" "[]"]
  by (simp_all add: new_BigDecimal_def decimal_text_def is_digit_def js_eval)

lemma sample_split:
  "split_amounts ''2'' \<lparr>bigInt = 1000000, dec = 6\<rparr> \<lparr>bigInt = 1000000, dec = 6\<rparr> \<lparr>bigInt = 1000000, dec = 6\<rparr> =
    Inr \<lparr>sl_amountX = Fin 1, sl_amountY = Fin 1, sl_toX = 1, sl_toY = 1, sl_yPerX = \<lparr>bigInt = 1000000, dec = 6\<rparr>,
      sl_xPrice = \<lparr>bigInt = 1000000, dec = 6\<rparr>\<rparr>"
  by (simp add: split_amounts_def sample_decimal imul_def bd_add_def iadd_def bd_div_def idiv_def processDecimal_def bigint_div_def
      sdiv_pos sample_one bigint_numeral)

theorem zap_spends_input_witness:
  "\<exists>m. processZapInPositionLiquidity sample_zap_env sample_zap = Some (Inr m) \<and> two_routes sample_zap_env sample_zap m"
proof -
  have fields: "z_wasm sample_zap_env = sample_wasm" "z_client sample_zap_env = sample_client" "z_deviation sample_zap_env = Fin 0"
    by (simp_all add: sample_zap_env_def)
  have pool: "getPool sample_client sample_key = Inr \<lparr>pw_key = sample_key, pw_pool = sample_pool\<rparr>"
    by (simp add: getPool_def sample_client_def)
  have q: "zi_poolKey sample_zap = sample_key" "zi_tokenIn sample_zap = smart_token None" "zi_tokenX sample_zap = smart_token None"
    "zi_tokenY sample_zap = smart_token None" "zi_amountIn sample_zap = ''2''" "zi_lower sample_zap = - 10" "zi_upper sample_zap = 10"
    "zi_slippage sample_zap = Fin 1" "t_decimals (smart_token None) = 6" "extractAddress (smart_token None) = ''uusdc''"
    by (simp_all add: sample_zap_def smart_token_def extractAddress_def)
  have p: "po_tick sample_pool = 0" "po_sqrt_price sample_pool = ''1''" by (simp_all add: sample_pool_def)
  have y: "y_per_x sample_zap_env sample_zap sample_pool = Inr \<lparr>bigInt = 1000000, dec = 6\<rparr>"
    using shift_exact [of 6 1000000] by (simp add: y_per_x_def fields q p bigint_numeral sample_wasm_def)
  have prices: "token_prices sample_zap_env sample_zap sample_key = Inr (\<lparr>bigInt = 1000000, dec = 6\<rparr>, \<lparr>bigInt = 1000000, dec = 6\<rparr>)"
    using sample_price by (simp add: token_prices_def q findZapRoutes_def sample_route sample_decimal sample_key_def)
  have same: "\<not> deviates sample_zap_env (whole_response (int_str 1)) (Fin 1)"
    using string_to_num_nat_str [of 1] dbl_nat_exact [of 1]
    by (simp add: deviates_def fields whole_response_def int_str_def num_sub_def num_div_def dbl_def [of 0])
  have "\<exists>m. final_message sample_zap_env sample_zap sample_key sample_pool InRangeNoRouteThroughSelf 1 = Inr m \<and>
      zm_status m = Some InRangeNoRouteThroughSelf"
    using hundred_minus [of 1]
    by (simp add: final_message_def q p bigint_numeral findZapRoutes_def sample_route populateMessageZapIn_def fields
        generateMessageSwapOperation_def whole_response_def calculateMinimumLiquidity_def sample_wasm_def percent_of_def bigint_of_int_str)
  then have "\<exists>m. processZapInPositionLiquidity sample_zap_env sample_zap = Some (Inr m) \<and> zm_status m = Some InRangeNoRouteThroughSelf"
    by (simp add: processZapInPositionLiquidity_def fields pool q p zap_in_range_def y prices sample_split findZapRoutes_def sample_route
        bigint_numeral finish_zap_in_def same no_routes)
  then obtain m where m: "processZapInPositionLiquidity sample_zap_env sample_zap = Some (Inr m)" "zm_status m = Some InRangeNoRouteThroughSelf"
    by blast
  show ?thesis using zap_spends_input [OF m(1)] m by auto
qed

end
