(* ===== verification/ChartStream.thy ===== *)
theory ChartStream
  imports Tokens "HOL-Library.AList"
begin

text \<open>
  The live candles of the chart (\<open>packages/oraidex-common-ui/src/components/TVChartContainer/helpers\<close>):
  \<open>utils.ts\<close> and \<open>streaming.ts\<close>. The module-level map of subscriptions is the state, an association list in
  the order of insertion; a callback is named by its subscriber, and a call of it is an output. Callbacks return.
\<close>

section \<open>Bars\<close>

record bar =
  ba_time :: js_num
  ba_open :: js_num
  ba_close :: js_num
  ba_high :: js_num
  ba_low :: js_num
  ba_volume :: "js_num option"
  ba_ticker :: "string option"

text \<open>Arithmetic on \<open>undefined\<close> gives \<open>NaN\<close>.\<close>

definition or_nan :: "js_num option \<Rightarrow> js_num" where
  "or_nan v = (case v of None \<Rightarrow> NaN | Some n \<Rightarrow> n)"

definition SUPPORTED_RESOLUTIONS :: "string \<Rightarrow> string option" where
  "SUPPORTED_RESOLUTIONS = map_of [(''1'', ''1m''), (''5'', ''5m''), (''15'', ''15m''), (''30'', ''30m''), (''60'', ''1h''),
     (''120'', ''2h''), (''240'', ''4h''), (''360'', ''6h''), (''480'', ''8h''), (''1440'', ''1d'')]"

definition CHART_PERIODS :: "string \<Rightarrow> js_num option" where
  "CHART_PERIODS = map_of [(''1m'', Fin 60), (''5m'', Fin 300), (''15m'', Fin 900), (''30m'', Fin 1800), (''1h'', Fin 3600),
     (''2h'', Fin 7200), (''4h'', Fin 14400), (''6h'', Fin 21600), (''8h'', Fin 28800), (''1d'', Fin 86400)]"

definition getObjectKeyFromValue :: "string \<Rightarrow> (string \<times> string) list \<Rightarrow> string option" where
  "getObjectKeyFromValue value obj = find (\<lambda>k. map_of obj k = Some value) (map fst obj)"

definition formatTimeInBarToMs :: "bar \<Rightarrow> bar" where
  "formatTimeInBarToMs b = b\<lparr>ba_time := num_mul (ba_time b) (Fin 1000),
     ba_volume := Some (num_div (or_nan (ba_volume b)) (Fin 1000000))\<rparr>"

definition period_seconds :: "string option \<Rightarrow> js_num" where
  "period_seconds period = or_nan (Option.bind period CHART_PERIODS)"

definition getCurrentCandleTime :: "js_num \<Rightarrow> string option \<Rightarrow> js_num" where
  "getCurrentCandleTime now period =
     num_mul (math_floor (num_div (num_div now (Fin 1000)) (period_seconds period))) (period_seconds period)"

definition getCurrentBarTimestamp :: "js_num \<Rightarrow> js_num \<Rightarrow> js_num" where
  "getCurrentBarTimestamp timestamp periodSeconds =
     num_mul (math_floor (num_div timestamp (num_mul periodSeconds (Fin 1000)))) (num_mul periodSeconds (Fin 1000))"

section \<open>Gaps\<close>

definition gap_bar :: "bar \<Rightarrow> js_num \<Rightarrow> js_num \<Rightarrow> bar" where
  "gap_bar b periodSeconds j =
     \<lparr>ba_time = num_sub (ba_time b) (num_mul j periodSeconds), ba_open = ba_open b, ba_close = ba_open b,
      ba_high = num_mul (ba_open b) (dbl (10003 / 10000)), ba_low = num_mul (ba_open b) (dbl (9996 / 10000)),
      ba_volume = None, ba_ticker = None\<rparr>"

text \<open>\<open>for (let j = numBarsToFill; j > 0; j--)\<close>: with a period of zero the number is infinite and the loop does not end.\<close>

partial_function (option) gap_loop :: "bar \<Rightarrow> js_num \<Rightarrow> js_num \<Rightarrow> bar list \<Rightarrow> bar list option" where
  "gap_loop b periodSeconds j newBars =
     (if num_less (Fin 0) j
      then gap_loop b periodSeconds (num_sub j (Fin 1)) (newBars @ [gap_bar b periodSeconds j])
      else Some newBars)"

definition num_truthy :: "js_num \<Rightarrow> bool" where
  "num_truthy n \<longleftrightarrow> n \<noteq> Fin 0 \<and> n \<noteq> NaN"

fun fill_loop :: "js_num \<Rightarrow> js_num \<Rightarrow> bar list \<Rightarrow> bar list \<Rightarrow> bar list option" where
  "fill_loop periodSeconds prevTime newBars [] = Some newBars"
| "fill_loop periodSeconds prevTime newBars (b # bs) =
     Option.bind (if num_truthy prevTime
       then gap_loop b periodSeconds
         (num_sub (math_floor (num_div (num_sub (ba_time b) prevTime) periodSeconds)) (Fin 1)) newBars
       else Some newBars)
     (\<lambda>filled. fill_loop periodSeconds (ba_time b) (filled @ [b]) bs)"

definition fillBarGaps :: "bar list \<Rightarrow> js_num \<Rightarrow> bar list option" where
  "fillBarGaps bars periodSeconds =
     (if length bars < 2 then Some bars else fill_loop periodSeconds (ba_time (hd bars)) [hd bars] (tl bars))"

section \<open>Symbols and times\<close>

definition is_word :: "char \<Rightarrow> bool" where
  "is_word c \<longleftrightarrow> is_digit c \<or> c = CHR ''_'' \<or> (of_char c :: nat) \<in> {97..122} \<or> (of_char c :: nat) \<in> {65..90}"

text \<open>The regular expression: three words, separated by a colon and a slash, which are not word characters.\<close>

definition parseFullSymbol :: "string \<Rightarrow> (string \<times> string \<times> string) option" where
  "parseFullSymbol fullSymbol =
     (case js_split (CHR '':'') fullSymbol of
        [exchange, r] \<Rightarrow>
          (case js_split (CHR ''/'') r of
             [a, b] \<Rightarrow> (if list_all (\<lambda>w. w \<noteq> [] \<and> list_all is_word w) [exchange, a, b] then Some (exchange, a, b) else None)
           | _ \<Rightarrow> None)
      | _ \<Rightarrow> None)"

text \<open>\<open>new Date(t).getTime()\<close>\<close>

definition date_time :: "js_num \<Rightarrow> js_num" where
  "date_time t = (if num_less (Fin 8640000000000000) t \<or> num_less t (Fin (- 8640000000000000)) then NaN else math_trunc t)"

definition roundTime :: "js_num \<Rightarrow> js_num \<Rightarrow> js_num" where
  "roundTime timeIn interval =
     (let roundTo = num_mul (num_mul interval (Fin 60)) (Fin 1000);
          dateOut = num_mul (math_round (num_div timeIn roundTo)) roundTo
      in num_div dateOut (Fin 1000))"

section \<open>Subscriptions\<close>

record subscription =
  su_uid :: string
  su_resolution :: string
  su_lastBar :: "bar option"
  su_handlers :: "string list"

type_synonym channels = "(string \<times> subscription) list"

record trade =
  td_pair :: string
  td_time :: js_num
  td_open :: js_num
  td_close :: js_num
  td_high :: js_num
  td_low :: js_num
  td_volume :: js_num

definition num_max :: "js_num \<Rightarrow> js_num \<Rightarrow> js_num" where
  "num_max a b = (if a = NaN \<or> b = NaN then NaN else if num_less a b then b else a)"

definition num_min :: "js_num \<Rightarrow> js_num \<Rightarrow> js_num" where
  "num_min a b = (if a = NaN \<or> b = NaN then NaN else if num_less b a then b else a)"

definition trade_volume :: "trade \<Rightarrow> js_num" where
  "trade_volume t = num_mul (td_volume t) (num_pow10 (- 6))"

text \<open>The bar a trade makes of the last one: a new bar, the last bar updated, or none for a trade of an earlier bar.\<close>

definition trade_bar :: "subscription \<Rightarrow> trade \<Rightarrow> bar option res" where
  "trade_bar s t =
     (case su_lastBar s of
        None \<Rightarrow> Inl TypeError
      | Some lastDailyBar \<Rightarrow>
          let resolution = string_to_num (su_resolution s);
              roundLastBarTime = roundTime (date_time (ba_time lastDailyBar)) resolution;
              roundNextOrderTime = roundTime (date_time (td_time t)) resolution
          in if num_less roundLastBarTime roundNextOrderTime
             then Inr (Some \<lparr>ba_time = num_mul roundNextOrderTime (Fin 1000), ba_open = td_open t, ba_close = td_close t,
               ba_high = td_high t, ba_low = td_low t, ba_volume = Some (trade_volume t), ba_ticker = None\<rparr>)
             else if num_eq roundNextOrderTime roundLastBarTime
             then Inr (Some (lastDailyBar\<lparr>ba_high := num_max (ba_high lastDailyBar) (td_high t),
               ba_low := num_min (ba_low lastDailyBar) (td_low t), ba_close := td_close t,
               ba_volume := Some (num_add (trade_volume t) (or_nan (ba_volume lastDailyBar)))\<rparr>))
             else Inr None)"

definition handleTradeEvent :: "channels \<Rightarrow> trade \<Rightarrow> (channels \<times> (string \<times> bar) list) res" where
  "handleTradeEvent cs t =
     (case map_of cs (td_pair t) of
        None \<Rightarrow> Inr (cs, [])
      | Some s \<Rightarrow> rbind (trade_bar s t) (\<lambda>b.
          case b of
            None \<Rightarrow> Inr (cs, [])
          | Some x \<Rightarrow> Inr (AList.update (td_pair t) (s\<lparr>su_lastBar := Some x\<rparr>) cs, map (\<lambda>u. (u, x)) (su_handlers s))))"

definition subscribeOnStream :: "channels \<Rightarrow> string \<Rightarrow> string \<Rightarrow> string \<Rightarrow> bar option \<Rightarrow> channels res" where
  "subscribeOnStream cs full_name resolution subscriberUID lastDailyBar =
     (case parseFullSymbol full_name of
        None \<Rightarrow> Inl TypeError
      | Some (exchange, fromSymbol, toSymbol) \<Rightarrow>
          Inr (AList.update (fromSymbol @ ''/'' @ toSymbol)
            \<lparr>su_uid = subscriberUID, su_resolution = resolution, su_lastBar = lastDailyBar, su_handlers = [subscriberUID]\<rparr> cs))"

text \<open>The first subscription that this empties is deleted, and the search ends there.\<close>

fun unsubscribeFromStream :: "string \<Rightarrow> channels \<Rightarrow> channels" where
  "unsubscribeFromStream subscriberUID [] = []"
| "unsubscribeFromStream subscriberUID ((c, s) # cs) =
     (if subscriberUID \<in> set (su_handlers s)
      then let hs = remove1 subscriberUID (su_handlers s) in
        if hs = [] then cs else (c, s\<lparr>su_handlers := hs\<rparr>) # unsubscribeFromStream subscriberUID cs
      else (c, s) # unsubscribeFromStream subscriberUID cs)"

section \<open>Runs\<close>

datatype stream_event = Subscribe string string string "bar option" | Unsubscribe string | Trade trade

text \<open>A call that raises changes nothing and calls nobody.\<close>

inductive stream_step :: "channels \<Rightarrow> stream_event \<Rightarrow> channels \<Rightarrow> (string \<times> bar) list \<Rightarrow> bool" where
  subscribes: "subscribeOnStream cs n r u b = Inr cs' \<Longrightarrow> stream_step cs (Subscribe n r u b) cs' []"
| refuses: "subscribeOnStream cs n r u b = Inl e \<Longrightarrow> stream_step cs (Subscribe n r u b) cs []"
| unsubscribes: "stream_step cs (Unsubscribe u) (unsubscribeFromStream u cs) []"
| trades: "handleTradeEvent cs t = Inr (cs', out) \<Longrightarrow> stream_step cs (Trade t) cs' out"
| raises: "handleTradeEvent cs t = Inl e \<Longrightarrow> stream_step cs (Trade t) cs []"

inductive_cases subscribe_stepE: "stream_step cs (Subscribe n r u b) cs' out"
inductive_cases unsubscribe_stepE: "stream_step cs (Unsubscribe u) cs' out"
inductive_cases trade_stepE: "stream_step cs (Trade t) cs' out"

text \<open>The subscriptions after a list of events, from the empty map on, and all calls on the way\<close>

inductive stream_run :: "stream_event list \<Rightarrow> channels \<Rightarrow> (string \<times> bar) list \<Rightarrow> bool" where
  starts: "stream_run [] [] []"
| goes_on: "stream_run es cs out \<Longrightarrow> stream_step cs e cs' new \<Longrightarrow> stream_run (es @ [e]) cs' (out @ new)"

end
