(* ===== verification/ChartData.thy ===== *)
theory ChartData
  imports ChartStream
begin

text \<open>
  The history of the chart: \<open>TVDataProvider.ts\<close> with \<open>requests.ts\<close>, the calls of \<open>useTVDatafeed.ts\<close>, and
  \<open>SaveLoadAdapter.ts\<close>. The bars that were read are kept in an object that providers reach through a
  reference, so there is a store of such objects; address 0 is the module's \<open>initialHistoryBarsInfo\<close>. A request
  is a parameter: \<open>fetch\<close> answers with the body of the reply, \<open>None\<close> for a body that is not an array.
\<close>

section \<open>Store\<close>

record bars_info =
  bi_period :: "string option"
  bi_data :: "bar list"
  bi_ticker :: string

type_synonym store = "nat \<Rightarrow> bars_info"

record provider =
  pv_lastBar :: "bar option"
  pv_barsInfo :: nat

record period_params =
  pp_from :: js_num
  pp_to :: js_num
  pp_countBack :: nat
  pp_firstDataRequest :: bool

record candle_request =
  cr_pair :: "string option"
  cr_startTime :: js_num
  cr_endTime :: js_num
  cr_tf :: js_num

type_synonym fetch = "candle_request \<Rightarrow> bar list option res"

definition initialHistoryBarsInfo :: nat where "initialHistoryBarsInfo = 0"

definition initial_store :: store where
  "initial_store = (\<lambda>a. \<lparr>bi_period = Some [], bi_data = [], bi_ticker = []\<rparr>)"

definition new_TVDataProvider :: provider where
  "new_TVDataProvider = \<lparr>pv_lastBar = None, pv_barsInfo = initialHistoryBarsInfo\<rparr>"

definition getUTCTimestamp :: "js_num \<Rightarrow> js_num" where
  "getUTCTimestamp now = math_floor (num_div now (Fin 1000))"

text \<open>What is raised while asking counts as no bars.\<close>

definition getTokenChartPrice :: "fetch \<Rightarrow> string option \<Rightarrow> js_num \<Rightarrow> js_num \<Rightarrow> string \<Rightarrow> bar list option" where
  "getTokenChartPrice fetch pair start end resolution =
     (case fetch \<lparr>cr_pair = pair, cr_startTime = start, cr_endTime = end, cr_tf = num_mul (string_to_num resolution) (Fin 60)\<rparr> of
        Inl e \<Rightarrow> Some []
      | Inr body \<Rightarrow> body)"

section \<open>History\<close>

definition must_fetch :: "bars_info \<Rightarrow> string \<Rightarrow> string option \<Rightarrow> bool \<Rightarrow> bool" where
  "must_fetch barsInfo ticker period shouldRefetchBars \<longleftrightarrow>
     bi_data barsInfo = [] \<or> bi_ticker barsInfo \<noteq> ticker \<or> bi_period barsInfo \<noteq> period \<or> shouldRefetchBars"

definition last_bar_of :: "js_num \<Rightarrow> string option \<Rightarrow> string \<Rightarrow> bar list \<Rightarrow> bar option" where
  "last_bar_of now period ticker filledBars =
     (let currentCandleTime = getCurrentCandleTime now period;
          lastCandleTime = num_sub currentCandleTime (period_seconds period)
      in if filledBars \<noteq> [] \<and> (num_eq (ba_time (last filledBars)) currentCandleTime \<or> num_eq (ba_time (last filledBars)) lastCandleTime)
         then Some ((last filledBars)\<lparr>ba_ticker := Some ticker\<rparr>) else None)"

text \<open>The fetch, with what it does to the provider and to the object it refers to\<close>

definition refresh :: "fetch \<Rightarrow> js_num \<Rightarrow> store \<Rightarrow> provider \<Rightarrow> string option \<Rightarrow> string \<Rightarrow> period_params \<Rightarrow> string \<Rightarrow>
    (store \<times> provider) option" where
  "refresh fetch now st pv pair ticker params resolution =
     (let period = SUPPORTED_RESOLUTIONS resolution in
      case getTokenChartPrice fetch pair (pp_from params) (pp_to params) resolution of
        None \<Rightarrow> Some (st, pv\<lparr>pv_barsInfo := initialHistoryBarsInfo\<rparr>)
      | Some bars \<Rightarrow> map_option (\<lambda>filledBars.
          (st(pv_barsInfo pv := \<lparr>bi_period = period, bi_data = filledBars, bi_ticker = ticker\<rparr>),
           case last_bar_of now period ticker filledBars of None \<Rightarrow> pv | Some b \<Rightarrow> pv\<lparr>pv_lastBar := Some b\<rparr>))
          (fillBarGaps bars (period_seconds period)))"

definition bars_window :: "bar list \<Rightarrow> period_params \<Rightarrow> bar list" where
  "bars_window data params =
     (let bars = filter (\<lambda>b. num_less (pp_from params) (ba_time b) \<and> num_leq (ba_time b) (pp_to params)) data
      in if bars = [] then []
         else if length bars < pp_countBack params then bars
         else drop (length bars - pp_countBack params) bars)"

text \<open>The object that is read at the end is the one the provider referred to at the start.\<close>

definition getTokenHistoryBars :: "fetch \<Rightarrow> js_num \<Rightarrow> store \<Rightarrow> provider \<Rightarrow> string option \<Rightarrow> string \<Rightarrow> period_params \<Rightarrow> bool \<Rightarrow>
    string \<Rightarrow> (store \<times> provider \<times> bar list) option" where
  "getTokenHistoryBars fetch now st pv pair ticker params shouldRefetchBars resolution =
     (let barsInfo = pv_barsInfo pv in
      map_option (\<lambda>(st', pv'). (st', pv', bars_window (bi_data (st' barsInfo)) params))
        (if must_fetch (st barsInfo) ticker (SUPPORTED_RESOLUTIONS resolution) shouldRefetchBars
         then refresh fetch now st pv pair ticker params resolution else Some (st, pv)))"

text \<open>\<open>bars.sort((a, b) => a.time - b.time)\<close>, a stable sort; times come from JSON and are finite.\<close>

definition time_key :: "bar \<Rightarrow> rat" where
  "time_key b = (case ba_time b of Fin x \<Rightarrow> x | _ \<Rightarrow> 0)"

definition getBars :: "fetch \<Rightarrow> js_num \<Rightarrow> store \<Rightarrow> provider \<Rightarrow> string option \<Rightarrow> string \<Rightarrow> string \<Rightarrow> period_params \<Rightarrow> bool \<Rightarrow>
    (store \<times> provider \<times> bar list) option" where
  "getBars fetch now st pv pair ticker resolution params shouldRefetchBars =
     map_option (\<lambda>(st', pv', bars). (st', pv', map formatTimeInBarToMs (sort_key time_key bars)))
       (getTokenHistoryBars fetch now st pv pair ticker params shouldRefetchBars resolution)"

definition getLastBar :: "fetch \<Rightarrow> js_num \<Rightarrow> provider \<Rightarrow> string option \<Rightarrow> string \<Rightarrow> string option \<Rightarrow> string \<Rightarrow> (provider \<times> bar option) res" where
  "getLastBar fetch now pv pair ticker period resolution =
     (if ticker = [] \<or> \<not> truthy period \<or> \<not> truthy pair
      then Inl (Thrown ''Invalid input. Ticker, period, and chainId are required parameters.'')
      else case getTokenChartPrice fetch pair (num_sub (getUTCTimestamp now) (period_seconds period)) (getUTCTimestamp now) resolution of
        None \<Rightarrow> Inl TypeError
      | Some prices \<Rightarrow> let b = (if prices = [] then None else Some (last prices)) in Inr (pv\<lparr>pv_lastBar := b\<rparr>, b))"

text \<open>Formatting \<open>undefined\<close> raises, which is caught after \<open>lastBar\<close> was emptied.\<close>

definition getLiveBar :: "fetch \<Rightarrow> js_num \<Rightarrow> provider \<Rightarrow> string option \<Rightarrow> string \<Rightarrow> string \<Rightarrow> provider \<times> bar option" where
  "getLiveBar fetch now pv pair ticker resolution =
     (let period = SUPPORTED_RESOLUTIONS resolution in
      if ticker = [] \<or> \<not> truthy period \<or> \<not> truthy pair then (pv, None)
      else let pv' = (case getLastBar fetch now pv pair ticker period resolution of
               Inl e \<Rightarrow> pv
             | Inr (p, b) \<Rightarrow> p\<lparr>pv_lastBar := map_option formatTimeInBarToMs b\<rparr>)
        in (pv', pv_lastBar pv'))"

section \<open>The data feed\<close>

record feed =
  fe_provider :: "provider option"
  fe_ticker :: "string option"
  fe_shouldRefetch :: bool
  fe_lastBars :: "(string \<times> bar option) list"
  fe_length :: nat

datatype feed_call = OnHistory "bar list" bool | OnError string

definition feed_getBars :: "fetch \<Rightarrow> js_num \<Rightarrow> (string \<times> string) list \<Rightarrow> store \<Rightarrow> feed \<Rightarrow> string \<Rightarrow> string \<Rightarrow> string \<Rightarrow> period_params \<Rightarrow>
    (store \<times> feed \<times> feed_call) option" where
  "feed_getBars fetch now pairsChart st f full_name ticker resolution params =
     (if SUPPORTED_RESOLUTIONS resolution = None then Some (st, f, OnError ''[getBars] Invalid resolution'')
      else let f1 = f\<lparr>fe_ticker := Some ticker\<rparr> in
        if ticker = [] then Some (st, f1, OnError ''Invalid ticker!'')
        else case fe_provider f of
          None \<Rightarrow> Some (st, f1, OnError ''Unable to load historical data!'')
        | Some pv \<Rightarrow> map_option (\<lambda>(st', pv', bars).
            (st', f1\<lparr>fe_provider := Some pv',
               fe_lastBars := (if pp_firstDataRequest params
                 then AList.update full_name (if bars = [] then None else Some (last bars)) (fe_lastBars f1) else fe_lastBars f1),
               fe_length := (if pp_firstDataRequest params then length bars else fe_length f1)\<rparr>,
             OnHistory bars (bars = [])))
            (getBars fetch now st pv (map_of pairsChart ticker) ticker resolution params (fe_shouldRefetch f1)))"

text \<open>Nothing assigns \<open>resetCacheRef\<close>, so there is no callback between the two assignments.\<close>

definition resetCache :: "feed \<Rightarrow> feed" where
  "resetCache f = (let f1 = f\<lparr>fe_shouldRefetch := True\<rparr> in f1\<lparr>fe_shouldRefetch := False\<rparr>)"

section \<open>Saved charts\<close>

record chart =
  ct_id :: string
  ct_content :: string
  ct_timestamp :: int

text \<open>The list the adapter holds, and the lists it gave to \<open>setTvCharts\<close>. A rejected promise is an error.\<close>

record adapter =
  ad_charts :: "chart list option"
  ad_published :: "chart list list"

definition publish :: "adapter \<Rightarrow> chart list \<Rightarrow> adapter" where
  "publish a cs = \<lparr>ad_charts = Some cs, ad_published = ad_published a @ [cs]\<rparr>"

fun remove_chart :: "string \<Rightarrow> chart list \<Rightarrow> chart list option" where
  "remove_chart i [] = None"
| "remove_chart i (c # cs) = (if ct_id c = i then Some cs else map_option ((#) c) (remove_chart i cs))"

definition removeChart :: "adapter \<Rightarrow> string \<Rightarrow> adapter \<times> unit res" where
  "removeChart a i =
     (case Option.bind (ad_charts a) (remove_chart i) of
        None \<Rightarrow> (a, Inl (Rejected ''undefined''))
      | Some cs \<Rightarrow> (publish a cs, Inr ()))"

text \<open>The promise of \<open>removeChart\<close> is not looked at.\<close>

definition saveChart :: "adapter \<Rightarrow> string \<Rightarrow> int \<Rightarrow> chart \<Rightarrow> adapter \<times> string" where
  "saveChart a random now chartData =
     (let i = (if ct_id chartData = [] then random else ct_id chartData);
          a1 = (if ct_id chartData = [] then a else fst (removeChart a (ct_id chartData)));
          c = chartData\<lparr>ct_id := i, ct_timestamp := now\<rparr>
      in (case ad_charts a1 of None \<Rightarrow> a1 | Some cs \<Rightarrow> publish a1 (cs @ [c]), i))"

definition getChartContent :: "adapter \<Rightarrow> string \<Rightarrow> string res" where
  "getChartContent a i =
     (case Option.bind (ad_charts a) (find (\<lambda>c. ct_id c = i)) of
        None \<Rightarrow> Inl (Rejected ''undefined'')
      | Some c \<Rightarrow> Inr (ct_content c))"

end
