(* ===== verification/ChartLaws.thy ===== *)
theory ChartLaws
  imports ChartData TokenLaws
begin

text \<open>
  Properties of the chart: gaps between candles are filled, subscriptions implement a map from channels to
  their latest subscriber, candles stay well-formed, the history is read once, and saved charts are found.
\<close>

section \<open>Exact arithmetic on natural numbers\<close>

definition nat_num :: "nat \<Rightarrow> js_num" where
  "nat_num n = Fin (of_nat n)"

lemma dbl_nat: "n < 2 ^ 53 \<Longrightarrow> dbl (of_nat n) = Fin (of_nat n)"
  using dbl_nat_exact [of n] by (cases "n = 0") (simp_all add: dbl_def [of 0])

lemma nat_num_sub: "n \<le> m \<Longrightarrow> m < 2 ^ 53 \<Longrightarrow> num_sub (nat_num m) (nat_num n) = nat_num (m - n)"
  using dbl_nat [of "m - n"] by (simp add: nat_num_def num_sub_def of_nat_diff)

lemma nat_num_mul: "m * n < 2 ^ 53 \<Longrightarrow> num_mul (nat_num m) (nat_num n) = nat_num (m * n)"
  using dbl_nat [of "m * n"] by (simp add: nat_num_def num_mul_def)

lemma nat_num_div: "0 < n \<Longrightarrow> m < 2 ^ 53 \<Longrightarrow> num_div (nat_num (n * m)) (nat_num n) = nat_num m"
  using dbl_nat [of m] by (simp add: nat_num_def num_div_def)

lemma nat_num_floor [simp]: "math_floor (nat_num n) = nat_num n"
  by (simp add: nat_num_def math_floor_def)

lemma nat_num_one: "nat_num 1 = Fin 1"
  by (simp add: nat_num_def)

section \<open>Gaps\<close>

definition gap_bars :: "bar \<Rightarrow> js_num \<Rightarrow> nat \<Rightarrow> bar list" where
  "gap_bars b p n = map (\<lambda>j. gap_bar b p (nat_num j)) (rev [1..<Suc n])"

lemma gap_loop_ends: "n < 2 ^ 53 \<Longrightarrow> gap_loop b p (nat_num n) acc = Some (acc @ gap_bars b p n)"
proof (induction n arbitrary: acc)
  case (Suc n)
  have "num_sub (nat_num (Suc n)) (Fin 1) = nat_num n" using nat_num_sub [of 1 "Suc n"] Suc.prems by (simp add: nat_num_def)
  then show ?case using Suc by (subst gap_loop.simps) (simp add: gap_bars_def nat_num_def)
qed (simp add: gap_loop.simps gap_bars_def nat_num_def)

lemma gap_times:
  assumes "ba_time b = nat_num (p * k)" "n \<le> k" "p * k < 2 ^ 53"
  shows "map ba_time (gap_bars b (nat_num p) n) = map (\<lambda>i. nat_num (p * i)) [k - n..<k]"
  using assms(2)
proof (induction n)
  case (Suc n)
  have le: "Suc n * p \<le> p * k" using Suc.prems by (metis mult.commute mult_le_mono1)
  then have "num_mul (nat_num (Suc n)) (nat_num p) = nat_num (Suc n * p)" using assms(3) by (intro nat_num_mul) linarith
  then have "num_sub (nat_num (p * k)) (num_mul (nat_num (Suc n)) (nat_num p)) = nat_num (p * k - Suc n * p)"
    using nat_num_sub [OF le assms(3)] by (simp del: mult_Suc)
  also have "p * k - Suc n * p = p * (k - Suc n)" by (simp add: diff_mult_distrib2 mult.commute)
  finally have "map ba_time (gap_bars b (nat_num p) (Suc n)) = nat_num (p * (k - Suc n)) # map ba_time (gap_bars b (nat_num p) n)"
    using assms(1) by (simp add: gap_bars_def gap_bar_def)
  moreover have "[k - Suc n..<k] = (k - Suc n) # [k - n..<k]" using Suc.prems by (simp add: upt_conv_Cons Suc_diff_Suc)
  ultimately show ?case using Suc by simp
qed (simp add: gap_bars_def)

lemma fill_step:
  assumes "0 < p" "k < k'" "p * k' < 2 ^ 53" "0 < p * k" "ba_time b = nat_num (p * k')"
  shows "fill_loop (nat_num p) (nat_num (p * k)) acc (b # bs) =
    fill_loop (nat_num p) (nat_num (p * k')) (acc @ gap_bars b (nat_num p) (k' - k - 1) @ [b]) bs"
proof -
  have small: "k' < 2 ^ 53" using assms(1,3) by (metis le_square less_le_trans mult_le_mono1 nat_mult_1 Suc_leI One_nat_def le_less_trans)
  have "num_sub (ba_time b) (nat_num (p * k)) = nat_num (p * (k' - k))"
    using assms by (simp add: nat_num_sub diff_mult_distrib2)
  then have "num_sub (math_floor (num_div (num_sub (ba_time b) (nat_num (p * k))) (nat_num p))) (Fin 1) = nat_num (k' - k - 1)"
    using nat_num_div [of p "k' - k"] nat_num_sub [of 1 "k' - k"] assms(1,2) small nat_num_one by simp
  moreover have "num_truthy (nat_num (p * k))" using assms(1,4) by (simp add: num_truthy_def nat_num_def)
  ultimately show ?thesis using gap_loop_ends [of "k' - k - 1" b "nat_num p" acc] small assms(5) by simp
qed

lemma fill_loop_times:
  assumes "0 < p" "0 < k" "sorted_wrt (<) (k # ks)" "\<forall>i \<in> set (k # ks). p * i < 2 ^ 53"
    and "map ba_time bs = map (\<lambda>i. nat_num (p * i)) ks"
  shows "\<exists>r. fill_loop (nat_num p) (nat_num (p * k)) acc bs = Some (acc @ r) \<and>
    map ba_time r = map (\<lambda>i. nat_num (p * i)) [Suc k..<Suc (last (k # ks))] \<and> subseq bs r"
  using assms(2-)
proof (induction ks arbitrary: k acc bs)
  case (Cons k' ks)
  obtain b bs' where bs: "bs = b # bs'" "ba_time b = nat_num (p * k')" "map ba_time bs' = map (\<lambda>i. nat_num (p * i)) ks"
    using Cons.prems(4) by (cases bs) auto
  let ?gap = "gap_bars b (nat_num p) (k' - k - 1)"
  have kk: "k < k'" "p * k' < 2 ^ 53" "k' \<le> last (k' # ks)" using Cons.prems(2,3) by (auto simp: less_imp_le)
  obtain r where r: "fill_loop (nat_num p) (nat_num (p * k')) (acc @ ?gap @ [b]) bs' = Some ((acc @ ?gap @ [b]) @ r)"
      "map ba_time r = map (\<lambda>i. nat_num (p * i)) [Suc k'..<Suc (last (k' # ks))]" "subseq bs' r"
    using Cons.IH [of k' bs' "acc @ ?gap @ [b]"] Cons.prems bs(3) kk by auto
  have gap: "map ba_time ?gap = map (\<lambda>i. nat_num (p * i)) [Suc k..<k']"
    using gap_times [OF bs(2), of "k' - k - 1"] kk by simp
  have "[Suc k..<Suc (last (k' # ks))] = [Suc k..<k'] @ k' # [Suc k'..<Suc (last (k' # ks))]"
    using kk upt_add_eq_append [of "Suc k" k' "Suc (last (k' # ks)) - k'"] by (simp add: upt_conv_Cons)
  then have "map ba_time (?gap @ b # r) = map (\<lambda>i. nat_num (p * i)) [Suc k..<Suc (last (k' # ks))]"
    using gap bs(2) r(2) by simp
  moreover have "subseq bs (?gap @ b # r)" using r(3) by (simp add: bs(1) list_emb_append2)
  moreover have "fill_loop (nat_num p) (nat_num (p * k)) acc bs = Some (acc @ ?gap @ b # r)"
    using fill_step [OF assms(1) kk(1,2) _ bs(2)] assms(1) Cons.prems(1) r(1) by (simp add: bs(1))
  ultimately show ?case by (metis last_ConsR list.discI)
qed simp

text \<open>C36. Filling the gaps ends, and leaves none: of bars at increasing multiples of the period, none of them at 0,
  it makes one bar for every multiple from the first to the last, and keeps the given bars in their order.\<close>

theorem gaps_filled:
  assumes "0 < p" "0 < hd ks" "ks \<noteq> []" "sorted_wrt (<) ks" "\<forall>i \<in> set ks. p * i < 2 ^ 53"
    and "map ba_time bars = map (\<lambda>i. Fin (of_nat (p * i))) ks"
  shows "\<exists>r. fillBarGaps bars (Fin (of_nat p)) = Some r \<and>
    map ba_time r = map (\<lambda>i. Fin (of_nat (p * i))) [hd ks..<Suc (last ks)] \<and> subseq bars r"
proof -
  obtain k ks' where ks: "ks = k # ks'" using assms(3) by (cases ks) auto
  obtain b bs where bs: "bars = b # bs" "ba_time b = nat_num (p * k)" "map ba_time bs = map (\<lambda>i. nat_num (p * i)) ks'"
    using assms(6) by (cases bars) (auto simp: ks nat_num_def)
  obtain r where r: "fill_loop (nat_num p) (nat_num (p * k)) [b] bs = Some ([b] @ r)"
      "map ba_time r = map (\<lambda>i. nat_num (p * i)) [Suc k..<Suc (last (k # ks'))]" "subseq bs r"
    using fill_loop_times [OF assms(1) _ _ _ bs(3), of k "[b]"] assms(2,4,5) ks by auto
  have "k \<le> last (k # ks')" using assms(4) ks by (cases ks') (auto simp: less_imp_le)
  then have "map ba_time (b # r) = map (\<lambda>i. nat_num (p * i)) [k..<Suc (last (k # ks'))]"
    using bs(2) r(2) by (subst upt_conv_Cons) simp_all
  moreover have "fillBarGaps bars (nat_num p) = Some (b # r)"
  proof (cases bs)
    case Nil
    then show ?thesis using r(1) by (simp add: fillBarGaps_def bs(1))
  qed (use r(1) bs(1,2) in \<open>simp add: fillBarGaps_def\<close>)
  ultimately show ?thesis using r(3) bs(1) ks unfolding nat_num_def by auto
qed

definition sample_bar :: "nat \<Rightarrow> bar" where
  "sample_bar n = \<lparr>ba_time = Fin (of_nat n), ba_open = Fin 2, ba_close = Fin 2, ba_high = Fin 3, ba_low = Fin 1,
     ba_volume = None, ba_ticker = None\<rparr>"

theorem gaps_filled_witness:
  "\<exists>r. fillBarGaps [sample_bar 60, sample_bar 240] (Fin 60) = Some r \<and> map ba_time r = map Fin [60, 120, 180, 240]"
proof -
  have "\<exists>r. fillBarGaps [sample_bar 60, sample_bar 240] (Fin (of_nat 60)) = Some r \<and>
      map ba_time r = map (\<lambda>i. Fin (of_nat (60 * i))) [hd [1, 4]..<Suc (last [1, 4])] \<and> subseq [sample_bar 60, sample_bar 240] r"
    by (rule gaps_filled) (auto simp: sample_bar_def)
  moreover have "[1..<5] = [1, 2, 3, 4 :: nat]" by (simp add: upt_conv_Cons)
  ultimately show ?thesis by auto
qed

section \<open>Subscriptions\<close>

text \<open>The specification: a channel belongs to its latest subscriber until that one leaves.\<close>

fun owner_step :: "(string \<Rightarrow> string option) \<Rightarrow> stream_event \<Rightarrow> string \<Rightarrow> string option" where
  "owner_step m (Subscribe n r u b) =
     (case parseFullSymbol n of None \<Rightarrow> m | Some (e, x, y) \<Rightarrow> m(x @ ''/'' @ y \<mapsto> u))"
| "owner_step m (Unsubscribe u) = (\<lambda>c. if m c = Some u then None else m c)"
| "owner_step m (Trade t) = m"

definition owners :: "stream_event list \<Rightarrow> string \<Rightarrow> string option" where
  "owners es = foldl owner_step Map.empty es"

fun subscriber :: "stream_event \<Rightarrow> string list" where
  "subscriber (Subscribe n r u b) = [u]"
| "subscriber e = []"

definition subscribers :: "stream_event list \<Rightarrow> string list" where
  "subscribers es = concat (map subscriber es)"

lemma owners_simps [simp]:
  "owners [] = Map.empty" "owners (es @ [e]) = owner_step (owners es) e"
  "subscribers [] = []" "subscribers (es @ [e]) = subscribers es @ subscriber e"
  by (simp_all add: owners_def subscribers_def)

definition owner_of :: "channels \<Rightarrow> string \<Rightarrow> string option" where
  "owner_of cs c = map_option su_uid (map_of cs c)"



lemma owner_of_update [simp]: "owner_of (AList.update c s cs) = (owner_of cs)(c \<mapsto> su_uid s)"
  by (auto simp: owner_of_def update_conv')















definition sample_trade :: trade where
  "sample_trade = \<lparr>td_pair = ''ORAI/USDT'', td_time = Fin 60000, td_open = Fin 2, td_close = Fin 2, td_high = Fin 5, td_low = Fin 1,
     td_volume = Fin 0\<rparr>"

definition two_subscribers :: "stream_event list" where
  "two_subscribers = [Subscribe ''OraiDEX:ORAI/USDT'' ''1'' ''first'' (Some (sample_bar 60000)),
     Subscribe ''OraiDEX:ORAI/USDT'' ''1'' ''second'' (Some (sample_bar 60000))]"

lemma sample_symbol: "parseFullSymbol ''OraiDEX:ORAI/USDT'' = Some (''OraiDEX'', ''ORAI'', ''USDT'')"
  by (simp add: parseFullSymbol_def is_word_def is_digit_def)

lemma sample_run:
  "\<exists>s. stream_run two_subscribers [(''ORAI/USDT'', s)] [] \<and> su_uid s = ''second'' \<and> su_handlers s = [''second''] \<and>
     su_lastBar s = Some (sample_bar 60000) \<and> su_resolution s = ''1''"
proof -
  let ?s = "\<lambda>u. \<lparr>su_uid = u, su_resolution = ''1'', su_lastBar = Some (sample_bar 60000), su_handlers = [u]\<rparr>"
  have step: "stream_step cs (Subscribe ''OraiDEX:ORAI/USDT'' ''1'' u (Some (sample_bar 60000))) (AList.update ''ORAI/USDT'' (?s u) cs) []" for cs u
    by (rule subscribes) (simp add: subscribeOnStream_def sample_symbol)
  have "stream_run ([] @ [Subscribe ''OraiDEX:ORAI/USDT'' ''1'' ''first'' (Some (sample_bar 60000))])
      (AList.update ''ORAI/USDT'' (?s ''first'') []) ([] @ [])" by (rule goes_on [OF starts step])
  from goes_on [OF this step, of "''second''"] show ?thesis by (auto simp: two_subscribers_def)
qed

lemma nat_str_one: "nat_str (Suc 0) = ''1''"
  by (simp add: nat_str.simps js_eval)

lemma sample_round: "roundTime (date_time (Fin 60000)) (string_to_num ''1'') = Fin 60"
proof -
  have "string_to_num ''1'' = Fin 1" using string_to_num_nat_str [of 1] dbl_nat [of 1] by (simp add: nat_str_one)
  moreover have "\<lfloor>3 / 2 :: rat\<rfloor> = 1" by (simp add: floor_eq_iff)
  ultimately show ?thesis using dbl_nat [of 60] dbl_nat [of 60000] dbl_nat [of 1]
    by (simp add: roundTime_def date_time_def math_trunc_def num_mul_def num_div_def math_round_def)
qed

lemma sample_told:
  "\<exists>cs cs' b. stream_run two_subscribers cs [] \<and> stream_step cs (Trade sample_trade) cs' [(''second'', b)]"
proof -
  obtain s where s: "stream_run two_subscribers [(''ORAI/USDT'', s)] []" "su_handlers s = [''second'']"
    "su_lastBar s = Some (sample_bar 60000)" "su_resolution s = ''1''" using sample_run by blast
  have "roundTime (date_time (td_time sample_trade)) (string_to_num ''1'') = Fin 60"
    "roundTime (date_time (ba_time (sample_bar 60000))) (string_to_num ''1'') = Fin 60"
    using sample_round by (simp_all add: sample_trade_def sample_bar_def)
  then obtain b where "trade_bar s sample_trade = Inr (Some b)" by (simp add: trade_bar_def s(3,4) num_eq_def)
  then have "\<exists>cs'. handleTradeEvent [(''ORAI/USDT'', s)] sample_trade = Inr (cs', [(''second'', b)])"
    by (simp add: handleTradeEvent_def s(2) sample_trade_def)
  then show ?thesis using s(1) by (blast intro: trades)
qed


section \<open>Candles\<close>

definition candle_ok :: "bar \<Rightarrow> bool" where
  "candle_ok b \<longleftrightarrow> num_leq (ba_low b) (ba_open b) \<and> num_leq (ba_low b) (ba_close b) \<and> num_leq (ba_open b) (ba_high b) \<and>
     num_leq (ba_close b) (ba_high b)"

text \<open>The prices that the server sends are well-formed candles.\<close>

fun event_ok :: "stream_event \<Rightarrow> bool" where
  "event_ok (Subscribe n r u b) \<longleftrightarrow> (\<forall>x \<in> set_option b. candle_ok x)"
| "event_ok (Unsubscribe u) \<longleftrightarrow> True"
| "event_ok (Trade t) \<longleftrightarrow> num_leq (td_low t) (td_open t) \<and> num_leq (td_low t) (td_close t) \<and> num_leq (td_open t) (td_high t) \<and>
     num_leq (td_close t) (td_high t)"

definition last_bars_ok :: "channels \<Rightarrow> bool" where
  "last_bars_ok cs \<longleftrightarrow> (\<forall>l \<in> su_lastBar ` snd ` set cs. \<forall>b \<in> set_option l. candle_ok b)"

lemma num_leq_NaN [simp]: "\<not> num_leq NaN x" "\<not> num_leq x NaN"
  by (cases x; simp add: num_leq_def num_eq_def)+

lemma num_leq_trans: "num_leq x y \<Longrightarrow> num_leq y z \<Longrightarrow> num_leq x z"
  by (cases x; cases y; cases z) (auto simp: num_leq_def num_eq_def)

lemma num_max_ge: "x \<noteq> NaN \<Longrightarrow> y \<noteq> NaN \<Longrightarrow> num_leq x (num_max x y) \<and> num_leq y (num_max x y)"
  by (cases x; cases y) (auto simp: num_leq_def num_eq_def num_max_def)

lemma num_min_le: "x \<noteq> NaN \<Longrightarrow> y \<noteq> NaN \<Longrightarrow> num_leq (num_min x y) x \<and> num_leq (num_min x y) y"
  by (cases x; cases y) (auto simp: num_leq_def num_eq_def num_min_def)

lemma trade_bar_ok:
  assumes "trade_bar s t = Inr (Some b)" "event_ok (Trade t)" "\<forall>x \<in> set_option (su_lastBar s). candle_ok x"
  shows "candle_ok b"
proof -
  obtain l where l: "su_lastBar s = Some l" using assms(1) by (auto simp: trade_bar_def split: option.split_asm)
  then have ok: "candle_ok l" using assms(3) by simp
  have "ba_high l \<noteq> NaN" "td_high t \<noteq> NaN" "ba_low l \<noteq> NaN" "td_low t \<noteq> NaN" using ok assms(2) by (auto simp: candle_ok_def)
  then have "num_leq (ba_high l) (num_max (ba_high l) (td_high t))" "num_leq (td_high t) (num_max (ba_high l) (td_high t))"
    "num_leq (num_min (ba_low l) (td_low t)) (ba_low l)" "num_leq (num_min (ba_low l) (td_low t)) (td_low t)"
    using num_max_ge [of "ba_high l" "td_high t"] num_min_le [of "ba_low l" "td_low t"] by blast+
  then show ?thesis using assms(1,2) ok l
    by (auto simp: trade_bar_def candle_ok_def Let_def split: if_split_asm intro: num_leq_trans)
qed

lemma last_bars_update: "last_bars_ok cs \<Longrightarrow> \<forall>b \<in> set_option (su_lastBar s). candle_ok b \<Longrightarrow> last_bars_ok (AList.update c s cs)"
  unfolding last_bars_ok_def by (induction cs) auto

lemma last_bars_unsubscribe: "last_bars_ok cs \<Longrightarrow> last_bars_ok (unsubscribeFromStream u cs)"
  unfolding last_bars_ok_def by (induction cs) (auto simp: Let_def split: if_split_asm)

lemma trade_candles:
  assumes "handleTradeEvent cs t = Inr (cs', new)" "last_bars_ok cs" "event_ok (Trade t)"
  shows "last_bars_ok cs' \<and> (\<forall>(u, b) \<in> set new. candle_ok b)"
proof (cases "map_of cs (td_pair t)")
  case (Some s)
  then have s: "\<forall>x \<in> set_option (su_lastBar s). candle_ok x" using assms(2) map_of_SomeD [OF Some] unfolding last_bars_ok_def by force
  obtain o1 where o1: "trade_bar s t = Inr o1" using assms(1) Some by (auto simp: handleTradeEvent_def elim!: rbindE)
  show ?thesis
  proof (cases o1)
    case None
    then show ?thesis using assms(1,2) Some o1 by (simp add: handleTradeEvent_def)
  next
    case (Some b)
    have b: "candle_ok b" using trade_bar_ok [OF _ assms(3) s, of b] o1 Some by simp
    have "cs' = AList.update (td_pair t) (s\<lparr>su_lastBar := Some b\<rparr>) cs" "new = map (\<lambda>u. (u, b)) (su_handlers s)"
      using assms(1) \<open>map_of cs (td_pair t) = Some s\<close> o1 Some by (simp_all add: handleTradeEvent_def)
    then show ?thesis using b last_bars_update [OF assms(2), of "s\<lparr>su_lastBar := Some b\<rparr>"] by auto
  qed
qed (use assms(1,2) in \<open>simp add: handleTradeEvent_def\<close>)

lemma step_candles:
  assumes "stream_step cs e cs' new" "last_bars_ok cs" "event_ok e"
  shows "last_bars_ok cs' \<and> (\<forall>(u, b) \<in> set new. candle_ok b)"
  using assms
proof cases
  case (subscribes n r u b)
  then obtain c where c: "cs' = AList.update c \<lparr>su_uid = u, su_resolution = r, su_lastBar = b, su_handlers = [u]\<rparr> cs"
    by (auto simp: subscribeOnStream_def split: option.split_asm)
  have "\<forall>x \<in> set_option b. candle_ok x" using assms(3) subscribes(1) by simp
  then show ?thesis using last_bars_update [OF assms(2)] subscribes(2) c by simp
next
  case (unsubscribes u)
  show ?thesis unfolding unsubscribes(2,3) using last_bars_unsubscribe [OF assms(2)] by simp
next
  case (trades t)
  show ?thesis by (rule trade_candles [OF trades(2) assms(2) assms(3) [unfolded trades(1)]])
qed (use assms(2) in simp_all)

text \<open>C35. Candles stay well-formed: if the bars that subscribers start from and the prices of all trades have a low
  not above and a high not below the opening and closing price, then so has every candle that is ever sent.\<close>

theorem candles_sound:
  assumes "stream_run es cs out" "\<forall>e \<in> set es. event_ok e"
  shows "last_bars_ok cs \<and> (\<forall>(u, b) \<in> set out. candle_ok b)"
  using assms
proof (induction rule: stream_run.induct)
  case starts
  then show ?case by (simp add: last_bars_ok_def)
next
  case (goes_on es cs out e cs' new)
  then show ?case using step_candles [of cs e cs' new] by auto
qed

theorem candles_sound_witness:
  "\<exists>cs b. stream_run (two_subscribers @ [Trade sample_trade]) cs [(''second'', b)] \<and> candle_ok b"
proof -
  obtain cs cs' b where "stream_run two_subscribers cs []" "stream_step cs (Trade sample_trade) cs' [(''second'', b)]"
    using sample_told by blast
  then have run: "stream_run (two_subscribers @ [Trade sample_trade]) cs' [(''second'', b)]" by (auto dest: goes_on)
  moreover have "\<forall>e \<in> set (two_subscribers @ [Trade sample_trade]). event_ok e"
    by (simp add: two_subscribers_def sample_trade_def candle_ok_def sample_bar_def num_leq_def num_eq_def)
  ultimately show ?thesis using candles_sound [OF run] by auto
qed

section \<open>History\<close>

text \<open>No operation gives a provider an object of its own.\<close>

lemma provider_reference:
  "pv_barsInfo new_TVDataProvider = initialHistoryBarsInfo"
  "getBars fetch now st pv pair ticker resolution params r = Some (st', pv', bars) \<Longrightarrow> pv_barsInfo pv = initialHistoryBarsInfo \<Longrightarrow>
    pv_barsInfo pv' = initialHistoryBarsInfo"
  "pv_barsInfo (fst (getLiveBar fetch now pv pair ticker resolution)) = pv_barsInfo pv"
  by (auto simp: new_TVDataProvider_def getBars_def getTokenHistoryBars_def refresh_def getLiveBar_def getLastBar_def Let_def
      split: if_split_asm option.split_asm option.split sum.split)

lemma window_bars:
  "set (bars_window data params) \<subseteq> {b \<in> set data. num_less (pp_from params) (ba_time b) \<and> num_leq (ba_time b) (pp_to params)} \<and>
   (0 < pp_countBack params \<longrightarrow> length (bars_window data params) \<le> pp_countBack params)"
  by (auto simp: bars_window_def Let_def dest: in_set_dropD)

text \<open>C37. The history of a symbol is read once. When a provider has bars of a symbol and resolution, the next request
  for them by any provider is answered from the same bars without a request to the server, whatever period of time
  and whatever pair it asks for: the times that were read are not part of what is remembered, and all providers
  share one object.\<close>

theorem history_shared:
  assumes "getTokenHistoryBars fetch now st pv pair ticker params r resolution = Some (st', pv', bars)" "bars \<noteq> []"
    and "getTokenChartPrice fetch pair (pp_from params) (pp_to params) resolution \<noteq> None"
    and "pv_barsInfo pv = initialHistoryBarsInfo" "pv_barsInfo other = initialHistoryBarsInfo"
  shows "getTokenHistoryBars fetch2 now2 st' other pair2 ticker params2 False resolution =
    Some (st', other, bars_window (bi_data (st' initialHistoryBarsInfo)) params2)"
proof -
  let ?i = "st' initialHistoryBarsInfo"
  have "bars = bars_window (bi_data ?i) params" "bi_ticker ?i = ticker" "bi_period ?i = SUPPORTED_RESOLUTIONS resolution"
    using assms(1,3,4) by (auto simp: getTokenHistoryBars_def refresh_def must_fetch_def Let_def split: if_split_asm)
  moreover from this(1) have "bi_data ?i \<noteq> []" using assms(2) by (auto simp: bars_window_def)
  ultimately show ?thesis using assms(5) by (simp add: getTokenHistoryBars_def must_fetch_def)
qed

definition sample_params :: "nat \<Rightarrow> nat \<Rightarrow> period_params" where
  "sample_params a b = \<lparr>pp_from = Fin (of_nat a), pp_to = Fin (of_nat b), pp_countBack = 10, pp_firstDataRequest = False\<rparr>"

definition sample_fetch :: fetch where
  "sample_fetch r = Inr (if cr_pair r = Some ''orai-usdt'' then Some [sample_bar 60] else Some [])"

theorem history_shared_witness:
  "\<exists>st' pv'. getTokenHistoryBars sample_fetch (Fin 0) initial_store new_TVDataProvider (Some ''orai-usdt'') ''ORAI'' (sample_params 0 100)
      False ''1'' = Some (st', pv', [sample_bar 60]) \<and>
    getTokenHistoryBars (\<lambda>r. Inl TypeError) (Fin 0) st' new_TVDataProvider (Some ''other'') ''ORAI'' (sample_params 0 80) False ''1'' =
      Some (st', new_TVDataProvider, [sample_bar 60])"
proof -
  have price: "getTokenChartPrice sample_fetch (Some ''orai-usdt'') (Fin 0) (Fin 100) ''1'' = Some [sample_bar 60]"
    by (simp add: getTokenChartPrice_def sample_fetch_def)
  have w: "bars_window [sample_bar 60] (sample_params 0 100) = [sample_bar 60]" "bars_window [sample_bar 60] (sample_params 0 80) = [sample_bar 60]"
    by (simp_all add: bars_window_def sample_params_def sample_bar_def num_leq_def)
  have "pp_from (sample_params 0 100) = Fin 0" "pp_to (sample_params 0 100) = Fin 100" by (simp_all add: sample_params_def)
  then have "\<exists>st' pv'. getTokenHistoryBars sample_fetch (Fin 0) initial_store new_TVDataProvider (Some ''orai-usdt'') ''ORAI''
      (sample_params 0 100) False ''1'' = Some (st', pv', [sample_bar 60]) \<and> bi_data (st' initialHistoryBarsInfo) = [sample_bar 60]"
    using w(1) by (simp add: getTokenHistoryBars_def refresh_def must_fetch_def initial_store_def price fillBarGaps_def new_TVDataProvider_def Let_def
        split: option.split)
  then obtain st' pv' where first: "getTokenHistoryBars sample_fetch (Fin 0) initial_store new_TVDataProvider (Some ''orai-usdt'') ''ORAI''
      (sample_params 0 100) False ''1'' = Some (st', pv', [sample_bar 60])" "bi_data (st' initialHistoryBarsInfo) = [sample_bar 60]" by blast
  have "getTokenChartPrice sample_fetch (Some ''orai-usdt'') (pp_from (sample_params 0 100)) (pp_to (sample_params 0 100)) ''1'' \<noteq> None"
    using price by (simp add: sample_params_def)
  then show ?thesis
    using first history_shared [OF first(1) _ _ provider_reference(1) provider_reference(1)] w(2) by auto
qed

section \<open>Saved charts\<close>

lemma remove_chart_None: "remove_chart i cs = None \<longleftrightarrow> i \<notin> ct_id ` set cs"
  by (induction cs) auto

lemma remove_chart_ids:
  assumes "remove_chart i cs = Some cs'" "distinct (map ct_id cs)"
  shows "distinct (map ct_id cs') \<and> ct_id ` set cs' = ct_id ` set cs - {i} \<and>
    (\<forall>j. j \<noteq> i \<longrightarrow> find (\<lambda>c. ct_id c = j) cs' = find (\<lambda>c. ct_id c = j) cs)"
  using assms
proof (induction cs arbitrary: cs')
  case (Cons c cs)
  show ?case
  proof (cases "ct_id c = i")
    case False
    then obtain ds where "remove_chart i cs = Some ds" "cs' = c # ds" using Cons.prems(1) by auto
    then show ?thesis using Cons.IH [of ds] Cons.prems(2) False by auto
  qed (use Cons.prems in auto)
qed simp

lemma find_append: "find P (xs @ ys) = (case find P xs of None \<Rightarrow> find P ys | Some x \<Rightarrow> Some x)"
  by (induction xs) auto

text \<open>C38. A saved chart is found again, replaces the chart of the same name and touches no other: names stay unique, and
  what was stored under another name is still there.\<close>

theorem chart_saved:
  assumes "ad_charts a = Some cs" "distinct (map ct_id cs)" "saveChart a random now c = (a', i)"
    and "ct_id c = [] \<longrightarrow> random \<notin> ct_id ` set cs"
  shows "getChartContent a' i = Inr (ct_content c) \<and> (\<exists>cs'. ad_charts a' = Some cs' \<and> distinct (map ct_id cs')) \<and>
    (\<forall>j. j \<noteq> i \<longrightarrow> getChartContent a' j = getChartContent a j)"
proof -
  obtain cs1 where cs1: "ad_charts (if ct_id c = [] then a else fst (removeChart a (ct_id c))) = Some cs1" "distinct (map ct_id cs1)"
    "i \<notin> ct_id ` set cs1" "\<forall>j. j \<noteq> i \<longrightarrow> find (\<lambda>d. ct_id d = j) cs1 = find (\<lambda>d. ct_id d = j) cs"
    and i: "i = (if ct_id c = [] then random else ct_id c)"
  proof (cases "ct_id c = []")
    case True
    then show ?thesis using that [of cs] assms by (auto simp: saveChart_def Let_def)
  next
    case False
    then have i: "i = ct_id c" using assms(3) by (auto simp: saveChart_def Let_def)
    show ?thesis
    proof (cases "remove_chart i cs")
      case None
      then have "i \<notin> ct_id ` set cs" by (simp add: remove_chart_None)
      then show ?thesis using that [of cs] None False i assms(1,2) by (simp add: removeChart_def)
    next
      case (Some ds)
      then show ?thesis using that [of ds] False i assms(1) remove_chart_ids [OF Some assms(2)] by (simp add: removeChart_def publish_def)
    qed
  qed
  have charts: "ad_charts a' = Some (cs1 @ [c\<lparr>ct_id := i, ct_timestamp := now\<rparr>])"
    using assms(3) cs1(1) i by (auto simp: saveChart_def Let_def publish_def split: if_split_asm)
  have "find (\<lambda>d. ct_id d = i) cs1 = None" using cs1(3) by (auto simp: find_None_iff)
  then show ?thesis using cs1(2-4) assms(1)
    by (auto simp: getChartContent_def charts find_append split: option.split)
qed

definition sample_adapter :: adapter where
  "sample_adapter = \<lparr>ad_charts = Some [\<lparr>ct_id = ''a'', ct_content = ''old'', ct_timestamp = 1\<rparr>, \<lparr>ct_id = ''b'', ct_content = ''kept'', ct_timestamp = 1\<rparr>],
     ad_published = []\<rparr>"

theorem chart_saved_witness:
  "\<exists>a'. saveChart sample_adapter ''0.5'' 2 \<lparr>ct_id = ''a'', ct_content = ''new'', ct_timestamp = 0\<rparr> = (a', ''a'') \<and>
     getChartContent a' ''a'' = Inr ''new'' \<and> getChartContent a' ''b'' = Inr ''kept''"
proof -
  obtain a' where s: "saveChart sample_adapter ''0.5'' 2 \<lparr>ct_id = ''a'', ct_content = ''new'', ct_timestamp = 0\<rparr> = (a', ''a'')"
    by (simp add: saveChart_def Let_def)
  then show ?thesis using chart_saved [OF _ _ s] by (auto simp: sample_adapter_def getChartContent_def)
qed

end
