(* ===== verification/TxDecode.thy ===== *)
theory TxDecode
  imports Tokens
begin

text \<open>
  Reading transactions back: \<open>toTokenInfo\<close>, \<open>parseRpcEvents\<close>, \<open>parseTxToMsgExecuteContractMsgs\<close>, \<open>toObject\<close>,
  \<open>decodeProto\<close> and \<open>parseTxToMsgsAndEvents\<close> of \<open>packages/oraidex-common/src/helper.ts\<close>. The decoders of
  cosmjs are the record \<open>decoders\<close>. \<open>decodeProto\<close> calls itself on what a decoder answers, so it is fuelled:
  \<open>None\<close> when the fuel runs out, which \<open>TxLaws\<close> excludes.
\<close>

section \<open>Values\<close>

text \<open>A JavaScript value with bigints and byte arrays; objects are changed in place, so that a function that
  changes its argument and returns it is its result.\<close>

datatype js_value =
    VUndef
  | VNull
  | VBool bool
  | VNum js_num
  | VBig int
  | VStr string
  | VBytes "byte list"
  | VArr "js_value list"
  | VObj "(string \<times> js_value) list"

fun value_truthy :: "js_value \<Rightarrow> bool" where
  "value_truthy VUndef = False"
| "value_truthy VNull = False"
| "value_truthy (VBool b) = b"
| "value_truthy (VNum n) = (n \<noteq> Fin 0 \<and> n \<noteq> NaN)"
| "value_truthy (VBig n) = (n \<noteq> 0)"
| "value_truthy (VStr s) = (s \<noteq> [])"
| "value_truthy v = True"

text \<open>\<open>typeof v === "object"\<close> also holds of \<open>null\<close>.\<close>

fun is_object :: "js_value \<Rightarrow> bool" where
  "is_object VNull = True"
| "is_object (VBytes b) = True"
| "is_object (VArr vs) = True"
| "is_object (VObj kvs) = True"
| "is_object v = False"

fun value_field :: "js_value \<Rightarrow> string \<Rightarrow> js_value" where
  "value_field (VObj kvs) k = (case map_of kvs k of None \<Rightarrow> VUndef | Some v \<Rightarrow> v)"
| "value_field v k = VUndef"

record decoders =
  registry_decode :: "js_value \<Rightarrow> js_value \<Rightarrow> js_value res"
  fromBinary :: "string \<Rightarrow> js_value res"
  json_of_ascii :: "byte list \<Rightarrow> js_value res"
  base64_utf8 :: "string \<Rightarrow> string"
  tx_messages :: "byte list \<Rightarrow> (string \<times> byte list) list option res"
  execute_decode :: "byte list \<Rightarrow> js_value res"

section \<open>decodeProto\<close>

definition type_url :: "js_value \<Rightarrow> js_value" where
  "type_url v = (if value_truthy (value_field v ''type_url'') then value_field v ''type_url'' else value_field v ''typeUrl'')"

text \<open>One property: a text that is base64 of JSON is replaced by what it holds, then an object is decoded.\<close>

definition decode_member :: "decoders \<Rightarrow> (js_value \<Rightarrow> js_value res option) \<Rightarrow> js_value \<Rightarrow> js_value res option" where
  "decode_member D rec v =
     (let x = (case v of VStr s \<Rightarrow> (case fromBinary D s of Inl e \<Rightarrow> v | Inr y \<Rightarrow> y) | _ \<Rightarrow> v)
      in if is_object x then rec x else Some (Inr x))"

fun decode_msg :: "decoders \<Rightarrow> string \<times> js_value \<Rightarrow> (string \<times> js_value) res" where
  "decode_msg D (k, v) =
     (case v of
        VBytes bs \<Rightarrow> if k = ''msg'' then rbind (json_of_ascii D bs) (\<lambda>m. Inr (k, m)) else Inr (k, v)
      | _ \<Rightarrow> Inr (k, v))"

text \<open>The body of the function, with \<open>rec\<close> for its calls of itself.\<close>

definition decode_step :: "decoders \<Rightarrow> (js_value \<Rightarrow> js_value res option) \<Rightarrow> js_value \<Rightarrow> js_value res option" where
  "decode_step D rec v =
     (if \<not> value_truthy v then Some (Inl (Thrown ''value is not defined''))
      else if value_truthy (type_url v) then abind (Some (registry_decode D (type_url v) (value_field v ''value''))) rec
      else case v of
        VArr vs \<Rightarrow> abind (amap (decode_member D rec) vs) (\<lambda>ws. Some (Inr (VArr ws)))
      | VObj kvs \<Rightarrow>
          abind (amap (\<lambda>(k, x). abind (decode_member D rec x) (\<lambda>y. Some (Inr (k, y)))) kvs) (\<lambda>kws.
          abind (Some (rmap (decode_msg D) kws)) (\<lambda>kvs'. Some (Inr (VObj kvs'))))
      | _ \<Rightarrow> Some (Inr v))"

primrec decodeProto :: "nat \<Rightarrow> decoders \<Rightarrow> js_value \<Rightarrow> js_value res option" where
  "decodeProto 0 D v = None"
| "decodeProto (Suc n) D v = decode_step D (decodeProto n D) v"

section \<open>Transactions\<close>

record log =
  log_msg_index :: "nat option"
  log_events :: "event list"

record indexed_tx =
  it_code :: int
  it_tx :: "byte list"
  it_rawLog :: "log list res"

text \<open>\<open>messages[index]\<close> is \<open>undefined\<close> beyond the end.\<close>

definition message_at :: "js_value list \<Rightarrow> nat \<Rightarrow> js_value" where
  "message_at messages i = (if i < length messages then messages ! i else VUndef)"

definition any_value :: "string \<times> byte list \<Rightarrow> js_value" where
  "any_value m = VObj [(''typeUrl'', VStr (fst m)), (''value'', VBytes (snd m))]"

definition log_entry :: "(event list \<Rightarrow> 'a res) \<Rightarrow> js_value list \<Rightarrow> log \<Rightarrow> ('a \<times> js_value) res" where
  "log_entry parser messages l =
     rbind (parser (log_events l)) (\<lambda>attrs.
     Inr (attrs, message_at messages (case log_msg_index l of None \<Rightarrow> 0 | Some i \<Rightarrow> i)))"

text \<open>\<open>parser\<close> is \<open>parseWasmEvents\<close> unless the caller gives another; the raw log is parsed after the messages.\<close>

definition parseTxToMsgsAndEvents :: "nat \<Rightarrow> decoders \<Rightarrow> (event list \<Rightarrow> 'a res) \<Rightarrow> indexed_tx option \<Rightarrow> ('a \<times> js_value) list res option" where
  "parseTxToMsgsAndEvents n D parser indexedTx =
     (case indexedTx of
        None \<Rightarrow> Some (Inr [])
      | Some t \<Rightarrow>
          abind (Some (tx_messages D (it_tx t))) (\<lambda>body.
          case body of
            None \<Rightarrow> Some (Inl TypeError)
          | Some ms \<Rightarrow>
              abind (amap (\<lambda>m. decodeProto n D (any_value m)) ms) (\<lambda>messages.
              Some (rbind (it_rawLog t) (rmap (log_entry parser messages))))))"

definition parseTxToMsgExecuteContractMsgs :: "decoders \<Rightarrow> indexed_tx \<Rightarrow> js_value list res" where
  "parseTxToMsgExecuteContractMsgs D tx =
     (if it_code tx \<noteq> 0 then Inr []
      else rbind (tx_messages D (it_tx tx)) (\<lambda>body.
        case body of
          None \<Rightarrow> Inr []
        | Some ms \<Rightarrow> rmap (\<lambda>m. execute_decode D (snd m)) (filter (\<lambda>m. fst m = ''/cosmwasm.wasm.v1.MsgExecuteContract'') ms)))"

definition parseRpcEvents :: "decoders \<Rightarrow> event list \<Rightarrow> event list" where
  "parseRpcEvents D events =
     map (\<lambda>ev. ev\<lparr>ev_attributes := map (\<lambda>(k, v). (base64_utf8 D k, base64_utf8 D v)) (ev_attributes ev)\<rparr>) events"

section \<open>Plain objects\<close>

text \<open>
  \<open>JSON.parse(JSON.stringify(data, replacer))\<close>: bigints become texts, \<open>undefined\<close> properties disappear and array
  elements become \<open>null\<close>, and so does a number that is not finite; a byte array becomes an object of its
  elements. \<open>JSON.stringify\<close> of \<open>undefined\<close> is \<open>undefined\<close>, which \<open>JSON.parse\<close> refuses.
\<close>

fun plain_value :: "js_value \<Rightarrow> js_value option" where
  "plain_value VUndef = None"
| "plain_value VNull = Some VNull"
| "plain_value (VBool b) = Some (VBool b)"
| "plain_value (VNum n) = Some (case n of Fin x \<Rightarrow> VNum n | _ \<Rightarrow> VNull)"
| "plain_value (VBig n) = Some (VStr (int_str n))"
| "plain_value (VStr s) = Some (VStr s)"
| "plain_value (VBytes bs) = Some (VObj (map (\<lambda>i. (nat_str i, VNum (Fin (of_nat (unat (bs ! i)))))) [0..<length bs]))"
| "plain_value (VArr vs) = Some (VArr (map (\<lambda>v. case plain_value v of None \<Rightarrow> VNull | Some w \<Rightarrow> w) vs))"
| "plain_value (VObj kvs) = Some (VObj (concat (map (\<lambda>(k, v). case plain_value v of None \<Rightarrow> [] | Some w \<Rightarrow> [(k, w)]) kvs)))"

definition toObject :: "js_value \<Rightarrow> js_value res" where
  "toObject data = (case plain_value data of None \<Rightarrow> Inl SyntaxError | Some v \<Rightarrow> Inr v)"

section \<open>Token infos\<close>

record token_response =
  tr_name :: string
  tr_symbol :: string
  tr_decimals :: nat
  tr_total_supply :: string

record token_info = token_item +
  ti_symbol :: string
  ti_verified :: bool
  ti_total_supply :: "string option"

text \<open>What a contract answers about itself overrides the name, the symbol and the decimals.\<close>

definition toTokenInfo :: "token_item \<Rightarrow> token_response option \<Rightarrow> token_info" where
  "toTokenInfo token info =
     (let base = token_item.extend token \<lparr>ti_symbol = t_name token, ti_verified = (\<not> truthy (t_contractAddress token)),
            ti_total_supply = None\<rparr> in
      case info of
        None \<Rightarrow> base
      | Some i \<Rightarrow> base\<lparr>t_name := tr_name i, ti_symbol := tr_symbol i, t_decimals := tr_decimals i,
          ti_total_supply := Some (tr_total_supply i)\<rparr>)"

end
