(* ===== verification/TxLaws.thy ===== *)
theory TxLaws
  imports TxDecode
begin

text \<open>
  The laws of \<open>TxDecode\<close>. \<open>decodeProto\<close> returns on every value, although it decodes again what it has decoded:
  every text or protobuf message it opens is longer than what can still be opened in the result. A
  transaction pairs every log with the message of its index, and \<open>toObject\<close> leaves plain JSON as it is.
\<close>

section \<open>decodeProto returns\<close>

text \<open>What is left to open in a value: the texts that are base64 of JSON and the payloads of the objects that
  name a protobuf type.\<close>

definition payload_size :: "js_value \<Rightarrow> nat" where
  "payload_size v = (case v of VBytes bs \<Rightarrow> length bs | VArr vs \<Rightarrow> length vs | VObj kvs \<Rightarrow> length kvs | _ \<Rightarrow> 0)"

definition own_content :: "js_value \<Rightarrow> nat" where
  "own_content v = (if value_truthy (type_url v) then Suc (payload_size (value_field v ''value'')) else 0)"

fun content :: "decoders \<Rightarrow> js_value \<Rightarrow> nat" where
  "content D (VStr s) = (if is_ok (fromBinary D s) then length s else 0)"
| "content D (VArr vs) = sum_list (map (content D) vs)"
| "content D (VObj kvs) = own_content (VObj kvs) + sum_list (map (\<lambda>(k, v). content D v) kvs)"
| "content D v = 0"

text \<open>Base64 is a third longer than what it encodes, and a protobuf message contains its fields: neither
  opens to more than it is.\<close>

definition decoder_laws :: "decoders \<Rightarrow> bool" where
  "decoder_laws D \<longleftrightarrow>
     (\<forall>s v. fromBinary D s = Inr v \<longrightarrow> content D v < length s) \<and>
     (\<forall>u x v. registry_decode D u x = Inr v \<longrightarrow> content D v \<le> payload_size x)"

definition decodes :: "decoders \<Rightarrow> js_value \<Rightarrow> bool" where
  "decodes D v \<longleftrightarrow> (\<exists>n r. \<forall>m\<ge>n. decodeProto m D v = Some r)"

text \<open>Finitely many calls that all return have a common fuel.\<close>

lemma common_fuel:
  assumes "\<And>x. x \<in> set xs \<Longrightarrow> \<exists>n r. \<forall>m\<ge>n. f m x = Some (r :: 'b res)"
  shows "\<exists>n r. \<forall>m\<ge>(n::nat). amap (f m) xs = Some r"
  using assms
proof (induction xs)
  case Nil
  show ?case by simp
next
  case (Cons x xs)
  obtain n1 r1 where x: "\<forall>m\<ge>n1. f m x = Some r1" using Cons.prems by (meson list.set_intros(1))
  obtain n2 r2 where xs: "\<forall>m\<ge>n2. amap (f m) xs = Some r2" using Cons by (meson list.set_intros(2))
  have "\<forall>m\<ge>max n1 n2. amap (f m) (x # xs) = abind (Some r1) (\<lambda>y. abind (Some r2) (\<lambda>ys. Some (Inr (y # ys))))"
    using x xs by simp
  moreover have "abind (Some r1) (\<lambda>y. abind (Some r2) (\<lambda>ys. Some (Inr (y # ys)))) \<noteq> None"
    by (cases r1; cases r2) auto
  ultimately show ?case by (metis option.exhaust)
qed

lemma abind_fuel:
  assumes "\<exists>n r. \<forall>m\<ge>n. f m = Some (r :: 'a res)" and "\<And>x. \<exists>n r. \<forall>m\<ge>(n::nat). g m x = Some (r :: 'b res)"
  shows "\<exists>n r. \<forall>m\<ge>n. abind (f m) (g m) = Some r"
proof -
  obtain n1 r1 where f: "\<forall>m\<ge>n1. f m = Some r1" using assms(1) by blast
  show ?thesis
  proof (cases r1)
    case (Inl e)
    with f show ?thesis by (metis abind_simps(2))
  next
    case (Inr x)
    obtain n2 r2 where "\<forall>m\<ge>n2. g m x = Some r2" using assms(2) by blast
    with f Inr have "\<forall>m\<ge>max n1 n2. abind (f m) (g m) = Some r2" by simp
    then show ?thesis by blast
  qed
qed

lemma const_fuel: "\<exists>n r'. \<forall>m\<ge>(n::nat). Some (r :: 'b res) = Some r'" by blast

lemma member_fuel:
  assumes laws: "decoder_laws D"
    and rec: "\<And>y. content D y < content D x \<or> (content D y \<le> content D x \<and> y = x) \<Longrightarrow> decodes D y"
  shows "\<exists>n r. \<forall>m\<ge>n. decode_member D (decodeProto m D) x = Some r"
proof -
  define y where "y = (case x of VStr s \<Rightarrow> (case fromBinary D s of Inl e \<Rightarrow> x | Inr y \<Rightarrow> y) | _ \<Rightarrow> x)"
  have "content D y < content D x \<or> (content D y \<le> content D x \<and> y = x)"
    using laws by (auto simp: y_def decoder_laws_def split: js_value.splits sum.splits)
  then have "decodes D y" by (rule rec)
  then show ?thesis unfolding decode_member_def Let_def y_def [symmetric] decodes_def
    by (cases "is_object y") auto
qed

lemma content_element: "x \<in> set vs \<Longrightarrow> content D x \<le> content D (VArr vs)"
  by (simp add: member_le_sum_list)

lemma content_member: "(k, x) \<in> set kvs \<Longrightarrow> content D x \<le> content D (VObj kvs)"
  using member_le_sum_list [of "content D x" "map (\<lambda>(k, v). content D v) kvs"] by (force simp: image_iff)

lemma step_fuel:
  assumes laws: "decoder_laws D"
    and rec: "\<And>y. (y, v) \<in> measures [content D, size] \<Longrightarrow> decodes D y"
  shows "\<exists>n r. \<forall>m\<ge>n. decode_step D (decodeProto m D) v = Some r"
proof (cases "value_truthy v \<and> \<not> value_truthy (type_url v)")
  case False
  have "content D r < content D v" if "value_truthy (type_url v)" "registry_decode D (type_url v) (value_field v ''value'') = Inr r" for r
  proof -
    have "content D r \<le> payload_size (value_field v ''value'')" using laws that(2) by (simp add: decoder_laws_def)
    also have "\<dots> < own_content v" using that(1) by (simp add: own_content_def)
    also have "\<dots> \<le> content D v" using that(1) by (cases v) (simp_all add: type_url_def)
    finally show ?thesis .
  qed
  then have "value_truthy (type_url v) \<Longrightarrow> registry_decode D (type_url v) (value_field v ''value'') = Inr r \<Longrightarrow> decodes D r" for r
    using rec by simp
  with False show ?thesis
    by (cases "value_truthy v"; cases "registry_decode D (type_url v) (value_field v ''value'')")
      (auto simp: decode_step_def decodes_def)
next
  case True
  have step: "decode_step D g v = (case v of
        VArr vs \<Rightarrow> abind (amap (decode_member D g) vs) (\<lambda>ws. Some (Inr (VArr ws)))
      | VObj kvs \<Rightarrow>
          abind (amap (\<lambda>(k, x). abind (decode_member D g x) (\<lambda>y. Some (Inr (k, y)))) kvs) (\<lambda>kws.
          abind (Some (rmap (decode_msg D) kws)) (\<lambda>kvs'. Some (Inr (VObj kvs'))))
      | _ \<Rightarrow> Some (Inr v))" for g
    using True by (simp add: decode_step_def)
  show ?thesis
  proof (cases v)
    case (VArr vs)
    have members: "\<exists>n r. \<forall>m\<ge>n. decode_member D (decodeProto m D) x = Some r" if "x \<in> set vs" for x
      using content_element [OF that, of D] size_list_estimation' [OF that order_refl, of size]
      by (intro member_fuel [OF laws] rec) (auto simp: VArr)
    show ?thesis unfolding step unfolding VArr js_value.case
      by (intro abind_fuel common_fuel const_fuel members)
  next
    case (VObj kvs)
    have m: "\<exists>n r. \<forall>m\<ge>n. decode_member D (decodeProto m D) (snd x) = Some r" if "x \<in> set kvs" for x
      using content_member [of "fst x" "snd x" kvs D] that size_list_estimation' [OF that order_refl, of "size_prod (\<lambda>x. 0) size"]
      by (intro member_fuel [OF laws] rec) (cases x, auto simp: VObj)
    have members: "\<exists>n r. \<forall>m\<ge>n. (case x of (k, x) \<Rightarrow> abind (decode_member D (decodeProto m D) x) (\<lambda>y. Some (Inr (k, y)))) = Some r"
      if "x \<in> set kvs" for x
      using abind_fuel [OF m [OF that], where g = "\<lambda>_ y. Some (Inr (fst x, y))"] by (cases x) auto
    show ?thesis unfolding step unfolding VObj js_value.case
      by (intro abind_fuel common_fuel const_fuel members)
  qed (unfold step, simp_all)
qed

lemma decodes_all: "decoder_laws D \<Longrightarrow> decodes D v"
proof (induction v rule: wf_induct_rule [OF wf_measures [of "[content D, size]"]])
  case (1 v)
  then obtain n r where "\<forall>m\<ge>n. decode_step D (decodeProto m D) v = Some r" using step_fuel by metis
  then have "\<forall>m\<ge>Suc n. decodeProto m D v = Some r" by (auto simp: Suc_le_eq dest!: less_imp_Suc_add)
  then show ?case unfolding decodes_def by blast
qed

text \<open>C11. \<open>decodeProto\<close> returns, on every value and whatever is nested in it: with decoders that open a text or a
  message to less than its own length, enough fuel gives a result and more fuel gives the same.\<close>

theorem decodeProto_returns:
  assumes "decoder_laws D"
  shows "\<exists>n r. \<forall>m\<ge>n. decodeProto m D v = Some r"
  using decodes_all [OF assms] by (simp add: decodes_def)

text \<open>Decoders of messages nested to any depth, and of one base64 text.\<close>

definition nested_decoders :: decoders where
  "nested_decoders = \<lparr>
     registry_decode = (\<lambda>u x. case x of
         VBytes [] \<Rightarrow> Inr (VObj [])
       | VBytes (b # bs) \<Rightarrow> Inr (VObj [(''typeUrl'', VStr ''/Any''), (''value'', VBytes bs)])
       | _ \<Rightarrow> Inl TypeError),
     fromBinary = (\<lambda>s. if s = ''e30='' then Inr (VObj []) else Inl SyntaxError),
     json_of_ascii = (\<lambda>bs. Inr (VNum (Fin (of_nat (length bs))))),
     base64_utf8 = id,
     tx_messages = (\<lambda>bs. Inr (Some [(''/Send'', bs), (''/cosmwasm.wasm.v1.MsgExecuteContract'', [])])),
     execute_decode = (\<lambda>bs. Inr (VBytes bs))\<rparr>"

lemma nested_decoders_laws: "decoder_laws nested_decoders"
  by (auto simp: decoder_laws_def nested_decoders_def own_content_def type_url_def payload_size_def
      split: js_value.splits list.splits if_splits)

theorem decodeProto_returns_witness: "\<exists>n r. \<forall>m\<ge>n. decodeProto m nested_decoders
    (VObj [(''typeUrl'', VStr ''/Any''), (''value'', VBytes [1, 2, 3])]) = Some r"
  using nested_decoders_laws by (rule decodeProto_returns)

section \<open>Logs and messages\<close>

lemma amap_each: "amap f xs = Some (Inr ys) \<Longrightarrow> length ys = length xs \<and> (\<forall>i<length xs. f (xs ! i) = Some (Inr (ys ! i)))"
proof (induction xs arbitrary: ys)
  case (Cons x xs)
  then obtain y zs where "f x = Some (Inr y)" "amap f xs = Some (Inr zs)" "ys = y # zs" by (auto elim!: abindE)
  with Cons.IH show ?case by (auto simp: nth_Cons')
qed simp

text \<open>\<open>parseTxToMsgsAndEvents\<close> answers one entry for each log of the transaction, in their order: its attributes
  are those of that log's own events, and its message is the decoded message that the log's index names (the
  first when it names none).\<close>

lemma tx_logs_paired:
  assumes "parseTxToMsgsAndEvents n D parser (Some t) = Some (Inr entries)"
  shows "\<exists>logs ms messages. it_rawLog t = Inr logs \<and> tx_messages D (it_tx t) = Inr (Some ms) \<and>
    length messages = length ms \<and> (\<forall>j<length ms. decodeProto n D (any_value (ms ! j)) = Some (Inr (messages ! j))) \<and>
    length entries = length logs \<and>
    (\<forall>i<length logs. parser (log_events (logs ! i)) = Inr (fst (entries ! i)) \<and>
      snd (entries ! i) = message_at messages (case log_msg_index (logs ! i) of None \<Rightarrow> 0 | Some j \<Rightarrow> j))"
proof -
  obtain ms messages where ms: "tx_messages D (it_tx t) = Inr (Some ms)"
    and m: "amap (\<lambda>m. decodeProto n D (any_value m)) ms = Some (Inr messages)"
    and r: "rbind (it_rawLog t) (rmap (log_entry parser messages)) = Inr entries"
    using assms by (auto simp: parseTxToMsgsAndEvents_def abind_eq_Some_iff split: option.splits)
  from r obtain logs where l: "it_rawLog t = Inr logs" "rmap (log_entry parser messages) logs = Inr entries" by (rule rbindE)
  have "parser (log_events (logs ! i)) = Inr (fst (entries ! i)) \<and>
      snd (entries ! i) = message_at messages (case log_msg_index (logs ! i) of None \<Rightarrow> 0 | Some j \<Rightarrow> j)" if "i < length logs" for i
    using rmap_nth [OF l(2) that] by (cases "entries ! i") (auto simp: log_entry_def rbind_eq_Inr_iff)
  then show ?thesis using ms amap_each [OF m] l(1) rmap_length [OF l(2)] by metis
qed

text \<open>A property that is \<open>null\<close> is an object to \<open>typeof\<close>, and \<open>decodeProto\<close> refuses it.\<close>

lemma null_member_refused:
  assumes "\<not> value_truthy (type_url (VObj kvs))" "(k, VNull) \<in> set kvs"
  shows "decodeProto m D (VObj kvs) \<noteq> Some (Inr r)"
proof
  assume ok: "decodeProto m D (VObj kvs) = Some (Inr r)"
  then obtain j where m: "m = Suc j" by (cases m) auto
  obtain kws where a: "amap (\<lambda>(k, x). abind (decode_member D (decodeProto j D) x) (\<lambda>y. Some (Inr (k, y)))) kvs = Some (Inr kws)"
    using ok assms(1) by (auto simp: m decode_step_def elim!: abindE)
  obtain i where i: "i < length kvs" "kvs ! i = (k, VNull)" using assms(2) by (meson in_set_conv_nth)
  have "abind (decode_member D (decodeProto j D) VNull) (\<lambda>y. Some (Inr (k, y))) = Some (Inr (kws ! i))"
    using amap_each [OF a] i by fastforce
  then show False by (cases j) (auto simp: decode_member_def decode_step_def elim!: abindE)
qed

lemma plain_members:
  "\<forall>(k, u) \<in> set us. plain_value u = Some u \<Longrightarrow> concat (map (\<lambda>(k, v). case plain_value v of None \<Rightarrow> [] | Some w \<Rightarrow> [(k, w)]) us) = us"
  by (induction us) auto

lemma plain_elements: "\<forall>u \<in> set us. plain_value u = Some u \<Longrightarrow> map (\<lambda>v. case plain_value v of None \<Rightarrow> VNull | Some w \<Rightarrow> w) us = us"
  by (induction us) auto

lemma plain_value_plain: "plain_value v = Some w \<Longrightarrow> plain_value w = Some w"
proof (induction v arbitrary: w rule: plain_value.induct)
  case (4 n)
  then show ?case by (cases n) auto
next
  case (7 bs)
  define us where "us = map (\<lambda>i. (nat_str i, VNum (Fin (of_nat (unat (bs ! i)))))) [0..<length bs]"
  have w: "w = VObj us" using 7 unfolding us_def plain_value.simps(7) by (rule option.inject [THEN iffD1, THEN sym])
  have "\<forall>(k, u) \<in> set us. plain_value u = Some u" unfolding us_def by auto
  then show ?case unfolding w plain_value.simps(9) by (simp only: plain_members)
next
  case (8 vs)
  define us where "us = map (\<lambda>v. case plain_value v of None \<Rightarrow> VNull | Some w \<Rightarrow> w) vs"
  have w: "w = VArr us" using 8(2) unfolding us_def plain_value.simps(8) by (rule option.inject [THEN iffD1, THEN sym])
  have "\<forall>u \<in> set us. plain_value u = Some u" using 8(1) unfolding us_def by (auto split: option.splits)
  then show ?case unfolding w plain_value.simps(8) by (simp only: plain_elements)
next
  case (9 kvs)
  define us where "us = concat (map (\<lambda>(k, v). case plain_value v of None \<Rightarrow> [] | Some w \<Rightarrow> [(k, w)]) kvs)"
  have w: "w = VObj us" using 9(2) unfolding us_def plain_value.simps(9) by (rule option.inject [THEN iffD1, THEN sym])
  have "\<forall>(k, u) \<in> set us. plain_value u = Some u"
  proof safe
    fix k u assume "(k, u) \<in> set us"
    then obtain v where "(k, v) \<in> set kvs" "plain_value v = Some u" unfolding us_def by (auto split: option.splits)
    then show "plain_value u = Some u" using 9(1) by blast
  qed
  then show ?case unfolding w plain_value.simps(9) by (simp only: plain_members)
qed auto

text \<open>\<open>toObject\<close> makes plain JSON of a value, once and for all: what it answers it leaves as it is.\<close>

lemma toObject_stable:
  assumes "toObject data = Inr v"
  shows "toObject v = Inr v"
  using assms plain_value_plain by (auto simp: toObject_def split: option.splits)

end
