(* ===== verification/Routing.thy ===== *)
theory Routing
  imports TxDecode BridgeRoute Wallet
begin

text \<open>
  The routing service, \<open>packages/ibc-routing/src\<close>: the events it listens to (\<open>event.ts\<close>: \<open>ContextHandler\<close>), the
  tables it keeps and the queries over them (\<open>db.ts\<close>: \<open>DuckDbNode\<close>, \<open>DuckDbWasm\<close>) and the machine of one transfer
  (\<open>machine.ts\<close>). DuckDB, the file system and keccak256 are parameters; \<open>insertData\<close> runs one await at a time, so
  that calls interleave.
\<close>

section \<open>Events\<close>

definition sendToCosmosEvent :: string where
  "sendToCosmosEvent = ''SendToCosmosEvent(address,address,string,uint256,uint256)''"

definition evmGravityEvents :: "string list" where
  "evmGravityEvents = [sendToCosmosEvent]"

datatype NetworkEventType = EVM | ORAIBRIDGE | ORAICHAIN | COSMOS

text \<open>An argument of the listener: a text, a \<open>BigNumber\<close>, \<open>null\<close> or an object.\<close>

record event_object =
  eo_topics :: "string list option"
  eo_transactionHash :: "string option"
  eo_blockNumber :: "nat option"

datatype datum = DText string | DBigNumber int | DNullish | DObject event_object

record cosmos_deposit =
  cd_txHash :: "string option"
  cd_height :: "nat option"
  cd_prevState :: string
  cd_destination :: string
  cd_fromAmount :: string
  cd_oraiBridgeChannelId :: string
  cd_oraiReceiver :: string
  cd_destinationDenom :: string
  cd_destinationChannel :: string
  cd_destinationReceiver :: string
  cd_eventNonce :: js_num

record event_ext =
  keccak256 :: "byte list \<Rightarrow> string"
  ev_utf8 :: "string \<Rightarrow> byte list"
  event_json :: "datum list \<Rightarrow> string"

definition keccak256HashString :: "event_ext \<Rightarrow> string \<Rightarrow> string" where
  "keccak256HashString V data = keccak256 V (ev_utf8 V data)"

text \<open>\<open>eventData[i]\<close>, and what \<open>toString\<close>, destructuring and \<open>parseInt\<close> make of it\<close>

definition datum_at :: "datum list \<Rightarrow> nat \<Rightarrow> datum" where
  "datum_at ds i = (if i < length ds then ds ! i else DNullish)"

fun datum_string :: "datum \<Rightarrow> string res" where
  "datum_string (DText s) = Inr s"
| "datum_string (DBigNumber n) = Inr (int_str n)"
| "datum_string DNullish = Inl TypeError"
| "datum_string (DObject e) = Inr ''[object Object]''"

fun datum_source :: "datum \<Rightarrow> (string option \<times> nat option) res" where
  "datum_source DNullish = Inl TypeError"
| "datum_source (DObject e) = Inr (eo_transactionHash e, eo_blockNumber e)"
| "datum_source _ = Inr (None, None)"

fun datum_route :: "datum \<Rightarrow> route_data res" where
  "datum_route (DText s) = unmarshalOraiBridgeRoute s"
| "datum_route _ = Inl TypeError"

definition parse_digits :: "string \<Rightarrow> js_num" where
  "parse_digits s = (let ds = takeWhile is_digit s in if ds = [] then NaN else dbl (of_nat (str_nat ds)))"

definition parse_hex :: "string \<Rightarrow> js_num" where
  "parse_hex s = (let ds = takeWhile (\<lambda>c. hex_val c \<noteq> None) s in
     case radix_val 16 ds 0 of Some n \<Rightarrow> if ds = [] then NaN else dbl (of_nat n) | None \<Rightarrow> NaN)"

definition parse_unsigned :: "string \<Rightarrow> js_num" where
  "parse_unsigned s = (if starts_with ''0x'' (to_lower (take 2 s)) then parse_hex (drop 2 s) else parse_digits s)"

definition parseInt :: "string \<Rightarrow> js_num" where
  "parseInt s = (case dropWhile is_ws s of
      [] \<Rightarrow> NaN
    | c # cs \<Rightarrow> if c = CHR ''-'' then num_neg (parse_unsigned cs)
        else if c = CHR ''+'' then parse_unsigned cs else parse_unsigned (c # cs))"

text \<open>The first argument that is an object with topics; \<open>null\<close> has no properties to ask for.\<close>

fun find_topics :: "datum list \<Rightarrow> event_object option res" where
  "find_topics [] = Inr None"
| "find_topics (d # ds) = (case d of
      DObject e \<Rightarrow> if eo_topics e \<noteq> None then Inr (Some e) else find_topics ds
    | DNullish \<Rightarrow> Inl TypeError
    | _ \<Rightarrow> find_topics ds)"

definition deposit_data :: "datum list \<Rightarrow> cosmos_deposit res" where
  "deposit_data eventData =
     rbind (datum_source (datum_at eventData 5)) (\<lambda>(txHash, height).
     rbind (datum_route (datum_at eventData 2)) (\<lambda>routeData.
     rbind (datum_string (datum_at eventData 2)) (\<lambda>destination.
     rbind (datum_string (datum_at eventData 3)) (\<lambda>fromAmount.
     rbind (datum_string (datum_at eventData 4)) (\<lambda>nonce.
     Inr \<lparr>cd_txHash = txHash, cd_height = height, cd_prevState = [], cd_destination = destination,
       cd_fromAmount = fromAmount, cd_oraiBridgeChannelId = oraiBridgeChannel routeData,
       cd_oraiReceiver = oraiReceiver routeData, cd_destinationDenom = tokenIdentifier routeData,
       cd_destinationChannel = finalDestinationChannel routeData, cd_destinationReceiver = finalReceiver routeData,
       cd_eventNonce = parseInt nonce\<rparr>)))))"

text \<open>What the handler reports: the data of a deposit, an event it does not know, or nothing.\<close>

datatype handled = Deposit cosmos_deposit | Unrelated | Ignored

definition handleEvent :: "event_ext \<Rightarrow> NetworkEventType \<Rightarrow> datum list \<Rightarrow> handled res" where
  "handleEvent V networkEventType eventData =
     (case networkEventType of
        EVM \<Rightarrow>
          rbind (find_topics eventData) (\<lambda>eventObject.
          case eventObject of
            None \<Rightarrow> generateError (''There is something wrong with the evm event because it has no topics: '' @ event_json V eventData)
          | Some e \<Rightarrow>
              (case eo_topics e of
                 None \<Rightarrow> generateError (''There is no topics => something wrong with this event: '' @ event_json V eventData)
               | Some topics \<Rightarrow>
                   if keccak256HashString V sendToCosmosEvent \<in> set topics
                   then rbind (deposit_data eventData) (\<lambda>d. Inr (Deposit d))
                   else Inr Unrelated))
      | _ \<Rightarrow> Inr Ignored)"

text \<open>The topics the Gravity contract is listened to for\<close>

definition listened_topics :: "event_ext \<Rightarrow> string list" where
  "listened_topics V = map (keccak256HashString V) evmGravityEvents"

section \<open>The machine of a transfer\<close>

datatype machine_state = Evm | StoreEvm | AfterDb
datatype machine_event = STORE | InvokeDone | OtherEvent

fun machine_next :: "machine_state \<Rightarrow> machine_event \<Rightarrow> machine_state" where
  "machine_next Evm STORE = StoreEvm"
| "machine_next StoreEvm InvokeDone = AfterDb"
| "machine_next s e = s"

section \<open>Tables\<close>

datatype sql_value = SText string | SNumber int

type_synonym row = "(string \<times> sql_value option) list"

record table =
  tb_name :: string
  tb_columns :: "(string \<times> string) list"
  tb_key :: "string option"

definition sqlCommands_create :: "table list" where
  "sqlCommands_create =
     [\<lparr>tb_name = ''EvmState'',
       tb_columns = [(''txHash'', ''varchar''), (''height'', ''uinteger''), (''prevState'', ''varchar''), (''prevTxHash'', ''varchar''),
         (''nextState'', ''varchar''), (''destination'', ''varchar''), (''fromAmount'', ''hugeint''),
         (''oraiBridgeChannelId'', ''varchar''), (''oraiReceiver'', ''varchar''), (''destinationDenom'', ''varchar''),
         (''destinationChannelId'', ''varchar''), (''destinationReceiver'', ''varchar''), (''eventNonce'', ''uinteger'')],
       tb_key = Some ''eventNonce''\<rparr>,
      \<lparr>tb_name = ''OraiBridgeState'',
       tb_columns = [(''txHash'', ''varchar''), (''height'', ''uinteger''), (''prevState'', ''varchar''), (''prevTxHash'', ''varchar''),
         (''nextState'', ''varchar''), (''eventNonce'', ''uinteger''), (''packetSequence'', ''uinteger''), (''amount'', ''hugeint''),
         (''denom'', ''varchar''), (''memo'', ''varchar''), (''receiver'', ''varchar''), (''sender'', ''varchar''),
         (''srcPort'', ''varchar''), (''srcChannel'', ''varchar''), (''dstPort'', ''varchar''), (''dstChannel'', ''varchar'')],
       tb_key = Some ''packetSequence''\<rparr>,
      \<lparr>tb_name = ''OraichainState'',
       tb_columns = [(''txHash'', ''varchar''), (''height'', ''uinteger''), (''prevState'', ''varchar''), (''prevTxHash'', ''varchar''),
         (''nextState'', ''varchar''), (''packetSequence'', ''uinteger''), (''packetAck'', ''varchar''),
         (''nextPacketSequence'', ''uinteger''), (''nextMemo'', ''varchar''), (''nextAmount'', ''hugeint''),
         (''nextReceiver'', ''varchar''), (''nextDestinationDenom'', ''varchar'')],
       tb_key = Some ''packetSequence''\<rparr>]"

text \<open>\<open>SELECT * from table where column = ?\<close>\<close>

datatype select = Select string string

definition evmStateByHash :: select where "evmStateByHash = Select ''EvmState'' ''txHash''"
definition evmStateByNonce :: select where "evmStateByNonce = Select ''EvmState'' ''eventNonce''"
definition oraiBridgeStateByNonce :: select where "oraiBridgeStateByNonce = Select ''OraiBridgeState'' ''eventNonce''"
definition oraiBridgeStateBySequence :: select where "oraiBridgeStateBySequence = Select ''OraiBridgeState'' ''packetSequence''"
definition oraichainStateByPacketSequence :: select where "oraichainStateByPacketSequence = Select ''OraichainState'' ''packetSequence''"
definition stateDataByPacketSequence :: "string \<Rightarrow> select" where "stateDataByPacketSequence tableName = Select tableName ''packetSequence''"

text \<open>
  The calls of DuckDB and of the file system: a query, the command that creates a table, \<open>INSERT INTO table SELECT *
  FROM read_json_auto(file)\<close> with what the file holds, \<open>writeFile\<close>, and \<open>unlink\<close> of a file that is there.
\<close>

record 'db engine =
  db_all :: "'db \<Rightarrow> select \<Rightarrow> sql_value \<Rightarrow> row list res"
  db_create :: "'db \<Rightarrow> table \<Rightarrow> 'db res"
  db_insert :: "'db \<Rightarrow> string \<Rightarrow> string option \<Rightarrow> 'db res"
  fs_write :: "string \<Rightarrow> string \<Rightarrow> unit res"
  fs_unlink :: "string \<Rightarrow> unit res"
  db_open :: "string \<Rightarrow> 'db res"

fun create_all :: "'db engine \<Rightarrow> table list \<Rightarrow> 'db \<Rightarrow> 'db res" where
  "create_all K [] db = Inr db"
| "create_all K (t # ts) db = rbind (db_create K db t) (create_all K ts)"

definition createTable :: "'db engine \<Rightarrow> 'db \<Rightarrow> 'db res" where
  "createTable K db = create_all K sqlCommands_create db"

text \<open>One instance per process: the file name of a later call is not looked at.\<close>

definition node_create :: "'db engine \<Rightarrow> 'db option \<Rightarrow> string option \<Rightarrow> ('db \<times> 'db option) res" where
  "node_create K instances tableName =
     (let path = (if truthy tableName then str_of tableName else '':memory:'') in
      case instances of
        Some c \<Rightarrow> Inr (c, instances)
      | None \<Rightarrow> rbind (db_open K path) (\<lambda>_. rbind (db_open K path) (\<lambda>c. Inr (c, Some c))))"

text \<open>The first row, or an empty array when there is none\<close>

definition first_row :: "row list \<Rightarrow> row option" where
  "first_row rs = (case rs of [] \<Rightarrow> None | r # _ \<Rightarrow> Some r)"

definition query_first :: "'db engine \<Rightarrow> 'db \<Rightarrow> select \<Rightarrow> sql_value \<Rightarrow> row option res" where
  "query_first K db q v = rbind (db_all K db q v) (\<lambda>rs. Inr (first_row rs))"

definition node_queryInitialEvmStateByHash :: "'db engine \<Rightarrow> 'db \<Rightarrow> string \<Rightarrow> row option res" where
  "node_queryInitialEvmStateByHash K db txHash = query_first K db evmStateByHash (SText txHash)"

definition node_queryInitialEvmStateByNonce :: "'db engine \<Rightarrow> 'db \<Rightarrow> int \<Rightarrow> row option res" where
  "node_queryInitialEvmStateByNonce K db nonce = query_first K db evmStateByNonce (SNumber nonce)"

definition node_queryOraiBridgeStateByNonce :: "'db engine \<Rightarrow> 'db \<Rightarrow> int \<Rightarrow> row option res" where
  "node_queryOraiBridgeStateByNonce K db eventNonce = query_first K db oraiBridgeStateByNonce (SNumber eventNonce)"

definition node_queryOraiBridgeStateBySequence :: "'db engine \<Rightarrow> 'db \<Rightarrow> int \<Rightarrow> row option res" where
  "node_queryOraiBridgeStateBySequence K db packetSequence = query_first K db oraiBridgeStateBySequence (SNumber packetSequence)"

definition node_queryOraichainStateBySequence :: "'db engine \<Rightarrow> 'db \<Rightarrow> int \<Rightarrow> row option res" where
  "node_queryOraichainStateBySequence K db packetSequence = query_first K db oraichainStateByPacketSequence (SNumber packetSequence)"

text \<open>A table that cannot be asked is passed over.\<close>

fun find_state :: "'db engine \<Rightarrow> 'db \<Rightarrow> string list \<Rightarrow> int \<Rightarrow> (string \<times> row) option" where
  "find_state K db [] packetSequence = None"
| "find_state K db (tableName # names) packetSequence =
     (case db_all K db (stateDataByPacketSequence tableName) (SNumber packetSequence) of
        Inr (r # _) \<Rightarrow> Some (tableName, r)
      | _ \<Rightarrow> find_state K db names packetSequence)"

definition node_findStateByPacketSequence :: "'db engine \<Rightarrow> 'db \<Rightarrow> int \<Rightarrow> (string \<times> row) option" where
  "node_findStateByPacketSequence K db packetSequence = find_state K db (map tb_name sqlCommands_create) packetSequence"

text \<open>The WebAssembly build, used outside production: a new instance for every call, the nonce asked for in the
  query by hash, no search and no insertion.\<close>

definition wasm_create :: "'db engine \<Rightarrow> 'db option \<Rightarrow> string \<Rightarrow> ('db \<times> 'db option) res" where
  "wasm_create K instances currentRootDir = rbind (db_open K '':memory:'') (\<lambda>c. Inr (c, Some c))"

definition wasm_queryInitialEvmStateByHash :: "'db engine \<Rightarrow> 'db \<Rightarrow> string \<Rightarrow> row option res" where
  "wasm_queryInitialEvmStateByHash K db txHash = query_first K db evmStateByHash (SText txHash)"

definition wasm_queryInitialEvmStateByNonce :: "'db engine \<Rightarrow> 'db \<Rightarrow> int \<Rightarrow> row option res" where
  "wasm_queryInitialEvmStateByNonce K db nonce = query_first K db evmStateByHash (SNumber nonce)"

definition wasm_queryOraiBridgeStateByNonce :: "'db engine \<Rightarrow> 'db \<Rightarrow> int \<Rightarrow> row option res" where
  "wasm_queryOraiBridgeStateByNonce K db eventNonce = query_first K db oraiBridgeStateByNonce (SNumber eventNonce)"

definition wasm_queryOraiBridgeStateBySequence :: "'db engine \<Rightarrow> 'db \<Rightarrow> int \<Rightarrow> row option res" where
  "wasm_queryOraiBridgeStateBySequence K db packetSequence = query_first K db oraiBridgeStateBySequence (SNumber packetSequence)"

definition wasm_queryOraichainStateBySequence :: "'db engine \<Rightarrow> 'db \<Rightarrow> int \<Rightarrow> row option res" where
  "wasm_queryOraichainStateBySequence K db packetSequence = query_first K db oraichainStateByPacketSequence (SNumber packetSequence)"

definition wasm_findStateByPacketSequence :: "'db engine \<Rightarrow> 'db \<Rightarrow> int \<Rightarrow> (string \<times> row) res" where
  "wasm_findStateByPacketSequence K db packetSequence = generateError ''Not implemented''"

definition wasm_insertData :: "'db \<Rightarrow> js_value \<Rightarrow> string \<Rightarrow> 'db" where
  "wasm_insertData db data tableName = db"

section \<open>Insertions\<close>

text \<open>A call of \<open>insertData\<close> between its awaits.\<close>

datatype insert_pc = Writing | Running | Unlinking | Inserted | Failed js_error

record insertion =
  in_table :: string
  in_text :: string
  in_pc :: insert_pc

text \<open>The files, the database, the calls that have been made, and which texts went into which table so far.\<close>

record 'db service =
  sv_files :: "string \<Rightarrow> string option"
  sv_db :: 'db
  sv_calls :: "insertion list"
  sv_inserted :: "(string \<times> string option) list"

definition table_file :: "string \<Rightarrow> string" where
  "table_file tableName = tableName @ ''.json''"

text \<open>\<open>JSON.stringify\<close> is a parameter; \<open>toObject\<close> raises before the first await.\<close>

definition insertData :: "(js_value \<Rightarrow> string) \<Rightarrow> js_value \<Rightarrow> string \<Rightarrow> insertion" where
  "insertData json data tableName =
     (case toObject data of
        Inl e \<Rightarrow> \<lparr>in_table = tableName, in_text = [], in_pc = Failed e\<rparr>
      | Inr v \<Rightarrow> \<lparr>in_table = tableName, in_text = json v, in_pc = Writing\<rparr>)"

definition set_pc :: "nat \<Rightarrow> insert_pc \<Rightarrow> 'db service \<Rightarrow> 'db service" where
  "set_pc i p s = s\<lparr>sv_calls := (sv_calls s)[i := (sv_calls s ! i)\<lparr>in_pc := p\<rparr>]\<rparr>"

text \<open>The call \<open>i\<close> goes on to its next await. Each of the three may reject, the last one after the row is in;
  unlinking a file that is not there always does.\<close>

definition insert_next :: "'db engine \<Rightarrow> nat \<Rightarrow> 'db service \<Rightarrow> 'db service" where
  "insert_next K i s =
     (if i < length (sv_calls s)
      then let c = sv_calls s ! i; file = table_file (in_table c) in
        (case in_pc c of
           Writing \<Rightarrow>
             (case fs_write K file (in_text c) of
                Inl e \<Rightarrow> set_pc i (Failed e) s
              | Inr _ \<Rightarrow> set_pc i Running (s\<lparr>sv_files := (sv_files s)(file \<mapsto> in_text c)\<rparr>))
         | Running \<Rightarrow>
             (case db_insert K (sv_db s) (in_table c) (sv_files s file) of
                Inl e \<Rightarrow> set_pc i (Failed e) s
              | Inr db \<Rightarrow> set_pc i Unlinking (s\<lparr>sv_db := db, sv_inserted := sv_inserted s @ [(in_table c, sv_files s file)]\<rparr>))
         | Unlinking \<Rightarrow>
             (if sv_files s file = None then set_pc i (Failed (Rejected ''ENOENT'')) s
              else case fs_unlink K file of
                Inl e \<Rightarrow> set_pc i (Failed e) s
              | Inr _ \<Rightarrow> set_pc i Inserted (s\<lparr>sv_files := (sv_files s)(file := None)\<rparr>))
         | _ \<Rightarrow> s)
      else s)"

text \<open>A schedule names the call that goes on.\<close>

definition insert_run :: "'db engine \<Rightarrow> nat list \<Rightarrow> 'db service \<Rightarrow> 'db service" where
  "insert_run K schedule s = fold (insert_next K) schedule s"

end
