(* ===== verification/RoutingLaws.thy ===== *)
theory RoutingLaws
  imports Routing TransferLaws SwapLaws ChartLaws
begin

text \<open>
  The laws of the routing service: it reads from the bridge what the swap handler wrote into it, it finds the
  state of a packet in the right table, and concurrent insertions keep apart as long as they are for different
  tables (and only then).
\<close>

section \<open>A swap and its deposit\<close>

lemma num_neg_dbl: "num_neg (Fin x) = Fin (- x)"
  by simp

lemma parseInt_nat_str: "n < 2 ^ 53 \<Longrightarrow> parseInt (nat_str n) = Fin (of_nat n)"
proof -
  assume n: "n < 2 ^ 53"
  obtain c cs where s: "nat_str n = c # cs" using nat_str_not_Nil by (cases "nat_str n") auto
  have d: "is_digit x" if "x \<in> set (nat_str n)" for x using nat_str_digits [of n] that by (simp add: list_all_iff)
  have c: "is_digit c" using d [of c] by (simp add: s)
  have "\<not> is_ws c" using c unfolding is_digit_def is_ws_def Let_def by linarith
  then have ws: "dropWhile is_ws (nat_str n) = c # cs" by (simp add: s)
  have hex: "\<not> starts_with ''0x'' (to_lower (take 2 (c # cs)))"
  proof (cases cs)
    case (Cons e es)
    have "is_digit e" using d [of e] by (simp add: s Cons)
    then have "lower_char e \<noteq> CHR ''x''" using is_digit_imp_not [of e] by (auto simp: lower_char_def is_digit_def Let_def)
    then show ?thesis by (simp add: Cons starts_with_def to_lower_def)
  qed (simp add: starts_with_def to_lower_def)
  have tw: "takeWhile is_digit (c # cs) = nat_str n" using d by (simp add: s [symmetric] takeWhile_eq_all_conv)
  have "parse_unsigned (c # cs) = dbl (of_nat n)"
    unfolding parse_unsigned_def parse_digits_def tw Let_def using hex by (simp add: s [symmetric])
  then show ?thesis using ws is_digit_imp_not [OF c] dbl_nat [OF n] by (simp add: parseInt_def)
qed

lemma submit_evm:
  assumes "submit_swap E h t a i n r = Inr (EvmTransactions txs)"
  shows "transferAndSwap E h (swapRoute r) = Inr txs"
  using assms
  by (auto simp: submit_swap_def Let_def alphaSmartRouterSwapNewMsg_def swap_def swapAndTransferToOtherNetworks_def swapCosmosToOtherNetwork_def
      transferAndSwapTon_def elim!: rbindE split: if_split_asm option.split_asm)

text \<open>The event that the bridge contract emits for a deposit: the arguments of the call and who made it.\<close>

fun deposit_event :: "event_ext \<Rightarrow> string \<Rightarrow> nat \<Rightarrow> nat \<Rightarrow> evm_tx \<Rightarrow> datum list" where
  "deposit_event V txHash height nonce (SendToCosmos g t d a f) =
     [DText (str_of t), DText f, DText d, DBigNumber a, DBigNumber (int nonce),
      DObject \<lparr>eo_topics = Some [keccak256HashString V sendToCosmosEvent], eo_transactionHash = Some txHash, eo_blockNumber = Some height\<rparr>]"
| "deposit_event V txHash height nonce _ = []"

lemma handle_deposit:
  assumes "unmarshalOraiBridgeRoute d = Inr r" "nonce < 2 ^ 53"
  shows "handleEvent V EVM (deposit_event V txHash height nonce (SendToCosmos g t d a f)) =
    Inr (Deposit \<lparr>cd_txHash = Some txHash, cd_height = Some height, cd_prevState = [], cd_destination = d, cd_fromAmount = int_str a,
      cd_oraiBridgeChannelId = oraiBridgeChannel r, cd_oraiReceiver = oraiReceiver r, cd_destinationDenom = tokenIdentifier r,
      cd_destinationChannel = finalDestinationChannel r, cd_destinationReceiver = finalReceiver r, cd_eventNonce = Fin (of_nat nonce)\<rparr>)"
proof -
  have "parseInt (int_str (int nonce)) = Fin (of_nat nonce)" using parseInt_nat_str [OF assms(2)] by (simp add: int_str_def)
  then show ?thesis using assms(1) by (simp add: handleEvent_def deposit_data_def datum_at_def)
qed

text \<open>C9. What the swap handler deposits, the routing service understands: the event of a deposit that
  \<open>processUniversalSwap\<close> submitted is read as a deposit of exactly the swapped amount for the user's own address on
  Oraichain, with the memo as final receiver (when it has no colon, as in base64).\<close>

theorem deposit_routed:
  assumes "processUniversalSwap E h = Inr (EvmTransactions txs)" "SendToCosmos g t d a f \<in> set txs" "nonce < 2 ^ 53"
  shows "\<exists>oraiAddress ch memo. keplrAddr h ''Oraichain'' = Inr (Some oraiAddress) \<and>
    toAmount (ANum (fromAmount (h_data h))) (t_decimals (originalFromToken (h_data h))) = Inr a \<and>
    d = marshal_route \<lparr>oraiBridgeChannel = ch, oraiReceiver = oraiAddress, finalDestinationChannel = [], finalReceiver = memo, tokenIdentifier = []\<rparr> \<and>
    (CHR '':'' \<notin> set memo \<longrightarrow>
      handleEvent V EVM (deposit_event V txHash height nonce (SendToCosmos g t d a f)) =
      Inr (Deposit \<lparr>cd_txHash = Some txHash, cd_height = Some height, cd_prevState = [], cd_destination = d, cd_fromAmount = int_str a,
        cd_oraiBridgeChannelId = ch, cd_oraiReceiver = oraiAddress, cd_destinationDenom = [], cd_destinationChannel = [],
        cd_destinationReceiver = memo, cd_eventNonce = Fin (of_nat nonce)\<rparr>))"
proof -
  obtain o1 b i t' n r mr where o1: "keplrAddr h ''Oraichain'' = Inr (Some o1)"
    and r: "addOraiBridgeRoute (e_ext E) b (originalFromToken (h_data h)) (originalToToken (h_data h)) mr
      (slippage_num (userSlippage (h_data h))) (cosmosTokens h) (map_option swap_option.truncate (h_options h)) (alphaSmartRoutes (h_data h)) = Inr r"
    and b: "sourceReceiver b = Some o1" and s: "submit_swap E h t' o1 i n r = Inr (EvmTransactions txs)"
    using assms(1) unfolding processUniversalSwap_def Let_def
    apply (elim rbindE guardE)
    subgoal premises p for t' k mr x
    proof -
      obtain o1 where k: "k = Some o1" using p(4) by (cases k) auto
      obtain i n where x: "x = (i, n)" by (cases x)
      from p(8) show thesis unfolding x prod.case k by (elim rbindE) (rule p(1), rule p(3) [unfolded k], assumption, simp, simp)
    qed
    done
  have "transferAndSwap E h (swapRoute r) = Inr txs" using s by (rule submit_evm)
  then have d: "d = swapRoute r" and a: "toAmount (ANum (fromAmount (h_data h))) (t_decimals (originalFromToken (h_data h))) = Inr a"
    using transfer_deposit [OF _ assms(2)] deposit_cases [OF _ assms(2)] by blast+
  from bridge_route_readable [OF r] b show ?thesis using o1 a d handle_deposit [OF _ assms(3)] by fastforce
qed

definition sample_events :: event_ext where
  "sample_events = \<lparr>keccak256 = (\<lambda>bs. ''0x'' @ map (\<lambda>b. char_of (unat b)) bs), ev_utf8 = map (\<lambda>c. of_nat (of_char c)), event_json = (\<lambda>_. [])\<rparr>"

theorem deposit_routed_witness:
  "\<exists>d. handleEvent sample_events EVM (deposit_event sample_events ''0x47c7'' 32784728 44235
      (SendToCosmos GRAVITY_EVM_CONTRACT (Some ''0xabc'') ''channel-1/orai1me'' 1000000 ''0xme'')) = Inr (Deposit d) \<and>
    cd_oraiReceiver d = ''orai1me'' \<and> cd_fromAmount d = int_str 1000000"
proof -
  let ?h = "sample_handler (fee_token ''0x38'' (Some ''0xabc'')) (fee_token ''noble-1'' None)"
  have to1: "getToAddressUniversalSwap sample_env ?h = Inr (Some ''orai1me'')"
    by (simp add: getToAddressUniversalSwap_def getUniversalSwapToAddress_def isCosmosChain_def sample_ext_def)
  have "addOraiBridgeRoute sample_ext
       \<lparr>sourceReceiver = Some ''orai1me'', ba_injAddress = None, ba_destReceiver = Some ''orai1me'', ba_recipientAddress = None,
        ba_evmAddress = Some ''0xme'', ba_tronAddress = None, ba_tonAddress = None\<rparr>
       (fee_token ''0x38'' (Some ''0xabc'')) (fee_token ''noble-1'' None) ''7'' x (cosmosTokens ?h)
       (Some \<lparr>isSourceReceiverTest = False, isIbcWasm = False, ibcInfoTestMode = False, isAlphaIbcWasm = False\<rparr>) None =
     Inr \<lparr>swapRoute = ''channel-1/orai1me'', universalSwapType = ''other-networks-to-oraichain'', isSmartRouter = True\<rparr>" for x
    using orai1me_valid
    by (simp add: addOraiBridgeRoute_def getSourceReceiver_def getRoute_def route_kind_def on_chain_def oraib2oraichain_def
        KWT_BSC_CONTRACT_def MILKY_BSC_CONTRACT_def)
  then have p: "processUniversalSwap sample_env ?h = Inr (EvmTransactions
      [Approve ''0xabc'' GRAVITY_EVM_CONTRACT ''1000000'' ''0xme'', SendToCosmos GRAVITY_EVM_CONTRACT (Some ''0xabc'') ''channel-1/orai1me'' 1000000 ''0xme''])"
    using orai1me_valid sample_deposit by (auto simp: processUniversalSwap_def to1 route_addresses_def submit_swap_def)
  have c: "CHR '':'' \<notin> set memo" if "''channel-1/orai1me'' = marshal_route \<lparr>oraiBridgeChannel = ch, oraiReceiver = a,
      finalDestinationChannel = [], finalReceiver = memo, tokenIdentifier = []\<rparr>" for ch a memo
  proof -
    have "set memo \<subseteq> set ''channel-1/orai1me''"
      unfolding that by (auto simp: marshal_route_def marshal_final_def marshal_last_def split: if_splits)
    then show ?thesis by auto
  qed
  show ?thesis
    using deposit_routed [OF p, of GRAVITY_EVM_CONTRACT "Some ''0xabc''" "''channel-1/orai1me''" 1000000 "''0xme''" 44235 sample_events "''0x47c7''" 32784728] c
    by fastforce
qed

section \<open>The state of a packet\<close>

text \<open>A query that names a column the table does not have is refused.\<close>

definition select_laws :: "'db engine \<Rightarrow> bool" where
  "select_laws K \<longleftrightarrow> (\<forall>db t c v. t \<in> set sqlCommands_create \<longrightarrow> c \<notin> fst ` set (tb_columns t) \<longrightarrow>
     (\<exists>e. db_all K db (Select (tb_name t) c) v = Inl e))"

definition found_in :: "string \<Rightarrow> row option res \<Rightarrow> (string \<times> row) option" where
  "found_in t r = (case r of Inr (Some x) \<Rightarrow> Some (t, x) | _ \<Rightarrow> None)"

text \<open>\<open>findStateByPacketSequence\<close> finds what the two queries by sequence find, the table of OraiBridge first;
  the table of EVM deposits has no packet sequence and never answers.\<close>

lemma packet_state_found:
  assumes "select_laws K"
  shows "node_findStateByPacketSequence K db n =
    (case found_in ''OraiBridgeState'' (node_queryOraiBridgeStateBySequence K db n) of
       Some x \<Rightarrow> Some x
     | None \<Rightarrow> found_in ''OraichainState'' (node_queryOraichainStateBySequence K db n))"
proof -
  let ?evm = "sqlCommands_create ! 0"
  have "?evm \<in> set sqlCommands_create" "tb_name ?evm = ''EvmState''" "''packetSequence'' \<notin> fst ` set (tb_columns ?evm)"
    by (simp_all add: sqlCommands_create_def)
  then obtain e where "db_all K db (Select ''EvmState'' ''packetSequence'') (SNumber n) = Inl e"
    using assms unfolding select_laws_def by metis
  then show ?thesis
    by (simp add: node_findStateByPacketSequence_def sqlCommands_create_def stateDataByPacketSequence_def found_in_def
        node_queryOraiBridgeStateBySequence_def node_queryOraichainStateBySequence_def query_first_def first_row_def
        oraiBridgeStateBySequence_def oraichainStateByPacketSequence_def rbind_def split: sum.splits list.splits)
qed

text \<open>A small engine: a table has the columns it is created with, and a query answers the rows that match.\<close>

definition column_of :: "string \<Rightarrow> string \<Rightarrow> bool" where
  "column_of t c \<longleftrightarrow> list_ex (\<lambda>tb. tb_name tb = t \<and> c \<in> fst ` set (tb_columns tb)) sqlCommands_create"

definition small_engine :: "(string \<times> row) list engine" where
  "small_engine = \<lparr>
     db_all = (\<lambda>db q v. case q of Select t c \<Rightarrow>
        if column_of t c then Inr (map snd (filter (\<lambda>(u, r). u = t \<and> map_of r c = Some (Some v)) db)) else Inl (Rejected ''Binder Error'')),
     db_create = (\<lambda>db t. Inr db),
     db_insert = (\<lambda>db t s. case s of None \<Rightarrow> Inl (Rejected ''IO Error'') | Some x \<Rightarrow> Inr (db @ [(t, [(''memo'', Some (SText x))])])),
     fs_write = (\<lambda>f s. Inr ()), fs_unlink = (\<lambda>f. Inr ()),
     db_open = (\<lambda>p. Inr [])\<rparr>"

lemma small_engine_files [simp]:
  "fs_write small_engine f x = Inr ()" "fs_unlink small_engine f = Inr ()" "db_insert small_engine db t None = Inl (Rejected ''IO Error'')"
  "db_insert small_engine db t (Some x) = Inr (db @ [(t, [(''memo'', Some (SText x))])])"
  by (simp_all add: small_engine_def)

lemma small_engine_laws: "select_laws small_engine"
  by (auto simp: select_laws_def small_engine_def column_of_def sqlCommands_create_def)

text \<open>The WebAssembly class asks for a nonce among the transaction hashes.\<close>

lemma wasm_nonce_asks_hash:
  "wasm_queryInitialEvmStateByNonce K db n = query_first K db (Select ''EvmState'' ''txHash'') (SNumber n)"
  by (simp add: wasm_queryInitialEvmStateByNonce_def evmStateByHash_def)

lemma wasm_nonce_misses:
  "wasm_queryInitialEvmStateByNonce small_engine [(''EvmState'', [(''eventNonce'', Some (SNumber 7)), (''txHash'', Some (SText ''0x1''))])] 7 = Inr None"
  "node_queryInitialEvmStateByNonce small_engine [(''EvmState'', [(''eventNonce'', Some (SNumber 7)), (''txHash'', Some (SText ''0x1''))])] 7 =
    Inr (Some [(''eventNonce'', Some (SNumber 7)), (''txHash'', Some (SText ''0x1''))])"
  by (simp_all add: small_engine_def column_of_def sqlCommands_create_def wasm_queryInitialEvmStateByNonce_def
      node_queryInitialEvmStateByNonce_def query_first_def first_row_def evmStateByHash_def evmStateByNonce_def)

section \<open>Insertions\<close>

definition insert_start :: "(string \<Rightarrow> string option) \<Rightarrow> 'db \<Rightarrow> insertion list \<Rightarrow> 'db service" where
  "insert_start files db cs = \<lparr>sv_files = files, sv_db = db, sv_calls = cs, sv_inserted = []\<rparr>"

definition into_table :: "string \<Rightarrow> 'db service \<Rightarrow> (string \<times> string option) list" where
  "into_table t s = filter (\<lambda>x. fst x = t) (sv_inserted s)"

text \<open>What a call has done when it stands at each of its awaits.\<close>

definition call_ok :: "'db engine \<Rightarrow> 'db service \<Rightarrow> insertion \<Rightarrow> bool" where
  "call_ok K s c = (let own = [(in_table c, Some (in_text c))] in
     case in_pc c of
       Writing \<Rightarrow> into_table (in_table c) s = []
     | Running \<Rightarrow> sv_files s (table_file (in_table c)) = Some (in_text c) \<and> into_table (in_table c) s = []
     | Unlinking \<Rightarrow> sv_files s (table_file (in_table c)) = Some (in_text c) \<and> into_table (in_table c) s = own
     | Inserted \<Rightarrow> sv_files s (table_file (in_table c)) = None \<and> into_table (in_table c) s = own
     | Failed e \<Rightarrow> into_table (in_table c) s = [] \<or>
         into_table (in_table c) s = own \<and> fs_unlink K (table_file (in_table c)) = Inl e \<and>
         sv_files s (table_file (in_table c)) = Some (in_text c))"

definition service_ok :: "'db engine \<Rightarrow> insertion list \<Rightarrow> 'db service \<Rightarrow> bool" where
  "service_ok K cs s \<longleftrightarrow> length (sv_calls s) = length cs \<and>
     (\<forall>i<length cs. in_table (sv_calls s ! i) = in_table (cs ! i) \<and> in_text (sv_calls s ! i) = in_text (cs ! i) \<and> call_ok K s (sv_calls s ! i))"

lemma table_file_inject [simp]: "table_file t = table_file u \<longleftrightarrow> t = u"
  by (simp add: table_file_def)

text \<open>A step of another table's call leaves a call where it is.\<close>

lemma call_ok_frame:
  assumes "call_ok K s c" "in_table c \<noteq> t"
    "\<And>u. u \<noteq> t \<Longrightarrow> sv_files s' (table_file u) = sv_files s (table_file u)"
    "\<And>u. u \<noteq> t \<Longrightarrow> into_table u s' = into_table u s"
  shows "call_ok K s' c"
  using assms by (simp add: call_ok_def Let_def split: insert_pc.splits)

lemma set_pc_simps [simp]:
  "sv_files (set_pc i p s) = sv_files s" "into_table u (set_pc i p s) = into_table u s" "length (sv_calls (set_pc i p s)) = length (sv_calls s)"
  by (simp_all add: set_pc_def into_table_def)

lemma set_pc_call: "i < length (sv_calls s) \<Longrightarrow> j < length (sv_calls s) \<Longrightarrow>
    sv_calls (set_pc i p s) ! j = (if i = j then (sv_calls s ! i)\<lparr>in_pc := p\<rparr> else sv_calls s ! j)"
  by (simp add: set_pc_def)

text \<open>What a step does: it moves one call on, and touches that call's file and table only.\<close>

lemma insert_next_effect:
  assumes "i < length (sv_calls s)" "call_ok K s (sv_calls s ! i)"
  shows "\<exists>p. sv_calls (insert_next K i s) = (sv_calls s)[i := (sv_calls s ! i)\<lparr>in_pc := p\<rparr>] \<and>
    call_ok K (insert_next K i s) ((sv_calls s ! i)\<lparr>in_pc := p\<rparr>) \<and>
    (\<forall>u. u \<noteq> in_table (sv_calls s ! i) \<longrightarrow> sv_files (insert_next K i s) (table_file u) = sv_files s (table_file u) \<and>
      into_table u (insert_next K i s) = into_table u s)"
proof -
  let ?c = "sv_calls s ! i"
  show ?thesis
  proof (cases "in_pc ?c \<in> {Writing, Running, Unlinking}")
    case True
    then show ?thesis
      using assms
      by (auto simp: insert_next_def set_pc_def call_ok_def Let_def into_table_def split: sum.split intro!: exI)
  next
    case False
    then have "insert_next K i s = s" using assms(1) by (auto simp: insert_next_def Let_def split: insert_pc.split)
    moreover have "?c\<lparr>in_pc := in_pc ?c\<rparr> = ?c" by simp
    ultimately show ?thesis using assms by (metis list_update_id)
  qed
qed

lemma service_ok_next:
  assumes "service_ok K cs s" "distinct (map in_table cs)"
  shows "service_ok K cs (insert_next K i s)"
proof (cases "i < length cs")
  case False
  then show ?thesis using assms(1) by (simp add: service_ok_def insert_next_def)
next
  case True
  have l: "length (sv_calls s) = length cs"
    and ok: "\<And>j. j < length cs \<Longrightarrow> in_table (sv_calls s ! j) = in_table (cs ! j) \<and> in_text (sv_calls s ! j) = in_text (cs ! j) \<and> call_ok K s (sv_calls s ! j)"
    using assms(1) by (auto simp: service_ok_def)
  have il: "i < length (sv_calls s)" and same: "in_table (sv_calls s ! i) = in_table (cs ! i)" using True l ok [OF True] by simp_all
  have c: "call_ok K s (sv_calls s ! i)" using ok [OF True] by simp
  obtain p where p: "sv_calls (insert_next K i s) = (sv_calls s)[i := (sv_calls s ! i)\<lparr>in_pc := p\<rparr>]"
      "call_ok K (insert_next K i s) ((sv_calls s ! i)\<lparr>in_pc := p\<rparr>)"
    and fr: "\<forall>u. u \<noteq> in_table (sv_calls s ! i) \<longrightarrow> sv_files (insert_next K i s) (table_file u) = sv_files s (table_file u) \<and>
      into_table u (insert_next K i s) = into_table u s"
    using insert_next_effect [OF il c] by (elim exE conjE) (rule that)
  have frame: "sv_files (insert_next K i s) (table_file u) = sv_files s (table_file u)" "into_table u (insert_next K i s) = into_table u s"
    if "u \<noteq> in_table (cs ! i)" for u
    using fr that unfolding same by (drule_tac spec [of _ u], simp)+
  have "call_ok K (insert_next K i s) (sv_calls s ! j)" if "j < length cs" "j \<noteq> i" for j
  proof -
    have "in_table (cs ! j) \<noteq> in_table (cs ! i)" using assms(2) that True by (simp add: distinct_conv_nth)
    then have "call_ok K s (sv_calls s ! j)" "in_table (sv_calls s ! j) \<noteq> in_table (cs ! i)" using ok [OF that(1)] by simp_all
    then show ?thesis using frame by (rule call_ok_frame)
  qed
  then show ?thesis using ok p True l by (simp add: service_ok_def nth_list_update)
qed

lemma service_ok_run:
  assumes "distinct (map in_table cs)"
  shows "service_ok K cs s \<Longrightarrow> service_ok K cs (insert_run K schedule s)"
  by (induction schedule arbitrary: s) (simp_all add: insert_run_def service_ok_next [OF _ assms])

text \<open>C10. Insertions for different tables keep apart, whatever order their steps are taken in and whichever of them
  reject: a call that has returned has put exactly its own text into its table, once, and its temporary file is
  gone. A call that has failed has inserted nothing, or, when it was the removal of its file that was refused, exactly
  its own text once, and the file is still there with that text.\<close>

theorem insertions_isolated:
  assumes "distinct (map in_table cs)" "\<forall>c \<in> set cs. in_pc c = Writing" "i < length cs"
    "s = insert_run K schedule (insert_start files db cs)"
  shows "in_table (sv_calls s ! i) = in_table (cs ! i) \<and>
    (in_pc (sv_calls s ! i) = Inserted \<longrightarrow>
      into_table (in_table (cs ! i)) s = [(in_table (cs ! i), Some (in_text (cs ! i)))] \<and> sv_files s (table_file (in_table (cs ! i))) = None) \<and>
    (\<forall>e. in_pc (sv_calls s ! i) = Failed e \<longrightarrow> into_table (in_table (cs ! i)) s = [] \<or>
      into_table (in_table (cs ! i)) s = [(in_table (cs ! i), Some (in_text (cs ! i)))] \<and>
      fs_unlink K (table_file (in_table (cs ! i))) = Inl e \<and> sv_files s (table_file (in_table (cs ! i))) = Some (in_text (cs ! i)))"
proof -
  have "service_ok K cs (insert_start files db cs)"
    using assms(2) by (simp add: service_ok_def insert_start_def call_ok_def into_table_def)
  then have "service_ok K cs s" unfolding assms(4) by (rule service_ok_run [OF assms(1)])
  then show ?thesis using assms(3) by (auto simp: service_ok_def call_ok_def Let_def)
qed

definition sample_insert :: "string \<Rightarrow> string \<Rightarrow> insertion" where
  "sample_insert t x = \<lparr>in_table = t, in_text = x, in_pc = Writing\<rparr>"

text \<open>How a call moves in the small engine.\<close>

lemma small_steps:
  fixes F D C I defines "s \<equiv> \<lparr>sv_files = F, sv_db = D, sv_calls = C, sv_inserted = I\<rparr>"
  assumes "i < length C"
  shows "in_pc (C ! i) = Writing \<Longrightarrow> insert_next small_engine i s =
      \<lparr>sv_files = F(table_file (in_table (C ! i)) \<mapsto> in_text (C ! i)), sv_db = D, sv_calls = C[i := (C ! i)\<lparr>in_pc := Running\<rparr>], sv_inserted = I\<rparr>"
    "in_pc (C ! i) = Running \<Longrightarrow> F (table_file (in_table (C ! i))) = Some x \<Longrightarrow> insert_next small_engine i s =
      \<lparr>sv_files = F, sv_db = D @ [(in_table (C ! i), [(''memo'', Some (SText x))])], sv_calls = C[i := (C ! i)\<lparr>in_pc := Unlinking\<rparr>],
        sv_inserted = I @ [(in_table (C ! i), Some x)]\<rparr>"
    "in_pc (C ! i) = Unlinking \<Longrightarrow> F (table_file (in_table (C ! i))) = None \<Longrightarrow> insert_next small_engine i s =
      \<lparr>sv_files = F, sv_db = D, sv_calls = C[i := (C ! i)\<lparr>in_pc := Failed (Rejected ''ENOENT'')\<rparr>], sv_inserted = I\<rparr>"
    "in_pc (C ! i) = Unlinking \<Longrightarrow> F (table_file (in_table (C ! i))) = Some x \<Longrightarrow> insert_next small_engine i s =
      \<lparr>sv_files = F(table_file (in_table (C ! i)) := None), sv_db = D, sv_calls = C[i := (C ! i)\<lparr>in_pc := Inserted\<rparr>], sv_inserted = I\<rparr>"
  using assms(2) by (simp_all add: s_def insert_next_def set_pc_def Let_def)

theorem insertions_isolated_witness:
  "into_table ''EvmState'' (insert_run small_engine [0, 1, 0, 1, 1, 0]
     (insert_start (\<lambda>_. None) [] [sample_insert ''EvmState'' ''a'', sample_insert ''OraichainState'' ''b''])) = [(''EvmState'', Some ''a'')]"
proof -
  let ?cs = "[sample_insert ''EvmState'' ''a'', sample_insert ''OraichainState'' ''b'']"
  let ?s = "insert_run small_engine [0, 1, 0, 1, 1, 0] (insert_start (\<lambda>_. None) [] ?cs)"
  have "in_pc (sv_calls ?s ! 0) = Inserted"
    by (simp add: insert_run_def small_steps insert_start_def sample_insert_def)
  then show ?thesis
    using insertions_isolated [of ?cs 0 ?s small_engine "[0, 1, 0, 1, 1, 0]" "\<lambda>_. None" "[]"] by (simp add: sample_insert_def)
qed

text \<open>When the file cannot be removed, the row is in and the call has failed all the same.\<close>

lemma unlink_refused:
  "in_pc (sv_calls (insert_run (small_engine\<lparr>fs_unlink := \<lambda>_. Inl (Rejected ''EBUSY'')\<rparr>) [0, 0, 0]
      (insert_start (\<lambda>_. None) [] [sample_insert ''EvmState'' ''a''])) ! 0) = Failed (Rejected ''EBUSY'')"
  "into_table ''EvmState'' (insert_run (small_engine\<lparr>fs_unlink := \<lambda>_. Inl (Rejected ''EBUSY'')\<rparr>) [0, 0, 0]
      (insert_start (\<lambda>_. None) [] [sample_insert ''EvmState'' ''a''])) = [(''EvmState'', Some ''a'')]"
  by (simp_all add: insert_run_def insert_next_def insert_start_def sample_insert_def set_pc_def into_table_def small_engine_def)

text \<open>Two calls for one table share its file: the second text goes in twice, the first never, and the second call fails
  although both rows are in.\<close>

lemma same_table_race:
  fixes s defines "s \<equiv> insert_run small_engine [0, 1, 0, 1, 0, 1]
    (insert_start (\<lambda>_. None) [] [sample_insert ''EvmState'' ''a'', sample_insert ''EvmState'' ''b''])"
  shows "into_table ''EvmState'' s = [(''EvmState'', Some ''b''), (''EvmState'', Some ''b'')]"
    "map in_pc (sv_calls s) = [Inserted, Failed (Rejected ''ENOENT'')]"
  by (simp_all add: s_def insert_run_def small_steps insert_start_def sample_insert_def into_table_def)

end
