(* ===== verification/Sdk.thy ===== *)
theory Sdk
  imports Dispatch TxDecode
begin

text \<open>
  The configuration that the SDK shares (\<open>packages/oraidex-common/src/common.ts\<close>: \<open>OraidexCommon\<close>, with \<open>network.ts\<close>,
  \<open>supported/supported-reader.ts\<close> and \<open>config/chainInfosWithIcon.ts\<close>), the clients a Cosmos wallet opens (\<open>wallet.ts\<close>)
  and the entry points that build a handler of their own (\<open>packages/universal-swap/src/wrapper.ts\<close>). The token and chain lists
  of @oraichain/common and the clients of cosmjs are parameters.
\<close>

section \<open>Contracts\<close>

definition FACTORY_CONTRACT :: string where "FACTORY_CONTRACT = ''orai1hemdkz4xx9kukgrunxu3yw0nvpyxf34v82d2c8''"
definition FACTORY_V2_CONTRACT :: string where "FACTORY_V2_CONTRACT = ''orai167r4ut7avvgpp3rlzksz6vw5spmykluzagvmj3ht845fjschwugqjsqhst''"
definition ROUTER_V2_CONTRACT :: string where "ROUTER_V2_CONTRACT = ''orai1j0r67r9k8t34pnhy00x3ftuxuwg0r6r4p8p6rrc8az0ednzr8y9s3sj2sf''"
definition MIXED_ROUTER :: string where "MIXED_ROUTER = ''orai1cy2pc5czxm5qlacp6j0hfq7qj9wh8zuhxgpdartcfrdljknq0arsuc4znj''"
definition ORACLE_CONTRACT :: string where "ORACLE_CONTRACT = ''orai18rgtdvlrev60plvucw2rz8nmj8pau9gst4q07m''"
definition STAKING_CONTRACT :: string where "STAKING_CONTRACT = ''orai19p43y0tqnr5qlhfwnxft2u5unph5yn60y7tuvu''"
definition REWARDER_CONTRACT :: string where "REWARDER_CONTRACT = ''orai15hua2q83fp666nwhnyrn9g8gt9ueenl32qnugh''"
definition ORAIDEX_LISTING_CONTRACT :: string where "ORAIDEX_LISTING_CONTRACT = ''orai1mkr02jzz0jfh34ps6z966uyueu4tlmnyg57nn72pxfq9t9a706tsha5znh''"
definition ORAIDEX_BID_POOL_CONTRACT :: string where "ORAIDEX_BID_POOL_CONTRACT = ''orai1r4v3f8p2xethczvw5l5ed8cr05a9dqp6auy2zmz5dyvcq5h5g5kqg6m7vu''"
definition CW20_STAKING_CONTRACT :: string where "CW20_STAKING_CONTRACT = ''orai1xu9yw2xwd55d09pjce28yjklvk2kwwrqw4ql9gvyrs607z26kv0sl99040''"
definition AMM_V3_CONTRACT :: string where "AMM_V3_CONTRACT = ''orai10s0c75gw5y5eftms5ncfknw6lzmx0dyhedn75uz793m8zwz4g8zq4d9x9a''"
definition solChainId :: string where "solChainId = ''solana:5eykt4UsFv8P8NJdTREpY1vzqKqZKvdp''"
definition BROADCAST_POLL_INTERVAL :: int where "BROADCAST_POLL_INTERVAL = 600"

section \<open>The configuration\<close>

record chain_info =
  ci_chainId :: string
  ci_networkType :: string
  ci_rpc :: string
  ci_coinType :: "nat option"
  ci_bech32PrefixAccAddr :: string

text \<open>What \<open>OraiCommon\<close> was initialised with; \<open>getSpecificChainInfo\<close> is a method of its chain configuration.\<close>

record oraidex_common =
  oc_oraichainTokens :: "token_item list"
  oc_otherChainTokens :: "token_item list"
  oc_flattenTokens :: "token_item list"
  oc_cosmosTokens :: "token_item list"
  oc_tokenMap :: "string \<Rightarrow> token_item option"
  oc_chainInfos :: "chain_info list"
  getSpecificChainInfo :: "string \<Rightarrow> chain_info"

definition tokens_on :: "string \<Rightarrow> oraidex_common \<Rightarrow> token_item list" where
  "tokens_on chainId C = filter (\<lambda>token. t_chainId token = chainId) (oc_flattenTokens C)"

definition btcTokens :: "oraidex_common \<Rightarrow> token_item list" where "btcTokens C = tokens_on ''bitcoin'' C"
definition solTokens :: "oraidex_common \<Rightarrow> token_item list" where "solTokens C = tokens_on solChainId C"
definition tonTokens :: "oraidex_common \<Rightarrow> token_item list" where "tonTokens C = tokens_on ''ton'' C"

definition btcChains :: "oraidex_common \<Rightarrow> chain_info list" where
  "btcChains C = filter (\<lambda>c. ci_networkType c = ''bitcoin'') (oc_chainInfos C)"

definition oraichainNetwork :: "oraidex_common \<Rightarrow> chain_info" where "oraichainNetwork C = getSpecificChainInfo C ''Oraichain''"
definition celestiaNetwork :: "oraidex_common \<Rightarrow> chain_info" where "celestiaNetwork C = getSpecificChainInfo C ''celestia''"
definition tonNetworkMainnet :: "oraidex_common \<Rightarrow> chain_info" where "tonNetworkMainnet C = getSpecificChainInfo C ''ton''"

record network_info = network_config +
  net_coinType :: "nat option"
  net_explorer :: string
  net_amount :: string
  net_gas :: string
  net_factory :: string
  net_factory_v2 :: string
  net_oracle :: string
  net_staking :: string
  net_router :: string
  net_prefix :: string
  net_rewarder :: string
  net_oraidex_listing :: string
  net_bid_pool :: string
  net_multicall :: string
  net_pool_v3 :: string
  net_staking_oraix :: string
  net_indexer_v3 :: string

text \<open>\<open>MULTICALL_CONTRACT\<close> is a constant of @oraichain/common.\<close>

definition network :: "string \<Rightarrow> oraidex_common \<Rightarrow> network_info" where
  "network MULTICALL_CONTRACT C = (let oraichain = oraichainNetwork C in
     \<lparr>net_converter = CONVERTER_CONTRACT, net_mixer_router = MIXED_ROUTER, net_denom = ''orai'', net_gasPrice = ''0.00506'',
      net_rpc = ci_rpc oraichain, net_chainId = ci_chainId oraichain, net_coinType = ci_coinType oraichain,
      net_explorer = ''https://scanium.io/Oraichain'', net_amount = ''1518'', net_gas = ''2000000'',
      net_factory = FACTORY_CONTRACT, net_factory_v2 = FACTORY_V2_CONTRACT, net_oracle = ORACLE_CONTRACT,
      net_staking = STAKING_CONTRACT, net_router = ROUTER_V2_CONTRACT, net_prefix = ci_bech32PrefixAccAddr oraichain,
      net_rewarder = REWARDER_CONTRACT, net_oraidex_listing = ORAIDEX_LISTING_CONTRACT, net_bid_pool = ORAIDEX_BID_POOL_CONTRACT,
      net_multicall = MULTICALL_CONTRACT, net_pool_v3 = AMM_V3_CONTRACT, net_staking_oraix = CW20_STAKING_CONTRACT,
      net_indexer_v3 = ''https://ammv3-indexer.oraidex.io/''\<rparr>)"

record bech32_config =
  bech32PrefixAccAddr :: string
  bech32PrefixAccPub :: string
  bech32PrefixValAddr :: string
  bech32PrefixValPub :: string
  bech32PrefixConsAddr :: string
  bech32PrefixConsPub :: string

definition or_default :: "string option \<Rightarrow> string \<Rightarrow> string" where
  "or_default x d = (case x of None \<Rightarrow> d | Some s \<Rightarrow> s)"

definition defaultBech32Config :: "string \<Rightarrow> string option \<Rightarrow> string option \<Rightarrow> string option \<Rightarrow> string option \<Rightarrow> bech32_config" where
  "defaultBech32Config mainPrefix validator consensus public operator =
     (let validatorPrefix = or_default validator ''val''; consensusPrefix = or_default consensus ''cons'';
          publicPrefix = or_default public ''pub''; operatorPrefix = or_default operator ''oper'' in
      \<lparr>bech32PrefixAccAddr = mainPrefix,
       bech32PrefixAccPub = mainPrefix @ publicPrefix,
       bech32PrefixValAddr = mainPrefix @ validatorPrefix @ operatorPrefix,
       bech32PrefixValPub = mainPrefix @ validatorPrefix @ operatorPrefix @ publicPrefix,
       bech32PrefixConsAddr = mainPrefix @ validatorPrefix @ consensusPrefix,
       bech32PrefixConsPub = mainPrefix @ validatorPrefix @ consensusPrefix @ publicPrefix\<rparr>)"

text \<open>An icon and its light variant for every item: the first of the list with the same key, or OraiChain's.\<close>

record 'i list_icon =
  li_key :: "string option"
  li_Icon :: 'i
  li_IconLight :: 'i

definition mapListWithIcon :: "'i \<times> 'i \<Rightarrow> ('a \<Rightarrow> string option) \<Rightarrow> 'a list \<Rightarrow> 'i list_icon list \<Rightarrow> ('a \<times> 'i \<times> 'i) list" where
  "mapListWithIcon orai item_key items listIcon =
     map (\<lambda>item. (item, case find (\<lambda>icon. li_key icon = item_key item) listIcon of
        None \<Rightarrow> orai
      | Some i \<Rightarrow> (li_Icon i, li_IconLight i))) items"

definition coin_key :: "token_item \<Rightarrow> string option" where
  "coin_key t = Some (t_coinGeckoId t)"

definition oraichainTokensWithIcon :: "'i \<times> 'i \<Rightarrow> 'i list_icon list \<Rightarrow> oraidex_common \<Rightarrow> (token_item \<times> 'i \<times> 'i) list" where
  "oraichainTokensWithIcon orai tokensIcon C = mapListWithIcon orai coin_key (oc_oraichainTokens C) tokensIcon"

definition otherTokensWithIcon :: "'i \<times> 'i \<Rightarrow> 'i list_icon list \<Rightarrow> oraidex_common \<Rightarrow> (token_item \<times> 'i \<times> 'i) list" where
  "otherTokensWithIcon orai tokensIcon C = mapListWithIcon orai coin_key (oc_otherChainTokens C) tokensIcon"

definition tokensWithIcon :: "'i \<times> 'i \<Rightarrow> 'i list_icon list \<Rightarrow> oraidex_common \<Rightarrow> (token_item \<times> 'i \<times> 'i) list list" where
  "tokensWithIcon orai tokensIcon C = [otherTokensWithIcon orai tokensIcon C, oraichainTokensWithIcon orai tokensIcon C]"

definition flattenTokensWithIcon :: "'i \<times> 'i \<Rightarrow> 'i list_icon list \<Rightarrow> oraidex_common \<Rightarrow> (token_item \<times> 'i \<times> 'i) list" where
  "flattenTokensWithIcon orai tokensIcon C = concat (tokensWithIcon orai tokensIcon C)"

definition chainInfosWithIcon :: "'i \<times> 'i \<Rightarrow> 'i list_icon list \<Rightarrow> oraidex_common \<Rightarrow> (chain_info \<times> 'i \<times> 'i) list" where
  "chainInfosWithIcon orai chainIcons C = mapListWithIcon orai (\<lambda>c. Some (ci_chainId c)) (oc_chainInfos C) chainIcons"

text \<open>The supported chains as the backend lists them, or those of the file when it has none.\<close>

definition readSupportedChainInfoStatic :: "js_value \<Rightarrow> ('r \<Rightarrow> js_value res) \<Rightarrow> (nat \<Rightarrow> 'r res) \<Rightarrow> js_value res" where
  "readSupportedChainInfoStatic oraidexJson json fetch =
     rbind (fst (fetchRetry None fetch)) (\<lambda>response.
     case response of
       None \<Rightarrow> Inl TypeError
     | Some r \<Rightarrow> rbind (json r) (\<lambda>info. Inr (if \<not> value_truthy info then oraidexJson else info)))"

section \<open>Loading it\<close>

text \<open>A call of \<open>OraidexCommon.load\<close> waits once, for the backend. \<open>'c\<close> is the configuration.\<close>

datatype 'c load_pc = Calling | Fetching nat | Loaded 'c | Refused js_error

record 'c loader =
  ld_instance :: "'c option"
  ld_calls :: "'c load_pc list"
  ld_requests :: nat

text \<open>The call \<open>i\<close> goes on: \<open>backend n\<close> is what the \<open>n\<close>-th request is answered with.\<close>

definition load_next :: "(nat \<Rightarrow> 'c res) \<Rightarrow> nat \<Rightarrow> 'c loader \<Rightarrow> 'c loader" where
  "load_next backend i s =
     (if i < length (ld_calls s)
      then (case ld_calls s ! i of
          Calling \<Rightarrow>
            (case ld_instance s of
               Some c \<Rightarrow> s\<lparr>ld_calls := (ld_calls s)[i := Loaded c]\<rparr>
             | None \<Rightarrow> s\<lparr>ld_calls := (ld_calls s)[i := Fetching (ld_requests s)], ld_requests := Suc (ld_requests s)\<rparr>)
        | Fetching n \<Rightarrow>
            (case backend n of
               Inl e \<Rightarrow> s\<lparr>ld_calls := (ld_calls s)[i := Refused e]\<rparr>
             | Inr c \<Rightarrow> s\<lparr>ld_instance := Some c, ld_calls := (ld_calls s)[i := Loaded c]\<rparr>)
        | _ \<Rightarrow> s)
      else s)"

definition load_run :: "(nat \<Rightarrow> 'c res) \<Rightarrow> nat list \<Rightarrow> 'c loader \<Rightarrow> 'c loader" where
  "load_run backend schedule s = fold (load_next backend) schedule s"

section \<open>The clients of a wallet\<close>

text \<open>The three constructors all take the options with the poll interval.\<close>

record 'c client_ops =
  createCosmosSigner :: "string \<Rightarrow> string res"
  connect_tendermint :: "string \<Rightarrow> string res"
  injectiveClient :: "string \<Rightarrow> string \<Rightarrow> string option \<Rightarrow> int \<Rightarrow> 'c res"
  cosmWasmClient :: "string \<Rightarrow> string \<Rightarrow> string option \<Rightarrow> int \<Rightarrow> 'c res"
  stargateClient :: "string \<Rightarrow> string \<Rightarrow> string option \<Rightarrow> int \<Rightarrow> 'c res"

definition getCosmWasmClient :: "'c client_ops \<Rightarrow> string \<Rightarrow> string \<Rightarrow> string option \<Rightarrow> (string \<times> 'c \<times> 'c) res" where
  "getCosmWasmClient K chainId rpc gasPrice =
     rbind (createCosmosSigner K chainId) (\<lambda>wallet.
     rbind (connect_tendermint K rpc) (\<lambda>tmClient.
     rbind (if chainId = ''injective-1'' then injectiveClient K tmClient wallet gasPrice BROADCAST_POLL_INTERVAL
            else cosmWasmClient K tmClient wallet gasPrice BROADCAST_POLL_INTERVAL) (\<lambda>client.
     rbind (stargateClient K tmClient wallet gasPrice BROADCAST_POLL_INTERVAL) (\<lambda>stargate.
     Inr (wallet, client, stargate)))))"

definition signAndBroadcast :: "'c client_ops \<Rightarrow> ('c \<Rightarrow> string \<Rightarrow> tx_msg list \<Rightarrow> string \<Rightarrow> 't res) \<Rightarrow> string \<Rightarrow> string \<Rightarrow> string option \<Rightarrow>
    string \<Rightarrow> tx_msg list \<Rightarrow> 't res" where
  "signAndBroadcast K broadcast fromChainId fromRpc gasPrice sender encodedObjects =
     rbind (getCosmWasmClient K fromChainId fromRpc gasPrice) (\<lambda>(wallet, client, stargate).
     broadcast client sender encodedObjects ''auto'')"

section \<open>Wrappers\<close>

text \<open>
  What the wrappers share: the arguments, and a handler without options. \<open>getKeplrAddr\<close> is declared to answer a text, so an
  address that is not there does not occur; \<open>common\<close> is what \<open>OraidexCommon.load\<close> answers.
\<close>

record wrapper_data =
  wr_cosmosWallet :: cosmos_wallet
  wr_evmWallet :: "evm_wallet option"
  wr_fromAmount :: js_num
  wr_simulateAmount :: string
  wr_fromToken :: token_item
  wr_toToken :: token_item
  wr_simulatePrice :: string
  wr_userSlippage :: js_num

definition wrapper_handler :: "env \<Rightarrow> string \<Rightarrow> oraidex_common \<Rightarrow> wrapper_data \<Rightarrow> swap_sender \<Rightarrow> swap_handler" where
  "wrapper_handler E MULTICALL_CONTRACT common w sender =
     \<lparr>h_data = \<lparr>sd_sender = sender, originalFromToken = wr_fromToken w, originalToToken = wr_toToken w, fromAmount = wr_fromAmount w,
        simulateAmount = wr_simulateAmount w, userSlippage = Some (wr_userSlippage w), simulatePrice = Some (wr_simulatePrice w),
        relayerFee = None, sd_amounts = None, recipientAddress = None, alphaSmartRoutes = None, bridgeFee = None, affiliates = None\<rparr>,
      h_options = None, h_cosmosWallet = Some (wr_cosmosWallet w), h_evmWallet = wr_evmWallet w, h_tonWallet = None,
      flattenTokens = oc_flattenTokens common, oraichainTokens = oc_oraichainTokens common, cosmosTokens = oc_cosmosTokens common,
      tokenMap = oc_tokenMap common, h_network = network_config.truncate (network MULTICALL_CONTRACT common),
      currentTimestamp = Date_now (e_ext E)\<rparr>"

definition wrapper_sender :: "wrapper_data \<Rightarrow> string \<Rightarrow> swap_sender res" where
  "wrapper_sender w chainId =
     rbind (getKeplrAddr (wr_cosmosWallet w) chainId) (\<lambda>cosmos.
     Inr \<lparr>s_cosmos = str_of cosmos, s_evm = None, s_tron = None, s_ton = None\<rparr>)"

definition wrapper_evm_sender :: "wrapper_data \<Rightarrow> swap_sender res" where
  "wrapper_evm_sender w =
     rbind (getKeplrAddr (wr_cosmosWallet w) (t_chainId (wr_fromToken w))) (\<lambda>cosmos.
     case wr_evmWallet w of
       None \<Rightarrow> Inl TypeError
     | Some evmWallet \<Rightarrow>
         rbind (getEthAddress evmWallet) (\<lambda>evm.
         Inr \<lparr>s_cosmos = str_of cosmos, s_evm = evm, s_tron = (case tronWeb evmWallet of None \<Rightarrow> None | Some base58 \<Rightarrow> base58), s_ton = None\<rparr>))"

definition swapOraichainToOraichain :: "env \<Rightarrow> string \<Rightarrow> oraidex_common res \<Rightarrow> wrapper_data \<Rightarrow> submission res" where
  "swapOraichainToOraichain E M common w =
     rbind (wrapper_sender w ''Oraichain'') (\<lambda>sender.
     rbind common (\<lambda>C. swap E (wrapper_handler E M C (w\<lparr>wr_evmWallet := None\<rparr>) sender)))"

definition swapOraichainToCosmos :: "env \<Rightarrow> string \<Rightarrow> oraidex_common res \<Rightarrow> wrapper_data \<Rightarrow> submission res" where
  "swapOraichainToCosmos E M common w =
     rbind (wrapper_sender w (t_chainId (wr_fromToken w))) (\<lambda>sender.
     rbind common (\<lambda>C. swapAndTransferToOtherNetworks E (wrapper_handler E M C (w\<lparr>wr_evmWallet := None\<rparr>) sender) ''oraichain-to-cosmos''))"

definition swapOraichainToEvm :: "env \<Rightarrow> string \<Rightarrow> oraidex_common res \<Rightarrow> wrapper_data \<Rightarrow> submission res" where
  "swapOraichainToEvm E M common w =
     rbind (wrapper_evm_sender w) (\<lambda>sender.
     rbind common (\<lambda>C. swapAndTransferToOtherNetworks E (wrapper_handler E M C w sender) ''oraichain-to-evm''))"

definition swapCosmosToOraichain :: unit where
  "swapCosmosToOraichain = ()"

definition swapEvmToOraichain :: "env \<Rightarrow> string \<Rightarrow> oraidex_common res \<Rightarrow> wrapper_data \<Rightarrow> submission res" where
  "swapEvmToOraichain E M common w =
     rbind (wrapper_evm_sender w) (\<lambda>sender.
     rbind common (\<lambda>C. processUniversalSwap E (wrapper_handler E M C w sender)))"

end
