(* ===== verification/SdkLaws.thy ===== *)
theory SdkLaws
  imports Sdk HandlerLaws
begin

text \<open>
  The laws of the shared configuration and of the wrappers: once loaded, the configuration is the same for every caller,
  the Cosmos wrappers sign as the wallet's owner, and the wrapper for swaps from EVM chains never submits anything.
\<close>

section \<open>Loading\<close>

lemma load_next_kept:
  assumes "ld_instance s = Some c" "\<And>n. Fetching n \<notin> set (ld_calls s)"
  shows "ld_instance (load_next b i s) = Some c" "ld_requests (load_next b i s) = ld_requests s"
    "length (ld_calls (load_next b i s)) = length (ld_calls s)" "Fetching n \<notin> set (ld_calls (load_next b i s))"
    "ld_calls (load_next b i s) ! j = ld_calls s ! j \<or> ld_calls s ! j = Calling \<and> ld_calls (load_next b i s) ! j = Loaded c"
proof -
  have f: "ld_calls s ! i \<noteq> Fetching n" if "i < length (ld_calls s)" for n using assms(2) nth_mem [OF that] by metis
  have "load_next b i s = (if i < length (ld_calls s) \<and> ld_calls s ! i = Calling then s\<lparr>ld_calls := (ld_calls s)[i := Loaded c]\<rparr> else s)"
    using f assms(1) by (auto simp: load_next_def split: load_pc.split)
  then show "ld_instance (load_next b i s) = Some c" "ld_requests (load_next b i s) = ld_requests s"
    "length (ld_calls (load_next b i s)) = length (ld_calls s)" "Fetching n \<notin> set (ld_calls (load_next b i s))"
    "ld_calls (load_next b i s) ! j = ld_calls s ! j \<or> ld_calls s ! j = Calling \<and> ld_calls (load_next b i s) ! j = Loaded c"
    using assms by (auto simp: nth_list_update dest!: set_update_subset_insert [THEN subsetD])
qed

lemma load_run_kept:
  "ld_instance s = Some c \<Longrightarrow> (\<And>n. Fetching n \<notin> set (ld_calls s)) \<Longrightarrow>
    ld_instance (load_run b schedule s) = Some c \<and> ld_requests (load_run b schedule s) = ld_requests s \<and>
    (ld_calls s ! j \<in> {Calling, Loaded c} \<longrightarrow> ld_calls (load_run b schedule s) ! j \<in> {Calling, Loaded c})"
proof (induction schedule arbitrary: s)
  case (Cons i schedule)
  note kept = load_next_kept [OF Cons.prems, where b = b and i = i]
  have "ld_calls s ! j \<in> {Calling, Loaded c} \<longrightarrow> ld_calls (load_next b i s) ! j \<in> {Calling, Loaded c}" using kept(5) [of j] by auto
  moreover have "load_run b (i # schedule) s = load_run b schedule (load_next b i s)" by (simp add: load_run_def)
  ultimately show ?case using Cons.IH [OF kept(1,4)] kept(2) by metis
qed (simp add: load_run_def)

text \<open>C40. Once the configuration is loaded and no request is under way, it stays: every later call is answered with it and
  the backend is not asked again.\<close>

theorem load_shared:
  assumes "ld_instance s = Some c" "\<forall>n. Fetching n \<notin> set (ld_calls s)"
  shows "ld_instance (load_run backend schedule s) = Some c \<and> ld_requests (load_run backend schedule s) = ld_requests s \<and>
    (\<forall>i. ld_calls s ! i = Calling \<longrightarrow> ld_calls (load_run backend schedule s) ! i \<in> {Calling, Loaded c})"
  using load_run_kept [of s c backend schedule] assms by blast

theorem load_shared_witness:
  "ld_calls (load_run (\<lambda>n. Inr (n + 10)) [1, 0, 2, 1] \<lparr>ld_instance = Some (7::nat), ld_calls = [Calling, Calling, Loaded 7], ld_requests = 1\<rparr>) ! 1
    \<in> {Calling, Loaded 7}"
  using load_shared [of "\<lparr>ld_instance = Some (7::nat), ld_calls = [Calling, Calling, Loaded 7], ld_requests = 1\<rparr>" 7 "\<lambda>n. Inr (n + 10)" "[1, 0, 2, 1]"]
  by simp

text \<open>Before that, two calls ask twice and are answered with configurations of their own.\<close>

lemma load_twice:
  "load_run (\<lambda>n. Inr (n + 10)) [0, 1, 0, 1] \<lparr>ld_instance = None, ld_calls = [Calling, Calling], ld_requests = 0\<rparr> =
    \<lparr>ld_instance = Some (11::nat), ld_calls = [Loaded 10, Loaded 11], ld_requests = 2\<rparr>"
  by (simp add: load_run_def load_next_def)

section \<open>Wrappers\<close>

lemma route_needs_options: "addOraiBridgeRoute X a f t mr us ct None ar \<noteq> Inr r"
  by (auto simp: addOraiBridgeRoute_def rbind_eq_Inr_iff)

text \<open>C39. \<open>swapEvmToOraichain\<close> never submits anything: the handler it builds has no options, and \<open>addOraiBridgeRoute\<close> reads an
  option of them without asking whether they are there.\<close>

theorem evm_wrapper_refused: "swapEvmToOraichain E M common w \<noteq> Inr submission"
proof
  assume "swapEvmToOraichain E M common w = Inr submission"
  then obtain C s where "processUniversalSwap E (wrapper_handler E M C w s) = Inr submission"
    by (auto simp: swapEvmToOraichain_def elim!: rbindE)
  then show False
    by (auto simp: processUniversalSwap_def wrapper_handler_def Let_def route_needs_options elim!: rbindE guardE)
qed

text \<open>The Cosmos wrappers sign with the address that the wallet gives.\<close>

lemma wrappers_sign:
  "swapOraichainToOraichain E M common w = Inr submission \<Longrightarrow>
    \<exists>a ins. getKeplrAddr (wr_cosmosWallet w) ''Oraichain'' = Inr a \<and> submission = ExecuteMultiple (str_of a) ins"
  "swapOraichainToCosmos E M common w = Inr submission \<Longrightarrow>
    \<exists>a chain ms. getKeplrAddr (wr_cosmosWallet w) (t_chainId (wr_fromToken w)) = Inr a \<and> submission = SignAndBroadcast chain (str_of a) ms"
  by (auto simp: swapOraichainToOraichain_def swapOraichainToCosmos_def wrapper_sender_def wrapper_handler_def swap_def
      swapAndTransferToOtherNetworks_def Let_def elim!: rbindE split: if_split_asm)

end
