(* ===== verification/Spec2Isabelle.thy ===== *)
theory Spec2Isabelle
  imports BigDec MemoLaws RouteLaws TokenLaws SwapLaws SmartLaws TransferLaws PoolLaws ChartLaws TxLaws RoutingLaws SdkLaws
begin

text \<open>
  A verification development for the oraidex SDK, a TypeScript library that plans and signs cross-chain
  swaps. It models the logic of \<open>packages/oraidex-common\<close> (decimal arithmetic, amounts, addresses, channel
  tables), of \<open>packages/universal-swap\<close> (routes, destinations, messages and memos), of
  \<open>packages/oraiswap-v3\<close> (concentrated liquidity: positions, pool queries and zaps), of the chart in
  \<open>packages/oraidex-common-ui\<close> and of the service that follows a transfer across chains, \<open>packages/ibc-routing\<close>.

  How the parts interact. The alpha router answers with routes, a route is a list of paths (one per
  chain) and a path a list of actions. \<open>generateMsgSwap\<close> and \<open>generateMemoSwap\<close> (\<open>msg/msgs.ts\<close>) walk the
  paths from the last to the first, and give each to the builder of its chain (\<open>CosmosMsg\<close>, \<open>OsmosisMsg\<close>,
  \<open>OraichainMsg\<close>); each memo goes into the memo of the hop before. Oraichain's memo is a protobuf message
  (\<open>proto/universal_swap_memo.ts\<close>). For EVM origins \<open>UniversalSwapHelper.addOraiBridgeRoute\<close> (\<open>helper.ts\<close>)
  writes such a memo into the destination text of the bridge transaction, which the routing service reads back
  from the event of the bridge contract. Amounts go through \<open>BigDecimal\<close>
  and JavaScript numbers.

  Theories, in the order of import:
  \<^item> \<open>Prelude\<close>: errors as values (\<open>res\<close>: every throw, \<open>TypeError\<close> and \<open>RangeError\<close> is an \<open>Inl\<close>), lists, decimal
    numerals, JavaScript string operations.
  \<^item> \<open>JsNumber\<close>: IEEE doubles as rationals with \<open>NaN\<close> and infinities, rounding \<open>dbl\<close>, and the shortest
    decimal text of a number; \<open>Json\<close>: \<open>JSON.stringify\<close> on trees.
  \<^item> \<open>BigDec\<close>: \<open>oraidex-common/src/bigdecimal.ts\<close>, the class with its in-place operations; the locale of decimal
    operations states what they promise, interpreted on the code's own.
  \<^item> \<open>Wire\<close>, \<open>MemoCodec\<close>, \<open>MemoLaws\<close>: the protobufjs reader and writer as a record of functions with the locale of
    their laws, interpreted on an implementation of the protobuf wire format; the eleven message types
    with \<open>encode\<close>, \<open>decode\<close>, \<open>fromJSON\<close>, \<open>toJSON\<close>, \<open>create\<close>, \<open>fromPartial\<close>; round trips and termination of \<open>decode\<close>.
  \<^item> \<open>SdkTypes\<close>, \<open>MsgCommon\<close>, \<open>MsgBuilders\<close>, \<open>MsgSwap\<close>: the data of a route, checks of paths and addresses, the
    three builders, and \<open>msgs.ts\<close>; \<open>NumLaws\<close>, \<open>MsgLaws\<close> and \<open>RouteLaws\<close> prove that swap operations are linked, that
    minimum amounts are exact floors, that no builder fails by accident on complete paths, what the
    executed message spends and to whom an IBC hop hands over.
  \<^item> \<open>Tokens\<close>, \<open>TokenLaws\<close>: \<open>oraidex-common/src/helper.ts\<close>: amounts and their display, token lookups, totals,
    retries, parsing of wasm events, funds.
  \<^item> \<open>EvmRoutes\<close>: route tables of the EVM chains, filters of token lists, \<open>ibc-info.ts\<close>; \<open>BridgeRoute\<close>: classification
    of transfers, addresses per chain, destinations; \<open>SwapLaws\<close>: their properties.
  \<^item> \<open>SmartSwap\<close>, \<open>SmartLaws\<close>: swap operations between two assets, conversions of bridged denoms, flattening of
    routes and the messages of a smart route.
  \<^item> \<open>Simulate\<close>: simulation of a swap, relayer fee and bridge balances; \<open>Wallet\<close>: TRON addresses and what
    \<open>EvmWallet\<close> submits; \<open>Handler\<close> and \<open>Dispatch\<close>: \<open>UniversalSwapHandler\<close> (\<open>handler.ts\<close>), from the messages of a swap
    to the \<open>submission\<close> that \<open>processUniversalSwap\<close> hands to a wallet; \<open>HandlerLaws\<close>: whose messages these are
    (with the locale of message builders) and which contract gets an allowance; \<open>TransferLaws\<close>: when the bridge
    gets a deposit, and that addresses survive TRON.
  \<^item> \<open>PoolMath\<close>: \<open>oraiswap-v3/src/helpers.ts\<close>, pool keys, the amounts of a position, liquidity per range, swap
    operations; \<open>PoolQueries\<close>: \<open>OraiswapV3Handler\<close> (\<open>handler.ts\<close>), queries read page by page; \<open>Zap\<close>: \<open>ZapConsumer\<close>
    (\<open>zap-consumer.ts\<close>), liquidity provided from one token or taken out into one, with the pool simulated
    off-chain; \<open>PoolLaws\<close>: that paging ends with everything (with the locale of page sources), how amounts move
    with the price, and that a zap spends its input.
  \<^item> \<open>ChartStream\<close> and \<open>ChartData\<close>: \<open>oraidex-common-ui\<close>, the live candles (\<open>streaming.ts\<close>, \<open>utils.ts\<close>) as a step
    relation on the subscriptions, the history (\<open>TVDataProvider.ts\<close>) over a store of shared objects, and saved
    charts; \<open>ChartLaws\<close>: the subscriptions implement a map of owners, candles stay well-formed, gaps are filled.
  \<^item> \<open>TxDecode\<close>: reading transactions back (\<open>decodeProto\<close> and its neighbours in \<open>oraidex-common/src/helper.ts\<close>);
    \<open>TxLaws\<close>: \<open>decodeProto\<close> returns on every value, and logs are paired with their messages.
  \<^item> \<open>Routing\<close>: \<open>ibc-routing/src\<close>, the event handler (\<open>event.ts\<close>), the tables and queries and \<open>insertData\<close> (\<open>db.ts\<close>),
    whose calls interleave at their awaits, and the machine (\<open>machine.ts\<close>); \<open>RoutingLaws\<close>: deposits are read as they
    were made, the state of a packet is found, and insertions into different tables keep apart, whichever of their
    awaits reject.
  \<^item> \<open>Sdk\<close>: \<open>OraidexCommon\<close> (\<open>common.ts\<close>) with its concurrent \<open>load\<close>, the lists with icons, the clients of a Cosmos
    wallet, and the wrappers (\<open>wrapper.ts\<close>); \<open>SdkLaws\<close>: the loaded configuration is shared, the wrappers sign
    with the wallet's address, and the one for EVM chains never submits.

  Conventions. A method that changes its object returns the changed record. An optional field or argument
  is an \<open>option\<close>; JavaScript's falsy tests are \<open>truthy\<close>, so that an empty text behaves as the code has it.
  Promises are their outcome; where calls overlap
  (\<open>insertData\<close>, \<open>load\<close>) a call is a program counter, and a schedule says which call goes on to its next await. Code outside the repository is a parameter: \<open>ext\<close> holds bech32, the cosmjs
  encoders, base64, the address tests of ethers and TON, the chain lists and one reading of the clock for a
  call (all calls of \<open>Date.now()\<close> of one call see it); \<open>wire\<close> holds the protobuf reader and writer. Hypotheses
  on them state documented behaviour only, and each witness instantiates them.

  Bounds and fuel. \<open>decode_loop\<close> runs with as much fuel as the buffer has bytes plus one; every field
  consumes at least its tag, so it never runs out (\<open>memo_decode_ends\<close>). The laws of the reader say where a read
  ends only as far as protobufjs promises it: a varint of 64 bits cut off by the end may be read past it, a tag is not. The Newton loop of \<open>rootNth\<close> has the
  limit the code gives it. Loops that wait for an answer of a contract (\<open>collect_pages\<close>, \<open>token_loop\<close>,
  \<open>tick_batches\<close>) have no bound in the code; they are partial functions whose value is \<open>None\<close> when they never
  return, and \<open>pools_complete\<close> shows that reading the pools does. \<open>decodeProto\<close> is fuelled; the texts and payloads
  that are left to open get shorter with every one it opens, so some fuel is enough (\<open>decodeProto_returns\<close>). Varints and lengths are words of 32 and 64 bits, timeouts are signed 64-bit
  longs. Properties about doubles name the range in which they hold.

  Not modelled: signing, broadcasting and waiting for transactions (cosmjs, ethers, tronWeb and TON clients),
  the HTTP clients, the decoders of cosmjs, DuckDB, tables of tokens, chains and icons, \<open>getUsdValue24\<close> and
  \<open>formatWithDecimal\<close> (powers with arbitrary exponents), queries of a pool that only hand a call on, the start
  of the routing server and its Cosmos socket, React components, demos, and all generated code (contract clients,
  typechain, WebAssembly glue).
\<close>

section \<open>Properties across components\<close>

lemma oraichain_memo_timestamp:
  assumes "oraichain_memo X m u b = Inr memo"
    and "0 < Date_now X div 1000 + 3600" "Date_now X div 1000 + 3600 < 2 ^ 32"
  shows "m_timeoutTimestamp memo = Fin (of_nat (nat ((Date_now X div 1000 + 3600) * 1000000000)))"
proof -
  have "m_timeoutTimestamp memo = timeout_ns X"
    using assms(1) by (auto simp: oraichain_memo_def rbind_eq_Inr_iff)
  then show ?thesis
    using timeout_value [of "Date_now X" 3600] assms(2,3) by (simp add: timeout_ns_def IBC_TRANSFER_TIMEOUT_def)
qed

text \<open>C27. The memo that \<open>OraichainMsg\<close> sends along an IBC wasm transfer or an IBC hook can be encoded but
  not read back by the SDK's own \<open>Memo.decode\<close>: for every message and every clock between 1970's
  hundredth day and the year 2106 its timestamp is a number of nanoseconds beyond the safe
  integers, which \<open>longToNumber\<close> refuses.\<close>

theorem sent_memo_not_decodable:
  assumes "proto_wire (ext_wire X)" "9007200 \<le> Date_now X div 1000 + 3600" "Date_now X div 1000 + 3600 < 2 ^ 32"
    and "oraichain_memo X m u b = Inr memo" "length (Memo_encode (ext_wire X) memo) < 2 ^ 32"
  shows "Memo_decode (ext_wire X) (Memo_encode (ext_wire X) memo) 0 None =
    Inl (Thrown ''Value is larger than Number.MAX_SAFE_INTEGER'')"
proof (rule proto_wire.memo_unsafe_timestamp [OF assms(1,5)])
  show "m_timeoutTimestamp memo = Fin (of_nat (nat ((Date_now X div 1000 + 3600) * 1000000000)))"
    using assms by (intro oraichain_memo_timestamp) simp_all
qed (use assms(2,3) in \<open>simp_all add: MAX_SAFE_INTEGER_def nat_less_iff\<close>)

theorem sent_memo_not_decodable_witness:
  "\<exists>memo. oraichain_memo sample_ext (sample_oraichain (sample_path ''Oraichain'' ''noble-1'' [])) None None = Inr memo \<and>
     Memo_decode pb_wire (Memo_encode pb_wire memo) 0 None =
       Inl (Thrown ''Value is larger than Number.MAX_SAFE_INTEGER'')"
proof -
  let ?m = "sample_oraichain (sample_path ''Oraichain'' ''noble-1'' [])"
  obtain memo where memo: "oraichain_memo sample_ext ?m None None = Inr memo"
    by (simp add: oraichain_memo_def getProtoForPostAction_def)
  have big: "length (varint 1700003600000000000) = 9" by (simp add: varint.simps)
  have ts: "m_timeoutTimestamp memo = Fin 1700003600000000000"
    using oraichain_memo_timestamp [OF memo] by (simp add: sample_ext_def)
  have "length (Memo_encode pb_wire memo) < 2 ^ 32"
    using memo ts big by (auto simp: oraichain_memo_def getProtoForPostAction_def no_post_action_def encode_defs pb_eval
        sample_defs)
  then show ?thesis
    using sent_memo_not_decodable [OF _ _ _ memo] memo pb.proto_wire_axioms by (auto simp: sample_ext_def)
qed

end
